(* ===== verification/Prelude.thy ===== *)
theory Prelude imports Main "HOL-Library.AList" "HOL-Library.Word" begin

section \<open>Shared vocabulary of the development\<close>

text \<open>
  What every component uses: Python's byte strings, dictionaries in insertion order
  (association lists updated in place by \<open>AList.update\<close>), results that are either an
  exception or a value, computations that keep the state they reached when they raise,
  and the theorem collections the components fill:
  \<^item> \<open>const_defs\<close>: the literals of \<open>const.py\<close>, unfolded to compare them;
  \<^item> \<open>dict_simps\<close>: lookups in updated dictionaries;
  \<^item> \<open>res_simps\<close>: the binds and their inversions.
\<close>

named_theorems const_defs \<open>literal constants of the program\<close>

named_theorems dict_simps \<open>lookup in updated dictionaries\<close>

named_theorems res_simps \<open>results, binds and their inversion\<close>

type_synonym byte = "8 word"
type_synonym bytes = "byte list"

subsection \<open>Results: an exception or a value\<close>

text \<open>Sequencing as Python does it: the first exception ends the computation.\<close>

definition bindE :: "'e + 'a \<Rightarrow> ('a \<Rightarrow> 'e + 'b) \<Rightarrow> 'e + 'b" where
  "bindE m f = (case m of Inl e \<Rightarrow> Inl e | Inr a \<Rightarrow> f a)"

lemma bindE_simps [simp]:
  "bindE (Inl e) f = Inl e"
  "bindE (Inr a) f = f a"
  by (simp_all add: bindE_def)

lemma bindE_Inr_iff [res_simps]:
  "bindE m f = Inr b \<longleftrightarrow> (\<exists>a. m = Inr a \<and> f a = Inr b)"
  by (cases m) auto

lemma bindE_Inl_iff [res_simps]:
  "bindE m f = Inl e \<longleftrightarrow> m = Inl e \<or> (\<exists>a. m = Inr a \<and> f a = Inl e)"
  by (cases m) auto

lemma bindE_cong [fundef_cong]:
  "m = m' \<Longrightarrow> (\<And>a. m' = Inr a \<Longrightarrow> f a = g a) \<Longrightarrow> bindE m f = bindE m' g"
  by (cases m') auto

fun mapE :: "('a \<Rightarrow> 'e + 'b) \<Rightarrow> 'a list \<Rightarrow> 'e + 'b list" where
  "mapE f [] = Inr []"
| "mapE f (x # xs) = bindE (f x) (\<lambda>y. bindE (mapE f xs) (\<lambda>ys. Inr (y # ys)))"

lemma mapE_length: "mapE f xs = Inr ys \<Longrightarrow> length ys = length xs"
  by (induction xs arbitrary: ys) (auto simp: res_simps)

lemma mapE_cong [fundef_cong]:
  "xs = ys \<Longrightarrow> (\<And>x. x \<in> set ys \<Longrightarrow> f x = g x) \<Longrightarrow> mapE f xs = mapE g ys"
proof (induction ys arbitrary: xs)
  case Nil
  then show ?case by simp
next
  case (Cons y ys)
  have "mapE f ys = mapE g ys"
    by (rule Cons.IH) (use Cons.prems in auto)
  with Cons.prems show ?case by simp
qed

definition is_ok :: "'e + 'a \<Rightarrow> bool" where
  "is_ok m = (case m of Inl e \<Rightarrow> False | Inr a \<Rightarrow> True)"

lemma is_ok_simps [simp]: "\<not> is_ok (Inl e)" "is_ok (Inr a)"
  by (simp_all add: is_ok_def)

subsection \<open>Computations over a state that may raise\<close>

text \<open>What a computation changed before it raised stays changed.\<close>

type_synonym ('s, 'e, 'a) comp = "'s \<Rightarrow> ('e + 'a) \<times> 's"

definition bindS :: "('s, 'e, 'a) comp \<Rightarrow> ('a \<Rightarrow> ('s, 'e, 'b) comp) \<Rightarrow> ('s, 'e, 'b) comp" where
  "bindS m f s = (case m s of (Inl e, t) \<Rightarrow> (Inl e, t) | (Inr a, t) \<Rightarrow> f a t)"

text \<open>A result that does not touch the state.\<close>

definition liftE :: "'e + 'a \<Rightarrow> ('s, 'e, 'a) comp" where
  "liftE r s = (r, s)"

lemma liftE_simp [simp]: "liftE r s = (r, s)"
  by (simp add: liftE_def)

lemma bindS_simps [simp]:
  "m s = (Inl e, t) \<Longrightarrow> bindS m f s = (Inl e, t)"
  "m s = (Inr a, t) \<Longrightarrow> bindS m f s = f a t"
  by (simp_all add: bindS_def)

lemma bindS_Inr_iff [res_simps]:
  "bindS m f s = (Inr b, u) \<longleftrightarrow> (\<exists>a t. m s = (Inr a, t) \<and> f a t = (Inr b, u))"
  by (auto simp: bindS_def split: prod.splits sum.splits)

lemma bindS_Inl_iff [res_simps]:
  "bindS m f s = (Inl e, u) \<longleftrightarrow> m s = (Inl e, u) \<or> (\<exists>a t. m s = (Inr a, t) \<and> f a t = (Inl e, u))"
  by (auto simp: bindS_def split: prod.splits sum.splits)

text \<open>An invariant of the state that every part keeps is kept by the whole.\<close>

definition keeps :: "('s \<Rightarrow> bool) \<Rightarrow> ('s, 'e, 'a) comp \<Rightarrow> bool" where
  "keeps P m = (\<forall>s. P s \<longrightarrow> P (snd (m s)))"

named_theorems keeps_intros \<open>computations that keep an invariant\<close>

lemma keeps_bindS [keeps_intros]:
  "keeps P m \<Longrightarrow> (\<And>a. keeps P (f a)) \<Longrightarrow> keeps P (bindS m f)"
  by (fastforce simp: keeps_def bindS_def split: prod.splits sum.splits)

lemma keeps_liftE [keeps_intros]: "keeps P (liftE r)"
  by (simp add: keeps_def)

lemma keepsD: "keeps P m \<Longrightarrow> P s \<Longrightarrow> m s = (r, t) \<Longrightarrow> P t"
  by (metis keeps_def snd_conv)

subsection \<open>Dictionaries in insertion order\<close>

type_synonym ('k, 'v) dict = "('k \<times> 'v) list"

definition dict_get :: "('k, 'v) dict \<Rightarrow> 'k \<Rightarrow> 'v option" where
  "dict_get d k = map_of d k"

definition dict_set :: "('k, 'v) dict \<Rightarrow> 'k \<Rightarrow> 'v \<Rightarrow> ('k, 'v) dict" where
  "dict_set d k v = AList.update k v d"

definition dict_del :: "('k, 'v) dict \<Rightarrow> 'k \<Rightarrow> ('k, 'v) dict" where
  "dict_del d k = filter (\<lambda>p. fst p \<noteq> k) d"

definition dict_keys :: "('k, 'v) dict \<Rightarrow> 'k list" where
  "dict_keys d = map fst d"

definition dict_ok :: "('k, 'v) dict \<Rightarrow> bool" where
  "dict_ok d = distinct (map fst d)"

text \<open>\<open>d.update(e)\<close>: every entry of \<open>e\<close> is stored, in its order.\<close>

fun dict_update :: "('k, 'v) dict \<Rightarrow> ('k, 'v) dict \<Rightarrow> ('k, 'v) dict" where
  "dict_update d [] = d"
| "dict_update d ((k, v) # e) = dict_update (dict_set d k v) e"

lemma dict_get_Nil [simp]: "dict_get [] k = None"
  by (simp add: dict_get_def)

lemma dict_get_Cons [simp]:
  "dict_get ((k', v) # d) k = (if k' = k then Some v else dict_get d k)"
  by (simp add: dict_get_def)

lemma dict_get_set [simp, dict_simps]:
  "dict_get (dict_set d k v) k' = (if k' = k then Some v else dict_get d k')"
  by (simp add: dict_get_def dict_set_def update_conv')

lemma dict_get_del [simp, dict_simps]:
  "dict_get (dict_del d k) k' = (if k' = k then None else dict_get d k')"
  by (induction d) (auto simp: dict_get_def dict_del_def)

lemma dict_get_Some_set: "dict_get d k = Some v \<Longrightarrow> (k, v) \<in> set d"
  by (simp add: dict_get_def map_of_SomeD)

lemma dict_get_None_iff: "dict_get d k = None \<longleftrightarrow> k \<notin> set (dict_keys d)"
  by (simp add: dict_get_def dict_keys_def map_of_eq_None_iff)

lemma dict_keys_set:
  "dict_keys (dict_set d k v) = (if k \<in> set (dict_keys d) then dict_keys d else dict_keys d @ [k])"
  by (simp add: dict_keys_def dict_set_def update_keys)

lemma set_dict_keys_set [simp]: "set (dict_keys (dict_set d k v)) = insert k (set (dict_keys d))"
  by (auto simp: dict_keys_set)

lemma dict_ok_set [intro]: "dict_ok d \<Longrightarrow> dict_ok (dict_set d k v)"
  by (simp add: dict_ok_def dict_set_def distinct_update)

lemma dict_ok_del [intro]: "dict_ok d \<Longrightarrow> dict_ok (dict_del d k)"
  by (induction d) (auto simp: dict_ok_def dict_del_def)

lemma list_all_dict_set: "list_all P d \<Longrightarrow> P (k, v) \<Longrightarrow> list_all P (dict_set d k v)"
  unfolding dict_set_def by (induction d) auto

lemma list_all_dict_del: "list_all P d \<Longrightarrow> list_all P (dict_del d k)"
  unfolding dict_del_def by (induction d) auto

lemma dict_ok_Nil [simp]: "dict_ok []"
  by (simp add: dict_ok_def)

lemma dict_ok_get: "dict_ok d \<Longrightarrow> (k, v) \<in> set d \<longleftrightarrow> dict_get d k = Some v"
  by (simp add: dict_ok_def dict_get_def Some_eq_map_of_iff eq_commute)

lemma dict_set_same: "dict_get d k = Some v \<Longrightarrow> dict_set d k v = d"
  by (induction d) (auto simp: dict_get_def dict_set_def split: if_splits)

lemma dict_get_update:
  "dict_ok e \<Longrightarrow> dict_get (dict_update d e) k = (case dict_get e k of Some v \<Rightarrow> Some v | None \<Rightarrow> dict_get d k)"
proof (induction e arbitrary: d)
  case Nil
  then show ?case by simp
next
  case (Cons p e)
  obtain j w where p: "p = (j, w)" by (cases p)
  from Cons.prems p have ok: "dict_ok e" and j: "dict_get e j = None"
    by (auto simp: dict_ok_def dict_get_None_iff dict_keys_def)
  show ?case
    using Cons.IH [OF ok, of "dict_set d j w"] p j by (auto split: option.splits)
qed

lemma dict_ok_update [intro]: "dict_ok d \<Longrightarrow> dict_ok (dict_update d e)"
  by (induction d e rule: dict_update.induct) auto

lemma dict_update_Nil_ok: "dict_ok (d @ e) \<Longrightarrow> dict_update d e = d @ e"
proof (induction e arbitrary: d)
  case Nil
  then show ?case by simp
next
  case (Cons p e)
  obtain j w where p: "p = (j, w)" by (cases p)
  from Cons.prems p have "j \<notin> fst ` set d" by (auto simp: dict_ok_def)
  then have "dict_set d j w = d @ [(j, w)]"
    by (induction d) (auto simp: dict_set_def)
  with Cons.IH [of "d @ [(j, w)]"] Cons.prems p show ?case by simp
qed

subsection \<open>Lists\<close>

definition last_n :: "nat \<Rightarrow> 'a list \<Rightarrow> 'a list" where
  "last_n n xs = drop (length xs - n) xs"

lemma length_last_n [simp]: "length (last_n n xs) = min n (length xs)"
  by (simp add: last_n_def)

lemma last_n_snoc: "0 < n \<Longrightarrow> last_n n (xs @ [x]) = last_n (n - 1) xs @ [x]"
  by (cases n) (simp_all add: last_n_def)

lemma last_n_all: "length xs \<le> n \<Longrightarrow> last_n n xs = xs"
  by (simp add: last_n_def)

lemma set_last_n: "set (last_n n xs) \<subseteq> set xs"
  by (simp add: last_n_def set_drop_subset)

lemma list_all_replicate [simp]: "list_all P (replicate n x) \<longleftrightarrow> n = 0 \<or> P x"
  by (induction n) auto

end
