(* ===== verification/PyStr.thy ===== *)
theory PyStr imports Prelude begin

section \<open>Python strings and byte strings\<close>

text \<open>
  A Python \<open>str\<close> is the list of its code points; \<open>py\<close> writes the program's (ASCII)
  literals. The operations are the ones the sources call: \<open>split\<close>, \<open>join\<close>, \<open>strip\<close>,
  \<open>lower\<close>, \<open>upper\<close>, \<open>startswith\<close>, the decimal form of an \<open>int\<close>, \<open>bytes.hex\<close>,
  \<open>bytes.fromhex\<close> and UTF-8 encoding. \<open>strip\<close> removes exactly the code points for which
  Python's \<open>str.isspace\<close> holds. \<open>lower\<close> and \<open>upper\<close> map ASCII letters and the few
  non-ASCII code points whose image contains an ASCII letter; every use compares the
  result with ASCII text, for which the other code points make no difference.
\<close>

type_synonym pystr = "nat list"

definition py :: "string \<Rightarrow> pystr" where
  "py s = map of_char s"

lemma py_eq_iff [simp]: "py s = py t \<longleftrightarrow> s = t"
proof -
  have "inj (of_char :: char \<Rightarrow> nat)" by (rule injI) simp
  then show ?thesis by (simp add: py_def inj_map_eq_map)
qed

lemma py_Nil [simp]: "py [] = []"
  by (simp add: py_def)

lemma py_eq_Nil_iff [simp]: "py s = [] \<longleftrightarrow> s = []" "[] = py s \<longleftrightarrow> s = []"
  by (auto simp: py_def)

lemma length_py [simp]: "length (py s) = length s"
  by (simp add: py_def)

subsection \<open>Splitting and joining\<close>

fun py_split :: "nat \<Rightarrow> pystr \<Rightarrow> pystr list" where
  "py_split c [] = [[]]"
| "py_split c (x # xs) =
    (if x = c then [] # py_split c xs
     else case py_split c xs of [] \<Rightarrow> [[x]] | p # ps \<Rightarrow> (x # p) # ps)"

fun py_join :: "pystr \<Rightarrow> pystr list \<Rightarrow> pystr" where
  "py_join sep [] = []"
| "py_join sep [x] = x"
| "py_join sep (x # y # ys) = x @ sep @ py_join sep (y # ys)"

lemma py_split_ne [simp]: "py_split c s \<noteq> []"
  by (cases s) (auto split: list.splits)

lemma py_split_no_sep: "c \<notin> set s \<Longrightarrow> py_split c s = [s]"
  by (induction s) auto

lemma py_split_append_sep:
  "c \<notin> set s \<Longrightarrow> py_split c (s @ c # t) = s # py_split c t"
  by (induction s) auto

lemma py_join_split: "py_join [c] (py_split c s) = s"
proof (induction s)
  case Nil
  then show ?case by simp
next
  case (Cons x s)
  obtain p ps where ps: "py_split c s = p # ps"
    by (cases "py_split c s") auto
  show ?case
  proof (cases "x = c")
    case True
    then show ?thesis using Cons ps by simp
  next
    case False
    then show ?thesis using Cons ps by (cases ps) auto
  qed
qed

lemma py_split_join:
  "ps \<noteq> [] \<Longrightarrow> list_all (\<lambda>p. c \<notin> set p) ps \<Longrightarrow> py_split c (py_join [c] ps) = ps"
proof (induction "[c]" ps rule: py_join.induct)
  case (3 x y ys)
  then show ?case using py_split_append_sep [of c x "py_join [c] (y # ys)"] by simp
qed (auto simp: py_split_no_sep)

lemma py_split_parts: "p \<in> set (py_split c s) \<Longrightarrow> c \<notin> set p"
  by (induction s arbitrary: p) (auto split: if_splits list.splits)

text \<open>\<open>s.split(sep, 1)\<close> for a one-character separator; \<open>None\<close> when it does not occur.\<close>

fun py_split_once :: "nat \<Rightarrow> pystr \<Rightarrow> (pystr \<times> pystr) option" where
  "py_split_once c [] = None"
| "py_split_once c (x # xs) =
    (if x = c then Some ([], xs)
     else map_option (\<lambda>(a, b). (x # a, b)) (py_split_once c xs))"

lemma py_split_once_Some_iff:
  "py_split_once c s = Some (a, b) \<longleftrightarrow> s = a @ c # b \<and> c \<notin> set a"
proof (induction s arbitrary: a)
  case Nil
  then show ?case by simp
next
  case (Cons x s)
  then show ?case by (cases a) auto
qed

definition py_startswith :: "pystr \<Rightarrow> pystr \<Rightarrow> bool" where
  "py_startswith s p = (take (length p) s = p)"

lemma py_startswith_append [simp]: "py_startswith (p @ s) p"
  by (simp add: py_startswith_def)

lemma py_startswith_iff: "py_startswith s p \<longleftrightarrow> (\<exists>t. s = p @ t)"
  unfolding py_startswith_def by (metis append_take_drop_id append_eq_conv_conj)

subsection \<open>Whitespace and case\<close>

definition is_space :: "nat \<Rightarrow> bool" where
  "is_space c \<longleftrightarrow> 9 \<le> c \<and> c \<le> 13 \<or> 28 \<le> c \<and> c \<le> 32 \<or> c = 133 \<or> c = 160 \<or> c = 5760
     \<or> 8192 \<le> c \<and> c \<le> 8202 \<or> c = 8232 \<or> c = 8233 \<or> c = 8239 \<or> c = 8287 \<or> c = 12288"

definition py_lstrip :: "pystr \<Rightarrow> pystr" where
  "py_lstrip s = dropWhile is_space s"

definition py_strip :: "pystr \<Rightarrow> pystr" where
  "py_strip s = rev (dropWhile is_space (rev (py_lstrip s)))"

lemma py_strip_id:
  assumes "list_all (\<lambda>c. \<not> is_space c) s"
  shows "py_strip s = s"
proof -
  have *: "dropWhile is_space t = t" if "list_all (\<lambda>c. \<not> is_space c) t" for t
    using that by (cases t) auto
  show ?thesis using assms by (simp add: py_strip_def py_lstrip_def *)
qed

definition lower_cp :: "nat \<Rightarrow> nat list" where
  "lower_cp c = (if 65 \<le> c \<and> c \<le> 90 then [c + 32]
     else if c = 8490 then [107] else if c = 304 then [105, 775] else [c])"

definition py_lower :: "pystr \<Rightarrow> pystr" where
  "py_lower s = concat (map lower_cp s)"

definition upper_cp :: "nat \<Rightarrow> nat list" where
  "upper_cp c = (if 97 \<le> c \<and> c \<le> 122 then [c - 32]
     else if c = 223 then [83, 83] else if c = 305 then [73] else if c = 329 then [700, 78]
     else if c = 383 then [83] else if c = 496 then [74, 780]
     else if c = 7830 then [72, 817] else if c = 7831 then [84, 776]
     else if c = 7832 then [87, 778] else if c = 7833 then [89, 778]
     else if c = 7834 then [65, 702]
     else if c = 64256 then [70, 70] else if c = 64257 then [70, 73]
     else if c = 64258 then [70, 76] else if c = 64259 then [70, 70, 73]
     else if c = 64260 then [70, 70, 76] else if c = 64261 \<or> c = 64262 then [83, 84]
     else [c])"

definition py_upper :: "pystr \<Rightarrow> pystr" where
  "py_upper s = concat (map upper_cp s)"

subsection \<open>Decimal integers\<close>

fun dec_nat :: "nat \<Rightarrow> pystr" where
  "dec_nat n = (if n < 10 then [48 + n] else dec_nat (n div 10) @ [48 + n mod 10])"

declare dec_nat.simps [simp del]

definition dec_int :: "int \<Rightarrow> pystr" where
  "dec_int i = (if i < 0 then 45 # dec_nat (nat (- i)) else dec_nat (nat i))"

definition is_digit :: "nat \<Rightarrow> bool" where
  "is_digit c \<longleftrightarrow> 48 \<le> c \<and> c \<le> 57"

definition nat_of_dec :: "pystr \<Rightarrow> nat" where
  "nat_of_dec ds = foldl (\<lambda>a d. 10 * a + (d - 48)) 0 ds"

lemma nat_of_dec_snoc: "nat_of_dec (ds @ [d]) = 10 * nat_of_dec ds + (d - 48)"
  by (simp add: nat_of_dec_def)

lemma dec_nat_ne [simp]: "dec_nat n \<noteq> []"
  by (subst dec_nat.simps) simp

lemma nat_of_dec_dec_nat [simp]: "nat_of_dec (dec_nat n) = n"
proof (induction n rule: dec_nat.induct)
  case (1 n)
  show ?case
  proof (cases "n < 10")
    case True
    then show ?thesis by (subst dec_nat.simps) (simp add: nat_of_dec_def)
  next
    case False
    then show ?thesis by (subst dec_nat.simps) (simp add: nat_of_dec_snoc 1)
  qed
qed

lemma dec_nat_digits: "list_all is_digit (dec_nat n)"
proof (induction n rule: dec_nat.induct)
  case (1 n)
  show ?case
  proof (cases "n < 10")
    case True
    then show ?thesis by (subst dec_nat.simps) (simp add: is_digit_def)
  next
    case False
    have "is_digit (48 + n mod 10)" by (simp add: is_digit_def)
    then show ?thesis using 1 False by (subst dec_nat.simps) simp
  qed
qed

lemma dec_nat_hd: "0 < n \<Longrightarrow> hd (dec_nat n) \<noteq> 48"
proof (induction n rule: dec_nat.induct)
  case (1 n)
  show ?case
  proof (cases "n < 10")
    case True
    then show ?thesis using 1(2) by (subst dec_nat.simps) simp
  next
    case False
    then show ?thesis using 1 by (subst dec_nat.simps) simp
  qed
qed

lemma dec_nat_0 [simp]: "dec_nat 0 = [48]"
  by (subst dec_nat.simps) simp

lemma dec_nat_inj [simp]: "dec_nat m = dec_nat n \<longleftrightarrow> m = n"
  by (metis nat_of_dec_dec_nat)

lemma dec_nat_no_minus: "dec_nat n \<noteq> 45 # s"
  using dec_nat_digits [of n] by (auto simp: is_digit_def)

lemma dec_int_inj [simp]: "dec_int i = dec_int j \<longleftrightarrow> i = j"
  by (auto simp: dec_int_def dec_nat_no_minus not_sym [OF dec_nat_no_minus])

lemma dec_int_ascii: "list_all (\<lambda>c. c < 128) (dec_int i)"
proof -
  have "list_all (\<lambda>c. c < 128) (dec_nat n)" for n
    using dec_nat_digits [of n] by (rule list.pred_mono_strong) (simp add: is_digit_def)
  then show ?thesis by (simp add: dec_int_def)
qed

subsection \<open>Hexadecimal\<close>

definition hex_digit :: "nat \<Rightarrow> nat" where
  "hex_digit n = (if n < 10 then 48 + n else 87 + n)"

definition hex_val :: "nat \<Rightarrow> nat option" where
  "hex_val c = (if 48 \<le> c \<and> c \<le> 57 then Some (c - 48)
     else if 97 \<le> c \<and> c \<le> 102 then Some (c - 87)
     else if 65 \<le> c \<and> c \<le> 70 then Some (c - 55) else None)"

definition is_hex :: "nat \<Rightarrow> bool" where
  "is_hex c \<longleftrightarrow> hex_val c \<noteq> None"

definition hex_byte :: "byte \<Rightarrow> pystr" where
  "hex_byte b = [hex_digit (unat b div 16), hex_digit (unat b mod 16)]"

text \<open>\<open>b.hex()\<close>: two lower-case digits a byte.\<close>

definition bytes_hex :: "bytes \<Rightarrow> pystr" where
  "bytes_hex bs = concat (map hex_byte bs)"

text \<open>\<open>bytes.fromhex(s)\<close>: pairs of digits, ASCII white space allowed between bytes;
  \<open>None\<close> is the \<open>ValueError\<close>.\<close>

definition is_ascii_space :: "nat \<Rightarrow> bool" where
  "is_ascii_space c \<longleftrightarrow> 9 \<le> c \<and> c \<le> 13 \<or> c = 32"

fun bytes_fromhex :: "pystr \<Rightarrow> bytes option" where
  "bytes_fromhex [] = Some []"
| "bytes_fromhex (c # s) =
    (if is_ascii_space c then bytes_fromhex s
     else case s of
       [] \<Rightarrow> None
     | d # s' \<Rightarrow>
         (case (hex_val c, hex_val d) of
            (Some h, Some l) \<Rightarrow> map_option ((#) (word_of_nat (16 * h + l))) (bytes_fromhex s')
          | _ \<Rightarrow> None))"

lemma hex_val_digit [simp]: "n < 16 \<Longrightarrow> hex_val (hex_digit n) = Some n"
  by (auto simp: hex_val_def hex_digit_def)

lemma hex_digit_not_space [simp]: "\<not> is_ascii_space (hex_digit n)"
  by (auto simp: is_ascii_space_def hex_digit_def)

lemma unat_byte_div: "unat (b :: byte) div 16 < 16"
  using unsigned_less [where 'a=nat and w=b] by simp

lemma bytes_fromhex_hex [simp]: "bytes_fromhex (bytes_hex bs) = Some bs"
proof (induction bs)
  case Nil
  then show ?case by (simp add: bytes_hex_def)
next
  case (Cons b bs)
  have "16 * (unat b div 16) + unat b mod 16 = unat b" by simp
  then have "(word_of_nat (16 * (unat b div 16) + unat b mod 16) :: byte) = b"
    by simp
  moreover have "bytes_hex (b # bs) = hex_byte b @ bytes_hex bs" by (simp add: bytes_hex_def)
  ultimately show ?case
    using Cons by (simp add: hex_byte_def unat_byte_div)
qed

lemma length_bytes_hex [simp]: "length (bytes_hex bs) = 2 * length bs"
  by (induction bs) (simp_all add: bytes_hex_def hex_byte_def)

lemma bytes_hex_Nil_iff [simp]: "bytes_hex bs = [] \<longleftrightarrow> bs = []"
  by (cases bs) (simp_all add: bytes_hex_def hex_byte_def)

lemma bytes_hex_inj [simp]: "bytes_hex a = bytes_hex b \<longleftrightarrow> a = b"
  by (metis bytes_fromhex_hex option.inject)

lemma hex_digit_is_hex: "n < 16 \<Longrightarrow> is_hex (hex_digit n)"
  by (simp add: is_hex_def)

lemma bytes_hex_is_hex: "list_all is_hex (bytes_hex bs)"
  by (induction bs)
    (simp_all add: bytes_hex_def hex_byte_def hex_digit_is_hex unat_byte_div)

lemma is_hex_ascii: "is_hex c \<Longrightarrow> c < 128"
  by (auto simp: is_hex_def hex_val_def split: if_splits)

lemma is_hex_not_space: "is_hex c \<Longrightarrow> \<not> is_space c"
  by (auto simp: is_hex_def hex_val_def is_space_def split: if_splits)

lemma is_hex_iff: "is_hex c \<longleftrightarrow> c \<in> set (py ''0123456789abcdefABCDEF'')"
proof -
  have "set (py ''0123456789abcdefABCDEF'') =
      {48, 49, 50, 51, 52, 53, 54, 55, 56, 57, 97, 98, 99, 100, 101, 102, 65, 66, 67, 68, 69, 70}"
    by (simp add: py_def)
  moreover have "48 \<le> c \<and> c \<le> 57 \<longleftrightarrow>
      c \<in> {48, 49, 50, 51, 52, 53, 54, 55, 56, 57}" by (simp, (presburger)?)
  moreover have "97 \<le> c \<and> c \<le> 102 \<longleftrightarrow> c \<in> {97, 98, 99, 100, 101, 102}" by (simp, (presburger)?)
  moreover have "65 \<le> c \<and> c \<le> 70 \<longleftrightarrow> c \<in> {65, 66, 67, 68, 69, 70}" by (simp, (presburger)?)
  ultimately show ?thesis by (simp add: is_hex_def hex_val_def)
qed

lemma bytes_fromhex_pairs:
  "list_all is_hex s \<Longrightarrow> even (length s) \<Longrightarrow> \<exists>bs. bytes_fromhex s = Some bs \<and> 2 * length bs = length s"
proof (induction s rule: bytes_fromhex.induct)
  case (2 c s)
  then obtain d t where s: "s = d # t" by (cases s) auto
  from 2 s have "\<not> is_ascii_space c"
    by (auto simp: is_hex_def hex_val_def is_ascii_space_def split: if_splits)
  moreover from 2 s obtain h l where "hex_val c = Some h" "hex_val d = Some l"
    by (auto simp: is_hex_def)
  ultimately show ?case using 2 s by fastforce
qed simp

subsection \<open>UTF-8\<close>

text \<open>\<open>s.encode("utf-8")\<close>: \<open>None\<close> is the \<open>UnicodeEncodeError\<close> a lone surrogate raises.\<close>

definition utf8_cp :: "nat \<Rightarrow> bytes option" where
  "utf8_cp c =
    (if c < 128 then Some [word_of_nat c]
     else if c < 2048 then Some [word_of_nat (192 + c div 64), word_of_nat (128 + c mod 64)]
     else if 55296 \<le> c \<and> c \<le> 57343 then None
     else if c < 65536 then
       Some [word_of_nat (224 + c div 4096), word_of_nat (128 + c div 64 mod 64),
             word_of_nat (128 + c mod 64)]
     else Some [word_of_nat (240 + c div 262144), word_of_nat (128 + c div 4096 mod 64),
                word_of_nat (128 + c div 64 mod 64), word_of_nat (128 + c mod 64)])"

fun utf8 :: "pystr \<Rightarrow> bytes option" where
  "utf8 [] = Some []"
| "utf8 (c # s) =
    (case utf8_cp c of None \<Rightarrow> None | Some b \<Rightarrow> map_option ((@) b) (utf8 s))"

lemma utf8_ascii: "list_all (\<lambda>c. c < 128) s \<Longrightarrow> utf8 s = Some (map word_of_nat s)"
  by (induction s) (auto simp: utf8_cp_def)

lemma utf8_append:
  "utf8 (s @ t) = (case (utf8 s, utf8 t) of (Some a, Some b) \<Rightarrow> Some (a @ b) | _ \<Rightarrow> None)"
  by (induction s) (auto split: option.splits)

lemma utf8_Some_Nil_iff: "utf8 s = Some [] \<longleftrightarrow> s = []"
  by (cases s) (auto simp: utf8_cp_def split: option.splits if_splits)

lemma py_less_256: "list_all (\<lambda>c. c < 256) (py s)"
  by (simp add: py_def list_all_iff)

lemma py_ascii: "list_all (\<lambda>c. (of_char c :: nat) < 128) s \<Longrightarrow> list_all (\<lambda>c. c < 128) (py s)"
  by (simp add: py_def list.pred_map comp_def)

end
