(* ===== verification/PyNum.thy ===== *)
theory PyNum imports PyStr begin

section \<open>Python floats and UTC time stamps\<close>

text \<open>
  A Python \<open>float\<close> is an IEEE-754 binary64 value: \<open>FFin s m e\<close> is \<open>(-1)^s * m * 2^e\<close> in
  the form \<open>float_of_ratio\<close> produces (53-bit mantissa, exponent at least -1074). The model
  needs them because a JSON number with a fraction or an exponent is a float: they are
  parsed (correctly rounded), printed (\<open>repr\<close>: the shortest decimal that reads back),
  compared with integers, and read as time stamps by \<open>datetime.fromtimestamp\<close>.
\<close>

datatype pyfloat = FNan | FInf bool | FFin bool nat int

fun nat_log2 :: "nat \<Rightarrow> nat" where
  "nat_log2 n = (if n < 2 then 0 else Suc (nat_log2 (n div 2)))"

declare nat_log2.simps [simp del]

text \<open>\<open>a / b\<close> rounded to an integer, ties to even.\<close>

definition round_div :: "nat \<Rightarrow> nat \<Rightarrow> nat" where
  "round_div a b =
    (let q = a div b; r = a mod b
     in if 2 * r < b \<or> 2 * r = b \<and> even q then q else q + 1)"

definition scale_num :: "nat \<Rightarrow> int \<Rightarrow> nat" where
  "scale_num a e = (if e < 0 then a * 2 ^ nat (- e) else a)"

definition scale_den :: "nat \<Rightarrow> int \<Rightarrow> nat" where
  "scale_den b e = (if e < 0 then b else b * 2 ^ nat e)"

definition float_of_ratio :: "bool \<Rightarrow> nat \<Rightarrow> nat \<Rightarrow> pyfloat" where
  "float_of_ratio s a b =
    (if a = 0 then FFin s 0 0
     else let e0 = int (nat_log2 a) - int (nat_log2 b) - 52;
              e1 = (if scale_num a e0 < 2 ^ 52 * scale_den b e0 then e0 - 1 else e0);
              e = max e1 (- 1074);
              q = round_div (scale_num a e) (scale_den b e);
              q' = (if q = 2 ^ 53 then 2 ^ 52 else q);
              e' = (if q = 2 ^ 53 then e + 1 else e)
          in if q' = 0 then FFin s 0 0
             else if 971 < e' then FInf s else FFin s q' e')"

definition float_num :: "pyfloat \<Rightarrow> nat" where
  "float_num x = (case x of FFin s m e \<Rightarrow> (if e < 0 then m else m * 2 ^ nat e) | _ \<Rightarrow> 0)"

definition float_den :: "pyfloat \<Rightarrow> nat" where
  "float_den x = (case x of FFin s m e \<Rightarrow> (if e < 0 then 2 ^ nat (- e) else 1) | _ \<Rightarrow> 1)"

text \<open>\<open>float(i)\<close>; \<open>None\<close> is the \<open>OverflowError\<close> for an integer too large.\<close>

definition float_of_int :: "int \<Rightarrow> pyfloat option" where
  "float_of_int i =
    (case float_of_ratio (i < 0) (nat \<bar>i\<bar>) 1 of FFin s m e \<Rightarrow> Some (FFin s m e) | _ \<Rightarrow> None)"

definition float_truthy :: "pyfloat \<Rightarrow> bool" where
  "float_truthy x = (case x of FFin s m e \<Rightarrow> m \<noteq> 0 | _ \<Rightarrow> True)"

text \<open>Comparison of a float with an \<open>int\<close>, exact as Python's.\<close>

definition float_eq_int :: "pyfloat \<Rightarrow> int \<Rightarrow> bool" where
  "float_eq_int x i = (case x of
      FFin s m e \<Rightarrow> (if s then - int (float_num x) else int (float_num x)) = i * int (float_den x)
    | _ \<Rightarrow> False)"

definition float_gt_int :: "pyfloat \<Rightarrow> int \<Rightarrow> bool" where
  "float_gt_int x i = (case x of
      FFin s m e \<Rightarrow> (if s then - int (float_num x) else int (float_num x)) > i * int (float_den x)
    | FInf s \<Rightarrow> \<not> s
    | FNan \<Rightarrow> False)"

subsection \<open>\<open>repr\<close> of a float\<close>

text \<open>\<open>x * n\<close> for an integer \<open>n\<close> that is a float itself, \<open>round(x)\<close> with ties to even (\<open>None\<close>: it
  raises) and \<open>round(x, 2)\<close>, which rounds the exact value of the float.\<close>

definition float_times :: "pyfloat \<Rightarrow> nat \<Rightarrow> pyfloat" where
  "float_times x n = (case x of
      FFin s m e \<Rightarrow> float_of_ratio s (float_num x * n) (float_den x) | _ \<Rightarrow> x)"

definition float_round :: "pyfloat \<Rightarrow> int option" where
  "float_round x = (case x of
      FFin s m e \<Rightarrow> (let q = int (round_div (float_num x) (float_den x)) in Some (if s then - q else q))
    | _ \<Rightarrow> None)"

definition float_round2 :: "pyfloat \<Rightarrow> pyfloat" where
  "float_round2 x = (case x of
      FFin s m e \<Rightarrow> float_of_ratio s (round_div (float_num x * 100) (float_den x)) 100 | _ \<Rightarrow> x)"

text \<open>The value \<open>a / b\<close> has \<open>k\<close> digits before its point when \<open>10^(k-1) \<le> a/b < 10^k\<close>.\<close>

fun dec_point_up :: "nat \<Rightarrow> nat \<Rightarrow> nat \<Rightarrow> nat" where
  "dec_point_up 0 a b = 0"
| "dec_point_up (Suc n) a b = (if a < b then 0 else Suc (dec_point_up n a (b * 10)))"

fun dec_point_down :: "nat \<Rightarrow> nat \<Rightarrow> nat \<Rightarrow> nat" where
  "dec_point_down 0 a b = 0"
| "dec_point_down (Suc n) a b = (if b \<le> a * 10 then 0 else Suc (dec_point_down n (a * 10) b))"

definition dec_point :: "nat \<Rightarrow> nat \<Rightarrow> int" where
  "dec_point a b = (if b \<le> a then int (dec_point_up 400 a b) else - int (dec_point_down 400 a b))"

definition ten_num :: "nat \<Rightarrow> int \<Rightarrow> nat" where
  "ten_num a k = (if k < 0 then a else a * 10 ^ nat k)"

definition ten_den :: "nat \<Rightarrow> int \<Rightarrow> nat" where
  "ten_den b k = (if k < 0 then b * 10 ^ nat (- k) else b)"

text \<open>Shortest digits: the first number of digits for which the decimal below or the one
  above reads back as the same float, the closer of the two when both do.\<close>

fun repr_digits :: "nat \<Rightarrow> nat \<Rightarrow> bool \<Rightarrow> nat \<Rightarrow> nat \<Rightarrow> int \<Rightarrow> nat \<times> int" where
  "repr_digits 0 n s a b k = (a * 5 ^ nat_log2 b, - int (nat_log2 b))"
| "repr_digits (Suc f) n s a b k =
    (let sc = int n - k;
         lo = ten_num a sc div ten_den b sc;
         r = ten_num a sc mod ten_den b sc;
         back = (\<lambda>d. float_of_ratio s (ten_num d (- sc)) (ten_den 1 (- sc)) = float_of_ratio s a b)
     in if back lo \<and> (\<not> back (lo + 1) \<or> 2 * r < ten_den b sc \<or> 2 * r = ten_den b sc \<and> even lo)
        then (lo, - sc)
        else if back (lo + 1) then (lo + 1, - sc)
        else repr_digits f (n + 1) s a b k)"

fun strip_zeros :: "pystr \<Rightarrow> pystr" where
  "strip_zeros [] = []"
| "strip_zeros [c] = [c]"
| "strip_zeros (c # d # s) = (if c = 48 then strip_zeros (d # s) else c # d # s)"

definition pad2 :: "nat \<Rightarrow> pystr" where
  "pad2 n = (if n < 10 then 48 # dec_nat n else dec_nat n)"

definition float_repr :: "pyfloat \<Rightarrow> pystr" where
  "float_repr x = (case x of
      FNan \<Rightarrow> py ''nan''
    | FInf s \<Rightarrow> (if s then py ''-inf'' else py ''inf'')
    | FFin s m e \<Rightarrow>
       (if s then [45] else []) @
       (if m = 0 then py ''0.0''
        else let a = float_num x; b = float_den x;
                 (d, sc) = repr_digits 17 1 s a b (dec_point a b);
                 full = dec_nat d;
                 ds = rev (strip_zeros (rev full));
                 pt = int (length full) + sc
             in if - 4 < pt \<and> pt \<le> 16
                then (if pt \<le> 0 then py ''0.'' @ replicate (nat (- pt)) 48 @ ds
                      else if int (length ds) \<le> pt
                      then ds @ replicate (nat pt - length ds) 48 @ py ''.0''
                      else take (nat pt) ds @ [46] @ drop (nat pt) ds)
                else (if length ds = 1 then ds else hd ds # 46 # tl ds) @ [101]
                     @ (if pt - 1 < 0 then 45 # pad2 (nat (1 - pt)) else 43 # pad2 (nat (pt - 1)))))"

subsection \<open>UTC time stamps\<close>

text \<open>The proleptic Gregorian date of a day counted from 1970-01-01 (\<open>days\<close> may be
  negative), by whole 400-year eras starting on a first of March.\<close>

definition civil_of_days :: "int \<Rightarrow> int \<times> int \<times> int" where
  "civil_of_days days =
    (let z = days + 719468;
         era = z div 146097;
         doe = z mod 146097;
         yoe = (doe - doe div 1460 + doe div 36524 - doe div 146096) div 365;
         doy = doe - (365 * yoe + yoe div 4 - yoe div 100);
         mp = (5 * doy + 2) div 153;
         d = doy - (153 * mp + 2) div 5 + 1;
         m = (if mp < 10 then mp + 3 else mp - 9)
     in (yoe + 400 * era + (if m \<le> 2 then 1 else 0), m, d))"

definition days_of_civil :: "int \<Rightarrow> int \<Rightarrow> int \<Rightarrow> int" where
  "days_of_civil y0 m d =
    (let y = (if m \<le> 2 then y0 - 1 else y0);
         yoe = y mod 400;
         mp = (if 2 < m then m - 3 else m + 9);
         doy = (153 * mp + 2) div 5 + d - 1;
         doe = yoe * 365 + yoe div 4 - yoe div 100 + doy
     in 146097 * (y div 400) + doe - 719468)"

definition pad_dec :: "nat \<Rightarrow> int \<Rightarrow> pystr" where
  "pad_dec w i = (let s = dec_nat (nat i) in replicate (w - length s) 48 @ s)"

definition MIN_UTC_SECONDS :: int where "MIN_UTC_SECONDS = - 62135596800"
definition MAX_UTC_SECONDS :: int where "MAX_UTC_SECONDS = 253402300799"

text \<open>\<open>datetime.fromtimestamp(secs + us / 10^6, tz=UTC).isoformat()\<close>; \<open>None\<close> when the
  year is not between 1 and 9999.\<close>

definition utc_iso :: "int \<Rightarrow> int \<Rightarrow> pystr option" where
  "utc_iso secs us =
    (if secs < MIN_UTC_SECONDS \<or> MAX_UTC_SECONDS < secs then None
     else let (y, m, d) = civil_of_days (secs div 86400); r = secs mod 86400
          in Some (pad_dec 4 y @ [45] @ pad_dec 2 m @ [45] @ pad_dec 2 d @ [84]
               @ pad_dec 2 (r div 3600) @ [58] @ pad_dec 2 (r div 60 mod 60) @ [58]
               @ pad_dec 2 (r mod 60) @ (if us = 0 then [] else 46 # pad_dec 6 us)
               @ py ''+00:00''))"

text \<open>The argument of \<open>fromtimestamp\<close> is a float: its integral part and its fractional
  part times a million, rounded to a float and then to an integer, ties to even.\<close>

definition float_timestamp :: "pyfloat \<Rightarrow> pystr option" where
  "float_timestamp x = (case x of
      FFin s m e \<Rightarrow>
        (let a = float_num x; b = float_den x;
             ip = int (a div b);
             f6 = float_of_ratio s (a mod b * 1000000) b;
             us = int (round_div (float_num f6) (float_den f6));
             us' = (if s then - us else us);
             ip' = (if s then - ip else ip)
         in if 1000000 \<le> us' then utc_iso (ip' + 1) (us' - 1000000)
            else if us' < 0 then utc_iso (ip' - 1) (us' + 1000000)
            else utc_iso ip' us')
    | _ \<Rightarrow> None)"

definition int_timestamp :: "int \<Rightarrow> pystr option" where
  "int_timestamp i = (case float_of_int i of None \<Rightarrow> None | Some x \<Rightarrow> float_timestamp x)"

end
