(* ===== verification/Json.thy ===== *)
theory Json imports PyNum begin

section \<open>JSON values and Python's \<open>json\<close> module\<close>

text \<open>
  A decoded JSON document with the Python types it decodes to. \<open>json_dumps\<close> is
  \<open>json.dumps\<close> with the given separators (\<open>ensure_ascii\<close> as by default), \<open>json_loads\<close> is
  \<open>json.loads\<close> (strict strings, NaN and infinities accepted, a repeated key keeps its place
  and its last value, integers of more than 4300 digits refused). The decoder needs no fuel:
  it guards each nested call by the length of what is left, and
  \<open>parse_shorter\<close> shows that the guards never fail. The main theorem of the theory
  is the round trip \<open>json_loads_dumps\<close>.
\<close>

datatype json =
    JNull
  | JBool bool
  | JInt int
  | JFloat pyfloat
  | JStr pystr
  | JList "json list"
  | JObj "(pystr \<times> json) list"

subsection \<open>Python's view of a value\<close>

fun truthy :: "json \<Rightarrow> bool" where
  "truthy JNull = False"
| "truthy (JBool b) = b"
| "truthy (JInt i) = (i \<noteq> 0)"
| "truthy (JFloat x) = float_truthy x"
| "truthy (JStr s) = (s \<noteq> [])"
| "truthy (JList xs) = (xs \<noteq> [])"
| "truthy (JObj d) = (d \<noteq> [])"

text \<open>\<open>v == i\<close> for an \<open>int\<close> \<open>i\<close>: a \<open>bool\<close> is an \<open>int\<close>, a float compares by value.\<close>

fun json_eq_int :: "json \<Rightarrow> int \<Rightarrow> bool" where
  "json_eq_int (JBool b) i = (of_bool b = i)"
| "json_eq_int (JInt j) i = (j = i)"
| "json_eq_int (JFloat x) i = float_eq_int x i"
| "json_eq_int _ i = False"

text \<open>\<open>d.get(k)\<close>\<close>

definition obj_get :: "(pystr \<times> json) list \<Rightarrow> pystr \<Rightarrow> json" where
  "obj_get d k = (case dict_get d k of Some v \<Rightarrow> v | None \<Rightarrow> JNull)"

text \<open>\<open>a or b\<close>\<close>

definition json_or :: "json \<Rightarrow> json \<Rightarrow> json" where
  "json_or a b = (if truthy a then a else b)"

fun as_obj :: "json \<Rightarrow> (pystr \<times> json) list option" where
  "as_obj (JObj d) = Some d"
| "as_obj _ = None"

text \<open>\<open>v if isinstance(v, dict) else {}\<close>\<close>

definition obj_or_empty :: "json \<Rightarrow> (pystr \<times> json) list" where
  "obj_or_empty v = (case as_obj v of Some d \<Rightarrow> d | None \<Rightarrow> [])"

lemma obj_get_set [simp]: "obj_get (dict_set d k v) k' = (if k' = k then v else obj_get d k')"
  by (simp add: obj_get_def)

lemma obj_get_Nil [simp]: "obj_get [] k = JNull"
  by (simp add: obj_get_def)

lemma obj_get_Cons [simp]: "obj_get ((k', v) # d) k = (if k' = k then v else obj_get d k)"
  by (simp add: obj_get_def)

lemma obj_get_del [simp]: "obj_get (dict_del d k) k' = (if k' = k then JNull else obj_get d k')"
  by (simp add: obj_get_def)

subsection \<open>Printing\<close>

definition hex4 :: "nat \<Rightarrow> pystr" where
  "hex4 n = [hex_digit (n div 4096 mod 16), hex_digit (n div 256 mod 16),
             hex_digit (n div 16 mod 16), hex_digit (n mod 16)]"

definition dump_char :: "nat \<Rightarrow> pystr" where
  "dump_char c =
    (if c = 34 then [92, 34] else if c = 92 then [92, 92]
     else if c = 8 then [92, 98] else if c = 12 then [92, 102] else if c = 10 then [92, 110]
     else if c = 13 then [92, 114] else if c = 9 then [92, 116]
     else if 32 \<le> c \<and> c < 127 then [c]
     else if c < 65536 then [92, 117] @ hex4 c
     else [92, 117] @ hex4 (55296 + (c - 65536) div 1024)
          @ [92, 117] @ hex4 (56320 + (c - 65536) mod 1024))"

definition dump_str :: "pystr \<Rightarrow> pystr" where
  "dump_str s = [34] @ concat (map dump_char s) @ [34]"

definition dump_float :: "pyfloat \<Rightarrow> pystr" where
  "dump_float x = (case x of FNan \<Rightarrow> py ''NaN'' | FInf s \<Rightarrow> (if s then py ''-Infinity'' else py ''Infinity'')
     | _ \<Rightarrow> float_repr x)"

fun json_dumps :: "pystr \<Rightarrow> pystr \<Rightarrow> json \<Rightarrow> pystr" where
  "json_dumps c k JNull = py ''null''"
| "json_dumps c k (JBool b) = (if b then py ''true'' else py ''false'')"
| "json_dumps c k (JInt i) = dec_int i"
| "json_dumps c k (JFloat x) = dump_float x"
| "json_dumps c k (JStr s) = dump_str s"
| "json_dumps c k (JList xs) = [91] @ py_join c (map (json_dumps c k) xs) @ [93]"
| "json_dumps c k (JObj d) =
    [123] @ py_join c (map (\<lambda>(s, v). dump_str s @ k @ json_dumps c k v) d) @ [125]"

definition sep_comma :: pystr where "sep_comma = py '', ''"
definition sep_colon :: pystr where "sep_colon = py '': ''"

text \<open>\<open>json.dumps(v)\<close> with the default separators.\<close>

definition dumps_default :: "json \<Rightarrow> pystr" where
  "dumps_default v = json_dumps sep_comma sep_colon v"

subsection \<open>Parsing\<close>

definition is_jws :: "nat \<Rightarrow> bool" where
  "is_jws c \<longleftrightarrow> c = 32 \<or> c = 9 \<or> c = 10 \<or> c = 13"

definition skip_ws :: "pystr \<Rightarrow> pystr" where
  "skip_ws s = dropWhile is_jws s"

fun parse_hex4 :: "pystr \<Rightarrow> (nat \<times> pystr) option" where
  "parse_hex4 (a # b # c # d # s) =
    (case (hex_val a, hex_val b, hex_val c, hex_val d) of
       (Some a', Some b', Some c', Some d') \<Rightarrow> Some (4096 * a' + 256 * b' + 16 * c' + d', s)
     | _ \<Rightarrow> None)"
| "parse_hex4 _ = None"

definition simple_escape :: "nat \<Rightarrow> nat option" where
  "simple_escape c =
    (if c = 34 \<or> c = 92 \<or> c = 47 then Some c else if c = 98 then Some 8
     else if c = 102 then Some 12 else if c = 110 then Some 10 else if c = 114 then Some 13
     else if c = 116 then Some 9 else None)"

text \<open>The character an escape stands for (after the backslash) and the rest; a high
  surrogate escape directly followed by a low one is one character.\<close>

definition parse_escape :: "pystr \<Rightarrow> (nat \<times> pystr) option" where
  "parse_escape s = (case s of
      [] \<Rightarrow> None
    | c # r \<Rightarrow>
       if c \<noteq> 117 then map_option (\<lambda>x. (x, r)) (simple_escape c)
       else case parse_hex4 r of
         None \<Rightarrow> None
       | Some (u, r') \<Rightarrow>
          if 55296 \<le> u \<and> u \<le> 56319 \<and> take 2 r' = [92, 117]
          then (case parse_hex4 (drop 2 r') of
                  None \<Rightarrow> None
                | Some (v, r'') \<Rightarrow>
                   if 56320 \<le> v \<and> v \<le> 57343
                   then Some (65536 + (u - 55296) * 1024 + (v - 56320), r'')
                   else Some (u, r'))
          else Some (u, r'))"

lemma parse_hex4_shorter: "parse_hex4 s = Some (n, r) \<Longrightarrow> length r < length s"
  by (cases s rule: parse_hex4.cases) (auto split: option.splits)

lemma parse_escape_shorter: "parse_escape s = Some (c, r) \<Longrightarrow> length r < length s"
proof (cases s)
  case (Cons a t)
  assume *: "parse_escape s = Some (c, r)"
  show ?thesis
  proof (cases "parse_hex4 t")
    case None
    with * Cons show ?thesis by (auto simp: parse_escape_def split: if_splits)
  next
    case (Some p)
    obtain u r' where p: "p = (u, r')" by (cases p)
    then have 1: "length r' < length t" using Some parse_hex4_shorter by blast
    have 2: "length r'' < length t" if "parse_hex4 (drop 2 r') = Some (v, r'')" for v r''
      using parse_hex4_shorter [OF that] 1 by simp
    from * Cons Some p 1 show ?thesis
      by (auto simp: parse_escape_def split: if_splits option.splits dest: 2)
  qed
qed (simp add: parse_escape_def)

text \<open>The text of a string after its opening quote.\<close>

function parse_string :: "pystr \<Rightarrow> (pystr \<times> pystr) option" where
  "parse_string [] = None"
| "parse_string (c # s) =
    (if c = 34 then Some ([], s)
     else if c < 32 then None
     else if c = 92 then
       (case parse_escape s of
          None \<Rightarrow> None
        | Some (x, r) \<Rightarrow> map_option (\<lambda>(t, r'). (x # t, r')) (parse_string r))
     else map_option (\<lambda>(t, r'). (c # t, r')) (parse_string s))"
  by pat_completeness auto
termination
  by (relation "measure length") (auto dest: parse_escape_shorter)

lemma parse_string_shorter: "parse_string s = Some (t, r) \<Longrightarrow> length r < length s"
proof (induction s arbitrary: t r rule: parse_string.induct)
  case (2 c s)
  then show ?case
    by (fastforce split: if_splits option.splits dest: parse_escape_shorter)
qed simp

text \<open>A number: an integer part without leading zeros, an optional fraction and an
  optional exponent, each taken only when it has a digit.\<close>

definition take_int :: "pystr \<Rightarrow> (pystr \<times> pystr) option" where
  "take_int s = (case s of
      [] \<Rightarrow> None
    | c # r \<Rightarrow> if c = 48 then Some ([48], r)
               else if is_digit c then Some (takeWhile is_digit s, dropWhile is_digit s)
               else None)"

definition take_frac :: "pystr \<Rightarrow> pystr \<times> pystr" where
  "take_frac s = (case s of
      [] \<Rightarrow> ([], s)
    | c # r \<Rightarrow> if c = 46 \<and> takeWhile is_digit r \<noteq> []
               then (takeWhile is_digit r, dropWhile is_digit r) else ([], s))"

definition take_sign :: "pystr \<Rightarrow> bool \<times> pystr" where
  "take_sign s = (case s of
      [] \<Rightarrow> (False, s)
    | c # r \<Rightarrow> if c = 45 then (True, r) else if c = 43 then (False, r) else (False, s))"

definition take_exp :: "pystr \<Rightarrow> int option \<times> pystr" where
  "take_exp s = (case s of
      [] \<Rightarrow> (None, s)
    | c # r \<Rightarrow>
       if c = 101 \<or> c = 69 then
         (case take_sign r of (neg, r') \<Rightarrow>
            if takeWhile is_digit r' \<noteq> []
            then (let n = int (nat_of_dec (takeWhile is_digit r'))
                  in (Some (if neg then - n else n), dropWhile is_digit r'))
            else (None, s))
       else (None, s))"

definition number_of :: "bool \<Rightarrow> pystr \<Rightarrow> pystr \<Rightarrow> int option \<Rightarrow> json" where
  "number_of neg ip fr ex =
    (if fr = [] \<and> ex = None
     then JInt (if neg then - int (nat_of_dec ip) else int (nat_of_dec ip))
     else let sc = (case ex of Some e \<Rightarrow> e | None \<Rightarrow> 0) - int (length fr);
              n = nat_of_dec (ip @ fr)
          in JFloat (float_of_ratio neg (ten_num n sc) (ten_den 1 sc)))"

definition parse_unsigned :: "bool \<Rightarrow> pystr \<Rightarrow> (json \<times> pystr) option" where
  "parse_unsigned neg s =
    (case take_int s of
       None \<Rightarrow> None
     | Some (ip, r1) \<Rightarrow>
        (let (fr, r2) = take_frac r1; (ex, r3) = take_exp r2
         in if fr = [] \<and> ex = None \<and> 4300 < length ip then None
            else Some (number_of neg ip fr ex, r3)))"

definition parse_number :: "pystr \<Rightarrow> (json \<times> pystr) option" where
  "parse_number s = (if take 1 s = [45] then parse_unsigned True (drop 1 s) else parse_unsigned False s)"

lemma take_int_shorter: "take_int s = Some (d, r) \<Longrightarrow> length r < length s"
  by (auto simp: take_int_def split: list.splits if_splits intro: le_imp_less_Suc length_dropWhile_le)

lemma take_frac_le: "take_frac s = (d, r) \<Longrightarrow> length r \<le> length s"
  by (auto simp: take_frac_def split: list.splits if_splits intro: le_SucI length_dropWhile_le)

lemma length_dropWhile_Suc:
  "length (dropWhile P xs) \<le> Suc (length xs)" "length (dropWhile P xs) \<le> Suc (Suc (length xs))"
  by (intro le_SucI length_dropWhile_le)+

lemma take_exp_le: "take_exp s = (d, r) \<Longrightarrow> length r \<le> length s"
  by (auto simp: take_exp_def take_sign_def Let_def length_dropWhile_Suc split: list.splits if_splits)

lemma parse_unsigned_shorter: "parse_unsigned neg s = Some (v, r) \<Longrightarrow> length r < length s"
  by (auto simp: parse_unsigned_def Let_def split: option.splits prod.splits if_splits
      dest!: take_int_shorter take_frac_le take_exp_le)

lemma parse_number_shorter: "parse_number s = Some (v, r) \<Longrightarrow> length r < length s"
  by (auto simp: parse_number_def split: if_splits dest!: parse_unsigned_shorter)

text \<open>The literals, tried before a number.\<close>

definition literal_of :: "(string \<times> json) list" where
  "literal_of = [(''null'', JNull), (''true'', JBool True), (''false'', JBool False),
     (''NaN'', JFloat FNan), (''Infinity'', JFloat (FInf False)), (''-Infinity'', JFloat (FInf True))]"

fun parse_literal :: "(string \<times> json) list \<Rightarrow> pystr \<Rightarrow> (json \<times> pystr) option" where
  "parse_literal [] s = None"
| "parse_literal ((l, v) # ls) s =
    (if py_startswith s (py l) then Some (v, drop (length l) s) else parse_literal ls s)"

definition parse_scalar :: "pystr \<Rightarrow> (json \<times> pystr) option" where
  "parse_scalar s =
    (case parse_literal literal_of s of Some p \<Rightarrow> Some p | None \<Rightarrow> parse_number s)"

lemma parse_literal_shorter:
  "parse_literal ls s = Some (v, r) \<Longrightarrow> list_all (\<lambda>p. fst p \<noteq> []) ls \<Longrightarrow> length r < length s"
proof (induction ls)
  case (Cons p ls)
  obtain l w where p: "p = (l, w)" by (cases p)
  show ?case
  proof (cases "py_startswith s (py l)")
    case True
    then have "length l \<le> length s" by (auto simp: py_startswith_iff)
    with True Cons.prems p show ?thesis
      by auto (metis diff_less length_greater_0_conv less_le_trans)
  qed (use Cons p in auto)
qed simp

lemma parse_scalar_shorter: "parse_scalar s = Some (v, r) \<Longrightarrow> length r < length s"
  using parse_literal_shorter [of literal_of s v r]
  by (auto simp: parse_scalar_def literal_of_def simp del: parse_literal.simps
      split: option.splits dest!: parse_number_shorter)

lemma length_skip_ws: "length (skip_ws s) \<le> length s"
  by (simp add: skip_ws_def length_dropWhile_le)

function parse_value :: "pystr \<Rightarrow> (json \<times> pystr) option"
  and parse_elems :: "pystr \<Rightarrow> json list \<Rightarrow> (json \<times> pystr) option"
  and parse_members :: "pystr \<Rightarrow> (pystr \<times> json) list \<Rightarrow> (json \<times> pystr) option" where
  "parse_value s =
    (case s of
       [] \<Rightarrow> None
     | c # r \<Rightarrow>
        if c = 34 then map_option (apfst JStr) (parse_string r)
        else if c = 123 then
          (if take 1 (skip_ws r) = [125] then Some (JObj [], drop 1 (skip_ws r))
           else parse_members (skip_ws r) [])
        else if c = 91 then
          (if take 1 (skip_ws r) = [93] then Some (JList [], drop 1 (skip_ws r))
           else parse_elems (skip_ws r) [])
        else parse_scalar s)"
| "parse_elems s acc =
    (case parse_value s of
       None \<Rightarrow> None
     | Some (v, r) \<Rightarrow>
        if take 1 (skip_ws r) = [93] then Some (JList (acc @ [v]), drop 1 (skip_ws r))
        else if take 1 (skip_ws r) = [44] \<and> length r < length s
        then parse_elems (skip_ws (drop 1 (skip_ws r))) (acc @ [v])
        else None)"
| "parse_members s acc =
    (if take 1 s \<noteq> [34] then None
     else case parse_string (drop 1 s) of
       None \<Rightarrow> None
     | Some (k, r1) \<Rightarrow>
        if take 1 (skip_ws r1) \<noteq> [58] then None
        else case parse_value (skip_ws (drop 1 (skip_ws r1))) of
          None \<Rightarrow> None
        | Some (v, r) \<Rightarrow>
           if take 1 (skip_ws r) = [125] then Some (JObj (dict_set acc k v), drop 1 (skip_ws r))
           else if take 1 (skip_ws r) = [44] \<and> length r < length s
           then parse_members (skip_ws (drop 1 (skip_ws r))) (dict_set acc k v)
           else None)"
  by pat_completeness auto
termination
proof (relation "measure (\<lambda>x. case x of Inl s \<Rightarrow> 2 * length s
    | Inr (Inl (s, acc)) \<Rightarrow> 2 * length s + 1 | Inr (Inr (s, acc)) \<Rightarrow> 2 * length s + 1)", goal_cases)
  case 1
  then show ?case by simp
next
  case (2 s c r)
  then show ?case using length_skip_ws [of r] by simp
next
  case (3 s c r)
  then show ?case using length_skip_ws [of r] by simp
next
  case (4 s acc)
  then show ?case by simp
next
  case (5 s acc p v r)
  then show ?case
    using length_skip_ws [of r] length_skip_ws [of "drop 1 (skip_ws r)"] by auto
next
  case (6 s acc p k r1)
  then show ?case
    using length_skip_ws [of r1] length_skip_ws [of "drop 1 (skip_ws r1)"]
      parse_string_shorter [of "drop 1 s" k r1] by auto
next
  case (7 s acc p k r1 q v r)
  then show ?case
    using length_skip_ws [of r] length_skip_ws [of "drop 1 (skip_ws r)"] by auto
qed

declare parse_value.simps [simp del] parse_elems.simps [simp del] parse_members.simps [simp del]

text \<open>\<open>json.loads(s)\<close>; \<open>None\<close> is the \<open>JSONDecodeError\<close> (a \<open>ValueError\<close>).\<close>

definition json_loads :: "pystr \<Rightarrow> json option" where
  "json_loads s =
    (case parse_value (skip_ws s) of
       None \<Rightarrow> None
     | Some (v, r) \<Rightarrow> if skip_ws r = [] then Some v else None)"

subsection \<open>The guards of the decoder\<close>

lemma skip_ws_drop_shorter: "length (skip_ws (drop n (skip_ws r))) \<le> length r"
  using length_skip_ws [of r] length_skip_ws [of "drop n (skip_ws r)"] by simp

lemma drop_skip_ws_shorter: "length (drop n (skip_ws r)) \<le> length r"
  using length_skip_ws [of r] by simp

text \<open>What a decoder that succeeds has read.\<close>

lemma parse_value_Some:
  assumes "parse_value s = Some (v, r)"
  obtains (str) w t where "s = 34 # t" "parse_string t = Some (w, r)"
  | (empty) c t where "s = c # t" "r = drop 1 (skip_ws t)"
  | (members) t where "s = 123 # t" "take 1 (skip_ws t) \<noteq> [125]" "parse_members (skip_ws t) [] = Some (v, r)"
  | (elems) t where "s = 91 # t" "take 1 (skip_ws t) \<noteq> [93]" "parse_elems (skip_ws t) [] = Some (v, r)"
  | (scalar) "parse_scalar s = Some (v, r)"
  using assms by (auto simp: parse_value.simps [of s] split: list.splits if_splits)

lemma parse_elems_Some:
  assumes "parse_elems s acc = Some (v, r)"
  obtains (last) w q where "parse_value s = Some (w, q)" "r = drop 1 (skip_ws q)"
  | (more) w q where "parse_value s = Some (w, q)" "take 1 (skip_ws q) = [44]" "length q < length s"
      "parse_elems (skip_ws (drop 1 (skip_ws q))) (acc @ [w]) = Some (v, r)"
  using assms by (auto simp: parse_elems.simps [of s] split: option.splits if_splits)

lemma parse_members_Some:
  assumes "parse_members s acc = Some (v, r)"
  obtains k r1 w q where "take 1 s = [34]" "parse_string (drop 1 s) = Some (k, r1)" "take 1 (skip_ws r1) = [58]"
    "parse_value (skip_ws (drop 1 (skip_ws r1))) = Some (w, q)"
    "r = drop 1 (skip_ws q) \<or> take 1 (skip_ws q) = [44] \<and> take 1 (skip_ws q) \<noteq> [125] \<and> length q < length s
      \<and> parse_members (skip_ws (drop 1 (skip_ws q))) (dict_set acc k w) = Some (v, r)"
  using assms by (auto simp: parse_members.simps [of s] split: option.splits if_splits)

text \<open>What a decoded value leaves is shorter than its text, so no guard of the decoder
  ever cuts a document short.\<close>

lemma parse_shorter:
  "parse_value s = Some (v, r) \<Longrightarrow> length r < length s"
  "parse_elems s acc = Some (v, r) \<Longrightarrow> length r < length s"
  "parse_members s acc' = Some (v, r) \<Longrightarrow> length r < length s"
proof (induction s and s acc and s acc' arbitrary: v r and v r and v r
    rule: parse_value_parse_elems_parse_members.induct)
  case (1 s)
  from "1.prems" show ?case
  proof (cases rule: parse_value_Some)
    case (str w t)
    then show ?thesis using parse_string_shorter [OF str(2)] by simp
  next
    case (empty c t)
    then show ?thesis using drop_skip_ws_shorter [of 1 t] by simp
  next
    case (members t)
    then show ?thesis using "1.IH"(1) length_skip_ws [of t] by fastforce
  next
    case (elems t)
    then show ?thesis using "1.IH"(2) length_skip_ws [of t] by fastforce
  qed (rule parse_scalar_shorter)
next
  case (2 s acc)
  from "2.prems" show ?case
  proof (cases rule: parse_elems_Some)
    case (last w q)
    then show ?thesis using "2.IH"(1) drop_skip_ws_shorter [of 1 q] by fastforce
  next
    case (more w q)
    then show ?thesis using "2.IH"(2) [OF more(1) refl] skip_ws_drop_shorter [of 1 q] by fastforce
  qed
next
  case (3 s acc)
  from "3.prems" obtain k r1 w q where *: "take 1 s = [34]" "parse_string (drop 1 s) = Some (k, r1)"
    "take 1 (skip_ws r1) = [58]" "parse_value (skip_ws (drop 1 (skip_ws r1))) = Some (w, q)"
    "r = drop 1 (skip_ws q) \<or> take 1 (skip_ws q) = [44] \<and> take 1 (skip_ws q) \<noteq> [125] \<and> length q < length s
      \<and> parse_members (skip_ws (drop 1 (skip_ws q))) (dict_set acc k w) = Some (v, r)"
    by (rule parse_members_Some)
  have "length q < length (skip_ws (drop 1 (skip_ws r1)))" using "3.IH"(1) * by simp
  moreover have "length r1 < length s" using parse_string_shorter [OF *(2)] by simp
  ultimately have q: "length q < length s" using skip_ws_drop_shorter [of 1 r1] by linarith
  from *(5) show ?case
  proof
    assume "r = drop 1 (skip_ws q)"
    then show ?thesis using q drop_skip_ws_shorter [of 1 q] by simp
  next
    assume more: "take 1 (skip_ws q) = [44] \<and> take 1 (skip_ws q) \<noteq> [125] \<and> length q < length s
      \<and> parse_members (skip_ws (drop 1 (skip_ws q))) (dict_set acc k w) = Some (v, r)"
    have "length r < length (skip_ws (drop 1 (skip_ws q)))"
      by (rule "3.IH"(2) [OF _ *(2) refl _ *(4) refl]) (use * more in auto)
    then show ?thesis using q skip_ws_drop_shorter [of 1 q] by linarith
  qed
qed

subsection \<open>Round trip\<close>

text \<open>Documents the round trip covers: strings of Unicode scalar values (a pair of lone
  surrogates would come back as one character), integers within Python's limit of digits,
  no floats, and objects without repeated keys.\<close>

definition scalar_value :: "nat \<Rightarrow> bool" where
  "scalar_value c \<longleftrightarrow> c < 55296 \<or> 57343 < c \<and> c < 1114112"

definition str_ok :: "pystr \<Rightarrow> bool" where
  "str_ok s = list_all scalar_value s"

lemma str_ok_py [simp]: "str_ok (py s)"
  using py_less_256 [of s] unfolding str_ok_def
  by (rule list.pred_mono_strong) (simp add: scalar_value_def)

definition int_ok :: "int \<Rightarrow> bool" where
  "int_ok i \<longleftrightarrow> length (dec_nat (nat \<bar>i\<bar>)) \<le> 4300"

fun json_ok :: "json \<Rightarrow> bool" where
  "json_ok JNull = True"
| "json_ok (JBool b) = True"
| "json_ok (JInt i) = int_ok i"
| "json_ok (JFloat x) = False"
| "json_ok (JStr s) = str_ok s"
| "json_ok (JList xs) = list_all json_ok xs"
| "json_ok (JObj d) = (dict_ok d \<and> list_all (\<lambda>(s, v). str_ok s \<and> json_ok v) d)"

lemma parse_hex4_hex4: "n < 65536 \<Longrightarrow> parse_hex4 (hex4 n @ t) = Some (n, t)"
proof -
  assume n: "n < 65536"
  have "4096 * (n div 4096 mod 16) + 256 * (n div 256 mod 16) + 16 * (n div 16 mod 16) + n mod 16 = n"
  proof -
    have 1: "n div 16 div 16 = n div 256" "n div 256 div 16 = n div 4096"
      by (simp_all add: div_mult2_eq [symmetric])
    have "n div 4096 < 16" using n by simp
    then have "n div 4096 mod 16 = n div 4096" by simp
    then show ?thesis
      using div_mult_mod_eq [of n 16] div_mult_mod_eq [of "n div 16" 16]
        div_mult_mod_eq [of "n div 256" 16] unfolding 1 by linarith
  qed
  moreover have "hex_val (hex_digit (x mod 16)) = Some (x mod 16)" for x by simp
  ultimately show ?thesis
    by (simp only: hex4_def append.simps parse_hex4.simps option.case prod.case)
qed

lemma parse_escape_dump:
  assumes "scalar_value c" "\<not> (32 \<le> c \<and> c < 127) \<or> c = 34 \<or> c = 92"
  shows "\<exists>r. dump_char c = 92 # r \<and> parse_escape (r @ t) = Some (c, t)"
proof (cases "c < 65536")
  case True
  have "c < 55296 \<or> 56319 < c" using assms(1) by (auto simp: scalar_value_def)
  then show ?thesis
    using assms(2) True parse_hex4_hex4 [of c t]
    by (auto simp: dump_char_def parse_escape_def simple_escape_def)
next
  case False
  define u v where "u = 55296 + (c - 65536) div 1024" and "v = 56320 + (c - 65536) mod 1024"
  have c: "c < 1114112" using assms(1) False by (auto simp: scalar_value_def)
  then have u: "55296 \<le> u" "u \<le> 56319" using False by (simp_all add: u_def)
  have v: "56320 \<le> v" "v \<le> 57343" by (simp_all add: v_def)
  have "65536 + (u - 55296) * 1024 + (v - 56320) = c"
    using False by (simp add: u_def v_def)
  moreover have "dump_char c = 92 # 117 # hex4 u @ 92 # 117 # hex4 v"
    using False by (simp add: dump_char_def u_def v_def)
  ultimately show ?thesis
    using u v parse_hex4_hex4 [of u "92 # 117 # hex4 v @ t"] parse_hex4_hex4 [of v t]
    by (simp add: parse_escape_def)
qed

lemma parse_string_dump:
  "str_ok s \<Longrightarrow> parse_string (concat (map dump_char s) @ 34 # t) = Some (s, t)"
proof (induction s)
  case Nil
  then show ?case by simp
next
  case (Cons c s)
  then have c: "scalar_value c" and IH: "parse_string (concat (map dump_char s) @ 34 # t) = Some (s, t)"
    by (auto simp: str_ok_def)
  show ?case
  proof (cases "32 \<le> c \<and> c < 127 \<and> c \<noteq> 34 \<and> c \<noteq> 92")
    case True
    then have "dump_char c = [c]" by (simp add: dump_char_def)
    then show ?thesis using IH True by simp
  next
    case False
    then obtain r where "dump_char c = 92 # r"
      "parse_escape (r @ concat (map dump_char s) @ 34 # t) = Some (c, concat (map dump_char s) @ 34 # t)"
      using parse_escape_dump [OF c, of "concat (map dump_char s) @ 34 # t"] by blast
    then show ?thesis using IH by simp
  qed
qed

text \<open>What may follow a value in a document.\<close>

definition stops :: "pystr \<Rightarrow> bool" where
  "stops r \<longleftrightarrow> r = [] \<or> hd r \<in> {10, 44, 93, 125}"

lemma stops_simps [simp]: "stops []" "stops (10 # r)" "stops (44 # r)" "stops (93 # r)" "stops (125 # r)"
  by (simp_all add: stops_def)

lemma take_int_dec:
  assumes "stops r"
  shows "take_int (dec_nat n @ r) = Some (dec_nat n, r)"
proof (cases "n = 0")
  case True
  then show ?thesis by (simp add: take_int_def)
next
  case False
  obtain c s where c: "dec_nat n = c # s" by (cases "dec_nat n") auto
  have *: "c \<noteq> 48" "is_digit c"
    using dec_nat_hd [of n] dec_nat_digits [of n] False c by auto
  have r: "takeWhile is_digit r = []" "dropWhile is_digit r = r"
    using assms by (cases r; auto simp: stops_def is_digit_def)+
  have "\<And>x. x \<in> set (dec_nat n) \<Longrightarrow> is_digit x"
    using dec_nat_digits [of n] by (simp add: list_all_iff)
  then have "takeWhile is_digit (dec_nat n @ r) = dec_nat n" "dropWhile is_digit (dec_nat n @ r) = r"
    by (simp_all add: r)
  then show ?thesis using * c by (simp add: take_int_def)
qed

lemma parse_unsigned_dec:
  assumes "stops r" "length (dec_nat n) \<le> 4300"
  shows "parse_unsigned neg (dec_nat n @ r) = Some (JInt (if neg then - int n else int n), r)"
proof -
  have "take_frac r = ([], r)" using assms by (cases r) (auto simp: take_frac_def stops_def)
  moreover have "take_exp r = (None, r)" using assms by (cases r) (auto simp: take_exp_def stops_def)
  ultimately show ?thesis
    using assms by (simp add: parse_unsigned_def take_int_dec number_of_def)
qed

lemma dec_nat_hd_digit: "\<exists>c s. dec_nat n = c # s \<and> 48 \<le> c \<and> c \<le> 57"
  using dec_nat_digits [of n] by (cases "dec_nat n") (auto simp: is_digit_def)

lemma parse_number_dec:
  assumes "stops r" "int_ok i"
  shows "parse_number (dec_int i @ r) = Some (JInt i, r)"
proof (cases "i < 0")
  case True
  then show ?thesis
    using assms parse_unsigned_dec [of r "nat (- i)" True]
    by (simp add: parse_number_def dec_int_def int_ok_def)
next
  case False
  then show ?thesis
    using assms parse_unsigned_dec [of r "nat i" False] dec_nat_hd_digit [of "nat i"]
    by (auto simp: parse_number_def dec_int_def int_ok_def)
qed

text \<open>Printed values do not start with white space or a closing bracket, so the decoder
  reads them where they stand.\<close>

definition starts_value :: "pystr \<Rightarrow> bool" where
  "starts_value s \<longleftrightarrow> s \<noteq> [] \<and> \<not> is_jws (hd s) \<and> hd s \<noteq> 93 \<and> hd s \<noteq> 125"

lemma starts_value_dumps: "json_ok v \<Longrightarrow> starts_value (json_dumps c k v)"
proof (cases v)
  case (JInt i)
  then show ?thesis
    using dec_nat_hd_digit [of "nat i"]
    by (auto simp: starts_value_def dec_int_def is_jws_def)
qed (auto simp: starts_value_def is_jws_def py_def dump_str_def)

lemma skip_ws_id: "starts_value s \<Longrightarrow> skip_ws (s @ t) = s @ t"
  by (cases s) (auto simp: starts_value_def skip_ws_def)

lemma skip_ws_append: "list_all is_jws w \<Longrightarrow> skip_ws (w @ s) = skip_ws s"
  by (induction w) (auto simp: skip_ws_def)

lemma skip_ws_stop [simp]: "skip_ws (44 # r) = 44 # r" "skip_ws (93 # r) = 93 # r"
  "skip_ws (125 # r) = 125 # r" "skip_ws (58 # r) = 58 # r" "skip_ws (34 # r) = 34 # r"
  by (simp_all add: skip_ws_def is_jws_def)

text \<open>Separators: the mark and white space.\<close>

definition sep_ok :: "nat \<Rightarrow> pystr \<Rightarrow> bool" where
  "sep_ok m s \<longleftrightarrow> s \<noteq> [] \<and> hd s = m \<and> list_all is_jws (tl s)"

lemma sep_okE: "sep_ok m s \<Longrightarrow> (\<And>w. s = m # w \<Longrightarrow> list_all is_jws w \<Longrightarrow> P) \<Longrightarrow> P"
  by (cases s) (auto simp: sep_ok_def)

text \<open>\<open>reads pr v\<close>: what \<open>pr\<close> prints for \<open>v\<close> is decoded to \<open>v\<close>, wherever it may stand.\<close>

definition reads :: "(json \<Rightarrow> pystr) \<Rightarrow> json \<Rightarrow> bool" where
  "reads pr v = (starts_value (pr v) \<and> (\<forall>r. stops r \<longrightarrow> parse_value (pr v @ r) = Some (v, r)))"

lemma readsD: "reads pr v \<Longrightarrow> stops r \<Longrightarrow> parse_value (pr v @ r) = Some (v, r)"
  by (simp add: reads_def)

text \<open>What may stand before a closing bracket.\<close>

definition closes :: "pystr \<Rightarrow> bool" where
  "closes w = (list_all is_jws w \<and> (w = [] \<or> hd w = 10))"

lemma closesD: "closes w \<Longrightarrow> stops (w @ 93 # r)" "closes w \<Longrightarrow> stops (w @ 125 # r)"
  "closes w \<Longrightarrow> skip_ws (w @ s) = skip_ws s"
  unfolding closes_def by (cases w, simp, simp add: stops_def, cases w, simp, simp add: stops_def, blast intro: skip_ws_append)

lemma after_sep:
  "sep_ok m c \<Longrightarrow> starts_value s \<Longrightarrow> skip_ws (drop 1 (c @ s @ t)) = s @ t"
  by (auto elim!: sep_okE simp: skip_ws_append skip_ws_id)

lemma sep_skip: "sep_ok m c \<Longrightarrow> m = 44 \<or> m = 58 \<Longrightarrow> skip_ws (c @ t) = c @ t \<and> take 1 (c @ t) = [m]"
  by (auto elim!: sep_okE)

lemma reads_elems:
  assumes c: "sep_ok 44 c" and w: "closes w"
  shows "xs \<noteq> [] \<Longrightarrow> list_all (reads pr) xs \<Longrightarrow>
    parse_elems (py_join c (map pr xs) @ w @ 93 # r) acc = Some (JList (acc @ xs), r)"
proof (induction xs arbitrary: acc)
  case Nil
  then show ?case by simp
next
  case (Cons x xs)
  from Cons.prems have x: "reads pr x" by simp
  show ?case
  proof (cases xs)
    case Nil
    then show ?thesis
      using readsD [OF x closesD(1) [OF w]] by (simp add: parse_elems.simps closesD(3) [OF w])
  next
    case (Cons y ys)
    define J where "J = py_join c (map pr xs)"
    have join: "py_join c (map pr (x # xs)) @ w @ 93 # r = pr x @ c @ J @ w @ 93 # r"
      by (simp add: Cons J_def)
    obtain J' where J': "J = pr y @ J'"
      by (cases ys) (simp_all add: J_def Cons)
    have y: "starts_value (pr y)" using Cons.prems Cons by (simp add: reads_def)
    have rest: "stops (c @ J @ w @ 93 # r)" using c by (auto elim!: sep_okE)
    have sk: "skip_ws (drop 1 (c @ J @ w @ 93 # r)) = J @ w @ 93 # r"
      using after_sep [OF c y, of "J' @ w @ 93 # r"] J' by simp
    have sc: "skip_ws (c @ J @ w @ 93 # r) = c @ J @ w @ 93 # r" "take 1 (c @ J @ w @ 93 # r) = [44]"
      using sep_skip [OF c] by blast+
    have "pr x \<noteq> []" using x by (simp add: reads_def starts_value_def)
    then have len: "length (c @ J @ w @ 93 # r) < length (pr x @ c @ J @ w @ 93 # r)"
      by simp
    have "parse_elems (J @ w @ 93 # r) (acc @ [x]) = Some (JList ((acc @ [x]) @ xs), r)"
      unfolding J_def using Cons.IH [of "acc @ [x]"] Cons.prems Cons by simp
    then show ?thesis
      unfolding join
      by (subst parse_elems.simps)
        (simp only: readsD [OF x rest] option.case prod.case sc sk len, simp)
  qed
qed

lemma reads_members:
  assumes c: "sep_ok 44 c" and k: "sep_ok 58 k" and w: "closes w"
  shows "d \<noteq> [] \<Longrightarrow> list_all (\<lambda>(s, v). str_ok s \<and> reads pr v) d \<Longrightarrow> dict_ok (acc @ d) \<Longrightarrow>
    parse_members (py_join c (map (\<lambda>(s, v). dump_str s @ k @ pr v) d) @ w @ 125 # r) acc
      = Some (JObj (acc @ d), r)"
proof (induction d arbitrary: acc)
  case Nil
  then show ?case by simp
next
  case (Cons p d)
  obtain s v where p: "p = (s, v)" by (cases p)
  from Cons.prems p have v: "reads pr v" "str_ok s" by simp_all
  have set1: "dict_set acc s v = acc @ [p]"
    using dict_update_Nil_ok [of acc "[p]"] Cons.prems(3) p by (simp add: dict_ok_def)
  define T where "T = (if d = [] then w @ 125 # r
    else c @ py_join c (map (\<lambda>(s, v). dump_str s @ k @ pr v) d) @ w @ 125 # r)"
  have join: "py_join c (map (\<lambda>(s, v). dump_str s @ k @ pr v) (p # d)) @ w @ 125 # r
      = 34 # concat (map dump_char s) @ 34 # k @ pr v @ T"
    by (cases d) (simp_all add: p T_def dump_str_def)
  have str: "parse_string (concat (map dump_char s) @ 34 # k @ pr v @ T) = Some (s, k @ pr v @ T)"
    by (rule parse_string_dump [OF v(2)])
  have col: "skip_ws (k @ pr v @ T) = k @ pr v @ T" "take 1 (k @ pr v @ T) = [58]"
    using sep_skip [OF k] by blast+
  have val: "skip_ws (drop 1 (k @ pr v @ T)) = pr v @ T"
    by (rule after_sep [OF k]) (use v(1) in \<open>simp add: reads_def\<close>)
  have st: "stops T" using c closesD(2) [OF w] by (auto simp: T_def elim!: sep_okE)
  have pv: "parse_value (pr v @ T) = Some (v, T)"
    by (rule readsD [OF v(1) st])
  have step: "parse_members (34 # concat (map dump_char s) @ 34 # k @ pr v @ T) acc =
    (if take 1 (skip_ws T) = [125] then Some (JObj (acc @ [p]), drop 1 (skip_ws T))
     else if take 1 (skip_ws T) = [44] then parse_members (skip_ws (drop 1 (skip_ws T))) (acc @ [p])
     else None)"
    by (subst parse_members.simps)
      (simp add: str col [simplified] val [simplified] pv set1 less_Suc_eq_le le_add2 trans_le_add2)
  show ?case
  proof (cases d)
    case Nil
    then show ?thesis unfolding join step by (simp add: T_def closesD(3) [OF w])
  next
    case (Cons q d')
    obtain s' v' where q: "q = (s', v')" by (cases q)
    define J where "J = py_join c (map (\<lambda>(s, v). dump_str s @ k @ pr v) d)"
    have T: "T = c @ J @ w @ 125 # r" by (simp add: T_def J_def Cons)
    obtain J' where J': "J = dump_str s' @ J'"
      by (cases d') (simp_all add: J_def Cons q)
    have y: "starts_value (dump_str s')" by (simp add: starts_value_def dump_str_def is_jws_def)
    have sk: "skip_ws (drop 1 T) = J @ w @ 125 # r"
      using after_sep [OF c y, of "J' @ w @ 125 # r"] J' T by simp
    have sc: "skip_ws T = T" "take 1 T = [44]"
      unfolding T using sep_skip [OF c] by blast+
    have "parse_members (J @ w @ 125 # r) (acc @ [p]) = Some (JObj ((acc @ [p]) @ d), r)"
      unfolding J_def using Cons.IH [of "acc @ [p]"] Cons.prems Cons by simp
    then show ?thesis unfolding join step sc sk by simp
  qed
qed

text \<open>A list and an object, printed between brackets with white space \<open>v\<close> and \<open>w\<close> inside them.\<close>

lemma reads_list:
  assumes "sep_ok 44 c" "closes w" "list_all is_jws u" "xs \<noteq> []" "list_all (reads pr) xs"
  shows "parse_value (91 # u @ py_join c (map pr xs) @ w @ 93 # r) = Some (JList xs, r)"
proof -
  obtain y ys where xs: "xs = y # ys" using assms(4) by (cases xs) auto
  obtain J' where J': "py_join c (map pr xs) = pr y @ J'" by (cases ys) (simp_all add: xs)
  have y: "starts_value (pr y)" using assms(5) by (simp add: xs reads_def)
  have "skip_ws (u @ py_join c (map pr xs) @ w @ 93 # r) = py_join c (map pr xs) @ w @ 93 # r"
    using skip_ws_id [OF y, of "J' @ w @ 93 # r"] J' by (simp add: skip_ws_append [OF assms(3)])
  moreover have "take 1 (py_join c (map pr xs) @ w @ 93 # r) \<noteq> [93]"
    using y J' by (cases "pr y") (auto simp: starts_value_def)
  ultimately show ?thesis
    using reads_elems [OF assms(1,2,4,5), of r "[]"] by (simp add: parse_value.simps)
qed

lemma reads_object:
  assumes "sep_ok 44 c" "sep_ok 58 k" "closes w" "list_all is_jws u" "d \<noteq> []"
    "list_all (\<lambda>(s, v). str_ok s \<and> reads pr v) d" "dict_ok d"
  shows "parse_value (123 # u @ py_join c (map (\<lambda>(s, v). dump_str s @ k @ pr v) d) @ w @ 125 # r) = Some (JObj d, r)"
proof -
  define J where "J = py_join c (map (\<lambda>(s, v). dump_str s @ k @ pr v) d)"
  obtain s v d' where d: "d = (s, v) # d'" using assms(5) by (cases d) auto
  obtain J' where J': "J = 34 # J'" by (cases d') (simp_all add: J_def d dump_str_def)
  have "parse_members (J @ w @ 125 # r) [] = Some (JObj d, r)"
    unfolding J_def using reads_members [OF assms(1-3,5,6), of "[]" r] assms(7) by simp
  moreover have "skip_ws (u @ J @ w @ 125 # r) = J @ w @ 125 # r"
    by (simp add: J' skip_ws_append [OF assms(4)])
  ultimately show ?thesis unfolding J_def [symmetric] by (simp add: parse_value.simps J')
qed

lemma reads_scalar:
  assumes "json_ok v" "\<nexists>xs. v = JList xs" "\<nexists>d. v = JObj d"
  shows "reads (json_dumps c k) v"
proof (cases v)
  case JNull
  then show ?thesis
    by (simp add: reads_def starts_value_def is_jws_def parse_value.simps py_def parse_scalar_def literal_of_def py_startswith_def)
next
  case (JBool b)
  then show ?thesis
    by (simp add: reads_def starts_value_def is_jws_def parse_value.simps py_def parse_scalar_def literal_of_def py_startswith_def)
next
  case (JInt i)
  have "parse_value (dec_int i @ r) = Some (JInt i, r)" if "stops r" for r
  proof -
    obtain a s where a: "dec_int i = a # s" "a = 45 \<and> (\<exists>b s'. s = b # s' \<and> 48 \<le> b \<and> b \<le> 57) \<or> 48 \<le> a \<and> a \<le> 57"
      using dec_nat_hd_digit [of "nat i"] dec_nat_hd_digit [of "nat (- i)"]
      by (cases "i < 0") (auto simp: dec_int_def)
    then have "parse_literal literal_of (dec_int i @ r) = None"
      by (auto simp: literal_of_def py_startswith_def py_def)
    then show ?thesis
      using a parse_number_dec [OF that, of i] JInt assms(1)
      by (auto simp: parse_value.simps parse_scalar_def)
  qed
  then show ?thesis using JInt starts_value_dumps [OF assms(1), of c k] by (simp add: reads_def)
next
  case (JStr s)
  then show ?thesis
    using parse_string_dump [of s] assms(1) starts_value_dumps [OF assms(1), of c k]
    by (simp add: reads_def parse_value.simps dump_str_def)
qed (use assms in auto)

lemma reads_all: "sep_ok 44 c \<Longrightarrow> sep_ok 58 k \<Longrightarrow> json_ok v \<Longrightarrow> reads (json_dumps c k) v"
proof (induction v)
  case (JList xs)
  have "parse_value (91 # [] @ py_join c (map (json_dumps c k) xs) @ [] @ 93 # r) = Some (JList xs, r)" if "xs \<noteq> []" for r
    using JList that by (intro reads_list) (auto simp: closes_def list_all_iff)
  then show ?case
    using starts_value_dumps [OF JList.prems(3), of c k] by (cases "xs = []") (simp_all add: reads_def parse_value.simps)
next
  case (JObj d)
  have "parse_value (123 # [] @ py_join c (map (\<lambda>(s, v). dump_str s @ k @ json_dumps c k v) d) @ [] @ 125 # r)
      = Some (JObj d, r)" if "d \<noteq> []" for r
    using JObj that by (intro reads_object) (fastforce simp: closes_def list_all_iff)+
  then show ?case
    using starts_value_dumps [OF JObj.prems(3), of c k] by (cases "d = []") (simp_all add: reads_def parse_value.simps)
qed (rule reads_scalar; simp)+

theorem json_loads_dumps:
  assumes "sep_ok 44 c" "sep_ok 58 k" "json_ok v"
  shows "json_loads (json_dumps c k v) = Some v"
proof -
  have "skip_ws (json_dumps c k v) = json_dumps c k v"
    using skip_ws_id [OF starts_value_dumps [OF assms(3), of c k], of "[]"] by simp
  then show ?thesis
    using readsD [OF reads_all [OF assms], of "[]"] by (simp add: json_loads_def skip_ws_def)
qed

subsection \<open>Printing over several lines\<close>

text \<open>\<open>json.dumps(v, indent=n)\<close>, a value at level \<open>l\<close>.\<close>

definition new_line :: "nat \<Rightarrow> nat \<Rightarrow> pystr" where
  "new_line n l = 10 # replicate (n * l) 32"

fun dumps_indent :: "nat \<Rightarrow> nat \<Rightarrow> json \<Rightarrow> pystr" where
  "dumps_indent n l (JList xs) =
    (if xs = [] then [91, 93]
     else 91 # new_line n (Suc l) @ py_join (44 # new_line n (Suc l)) (map (dumps_indent n (Suc l)) xs)
       @ new_line n l @ [93])"
| "dumps_indent n l (JObj d) =
    (if d = [] then [123, 125]
     else 123 # new_line n (Suc l) @ py_join (44 # new_line n (Suc l))
         (map (\<lambda>(s, v). dump_str s @ sep_colon @ dumps_indent n (Suc l) v) d) @ new_line n l @ [125])"
| "dumps_indent n l v = json_dumps sep_comma sep_colon v"

lemma seps_ok: "sep_ok 44 sep_comma" "sep_ok 58 sep_colon" "sep_ok 44 [44]" "sep_ok 58 [58]"
  by (simp_all add: sep_ok_def sep_comma_def sep_colon_def py_def is_jws_def)

lemma loads_dumps_default: "json_ok v \<Longrightarrow> json_loads (dumps_default v) = Some v"
  by (simp add: dumps_default_def json_loads_dumps seps_ok)

lemma new_line_ok: "sep_ok 44 (44 # new_line n l)" "closes (new_line n l)" "list_all is_jws (new_line n l)"
  by (simp_all add: new_line_def sep_ok_def closes_def is_jws_def list_all_iff)

lemma reads_indent_scalar:
  assumes "json_ok v" "\<nexists>xs. v = JList xs" "\<nexists>d. v = JObj d"
  shows "reads (dumps_indent n l) v"
proof -
  have "dumps_indent n l v = json_dumps sep_comma sep_colon v" using assms(2,3) by (cases v) auto
  then show ?thesis using reads_scalar [OF assms, of sep_comma sep_colon] unfolding reads_def by simp
qed

lemma reads_indent: "json_ok v \<Longrightarrow> reads (dumps_indent n l) v"
proof (induction v arbitrary: l)
  case (JList xs)
  have "parse_value (91 # new_line n (Suc l) @ py_join (44 # new_line n (Suc l)) (map (dumps_indent n (Suc l)) xs)
      @ new_line n l @ 93 # r) = Some (JList xs, r)" if "xs \<noteq> []" for r
    using JList that by (intro reads_list new_line_ok) (auto simp: list_all_iff)
  then show ?case by (simp add: reads_def parse_value.simps starts_value_def is_jws_def)
next
  case (JObj d)
  have "parse_value (123 # new_line n (Suc l) @ py_join (44 # new_line n (Suc l))
      (map (\<lambda>(s, v). dump_str s @ sep_colon @ dumps_indent n (Suc l) v) d) @ new_line n l @ 125 # r)
      = Some (JObj d, r)" if "d \<noteq> []" for r
    using JObj that by (intro reads_object new_line_ok seps_ok) (fastforce simp: list_all_iff)+
  then show ?case by (simp add: reads_def parse_value.simps starts_value_def is_jws_def)
qed (rule reads_indent_scalar; simp)+

text \<open>A document written over several lines, with a newline at its end, is read back.\<close>

theorem loads_indented:
  assumes "json_ok v"
  shows "json_loads (dumps_indent n 0 v @ [10]) = Some v"
proof -
  have r: "reads (dumps_indent n 0) v" by (rule reads_indent [OF assms])
  then have "skip_ws (dumps_indent n 0 v @ [10]) = dumps_indent n 0 v @ [10]"
    by (intro skip_ws_id) (simp add: reads_def)
  then show ?thesis
    using readsD [OF r, of "[10]"] by (simp add: json_loads_def skip_ws_def is_jws_def)
qed

end
