(* ===== verification/Const.thy ===== *)
theory Const imports PyStr begin

section \<open>The constants of the integration\<close>

text \<open>
  \<open>const.py\<close>, in its order: every literal under its own name (collected in
  \<open>const_defs\<close>), the string enumerations as datatypes with their value and their set of
  values, and the builders of topics and unique ids. A \<open>frozenset\<close> or a tuple is a list, a
  \<open>dict\<close> an association list.
\<close>

subsection \<open>Identity of the integration\<close>

definition DOMAIN :: pystr where [const_defs]: "DOMAIN = py ''homekey_household''"
definition NAME :: pystr where [const_defs]: "NAME = py ''HomeKey Household''"
definition MANUFACTURER :: pystr where [const_defs]: "MANUFACTURER = py ''HomeKey-ESP32''"
definition MODEL :: pystr where [const_defs]: "MODEL = py ''HomeKey Node''"

subsection \<open>Configuration keys\<close>

definition CONF_HOUSEHOLD_ID :: pystr where [const_defs]: "CONF_HOUSEHOLD_ID = py ''household_id''"
definition CONF_HOUSEHOLD_NAME :: pystr where [const_defs]: "CONF_HOUSEHOLD_NAME = py ''household_name''"
definition CONF_RECOVERY_SECRET :: pystr where [const_defs]: "CONF_RECOVERY_SECRET = py ''recovery_secret''"
definition CONF_SALT :: pystr where [const_defs]: "CONF_SALT = py ''salt''"
definition CONF_COMMAND_CONTROL :: pystr where [const_defs]: "CONF_COMMAND_CONTROL = py ''command_control''"
definition CONF_LEGACY_CLIENT_ID_PREFIX :: pystr where [const_defs]: "CONF_LEGACY_CLIENT_ID_PREFIX = py ''legacy_client_id_prefix''"
definition DEFAULT_LEGACY_CLIENT_ID_PREFIX :: pystr where [const_defs]: "DEFAULT_LEGACY_CLIENT_ID_PREFIX = py ''ESP_''"
definition DEFAULT_COMMAND_CONTROL :: bool where [const_defs]: "DEFAULT_COMMAND_CONTROL = True"

subsection \<open>Transports\<close>

definition CONF_TRANSPORT :: pystr where [const_defs]: "CONF_TRANSPORT = py ''transport''"
definition TRANSPORT_MQTT :: pystr where [const_defs]: "TRANSPORT_MQTT = py ''mqtt''"
definition TRANSPORT_DIRECT :: pystr where [const_defs]: "TRANSPORT_DIRECT = py ''direct''"
definition CONF_HOST :: pystr where [const_defs]: "CONF_HOST = py ''host''"
definition CONF_PORT :: pystr where [const_defs]: "CONF_PORT = py ''port''"
definition CONF_FINGERPRINT :: pystr where [const_defs]: "CONF_FINGERPRINT = py ''fingerprint''"
definition CONF_USERNAME :: pystr where [const_defs]: "CONF_USERNAME = py ''username''"
definition CONF_PASSWORD :: pystr where [const_defs]: "CONF_PASSWORD = py ''password''"
definition CONF_NODE_ID :: pystr where [const_defs]: "CONF_NODE_ID = py ''node_id''"
definition CONF_NODE_NAME :: pystr where [const_defs]: "CONF_NODE_NAME = py ''node_name''"
definition CONF_MODEL :: pystr where [const_defs]: "CONF_MODEL = py ''model''"

subsection \<open>Discovery\<close>

definition ZEROCONF_TYPE :: pystr where [const_defs]: "ZEROCONF_TYPE = py ''_homekey._tcp.local.''"
definition ZEROCONF_KEY_ID :: pystr where [const_defs]: "ZEROCONF_KEY_ID = py ''id''"
definition ZEROCONF_KEY_NAME :: pystr where [const_defs]: "ZEROCONF_KEY_NAME = py ''name''"
definition ZEROCONF_KEY_MODEL :: pystr where [const_defs]: "ZEROCONF_KEY_MODEL = py ''model''"
definition ZEROCONF_KEY_VERSION :: pystr where [const_defs]: "ZEROCONF_KEY_VERSION = py ''ver''"
definition ZEROCONF_KEY_PROTOCOL :: pystr where [const_defs]: "ZEROCONF_KEY_PROTOCOL = py ''proto''"
definition ZEROCONF_KEY_FINGERPRINT :: pystr where [const_defs]: "ZEROCONF_KEY_FINGERPRINT = py ''fp''"
definition ZEROCONF_KEY_CONFIG :: pystr where [const_defs]: "ZEROCONF_KEY_CONFIG = py ''cfg''"
definition ZEROCONF_KEY_TLS :: pystr where [const_defs]: "ZEROCONF_KEY_TLS = py ''tls''"
definition ZEROCONF_CFG_READWRITE :: pystr where [const_defs]: "ZEROCONF_CFG_READWRITE = py ''rw''"
definition HA_API_PROTOCOL :: int where [const_defs]: "HA_API_PROTOCOL = 1"

subsection \<open>Direct transport\<close>

definition DIRECT_POLL_INTERVAL_SECONDS :: int where [const_defs]: "DIRECT_POLL_INTERVAL_SECONDS = 30"
definition DIRECT_OFFLINE_AFTER_FAILURES :: nat where [const_defs]: "DIRECT_OFFLINE_AFTER_FAILURES = 3"
definition DEFAULT_HTTPS_PORT :: int where [const_defs]: "DEFAULT_HTTPS_PORT = 443"
definition DEFAULT_WEB_USERNAME :: pystr where [const_defs]: "DEFAULT_WEB_USERNAME = py ''admin''"

subsection \<open>The MQTT integration\<close>

definition MQTT_DOMAIN :: pystr where [const_defs]: "MQTT_DOMAIN = py ''mqtt''"
definition CONF_MQTT_BROKER :: pystr where [const_defs]: "CONF_MQTT_BROKER = py ''broker''"
definition CONF_MQTT_PORT :: pystr where [const_defs]: "CONF_MQTT_PORT = py ''port''"
definition CONF_MQTT_USERNAME :: pystr where [const_defs]: "CONF_MQTT_USERNAME = py ''username''"
definition CONF_MQTT_PASSWORD :: pystr where [const_defs]: "CONF_MQTT_PASSWORD = py ''password''"
definition CONF_MQTT_PROTOCOL :: pystr where [const_defs]: "CONF_MQTT_PROTOCOL = py ''protocol''"
definition DEFAULT_MQTT_BROKER :: pystr where [const_defs]: "DEFAULT_MQTT_BROKER = py ''127.0.0.1''"
definition DEFAULT_MQTT_PORT :: int where [const_defs]: "DEFAULT_MQTT_PORT = 1883"
definition DEFAULT_MQTT_PROTOCOL :: pystr where [const_defs]: "DEFAULT_MQTT_PROTOCOL = py ''5''"
definition TARGET_FIRMWARE_VERSION :: pystr where [const_defs]: "TARGET_FIRMWARE_VERSION = py ''0.10.0''"

subsection \<open>Topics\<close>

definition TOPIC_ROOT :: pystr where [const_defs]: "TOPIC_ROOT = py ''homekey''"
definition TOPIC_HOUSEHOLD :: pystr where [const_defs]: "TOPIC_HOUSEHOLD = py ''household''"
definition TOPIC_NODES :: pystr where [const_defs]: "TOPIC_NODES = py ''nodes''"
definition TOPIC_STATUS :: pystr where [const_defs]: "TOPIC_STATUS = py ''status''"
definition TOPIC_STATE :: pystr where [const_defs]: "TOPIC_STATE = py ''state''"
definition TOPIC_HEALTH :: pystr where [const_defs]: "TOPIC_HEALTH = py ''health''"
definition TOPIC_SECURITY :: pystr where [const_defs]: "TOPIC_SECURITY = py ''security''"
definition TOPIC_BACKUP_STATUS :: pystr where [const_defs]: "TOPIC_BACKUP_STATUS = py ''backup/status''"
definition TOPIC_BACKUP_LAST :: pystr where [const_defs]: "TOPIC_BACKUP_LAST = py ''backup/last''"
definition TOPIC_LAST_AUTH :: pystr where [const_defs]: "TOPIC_LAST_AUTH = py ''last_auth''"
definition TOPIC_GUEST_STATUS :: pystr where [const_defs]: "TOPIC_GUEST_STATUS = py ''guest/status''"
definition TOPIC_LOCK_LAST :: pystr where [const_defs]: "TOPIC_LOCK_LAST = py ''lock/last''"

subsection \<open>Backups\<close>

definition BACKUP_KEEP :: nat where [const_defs]: "BACKUP_KEEP = 7"
definition BACKUP_INTERVAL_SECONDS :: int where [const_defs]: "BACKUP_INTERVAL_SECONDS = 24 * 60 * 60"
definition BACKUP_STORE_VERSION :: int where [const_defs]: "BACKUP_STORE_VERSION = 1"
definition CONF_BACKUP_INCLUDE_CREDENTIALS :: pystr where [const_defs]: "CONF_BACKUP_INCLUDE_CREDENTIALS = py ''backup_include_credentials''"
definition DEFAULT_BACKUP_INCLUDE_CREDENTIALS :: bool where [const_defs]: "DEFAULT_BACKUP_INCLUDE_CREDENTIALS = False"
definition SERVICE_CREATE_BACKUP :: pystr where [const_defs]: "SERVICE_CREATE_BACKUP = py ''create_backup''"
definition SERVICE_RESTORE_BACKUP :: pystr where [const_defs]: "SERVICE_RESTORE_BACKUP = py ''restore_backup''"
definition SERVICE_GUEST_TEACH :: pystr where [const_defs]: "SERVICE_GUEST_TEACH = py ''guest_teach''"
definition SERVICE_GUEST_REVOKE :: pystr where [const_defs]: "SERVICE_GUEST_REVOKE = py ''guest_revoke''"
definition SERVICE_GUEST_CANCEL :: pystr where [const_defs]: "SERVICE_GUEST_CANCEL = py ''guest_cancel''"
definition ENTITY_BUTTON_BACKUP :: pystr where [const_defs]: "ENTITY_BUTTON_BACKUP = py ''backup_now''"

subsection \<open>Command and reserved topics\<close>

definition TOPIC_CMD_LOCK :: pystr where [const_defs]: "TOPIC_CMD_LOCK = py ''command/lock''"
definition TOPIC_CMD_UNLOCK :: pystr where [const_defs]: "TOPIC_CMD_UNLOCK = py ''command/unlock''"
definition RESERVED_TOPICS :: "pystr list" where [const_defs]: "RESERVED_TOPICS = [py ''events'', py ''backup/request'', py ''backup/data'', py ''restore/request'', py ''restore/status'']"
definition JSON_SUBTOPICS :: "pystr list" where [const_defs]: "JSON_SUBTOPICS = [TOPIC_STATE, TOPIC_HEALTH, TOPIC_BACKUP_LAST, TOPIC_LAST_AUTH, TOPIC_LOCK_LAST, TOPIC_GUEST_STATUS]"
definition PLAIN_SUBTOPICS :: "pystr list" where [const_defs]: "PLAIN_SUBTOPICS = [TOPIC_STATUS, TOPIC_SECURITY, TOPIC_BACKUP_STATUS]"
definition LEGACY_STATUS_SUFFIX :: pystr where [const_defs]: "LEGACY_STATUS_SUFFIX = py ''status''"
definition LEGACY_STATE_SUFFIX :: pystr where [const_defs]: "LEGACY_STATE_SUFFIX = py ''homekit/state''"
definition LEGACY_AUTH_SUFFIX :: pystr where [const_defs]: "LEGACY_AUTH_SUFFIX = py ''homekey/auth''"
definition LEGACY_COMMAND_TOPICS :: "pystr list" where [const_defs]: "LEGACY_COMMAND_TOPICS = [py ''homekit/set_state'', py ''homekit/set_target_state'', py ''homekit/set_current_state'', py ''homekit/set_battery_lvl'', py ''homekit/set_custom_state'']"

definition node_base :: "pystr \<Rightarrow> pystr \<Rightarrow> pystr" where
  "node_base household_id node_id =
    TOPIC_ROOT @ py ''/'' @ TOPIC_HOUSEHOLD @ py ''/'' @ household_id @ py ''/'' @ TOPIC_NODES @ py ''/'' @ node_id"


definition node_topic :: "pystr \<Rightarrow> pystr \<Rightarrow> pystr option \<Rightarrow> pystr" where
  "node_topic household_id node_id subtopic =
    (let base = node_base household_id node_id
     in case subtopic of
          None \<Rightarrow> base
        | Some t \<Rightarrow> if t = [] then base else base @ py ''/'' @ t)"

definition TOPIC_SUBSCRIBE_ALL :: pystr where [const_defs]: "TOPIC_SUBSCRIBE_ALL = TOPIC_ROOT @ py ''/'' @ TOPIC_HOUSEHOLD @ py ''/#''"
definition TOPIC_SUBSCRIBE_NODES :: pystr where [const_defs]: "TOPIC_SUBSCRIBE_NODES = TOPIC_ROOT @ py ''/'' @ TOPIC_HOUSEHOLD @ py ''/+/'' @ TOPIC_NODES @ py ''/#''"

definition legacy_status_subscribe :: "pystr \<Rightarrow> pystr" where
  "legacy_status_subscribe prefix = py ''+/'' @ LEGACY_STATUS_SUFFIX"


subsection \<open>Command protocol\<close>

definition COMMAND_KEY_LABEL :: pystr where [const_defs]: "COMMAND_KEY_LABEL = py ''HK-HOUSEHOLD-CMD-v1''"
definition COMMAND_KEY_LENGTH :: nat where [const_defs]: "COMMAND_KEY_LENGTH = 32"
definition COMMAND_MAX_SKEW_SECONDS :: int where [const_defs]: "COMMAND_MAX_SKEW_SECONDS = 300"
definition COMMAND_REPLAY_WINDOW :: nat where [const_defs]: "COMMAND_REPLAY_WINDOW = 32"
definition COMMAND_NONCE_BYTES :: nat where [const_defs]: "COMMAND_NONCE_BYTES = 16"
definition ACTION_LOCK :: pystr where [const_defs]: "ACTION_LOCK = py ''lock''"
definition ACTION_UNLOCK :: pystr where [const_defs]: "ACTION_UNLOCK = py ''unlock''"
definition COMMAND_ACTIONS :: "(pystr \<times> pystr) list" where [const_defs]: "COMMAND_ACTIONS = [(TOPIC_CMD_LOCK, ACTION_LOCK), (TOPIC_CMD_UNLOCK, ACTION_UNLOCK)]"

definition unique_id :: "pystr \<Rightarrow> pystr \<Rightarrow> pystr \<Rightarrow> pystr" where
  "unique_id household_id node_id entity_type =
    household_id @ py ''_'' @ node_id @ py ''_'' @ entity_type"


definition device_identifiers :: "pystr \<Rightarrow> pystr \<Rightarrow> (pystr \<times> pystr \<times> pystr) list" where
  "device_identifiers household_id node_id = [(DOMAIN, household_id, node_id)]"


subsection \<open>Payload keys\<close>

definition KEY_HOUSEHOLD_ID :: pystr where [const_defs]: "KEY_HOUSEHOLD_ID = py ''household_id''"
definition KEY_NODE_ID :: pystr where [const_defs]: "KEY_NODE_ID = py ''node_id''"
definition KEY_NODE_NAME :: pystr where [const_defs]: "KEY_NODE_NAME = py ''node_name''"
definition KEY_NODE_ROLE :: pystr where [const_defs]: "KEY_NODE_ROLE = py ''node_role''"
definition KEY_NODE_STATE :: pystr where [const_defs]: "KEY_NODE_STATE = py ''node_state''"
definition KEY_GENERATION :: pystr where [const_defs]: "KEY_GENERATION = py ''generation''"
definition KEY_FIRMWARE :: pystr where [const_defs]: "KEY_FIRMWARE = py ''firmware_version''"
definition KEY_NETWORK :: pystr where [const_defs]: "KEY_NETWORK = py ''network''"
definition KEY_MQTT :: pystr where [const_defs]: "KEY_MQTT = py ''mqtt''"
definition KEY_MQTT_ERROR :: pystr where [const_defs]: "KEY_MQTT_ERROR = py ''mqtt_error''"
definition KEY_NFC :: pystr where [const_defs]: "KEY_NFC = py ''nfc''"
definition KEY_LOCK_CURRENT :: pystr where [const_defs]: "KEY_LOCK_CURRENT = py ''lock_current''"
definition KEY_LOCK_TARGET :: pystr where [const_defs]: "KEY_LOCK_TARGET = py ''lock_target''"
definition KEY_BACKUP :: pystr where [const_defs]: "KEY_BACKUP = py ''backup''"
definition KEY_CERTIFICATE :: pystr where [const_defs]: "KEY_CERTIFICATE = py ''certificate''"
definition KEY_UPTIME :: pystr where [const_defs]: "KEY_UPTIME = py ''uptime''"
definition KEY_FREE_HEAP :: pystr where [const_defs]: "KEY_FREE_HEAP = py ''free_heap''"
definition KEY_RESET_REASON :: pystr where [const_defs]: "KEY_RESET_REASON = py ''reset_reason''"
definition KEY_SECURITY_OBJECT :: pystr where [const_defs]: "KEY_SECURITY_OBJECT = py ''security''"
definition KEY_SECURITY_ALL_OK :: pystr where [const_defs]: "KEY_SECURITY_ALL_OK = py ''all_ok''"
definition KEY_SECURITY_WARNINGS :: pystr where [const_defs]: "KEY_SECURITY_WARNINGS = py ''warnings''"
definition KEY_BACKUP_STATUS :: pystr where [const_defs]: "KEY_BACKUP_STATUS = py ''status''"
definition KEY_TIMESTAMP :: pystr where [const_defs]: "KEY_TIMESTAMP = py ''timestamp''"
definition KEY_AUTH_TYPE :: pystr where [const_defs]: "KEY_AUTH_TYPE = py ''type''"
definition KEY_AUTH_RESULT :: pystr where [const_defs]: "KEY_AUTH_RESULT = py ''result''"
definition KEY_LOCK_CHANGE_CURRENT :: pystr where [const_defs]: "KEY_LOCK_CHANGE_CURRENT = py ''current''"
definition KEY_LOCK_CHANGE_TARGET :: pystr where [const_defs]: "KEY_LOCK_CHANGE_TARGET = py ''target''"
definition KEY_LOCK_SOURCE :: pystr where [const_defs]: "KEY_LOCK_SOURCE = py ''source''"
definition KEY_AUTH_ISSUER :: pystr where [const_defs]: "KEY_AUTH_ISSUER = py ''issuer''"
definition KEY_TS :: pystr where [const_defs]: "KEY_TS = py ''ts''"
definition KEY_NONCE :: pystr where [const_defs]: "KEY_NONCE = py ''nonce''"
definition KEY_REQ_ID :: pystr where [const_defs]: "KEY_REQ_ID = py ''req_id''"
definition KEY_MAC :: pystr where [const_defs]: "KEY_MAC = py ''mac''"

subsection \<open>Storage\<close>

definition STORAGE_VERSION :: int where [const_defs]: "STORAGE_VERSION = 1"
definition COMMAND_KEY_STORAGE_KEY :: pystr where [const_defs]: "COMMAND_KEY_STORAGE_KEY = py ''homekey_household.command_keys''"
definition COMMAND_KEY_STORAGE_VERSION :: int where [const_defs]: "COMMAND_KEY_STORAGE_VERSION = 1"

subsection \<open>LockState\<close>

datatype lock_state = LS_UNLOCKED | LS_LOCKED | LS_JAMMED | LS_UNKNOWN | LS_UNLOCKING | LS_LOCKING

fun lock_state_str :: "lock_state \<Rightarrow> pystr" where
"lock_state_str LS_UNLOCKED = py ''unlocked''"
| "lock_state_str LS_LOCKED = py ''locked''"
| "lock_state_str LS_JAMMED = py ''jammed''"
| "lock_state_str LS_UNKNOWN = py ''unknown''"
| "lock_state_str LS_UNLOCKING = py ''unlocking''"
| "lock_state_str LS_LOCKING = py ''locking''"

instantiation lock_state :: enum
begin

definition enum_lock_state :: "lock_state list" where
  "enum_lock_state = [LS_UNLOCKED, LS_LOCKED, LS_JAMMED, LS_UNKNOWN, LS_UNLOCKING, LS_LOCKING]"

definition enum_all_lock_state :: "(lock_state \<Rightarrow> bool) \<Rightarrow> bool" where
  "enum_all_lock_state P = list_all P (enum_class.enum :: lock_state list)"

definition enum_ex_lock_state :: "(lock_state \<Rightarrow> bool) \<Rightarrow> bool" where
  "enum_ex_lock_state P = list_ex P (enum_class.enum :: lock_state list)"

instance
proof
  have mem: "x \<in> set (enum_class.enum :: lock_state list)" for x :: lock_state
    by (cases x) (simp_all add: enum_lock_state_def)
  show "(UNIV :: lock_state set) = set enum_class.enum" using mem by auto
  show "distinct (enum_class.enum :: lock_state list)" by (simp add: enum_lock_state_def)
  show "enum_class.enum_all P = Ball UNIV P" for P :: "lock_state \<Rightarrow> bool"
    using mem by (auto simp: enum_all_lock_state_def list_all_iff)
  show "enum_class.enum_ex P = Bex UNIV P" for P :: "lock_state \<Rightarrow> bool"
    using mem by (auto simp: enum_ex_lock_state_def list_ex_iff)
qed

end

definition is_lock_state :: "pystr \<Rightarrow> bool" where
  "is_lock_state s = (s \<in> set (map lock_state_str enum_class.enum))"

lemma lock_state_str_inj [simp]: "lock_state_str a = lock_state_str b \<longleftrightarrow> a = b"
  by (cases a; cases b; simp)

lemma is_lock_state_iff: "is_lock_state s \<longleftrightarrow> (\<exists>x. s = lock_state_str x)"
  by (auto simp: is_lock_state_def enum_UNIV)
definition LOCK_STATE_MAP :: "(int \<times> lock_state) list" where [const_defs]: "LOCK_STATE_MAP = [(0, LS_UNLOCKED), (1, LS_LOCKED), (2, LS_JAMMED), (3, LS_UNKNOWN), (4, LS_UNLOCKING), (5, LS_LOCKING)]"

subsection \<open>NodeRole\<close>

datatype node_role = ROLE_GATE | ROLE_MAIN_HOUSE | ROLE_SMALL_HOUSE | ROLE_GARAGE | ROLE_WORKSHOP | ROLE_OTHER

fun node_role_str :: "node_role \<Rightarrow> pystr" where
"node_role_str ROLE_GATE = py ''gate''"
| "node_role_str ROLE_MAIN_HOUSE = py ''main_house''"
| "node_role_str ROLE_SMALL_HOUSE = py ''small_house''"
| "node_role_str ROLE_GARAGE = py ''garage''"
| "node_role_str ROLE_WORKSHOP = py ''workshop''"
| "node_role_str ROLE_OTHER = py ''other''"

instantiation node_role :: enum
begin

definition enum_node_role :: "node_role list" where
  "enum_node_role = [ROLE_GATE, ROLE_MAIN_HOUSE, ROLE_SMALL_HOUSE, ROLE_GARAGE, ROLE_WORKSHOP, ROLE_OTHER]"

definition enum_all_node_role :: "(node_role \<Rightarrow> bool) \<Rightarrow> bool" where
  "enum_all_node_role P = list_all P (enum_class.enum :: node_role list)"

definition enum_ex_node_role :: "(node_role \<Rightarrow> bool) \<Rightarrow> bool" where
  "enum_ex_node_role P = list_ex P (enum_class.enum :: node_role list)"

instance
proof
  have mem: "x \<in> set (enum_class.enum :: node_role list)" for x :: node_role
    by (cases x) (simp_all add: enum_node_role_def)
  show "(UNIV :: node_role set) = set enum_class.enum" using mem by auto
  show "distinct (enum_class.enum :: node_role list)" by (simp add: enum_node_role_def)
  show "enum_class.enum_all P = Ball UNIV P" for P :: "node_role \<Rightarrow> bool"
    using mem by (auto simp: enum_all_node_role_def list_all_iff)
  show "enum_class.enum_ex P = Bex UNIV P" for P :: "node_role \<Rightarrow> bool"
    using mem by (auto simp: enum_ex_node_role_def list_ex_iff)
qed

end

definition is_node_role :: "pystr \<Rightarrow> bool" where
  "is_node_role s = (s \<in> set (map node_role_str enum_class.enum))"

lemma node_role_str_inj [simp]: "node_role_str a = node_role_str b \<longleftrightarrow> a = b"
  by (cases a; cases b; simp)

lemma is_node_role_iff: "is_node_role s \<longleftrightarrow> (\<exists>x. s = node_role_str x)"
  by (auto simp: is_node_role_def enum_UNIV)

subsection \<open>NodeState\<close>

datatype node_lifecycle = NSTATE_UNCONFIGURED | NSTATE_PROVISIONING | NSTATE_ACTIVE | NSTATE_REVOKED | NSTATE_RECOVERY_REQUIRED

fun node_lifecycle_str :: "node_lifecycle \<Rightarrow> pystr" where
"node_lifecycle_str NSTATE_UNCONFIGURED = py ''UNCONFIGURED''"
| "node_lifecycle_str NSTATE_PROVISIONING = py ''PROVISIONING''"
| "node_lifecycle_str NSTATE_ACTIVE = py ''ACTIVE''"
| "node_lifecycle_str NSTATE_REVOKED = py ''REVOKED''"
| "node_lifecycle_str NSTATE_RECOVERY_REQUIRED = py ''RECOVERY_REQUIRED''"

instantiation node_lifecycle :: enum
begin

definition enum_node_lifecycle :: "node_lifecycle list" where
  "enum_node_lifecycle = [NSTATE_UNCONFIGURED, NSTATE_PROVISIONING, NSTATE_ACTIVE, NSTATE_REVOKED, NSTATE_RECOVERY_REQUIRED]"

definition enum_all_node_lifecycle :: "(node_lifecycle \<Rightarrow> bool) \<Rightarrow> bool" where
  "enum_all_node_lifecycle P = list_all P (enum_class.enum :: node_lifecycle list)"

definition enum_ex_node_lifecycle :: "(node_lifecycle \<Rightarrow> bool) \<Rightarrow> bool" where
  "enum_ex_node_lifecycle P = list_ex P (enum_class.enum :: node_lifecycle list)"

instance
proof
  have mem: "x \<in> set (enum_class.enum :: node_lifecycle list)" for x :: node_lifecycle
    by (cases x) (simp_all add: enum_node_lifecycle_def)
  show "(UNIV :: node_lifecycle set) = set enum_class.enum" using mem by auto
  show "distinct (enum_class.enum :: node_lifecycle list)" by (simp add: enum_node_lifecycle_def)
  show "enum_class.enum_all P = Ball UNIV P" for P :: "node_lifecycle \<Rightarrow> bool"
    using mem by (auto simp: enum_all_node_lifecycle_def list_all_iff)
  show "enum_class.enum_ex P = Bex UNIV P" for P :: "node_lifecycle \<Rightarrow> bool"
    using mem by (auto simp: enum_ex_node_lifecycle_def list_ex_iff)
qed

end

definition is_node_lifecycle :: "pystr \<Rightarrow> bool" where
  "is_node_lifecycle s = (s \<in> set (map node_lifecycle_str enum_class.enum))"

lemma node_lifecycle_str_inj [simp]: "node_lifecycle_str a = node_lifecycle_str b \<longleftrightarrow> a = b"
  by (cases a; cases b; simp)

lemma is_node_lifecycle_iff: "is_node_lifecycle s \<longleftrightarrow> (\<exists>x. s = node_lifecycle_str x)"
  by (auto simp: is_node_lifecycle_def enum_UNIV)

subsection \<open>SecurityState\<close>

datatype security_state = SEC_OK | SEC_WARNING | SEC_ERROR

fun security_state_str :: "security_state \<Rightarrow> pystr" where
"security_state_str SEC_OK = py ''OK''"
| "security_state_str SEC_WARNING = py ''WARNING''"
| "security_state_str SEC_ERROR = py ''ERROR''"

instantiation security_state :: enum
begin

definition enum_security_state :: "security_state list" where
  "enum_security_state = [SEC_OK, SEC_WARNING, SEC_ERROR]"

definition enum_all_security_state :: "(security_state \<Rightarrow> bool) \<Rightarrow> bool" where
  "enum_all_security_state P = list_all P (enum_class.enum :: security_state list)"

definition enum_ex_security_state :: "(security_state \<Rightarrow> bool) \<Rightarrow> bool" where
  "enum_ex_security_state P = list_ex P (enum_class.enum :: security_state list)"

instance
proof
  have mem: "x \<in> set (enum_class.enum :: security_state list)" for x :: security_state
    by (cases x) (simp_all add: enum_security_state_def)
  show "(UNIV :: security_state set) = set enum_class.enum" using mem by auto
  show "distinct (enum_class.enum :: security_state list)" by (simp add: enum_security_state_def)
  show "enum_class.enum_all P = Ball UNIV P" for P :: "security_state \<Rightarrow> bool"
    using mem by (auto simp: enum_all_security_state_def list_all_iff)
  show "enum_class.enum_ex P = Bex UNIV P" for P :: "security_state \<Rightarrow> bool"
    using mem by (auto simp: enum_ex_security_state_def list_ex_iff)
qed

end

definition is_security_state :: "pystr \<Rightarrow> bool" where
  "is_security_state s = (s \<in> set (map security_state_str enum_class.enum))"

lemma security_state_str_inj [simp]: "security_state_str a = security_state_str b \<longleftrightarrow> a = b"
  by (cases a; cases b; simp)

lemma is_security_state_iff: "is_security_state s \<longleftrightarrow> (\<exists>x. s = security_state_str x)"
  by (auto simp: is_security_state_def enum_UNIV)

subsection \<open>BackupOutcome\<close>

datatype backup_outcome = BKP_COMPLETED | BKP_FAILED

fun backup_outcome_str :: "backup_outcome \<Rightarrow> pystr" where
"backup_outcome_str BKP_COMPLETED = py ''completed''"
| "backup_outcome_str BKP_FAILED = py ''failed''"

instantiation backup_outcome :: enum
begin

definition enum_backup_outcome :: "backup_outcome list" where
  "enum_backup_outcome = [BKP_COMPLETED, BKP_FAILED]"

definition enum_all_backup_outcome :: "(backup_outcome \<Rightarrow> bool) \<Rightarrow> bool" where
  "enum_all_backup_outcome P = list_all P (enum_class.enum :: backup_outcome list)"

definition enum_ex_backup_outcome :: "(backup_outcome \<Rightarrow> bool) \<Rightarrow> bool" where
  "enum_ex_backup_outcome P = list_ex P (enum_class.enum :: backup_outcome list)"

instance
proof
  have mem: "x \<in> set (enum_class.enum :: backup_outcome list)" for x :: backup_outcome
    by (cases x) (simp_all add: enum_backup_outcome_def)
  show "(UNIV :: backup_outcome set) = set enum_class.enum" using mem by auto
  show "distinct (enum_class.enum :: backup_outcome list)" by (simp add: enum_backup_outcome_def)
  show "enum_class.enum_all P = Ball UNIV P" for P :: "backup_outcome \<Rightarrow> bool"
    using mem by (auto simp: enum_all_backup_outcome_def list_all_iff)
  show "enum_class.enum_ex P = Bex UNIV P" for P :: "backup_outcome \<Rightarrow> bool"
    using mem by (auto simp: enum_ex_backup_outcome_def list_ex_iff)
qed

end

definition is_backup_outcome :: "pystr \<Rightarrow> bool" where
  "is_backup_outcome s = (s \<in> set (map backup_outcome_str enum_class.enum))"

lemma backup_outcome_str_inj [simp]: "backup_outcome_str a = backup_outcome_str b \<longleftrightarrow> a = b"
  by (cases a; cases b; simp)

lemma is_backup_outcome_iff: "is_backup_outcome s \<longleftrightarrow> (\<exists>x. s = backup_outcome_str x)"
  by (auto simp: is_backup_outcome_def enum_UNIV)

subsection \<open>AuthResult\<close>

datatype auth_result = AUTH_SUCCESS | AUTH_FAILURE

fun auth_result_str :: "auth_result \<Rightarrow> pystr" where
"auth_result_str AUTH_SUCCESS = py ''SUCCESS''"
| "auth_result_str AUTH_FAILURE = py ''FAILURE''"

instantiation auth_result :: enum
begin

definition enum_auth_result :: "auth_result list" where
  "enum_auth_result = [AUTH_SUCCESS, AUTH_FAILURE]"

definition enum_all_auth_result :: "(auth_result \<Rightarrow> bool) \<Rightarrow> bool" where
  "enum_all_auth_result P = list_all P (enum_class.enum :: auth_result list)"

definition enum_ex_auth_result :: "(auth_result \<Rightarrow> bool) \<Rightarrow> bool" where
  "enum_ex_auth_result P = list_ex P (enum_class.enum :: auth_result list)"

instance
proof
  have mem: "x \<in> set (enum_class.enum :: auth_result list)" for x :: auth_result
    by (cases x) (simp_all add: enum_auth_result_def)
  show "(UNIV :: auth_result set) = set enum_class.enum" using mem by auto
  show "distinct (enum_class.enum :: auth_result list)" by (simp add: enum_auth_result_def)
  show "enum_class.enum_all P = Ball UNIV P" for P :: "auth_result \<Rightarrow> bool"
    using mem by (auto simp: enum_all_auth_result_def list_all_iff)
  show "enum_class.enum_ex P = Bex UNIV P" for P :: "auth_result \<Rightarrow> bool"
    using mem by (auto simp: enum_ex_auth_result_def list_ex_iff)
qed

end

definition is_auth_result :: "pystr \<Rightarrow> bool" where
  "is_auth_result s = (s \<in> set (map auth_result_str enum_class.enum))"

lemma auth_result_str_inj [simp]: "auth_result_str a = auth_result_str b \<longleftrightarrow> a = b"
  by (cases a; cases b; simp)

lemma is_auth_result_iff: "is_auth_result s \<longleftrightarrow> (\<exists>x. s = auth_result_str x)"
  by (auto simp: is_auth_result_def enum_UNIV)

subsection \<open>LockSource\<close>

datatype lock_source = SRC_HOMEKIT | SRC_HOMEKEY | SRC_MQTT | SRC_API | SRC_DEVICE | SRC_UNKNOWN

fun lock_source_str :: "lock_source \<Rightarrow> pystr" where
"lock_source_str SRC_HOMEKIT = py ''homekit''"
| "lock_source_str SRC_HOMEKEY = py ''homekey''"
| "lock_source_str SRC_MQTT = py ''mqtt''"
| "lock_source_str SRC_API = py ''api''"
| "lock_source_str SRC_DEVICE = py ''device''"
| "lock_source_str SRC_UNKNOWN = py ''unknown''"

instantiation lock_source :: enum
begin

definition enum_lock_source :: "lock_source list" where
  "enum_lock_source = [SRC_HOMEKIT, SRC_HOMEKEY, SRC_MQTT, SRC_API, SRC_DEVICE, SRC_UNKNOWN]"

definition enum_all_lock_source :: "(lock_source \<Rightarrow> bool) \<Rightarrow> bool" where
  "enum_all_lock_source P = list_all P (enum_class.enum :: lock_source list)"

definition enum_ex_lock_source :: "(lock_source \<Rightarrow> bool) \<Rightarrow> bool" where
  "enum_ex_lock_source P = list_ex P (enum_class.enum :: lock_source list)"

instance
proof
  have mem: "x \<in> set (enum_class.enum :: lock_source list)" for x :: lock_source
    by (cases x) (simp_all add: enum_lock_source_def)
  show "(UNIV :: lock_source set) = set enum_class.enum" using mem by auto
  show "distinct (enum_class.enum :: lock_source list)" by (simp add: enum_lock_source_def)
  show "enum_class.enum_all P = Ball UNIV P" for P :: "lock_source \<Rightarrow> bool"
    using mem by (auto simp: enum_all_lock_source_def list_all_iff)
  show "enum_class.enum_ex P = Bex UNIV P" for P :: "lock_source \<Rightarrow> bool"
    using mem by (auto simp: enum_ex_lock_source_def list_ex_iff)
qed

end

definition is_lock_source :: "pystr \<Rightarrow> bool" where
  "is_lock_source s = (s \<in> set (map lock_source_str enum_class.enum))"

lemma lock_source_str_inj [simp]: "lock_source_str a = lock_source_str b \<longleftrightarrow> a = b"
  by (cases a; cases b; simp)

lemma is_lock_source_iff: "is_lock_source s \<longleftrightarrow> (\<exists>x. s = lock_source_str x)"
  by (auto simp: is_lock_source_def enum_UNIV)

subsection \<open>Attribution and confirmation\<close>

definition DEVICE_INITIATED_SOURCES :: "pystr list" where [const_defs]: "DEVICE_INITIATED_SOURCES = map lock_source_str [SRC_HOMEKIT, SRC_HOMEKEY, SRC_DEVICE]"
text \<open>In milliseconds; the source writes 10.0 seconds.\<close>

definition COMMAND_CONFIRM_TIMEOUT_SECONDS_MS :: int where [const_defs]: "COMMAND_CONFIRM_TIMEOUT_SECONDS_MS = 10000"
text \<open>In milliseconds; the source writes 0.5 seconds.\<close>

definition COMMAND_CONFIRM_POLL_SECONDS_MS :: int where [const_defs]: "COMMAND_CONFIRM_POLL_SECONDS_MS = 500"
definition LOCK_EVENT_MAX_AGE_SECONDS :: int where [const_defs]: "LOCK_EVENT_MAX_AGE_SECONDS = 300"
definition LOCK_SOURCE_LABELS :: "(pystr \<times> pystr) list" where [const_defs]: "LOCK_SOURCE_LABELS = 
  [(lock_source_str SRC_HOMEKIT, py ''HomeKit''),
   (lock_source_str SRC_HOMEKEY, py ''a HomeKey credential''),
   (lock_source_str SRC_DEVICE, py ''the device''),
   (lock_source_str SRC_MQTT, py ''MQTT''),
   (lock_source_str SRC_API, py ''the device API''),
   (lock_source_str SRC_UNKNOWN, py ''an unknown source'')]"

subsection \<open>Health literals\<close>

definition HEALTH_OK :: pystr where [const_defs]: "HEALTH_OK = py ''OK''"
definition HEALTH_ERROR :: pystr where [const_defs]: "HEALTH_ERROR = py ''ERROR''"
definition HEALTH_NETWORK_UNKNOWN :: pystr where [const_defs]: "HEALTH_NETWORK_UNKNOWN = py ''UNKNOWN''"
definition HEALTH_CERTIFICATE_UNKNOWN :: pystr where [const_defs]: "HEALTH_CERTIFICATE_UNKNOWN = py ''unknown''"

subsection \<open>Guest payload keys\<close>

definition KEY_GUEST_ENABLED :: pystr where [const_defs]: "KEY_GUEST_ENABLED = py ''enabled''"
definition KEY_GUEST_DEFAULT_VALIDITY :: pystr where [const_defs]: "KEY_GUEST_DEFAULT_VALIDITY = py ''default_validity_seconds''"
definition KEY_GUEST_CAPACITY :: pystr where [const_defs]: "KEY_GUEST_CAPACITY = py ''capacity''"
definition KEY_GUEST_COUNT :: pystr where [const_defs]: "KEY_GUEST_COUNT = py ''count''"
definition KEY_GUEST_WALL_CLOCK :: pystr where [const_defs]: "KEY_GUEST_WALL_CLOCK = py ''wall_clock''"
definition KEY_GUEST_TAGS :: pystr where [const_defs]: "KEY_GUEST_TAGS = py ''tags''"
definition KEY_GUEST_WRITE :: pystr where [const_defs]: "KEY_GUEST_WRITE = py ''write''"
definition KEY_GUEST_WRITE_ARMED :: pystr where [const_defs]: "KEY_GUEST_WRITE_ARMED = py ''armed''"
definition KEY_GUEST_CAN_WRITE :: pystr where [const_defs]: "KEY_GUEST_CAN_WRITE = py ''can_write''"
definition KEY_GUEST_WRITE_RESULT :: pystr where [const_defs]: "KEY_GUEST_WRITE_RESULT = py ''last_result''"
definition KEY_GUEST_WRITE_MESSAGE :: pystr where [const_defs]: "KEY_GUEST_WRITE_MESSAGE = py ''last_message''"
definition KEY_GUEST_TAG_ID :: pystr where [const_defs]: "KEY_GUEST_TAG_ID = py ''tag_id''"
definition KEY_GUEST_UID :: pystr where [const_defs]: "KEY_GUEST_UID = py ''uid''"
definition KEY_GUEST_LABEL :: pystr where [const_defs]: "KEY_GUEST_LABEL = py ''label''"
definition KEY_GUEST_VALID_FROM :: pystr where [const_defs]: "KEY_GUEST_VALID_FROM = py ''valid_from''"
definition KEY_GUEST_VALID_UNTIL :: pystr where [const_defs]: "KEY_GUEST_VALID_UNTIL = py ''valid_until''"
definition KEY_GUEST_LAST_USED :: pystr where [const_defs]: "KEY_GUEST_LAST_USED = py ''last_used_at''"
definition KEY_GUEST_USE_COUNT :: pystr where [const_defs]: "KEY_GUEST_USE_COUNT = py ''use_count''"

subsection \<open>Entities\<close>

definition ENTITY_LOCK :: pystr where [const_defs]: "ENTITY_LOCK = py ''lock''"
definition ENTITY_SENSOR_ONLINE :: pystr where [const_defs]: "ENTITY_SENSOR_ONLINE = py ''online''"
definition ENTITY_SENSOR_HEALTH :: pystr where [const_defs]: "ENTITY_SENSOR_HEALTH = py ''health''"
definition ENTITY_SENSOR_BACKUP :: pystr where [const_defs]: "ENTITY_SENSOR_BACKUP = py ''backup''"
definition ENTITY_SENSOR_SECURITY :: pystr where [const_defs]: "ENTITY_SENSOR_SECURITY = py ''security''"
definition ENTITY_SENSOR_FIRMWARE :: pystr where [const_defs]: "ENTITY_SENSOR_FIRMWARE = py ''firmware''"
definition ENTITY_SENSOR_LAST_AUTH :: pystr where [const_defs]: "ENTITY_SENSOR_LAST_AUTH = py ''last_auth''"
definition ENTITY_SWITCH_GUEST_ACCESS :: pystr where [const_defs]: "ENTITY_SWITCH_GUEST_ACCESS = py ''guest_access''"
definition ENTITY_NUMBER_GUEST_VALIDITY :: pystr where [const_defs]: "ENTITY_NUMBER_GUEST_VALIDITY = py ''guest_validity''"
definition ENTITY_SENSOR_GUEST_TAGS :: pystr where [const_defs]: "ENTITY_SENSOR_GUEST_TAGS = py ''guest_tags''"
definition ENTITY_BUTTON_GUEST_TEACH :: pystr where [const_defs]: "ENTITY_BUTTON_GUEST_TEACH = py ''guest_teach''"
definition ENTITY_BUTTON_GUEST_CANCEL :: pystr where [const_defs]: "ENTITY_BUTTON_GUEST_CANCEL = py ''guest_cancel''"

subsection \<open>Guest limits\<close>

definition GUEST_TAG_CAPACITY :: int where [const_defs]: "GUEST_TAG_CAPACITY = 16"
definition GUEST_LABEL_MAX_LENGTH :: nat where [const_defs]: "GUEST_LABEL_MAX_LENGTH = 15"
definition GUEST_VALIDITY_DAYS_MIN :: int where [const_defs]: "GUEST_VALIDITY_DAYS_MIN = 0"
definition GUEST_VALIDITY_DAYS_MAX :: int where [const_defs]: "GUEST_VALIDITY_DAYS_MAX = 365"
definition GUEST_VALIDITY_DAYS_STEP :: int where [const_defs]: "GUEST_VALIDITY_DAYS_STEP = 1"
definition GUEST_SECONDS_PER_DAY :: int where [const_defs]: "GUEST_SECONDS_PER_DAY = 24 * 60 * 60"
definition GUEST_WRITE_ARM_TIMEOUT_SECONDS :: int where [const_defs]: "GUEST_WRITE_ARM_TIMEOUT_SECONDS = 60"
definition HOUSEHOLD_ENTITY_SUFFIXES :: "pystr list" where [const_defs]: "HOUSEHOLD_ENTITY_SUFFIXES = [ENTITY_SENSOR_ONLINE, ENTITY_SENSOR_HEALTH, ENTITY_SENSOR_BACKUP, ENTITY_SENSOR_SECURITY, ENTITY_SENSOR_FIRMWARE, ENTITY_SENSOR_LAST_AUTH]"

end
