(* ===== verification/Errors.thy ===== *)
theory Errors imports PyStr begin

section \<open>The exceptions of the integration\<close>

text \<open>
  Every \<open>raise\<close> of the modelled code is a value of \<open>exc\<close>. \<open>ValidationError\<close>
  (\<open>models.py\<close>) carries the reason its message spells out, the \<open>Direct*\<close> constructors are
  the exception classes of \<open>direct.py\<close>, the rest are Python's own exceptions where the code
  lets them escape. \<open>is_transport_error\<close> is \<open>isinstance(err, DirectTransportError)\<close>.
\<close>

datatype json_kind = KObject | KString | KBoolean | KInteger | KList

datatype reason =
    Expected pystr json_kind
  | Empty pystr
  | TooLong pystr nat
  | BadCharacters pystr
  | IdentityMismatch pystr pystr pystr pystr
  | UnknownValue pystr pystr
  | MissingField pystr
  | InvalidTimestamp pystr
  | InvalidTimestampType pystr
  | UnsupportedAction pystr
  | InvalidJson
  | UnexpectedPayload pystr pystr
  | KeyUnavailable
  | KeyEmpty
  | SecretEmpty
  | LabelTooLong
  | BadNonceSize
  | NoFreshNonce
  | BadNonce
  | BadReqId
  | BadTs
  | MqttUnavailable
  | DirectOnly

datatype exc =
    ValidationError reason
  | DirectTransportError
  | DirectAuthError
  | DirectTlsUnavailableError
  | DirectProtocolError
  | DirectNoHouseholdError
  | DirectFingerprintMismatch pystr pystr
  | TypeError
  | AttributeError
  | ValueError
  | OverflowError
  | UnicodeEncodeError
  | OSError
  | RuntimeFailure
  | KeyError
  | ServiceValidationError
  | HomeAssistantError
  | ConfigEntryAuthFailed
  | ConfigEntryError
  | ConfigEntryNotReady

definition is_validation_error :: "exc \<Rightarrow> bool" where
  "is_validation_error e = (case e of ValidationError r \<Rightarrow> True | _ \<Rightarrow> False)"

definition is_transport_error :: "exc \<Rightarrow> bool" where
  "is_transport_error e = (case e of
      DirectTransportError \<Rightarrow> True | DirectAuthError \<Rightarrow> True
    | DirectTlsUnavailableError \<Rightarrow> True | DirectProtocolError \<Rightarrow> True
    | DirectNoHouseholdError \<Rightarrow> True | DirectFingerprintMismatch a b \<Rightarrow> True | _ \<Rightarrow> False)"

text \<open>\<open>isinstance(err, DirectProtocolError)\<close>, with its subclass.\<close>

definition is_protocol_error :: "exc \<Rightarrow> bool" where
  "is_protocol_error e = (e = DirectProtocolError \<or> e = DirectNoHouseholdError)"

abbreviation invalid :: "reason \<Rightarrow> exc + 'a" where
  "invalid r \<equiv> Inl (ValidationError r)"

end
