(* ===== verification/Models.thy ===== *)
theory Models imports Json Const Errors begin

section \<open>Validated data models\<close>

text \<open>
  \<open>models.py\<close>: the primitive validators, the identity checks, the frozen documents parsed
  from node payloads (\<open>NodeState\<close>, \<open>NodeHealth\<close>, \<open>BackupRecord\<close>, \<open>LastAuth\<close>,
  \<open>LockChange\<close>, \<open>GuestTag\<close>, \<open>GuestState\<close>), the mutable \<open>Node\<close> with its derived
  properties, and \<open>AuthenticatedCommand\<close>. A \<open>from_dict\<close> is a function from a decoded JSON
  value to an exception or the record; fields are checked in the order the code evaluates
  them.
\<close>

subsection \<open>Primitive validators\<close>

definition require_dict :: "json \<Rightarrow> pystr \<Rightarrow> exc + (pystr \<times> json) list" where
  "require_dict data whr = (case data of JObj d \<Rightarrow> Inr d | _ \<Rightarrow> invalid (Expected whr KObject))"

definition require_str :: "(pystr \<times> json) list \<Rightarrow> pystr \<Rightarrow> exc + pystr" where
  "require_str data key = (case obj_get data key of
      JStr s \<Rightarrow> if s = [] then invalid (Empty key) else Inr s
    | _ \<Rightarrow> invalid (Expected key KString))"

definition as_optional_str :: "json \<Rightarrow> pystr \<Rightarrow> exc + pystr option" where
  "as_optional_str v whr = (case v of
      JNull \<Rightarrow> Inr None | JStr s \<Rightarrow> Inr (Some s) | _ \<Rightarrow> invalid (Expected whr KString))"

definition optional_str :: "(pystr \<times> json) list \<Rightarrow> pystr \<Rightarrow> exc + pystr option" where
  "optional_str data key = (case obj_get data key of
      JNull \<Rightarrow> Inr None | JStr s \<Rightarrow> Inr (Some s) | _ \<Rightarrow> invalid (Expected key KString))"

definition optional_bool :: "(pystr \<times> json) list \<Rightarrow> pystr \<Rightarrow> exc + bool option" where
  "optional_bool data key = (case obj_get data key of
      JNull \<Rightarrow> Inr None | JBool b \<Rightarrow> Inr (Some b) | _ \<Rightarrow> invalid (Expected key KBoolean))"

definition optional_int :: "(pystr \<times> json) list \<Rightarrow> pystr \<Rightarrow> exc + int option" where
  "optional_int data key = (case obj_get data key of
      JNull \<Rightarrow> Inr None | JInt i \<Rightarrow> Inr (Some i) | _ \<Rightarrow> invalid (Expected key KInteger))"

definition normalise_timestamp :: "json \<Rightarrow> pystr \<Rightarrow> exc + pystr option" where
  "normalise_timestamp v whr = (case v of
      JNull \<Rightarrow> Inr None
    | JBool b \<Rightarrow> invalid (InvalidTimestamp whr)
    | JInt i \<Rightarrow> (case int_timestamp i of
          Some s \<Rightarrow> Inr (Some s) | None \<Rightarrow> invalid (InvalidTimestamp whr))
    | JFloat x \<Rightarrow> (case float_timestamp x of
          Some s \<Rightarrow> Inr (Some s) | None \<Rightarrow> invalid (InvalidTimestamp whr))
    | JStr s \<Rightarrow> Inr (Some s)
    | _ \<Rightarrow> invalid (InvalidTimestampType whr))"

text \<open>\<open>optional_enum\<close> takes the membership test of the enumeration.\<close>

definition optional_enum ::
  "(pystr \<times> json) list \<Rightarrow> pystr \<Rightarrow> (pystr \<Rightarrow> bool) \<Rightarrow> exc + pystr option" where
  "optional_enum data key enum_has =
    bindE (optional_str data key) (\<lambda>v. case v of
        None \<Rightarrow> Inr None
      | Some s \<Rightarrow> if enum_has s then Inr (Some s) else invalid (UnknownValue key s))"

text \<open>\<open>v or default\<close> for an optional string or integer.\<close>

definition str_or :: "pystr option \<Rightarrow> pystr \<Rightarrow> pystr" where
  "str_or v d = (case v of Some s \<Rightarrow> if s = [] then d else s | None \<Rightarrow> d)"

definition int_or0 :: "int option \<Rightarrow> int" where
  "int_or0 v = (case v of Some i \<Rightarrow> i | None \<Rightarrow> 0)"

subsection \<open>Identifiers\<close>

definition ID_SAFE_CHARS :: pystr where [const_defs]:
  "ID_SAFE_CHARS = py ''abcdefghijklmnopqrstuvwxyzABCDEFGHIJKLMNOPQRSTUVWXYZ0123456789_-''"

definition validate_id :: "pystr \<Rightarrow> pystr \<Rightarrow> nat \<Rightarrow> exc + pystr" where
  "validate_id v field_name max_len =
    (if v = [] then invalid (Empty field_name)
     else if max_len < length v then invalid (TooLong field_name max_len)
     else if list_ex (\<lambda>ch. ch \<notin> set ID_SAFE_CHARS) v then invalid (BadCharacters field_name)
     else Inr v)"

definition validate_identity ::
  "(pystr \<times> json) list \<Rightarrow> pystr \<Rightarrow> pystr option \<Rightarrow> pystr \<Rightarrow> exc + unit" where
  "validate_identity data household_id node_id whr =
    bindE (if dict_get data KEY_HOUSEHOLD_ID = None then Inr ()
           else bindE (require_str data KEY_HOUSEHOLD_ID) (\<lambda>h.
             if h \<noteq> household_id
             then invalid (IdentityMismatch whr KEY_HOUSEHOLD_ID h household_id) else Inr ()))
      (\<lambda>_. case node_id of
          None \<Rightarrow> Inr ()
        | Some nid \<Rightarrow>
           if dict_get data KEY_NODE_ID = None then Inr ()
           else bindE (require_str data KEY_NODE_ID) (\<lambda>n.
             if n \<noteq> nid then invalid (IdentityMismatch whr KEY_NODE_ID n nid) else Inr ()))"

definition require_identity ::
  "(pystr \<times> json) list \<Rightarrow> pystr \<Rightarrow> pystr option \<Rightarrow> pystr \<Rightarrow> exc + unit" where
  "require_identity data household_id node_id whr =
    bindE (require_str data KEY_HOUSEHOLD_ID) (\<lambda>h.
      if h \<noteq> household_id then invalid (IdentityMismatch whr KEY_HOUSEHOLD_ID h household_id)
      else case node_id of
          None \<Rightarrow> Inr ()
        | Some nid \<Rightarrow>
           bindE (require_str data KEY_NODE_ID) (\<lambda>n.
             if n \<noteq> nid then invalid (IdentityMismatch whr KEY_NODE_ID n nid) else Inr ()))"

subsection \<open>\<open>B/state\<close>\<close>

record node_state =
  ns_household_id :: pystr
  ns_node_id :: pystr
  ns_node_name :: pystr
  ns_node_role :: pystr
  ns_node_state :: pystr
  ns_generation :: "int option"
  ns_firmware_version :: "pystr option"

definition node_state_from_dict :: "json \<Rightarrow> pystr \<Rightarrow> pystr \<Rightarrow> exc + node_state" where
  "node_state_from_dict payload household_id node_id =
    bindE (require_dict payload (py ''state'')) (\<lambda>data.
    bindE (require_identity data household_id (Some node_id) (py ''state'')) (\<lambda>_.
    bindE (optional_str data KEY_NODE_NAME) (\<lambda>name.
    bindE (optional_str data KEY_NODE_ROLE) (\<lambda>role.
    bindE (optional_str data KEY_NODE_STATE) (\<lambda>st.
    bindE (optional_int data KEY_GENERATION) (\<lambda>gen.
    bindE (optional_str data KEY_FIRMWARE) (\<lambda>fw.
      Inr \<lparr>ns_household_id = household_id, ns_node_id = node_id,
           ns_node_name = str_or name node_id,
           ns_node_role = str_or role (node_role_str ROLE_OTHER),
           ns_node_state = str_or st (py ''UNKNOWN''),
           ns_generation = gen, ns_firmware_version = fw\<rparr>)))))))"

subsection \<open>\<open>B/health\<close>\<close>

record node_health =
  nh_network :: pystr
  nh_mqtt :: pystr
  nh_nfc :: pystr
  nh_certificate :: pystr
  nh_mqtt_error :: "int option"
  nh_lock_current :: "int option"
  nh_lock_target :: "int option"
  nh_backup :: "pystr option"
  nh_firmware_version :: "pystr option"
  nh_uptime :: "int option"
  nh_free_heap :: "int option"
  nh_reset_reason :: "pystr option"
  nh_security_all_ok :: "bool option"
  nh_security_warnings :: "pystr option"

definition health_security :: "(pystr \<times> json) list \<Rightarrow> exc + (pystr \<times> json) list" where
  "health_security data = (case obj_get data KEY_SECURITY_OBJECT of
      JNull \<Rightarrow> Inr [] | JObj d \<Rightarrow> Inr d | _ \<Rightarrow> invalid (Expected (py ''health.security'') KObject))"

definition node_health_from_dict :: "json \<Rightarrow> pystr \<Rightarrow> pystr \<Rightarrow> exc + node_health" where
  "node_health_from_dict payload household_id node_id =
    bindE (require_dict payload (py ''health'')) (\<lambda>data.
    bindE (validate_identity data household_id (Some node_id) (py ''health'')) (\<lambda>_.
    bindE (health_security data) (\<lambda>sec.
    bindE (optional_str data KEY_NETWORK) (\<lambda>network.
    bindE (require_str data KEY_MQTT) (\<lambda>mqtt.
    bindE (optional_str data KEY_NFC) (\<lambda>nfc.
    bindE (optional_str data KEY_CERTIFICATE) (\<lambda>cert.
    bindE (optional_int data KEY_MQTT_ERROR) (\<lambda>merr.
    bindE (optional_int data KEY_LOCK_CURRENT) (\<lambda>cur.
    bindE (optional_int data KEY_LOCK_TARGET) (\<lambda>tgt.
    bindE (optional_str data KEY_BACKUP) (\<lambda>bkp.
    bindE (optional_str data KEY_FIRMWARE) (\<lambda>fw.
    bindE (optional_int data KEY_UPTIME) (\<lambda>up.
    bindE (optional_int data KEY_FREE_HEAP) (\<lambda>heap.
    bindE (as_optional_str (obj_get data (py ''reset_reason'')) (py ''reset_reason'')) (\<lambda>rr.
    bindE (optional_bool sec KEY_SECURITY_ALL_OK) (\<lambda>ok.
    bindE (as_optional_str (obj_get sec KEY_SECURITY_WARNINGS) (py ''security.warnings'')) (\<lambda>warn.
      Inr \<lparr>nh_network = str_or network (py ''UNKNOWN''), nh_mqtt = mqtt,
           nh_nfc = str_or nfc (py ''unknown''), nh_certificate = str_or cert (py ''unknown''),
           nh_mqtt_error = merr, nh_lock_current = cur, nh_lock_target = tgt, nh_backup = bkp,
           nh_firmware_version = fw, nh_uptime = up, nh_free_heap = heap, nh_reset_reason = rr,
           nh_security_all_ok = ok, nh_security_warnings = warn\<rparr>)))))))))))))))))"

text \<open>\<open>LOCK_STATE_MAP.get(i, LockState.UNKNOWN)\<close>\<close>

definition lock_state_of :: "int \<Rightarrow> lock_state" where
  "lock_state_of i = (case dict_get LOCK_STATE_MAP i of Some s \<Rightarrow> s | None \<Rightarrow> LS_UNKNOWN)"

definition lock_current_state :: "node_health \<Rightarrow> lock_state option" where
  "lock_current_state h = (case nh_lock_current h of None \<Rightarrow> None | Some i \<Rightarrow> Some (lock_state_of i))"

subsection \<open>\<open>B/backup/last\<close>, \<open>B/last_auth\<close>, \<open>B/lock/last\<close>\<close>

record backup_record =
  br_status :: pystr
  br_timestamp :: "pystr option"

definition backup_record_from_dict :: "json \<Rightarrow> pystr \<Rightarrow> pystr \<Rightarrow> exc + backup_record" where
  "backup_record_from_dict payload household_id node_id =
    bindE (require_dict payload (py ''backup/last'')) (\<lambda>data.
    bindE (validate_identity data household_id (Some node_id) (py ''backup/last'')) (\<lambda>_.
    bindE (require_str data KEY_BACKUP_STATUS) (\<lambda>status.
      if \<not> is_backup_outcome status then invalid (UnknownValue (py ''backup/last.status'') status)
      else bindE (normalise_timestamp (obj_get data KEY_TIMESTAMP) (py ''backup/last.timestamp''))
        (\<lambda>ts. Inr \<lparr>br_status = status, br_timestamp = ts\<rparr>))))"

record last_auth =
  la_auth_type :: pystr
  la_result :: pystr
  la_timestamp :: "pystr option"
  la_issuer :: "pystr option"

definition last_auth_from_dict :: "json \<Rightarrow> pystr \<Rightarrow> pystr \<Rightarrow> exc + last_auth" where
  "last_auth_from_dict payload household_id node_id =
    bindE (require_dict payload (py ''last_auth'')) (\<lambda>data.
    bindE (validate_identity data household_id (Some node_id) (py ''last_auth'')) (\<lambda>_.
    bindE (require_str data KEY_AUTH_RESULT) (\<lambda>result.
      if \<not> is_auth_result result then invalid (UnknownValue (py ''last_auth.result'') result)
      else
        bindE (optional_str data KEY_AUTH_TYPE) (\<lambda>ty.
        bindE (normalise_timestamp (obj_get data KEY_TIMESTAMP) (py ''last_auth.timestamp'')) (\<lambda>ts.
        bindE (optional_str data KEY_AUTH_ISSUER) (\<lambda>issuer.
          Inr \<lparr>la_auth_type = str_or ty (py ''HomeKey''), la_result = result,
               la_timestamp = ts, la_issuer = issuer\<rparr>))))))"

record lock_change =
  lc_current :: int
  lc_source :: pystr
  lc_target :: "int option"
  lc_timestamp :: "pystr option"

definition lock_change_from_dict :: "json \<Rightarrow> pystr \<Rightarrow> pystr \<Rightarrow> exc + lock_change" where
  "lock_change_from_dict payload household_id node_id =
    bindE (require_dict payload (py ''lock/last'')) (\<lambda>data.
    bindE (validate_identity data household_id (Some node_id) (py ''lock/last'')) (\<lambda>_.
    bindE (optional_int data KEY_LOCK_CHANGE_CURRENT) (\<lambda>current.
      case current of
        None \<Rightarrow> invalid (MissingField (py ''lock/last.current''))
      | Some cur \<Rightarrow>
          bindE (optional_str data KEY_LOCK_SOURCE) (\<lambda>source. case source of
            None \<Rightarrow> invalid (UnknownValue (py ''lock/last.source'') (py ''None''))
          | Some src \<Rightarrow>
              if \<not> is_lock_source src then invalid (UnknownValue (py ''lock/last.source'') src)
              else
                bindE (optional_int data KEY_LOCK_CHANGE_TARGET) (\<lambda>tgt.
                bindE (normalise_timestamp (obj_get data KEY_TIMESTAMP) (py ''lock/last.timestamp''))
                  (\<lambda>ts. Inr \<lparr>lc_current = cur, lc_source = src, lc_target = tgt,
                              lc_timestamp = ts\<rparr>))))))"

subsection \<open>Guest tags\<close>

record guest_tag =
  gt_tag_id :: pystr
  gt_uid :: pystr
  gt_label :: pystr
  gt_enabled :: bool
  gt_valid_from :: int
  gt_valid_until :: int
  gt_last_used_at :: int
  gt_use_count :: int

text \<open>\<open>expires\<close> raises what \<open>datetime.fromtimestamp\<close> raises: an \<open>OverflowError\<close> outside 64 bits, the
  \<open>OSError\<close> of \<open>gmtime\<close> for a year outside 32 bits, a \<open>ValueError\<close> for a year past 9999.\<close>

definition gt_expires :: "guest_tag \<Rightarrow> exc + pystr option" where
  "gt_expires t =
    (if gt_valid_until t = 0 then Inr None
     else case int_timestamp (gt_valid_until t) of
            Some s \<Rightarrow> Inr (Some s)
          | None \<Rightarrow> Inl (if gt_valid_until t < - (2 ^ 63) \<or> 2 ^ 63 \<le> gt_valid_until t then OverflowError
                        else if gt_valid_until t < - 67768040609740800
                          \<or> 67768036191676799 < gt_valid_until t then OSError
                        else ValueError))"

definition gt_expired_at :: "guest_tag \<Rightarrow> pyfloat \<Rightarrow> bool" where
  "gt_expired_at t now = (if gt_valid_until t = 0 then False else float_gt_int now (gt_valid_until t))"

definition guest_tag_from_dict :: "json \<Rightarrow> exc + guest_tag" where
  "guest_tag_from_dict payload =
    bindE (require_dict payload (py ''guest tag'')) (\<lambda>data.
    bindE (require_str data KEY_GUEST_TAG_ID) (\<lambda>tag_id.
    bindE (optional_str data KEY_GUEST_UID) (\<lambda>uid.
    bindE (optional_str data KEY_GUEST_LABEL) (\<lambda>label.
    bindE (optional_bool data KEY_GUEST_ENABLED) (\<lambda>enabled.
    bindE (optional_int data KEY_GUEST_VALID_FROM) (\<lambda>vf.
    bindE (optional_int data KEY_GUEST_VALID_UNTIL) (\<lambda>vu.
    bindE (optional_int data KEY_GUEST_LAST_USED) (\<lambda>lu.
    bindE (optional_int data KEY_GUEST_USE_COUNT) (\<lambda>uc.
      Inr \<lparr>gt_tag_id = tag_id, gt_uid = str_or uid [], gt_label = str_or label [],
           gt_enabled = (enabled \<noteq> Some False), gt_valid_from = int_or0 vf,
           gt_valid_until = int_or0 vu, gt_last_used_at = int_or0 lu,
           gt_use_count = int_or0 uc\<rparr>)))))))))"

record guest_state =
  gs_enabled :: bool
  gs_default_validity_seconds :: int
  gs_capacity :: int
  gs_count :: int
  gs_wall_clock :: int
  gs_tags :: "guest_tag list"
  gs_write_armed :: bool
  gs_can_write :: "bool option"
  gs_last_write_result :: "pystr option"
  gs_last_write_message :: "pystr option"

definition has_wall_clock :: "guest_state \<Rightarrow> bool" where
  "has_wall_clock g = (0 < gs_wall_clock g)"

text \<open>\<open>int / int\<close> is the correctly rounded float; too large a quotient raises.\<close>

definition default_validity_days :: "guest_state \<Rightarrow> exc + pyfloat" where
  "default_validity_days g =
    (let s = gs_default_validity_seconds g
     in case float_of_ratio (s < 0) (nat \<bar>s\<bar>) (nat GUEST_SECONDS_PER_DAY) of
          FFin b m e \<Rightarrow> Inr (FFin b m e) | _ \<Rightarrow> Inl OverflowError)"

definition guest_tags_of :: "(pystr \<times> json) list \<Rightarrow> exc + guest_tag list" where
  "guest_tags_of data = (case obj_get data KEY_GUEST_TAGS of
      JNull \<Rightarrow> Inr []
    | JList items \<Rightarrow> mapE guest_tag_from_dict items
    | _ \<Rightarrow> invalid (Expected (py ''guest/status.tags'') KList))"

definition guest_state_from_dict :: "json \<Rightarrow> exc + guest_state" where
  "guest_state_from_dict payload =
    bindE (require_dict payload (py ''guest/status'')) (\<lambda>data.
    bindE (guest_tags_of data) (\<lambda>tags.
    (let wr = obj_or_empty (obj_get data KEY_GUEST_WRITE) in
    bindE (optional_bool wr KEY_GUEST_CAN_WRITE) (\<lambda>can_write.
    bindE (optional_bool data KEY_GUEST_ENABLED) (\<lambda>enabled.
    bindE (optional_int data KEY_GUEST_DEFAULT_VALIDITY) (\<lambda>dv.
    bindE (optional_int data KEY_GUEST_CAPACITY) (\<lambda>cap.
    bindE (optional_int data KEY_GUEST_COUNT) (\<lambda>cnt.
    bindE (optional_int data KEY_GUEST_WALL_CLOCK) (\<lambda>wc.
    bindE (optional_bool wr KEY_GUEST_WRITE_ARMED) (\<lambda>armed.
    bindE (optional_str wr KEY_GUEST_WRITE_RESULT) (\<lambda>res.
    bindE (optional_str wr KEY_GUEST_WRITE_MESSAGE) (\<lambda>msg.
      Inr \<lparr>gs_enabled = (enabled = Some True), gs_default_validity_seconds = int_or0 dv,
           gs_capacity = int_or0 cap, gs_count = int_or0 cnt, gs_wall_clock = int_or0 wc,
           gs_tags = tags, gs_write_armed = (armed = Some True), gs_can_write = can_write,
           gs_last_write_result = res, gs_last_write_message = msg\<rparr>))))))))))))"

subsection \<open>The node\<close>

record node =
  nd_node_id :: pystr
  nd_household_id :: pystr
  nd_node_name :: pystr
  nd_node_role :: pystr
  nd_node_state :: pystr
  nd_generation :: "int option"
  nd_firmware :: "pystr option"
  nd_online :: bool
  nd_lwt_online :: "bool option"
  nd_last_seen :: "pystr option"
  nd_health :: "node_health option"
  nd_security :: "pystr option"
  nd_backup_status :: "pystr option"
  nd_backup :: "backup_record option"
  nd_last_auth :: "last_auth option"
  nd_guest :: "guest_state option"
  nd_lock_change :: "lock_change option"
  nd_lock_change_is_fresh :: bool
  nd_attributed_lock_change :: "(pystr option \<times> int \<times> pystr) option"

text \<open>\<open>Node(node_id=.., household_id=..)\<close> with every default, after \<open>__post_init__\<close>.\<close>

definition new_node :: "pystr \<Rightarrow> pystr \<Rightarrow> node" where
  "new_node node_id household_id =
    \<lparr>nd_node_id = node_id, nd_household_id = household_id, nd_node_name = node_id,
     nd_node_role = node_role_str ROLE_OTHER, nd_node_state = py ''UNKNOWN'',
     nd_generation = None, nd_firmware = None, nd_online = False, nd_lwt_online = None,
     nd_last_seen = None, nd_health = None, nd_security = None, nd_backup_status = None,
     nd_backup = None, nd_last_auth = None, nd_guest = None, nd_lock_change = None,
     nd_lock_change_is_fresh = False, nd_attributed_lock_change = None\<rparr>"

definition change_key :: "lock_change \<Rightarrow> pystr option \<times> int \<times> pystr" where
  "change_key c = (lc_timestamp c, lc_current c, lc_source c)"

definition lock_change_key :: "node \<Rightarrow> (pystr option \<times> int \<times> pystr) option" where
  "lock_change_key n = map_option change_key (nd_lock_change n)"

text \<open>Both health branches of the code fall back to \<open>UNKNOWN\<close>.\<close>

definition node_lock_state :: "node \<Rightarrow> lock_state" where
  "node_lock_state n =
    (case (nd_lock_change_is_fresh n, nd_lock_change n) of
       (True, Some c) \<Rightarrow> lock_state_of (lc_current c)
     | _ \<Rightarrow> (case nd_health n of
           None \<Rightarrow> LS_UNKNOWN
         | Some h \<Rightarrow> (case lock_current_state h of None \<Rightarrow> LS_UNKNOWN | Some s \<Rightarrow> s)))"

definition node_available :: "node \<Rightarrow> bool" where
  "node_available n = (if \<not> nd_online n then False else nd_lwt_online n \<noteq> Some False)"

definition node_from_state :: "pystr \<Rightarrow> pystr \<Rightarrow> json \<Rightarrow> exc + node" where
  "node_from_state household_id node_id payload =
    bindE (node_state_from_dict payload household_id node_id) (\<lambda>st.
      Inr ((new_node node_id household_id)
             \<lparr>nd_node_name := (if ns_node_name st = [] then node_id else ns_node_name st),
              nd_node_role := ns_node_role st, nd_node_state := ns_node_state st,
              nd_generation := ns_generation st, nd_firmware := ns_firmware_version st\<rparr>))"

subsection \<open>Commands\<close>

record authenticated_command =
  ac_ts :: int
  ac_nonce :: pystr
  ac_req_id :: pystr
  ac_mac :: pystr

definition command_to_dict :: "authenticated_command \<Rightarrow> json" where
  "command_to_dict c = JObj [(KEY_TS, JInt (ac_ts c)), (KEY_NONCE, JStr (ac_nonce c)),
     (KEY_REQ_ID, JStr (ac_req_id c)), (KEY_MAC, JStr (ac_mac c))]"

subsection \<open>What the validators raise\<close>

text \<open>\<open>validating m\<close>: \<open>m\<close> raises nothing but \<open>ValidationError\<close>.\<close>

definition validating :: "exc + 'a \<Rightarrow> bool" where
  "validating m = (case m of Inl e \<Rightarrow> is_validation_error e | Inr a \<Rightarrow> True)"

named_theorems validating_intros \<open>parsers that raise nothing but ValidationError\<close>

lemma validating_simps [simp]: "validating (Inr a)" "validating (Inl e) = is_validation_error e"
  by (simp_all add: validating_def)

lemma is_validation_error_simp [simp]: "is_validation_error (ValidationError r)"
  by (simp add: is_validation_error_def)

lemma validating_bindE [validating_intros]:
  "validating m \<Longrightarrow> (\<And>a. m = Inr a \<Longrightarrow> validating (f a)) \<Longrightarrow> validating (bindE m f)"
  by (cases m) auto

lemma validating_mapE [validating_intros]:
  "(\<And>x. validating (f x)) \<Longrightarrow> validating (mapE f xs)"
  by (induction xs) (auto intro!: validating_bindE)

lemma validatingD: "validating m \<Longrightarrow> m = Inl e \<Longrightarrow> \<exists>r. e = ValidationError r"
  by (cases e) (auto simp: is_validation_error_def)

lemma validating_prims [validating_intros]:
  "validating (require_dict v w)" "validating (require_str d k)" "validating (as_optional_str v w)"
  "validating (optional_str d k)" "validating (optional_bool d k)" "validating (optional_int d k)"
  "validating (normalise_timestamp v w)"
  by (simp_all add: require_dict_def require_str_def as_optional_str_def optional_str_def
      optional_bool_def optional_int_def normalise_timestamp_def split: json.splits option.splits)

lemma validating_identity [validating_intros]:
  "validating (validate_identity d h n w)" "validating (require_identity d h n w)"
  unfolding validate_identity_def require_identity_def
  by (auto intro!: validating_intros split: option.splits)

lemma validating_health_security [validating_intros]: "validating (health_security d)"
  by (simp add: health_security_def split: json.splits)

lemma validating_from_dict [validating_intros]:
  "validating (node_state_from_dict v h n)"
  "validating (node_health_from_dict v h n)"
  "validating (backup_record_from_dict v h n)"
  "validating (last_auth_from_dict v h n)"
  "validating (lock_change_from_dict v h n)"
  "validating (guest_tag_from_dict v)"
  unfolding node_state_from_dict_def node_health_from_dict_def backup_record_from_dict_def
    last_auth_from_dict_def lock_change_from_dict_def guest_tag_from_dict_def
  by (auto intro!: validating_intros split: option.splits)

lemma validating_guest_state [validating_intros]: "validating (guest_state_from_dict v)"
  unfolding guest_state_from_dict_def guest_tags_of_def Let_def
  by (auto intro!: validating_intros split: json.splits)

lemma validating_node_from_state [validating_intros]: "validating (node_from_state h n v)"
  unfolding node_from_state_def by (auto intro!: validating_intros)

subsection \<open>What the validators accept\<close>

lemma require_dict_Inr [res_simps]: "require_dict v w = Inr d \<longleftrightarrow> v = JObj d"
  by (cases v) (auto simp: require_dict_def)

lemma require_str_Inr [res_simps]: "require_str d k = Inr s \<longleftrightarrow> obj_get d k = JStr s \<and> s \<noteq> []"
  by (cases "obj_get d k") (auto simp: require_str_def)

lemma optional_str_Inr [res_simps]:
  "optional_str d k = Inr v \<longleftrightarrow> (case v of None \<Rightarrow> obj_get d k = JNull | Some s \<Rightarrow> obj_get d k = JStr s)"
  by (cases "obj_get d k") (auto simp: optional_str_def split: option.splits)

lemma optional_int_Inr [res_simps]:
  "optional_int d k = Inr v \<longleftrightarrow> (case v of None \<Rightarrow> obj_get d k = JNull | Some i \<Rightarrow> obj_get d k = JInt i)"
  by (cases "obj_get d k") (auto simp: optional_int_def split: option.splits)

lemma optional_bool_Inr [res_simps]:
  "optional_bool d k = Inr v \<longleftrightarrow> (case v of None \<Rightarrow> obj_get d k = JNull | Some b \<Rightarrow> obj_get d k = JBool b)"
  by (cases "obj_get d k") (auto simp: optional_bool_def split: option.splits)

lemma validate_id_Inr [res_simps]:
  "validate_id v f m = Inr u \<longleftrightarrow>
     u = v \<and> v \<noteq> [] \<and> length v \<le> m \<and> list_all (\<lambda>c. c \<in> set ID_SAFE_CHARS) v"
  by (auto simp: validate_id_def list_ex_iff list_all_iff)

text \<open>An identity field, when present, must be the non-empty string of the topic.\<close>

definition field_matches :: "(pystr \<times> json) list \<Rightarrow> pystr \<Rightarrow> pystr \<Rightarrow> bool" where
  "field_matches d k v = (obj_get d k = JStr v \<and> v \<noteq> [])"

definition field_agrees :: "(pystr \<times> json) list \<Rightarrow> pystr \<Rightarrow> pystr \<Rightarrow> bool" where
  "field_agrees d k v = (dict_get d k = None \<or> field_matches d k v)"

lemma require_identity_Inr [res_simps]:
  "require_identity d h (Some n) w = Inr u \<longleftrightarrow>
     field_matches d KEY_HOUSEHOLD_ID h \<and> field_matches d KEY_NODE_ID n"
  by (auto simp: require_identity_def res_simps field_matches_def)

lemma validate_identity_Inr [res_simps]:
  "validate_identity d h (Some n) w = Inr u \<longleftrightarrow>
     field_agrees d KEY_HOUSEHOLD_ID h \<and> field_agrees d KEY_NODE_ID n"
  by (auto simp: validate_identity_def res_simps field_agrees_def field_matches_def split: if_splits)

lemma str_or_ne [simp]: "d \<noteq> [] \<Longrightarrow> str_or v d \<noteq> []"
  by (simp add: str_or_def split: option.splits)

lemma lock_state_of_range:
  "lock_state_of i = (if i = 0 then LS_UNLOCKED else if i = 1 then LS_LOCKED
     else if i = 2 then LS_JAMMED else if i = 4 then LS_UNLOCKING
     else if i = 5 then LS_LOCKING else LS_UNKNOWN)"
  by (simp add: lock_state_of_def LOCK_STATE_MAP_def)

end
