(* ===== verification/Hashes.thy ===== *)
theory Hashes imports PyStr begin

section \<open>The hash functions of the standard library\<close>

text \<open>
  \<open>hashlib.sha256\<close>, \<open>hmac.new(key, msg, sha256)\<close> and keyed \<open>hashlib.blake2b\<close>, written out
  on words from their specifications, so that the key derivation, the command MAC and the
  fingerprints of the model compute what the program computes. Constants are in decimal.
\<close>

unbundle bit_operations_syntax

type_synonym w32 = "32 word"
type_synonym w64 = "64 word"

subsection \<open>Words and bytes\<close>

definition be_word32 :: "bytes \<Rightarrow> w32" where
  "be_word32 bs = foldl (\<lambda>a b. push_bit 8 a OR ucast b) 0 bs"

definition word32_be :: "w32 \<Rightarrow> bytes" where
  "word32_be w = [ucast (drop_bit 24 w), ucast (drop_bit 16 w), ucast (drop_bit 8 w), ucast w]"

definition le_word64 :: "bytes \<Rightarrow> w64" where
  "le_word64 bs = foldr (\<lambda>b a. push_bit 8 a OR ucast b) bs 0"

definition word64_le :: "w64 \<Rightarrow> bytes" where
  "word64_le w = map (\<lambda>i. ucast (drop_bit (8 * i) w)) [0..<8]"

definition nat_be8 :: "nat \<Rightarrow> bytes" where
  "nat_be8 n = map (\<lambda>i. word_of_nat (n div 256 ^ (7 - i))) [0..<8]"

fun chunks :: "nat \<Rightarrow> nat \<Rightarrow> 'a list \<Rightarrow> 'a list list" where
  "chunks 0 n xs = []"
| "chunks (Suc k) n xs = take n xs # chunks k n (drop n xs)"

subsection \<open>SHA-256\<close>

definition sha_k :: "w32 list" where
  "sha_k =
    [1116352408, 1899447441, 3049323471, 3921009573, 961987163, 1508970993, 2453635748,
     2870763221, 3624381080, 310598401, 607225278, 1426881987, 1925078388, 2162078206,
     2614888103, 3248222580, 3835390401, 4022224774, 264347078, 604807628, 770255983,
     1249150122, 1555081692, 1996064986, 2554220882, 2821834349, 2952996808, 3210313671,
     3336571891, 3584528711, 113926993, 338241895, 666307205, 773529912, 1294757372,
     1396182291, 1695183700, 1986661051, 2177026350, 2456956037, 2730485921, 2820302411,
     3259730800, 3345764771, 3516065817, 3600352804, 4094571909, 275423344, 430227734,
     506948616, 659060556, 883997877, 958139571, 1322822218, 1537002063, 1747873779,
     1955562222, 2024104815, 2227730452, 2361852424, 2428436474, 2756734187, 3204031479,
     3329325298]"

definition sha_h0 :: "w32 list" where
  "sha_h0 =
    [1779033703, 3144134277, 1013904242, 2773480762, 1359893119, 2600822924, 528734635,
     1541459225]"

definition rotr32 :: "nat \<Rightarrow> w32 \<Rightarrow> w32" where
  "rotr32 n x = drop_bit n x OR push_bit (32 - n) x"

definition sha_pad :: "bytes \<Rightarrow> bytes" where
  "sha_pad m = m @ [128] @ replicate ((119 - length m mod 64) mod 64) 0 @ nat_be8 (8 * length m)"

text \<open>One round on the working variables; the schedule is a window of sixteen words, its
  head the word of this round and its last element the one sixteen rounds later.\<close>

fun sha_round :: "w32 \<Rightarrow> w32 list \<times> w32 list \<Rightarrow> w32 list \<times> w32 list" where
  "sha_round k ([a, b, c, d, e, f, g, h], win) =
    (let s1 = rotr32 6 e XOR rotr32 11 e XOR rotr32 25 e;
         ch = (e AND f) XOR (NOT e AND g);
         t1 = h + s1 + ch + k + win ! 0;
         s0 = rotr32 2 a XOR rotr32 13 a XOR rotr32 22 a;
         maj = (a AND b) XOR (a AND c) XOR (b AND c);
         u0 = rotr32 7 (win ! 1) XOR rotr32 18 (win ! 1) XOR drop_bit 3 (win ! 1);
         u1 = rotr32 17 (win ! 14) XOR rotr32 19 (win ! 14) XOR drop_bit 10 (win ! 14)
     in ([t1 + (s0 + maj), a, b, c, d + t1, e, f, g],
         tl win @ [win ! 0 + u0 + win ! 9 + u1]))"
| "sha_round k st = st"

definition sha_compress :: "w32 list \<Rightarrow> bytes \<Rightarrow> w32 list" where
  "sha_compress h block =
    map2 (+) h (fst (fold sha_round sha_k (h, map be_word32 (chunks 16 4 block))))"

definition sha256 :: "bytes \<Rightarrow> bytes" where
  "sha256 m =
    (let p = sha_pad m
     in concat (map word32_be
          (foldl sha_compress sha_h0 (chunks (length p div 64) 64 p))))"

lemma sha_round_length:
  "length (fst st) = 8 \<Longrightarrow> length (fst (sha_round k st)) = 8"
  by (cases "(k, st)" rule: sha_round.cases) (simp_all add: Let_def)

lemma sha_fold_length:
  "length (fst st) = 8 \<Longrightarrow> length (fst (fold sha_round ks st)) = 8"
  by (induction ks arbitrary: st) (simp_all add: sha_round_length)

lemma length_sha_compress: "length h = 8 \<Longrightarrow> length (sha_compress h b) = 8"
  unfolding sha_compress_def length_map length_zip by (simp only: sha_fold_length fst_conv min.idem)

lemma length_sha_blocks: "length h = 8 \<Longrightarrow> length (foldl sha_compress h bs) = 8"
  by (induction bs arbitrary: h) (simp_all add: length_sha_compress)

lemma length_concat_const:
  "(\<And>x. length (f x) = n) \<Longrightarrow> length (concat (map f xs)) = n * length xs"
  by (induction xs) simp_all

lemma length_sha256 [simp]: "length (sha256 m) = 32"
  by (simp add: sha256_def Let_def length_concat_const [of _ 4] word32_be_def
      length_sha_blocks sha_h0_def)

lemma sha256_ne [simp]: "sha256 m \<noteq> []"
  using length_sha256 [of m] by (metis list.size(3) zero_neq_numeral)

lemma length_sha_pad: "64 dvd length (sha_pad m)"
proof -
  have "length (sha_pad m) = 9 + length m + (119 - length m mod 64) mod 64"
    by (simp add: sha_pad_def nat_be8_def)
  moreover have "64 dvd (9 + n + (119 - n mod 64) mod 64)" for n :: nat
  proof -
    define q r where "q = n div 64" and "r = n mod 64"
    have n: "n = 64 * q + r" and r: "r < 64" by (simp_all add: q_def r_def)
    have "(119 - r) mod 64 = (if r \<le> 55 then 55 - r else 119 - r)"
      using r by (auto simp: mod_if)
    then have "9 + n + (119 - r) mod 64 = 64 * (if r \<le> 55 then q + 1 else q + 2)"
      using r n by simp
    then show ?thesis unfolding r_def [symmetric] by (simp only: dvd_triv_left)
  qed
  ultimately show ?thesis by (simp only:)
qed

subsection \<open>HMAC\<close>

definition hmac_key :: "bytes \<Rightarrow> bytes" where
  "hmac_key k = (let k' = if 64 < length k then sha256 k else k
                 in k' @ replicate (64 - length k') 0)"

definition hmac_sha256 :: "bytes \<Rightarrow> bytes \<Rightarrow> bytes" where
  "hmac_sha256 key msg =
    sha256 (map (\<lambda>b. b XOR 92) (hmac_key key) @ sha256 (map (\<lambda>b. b XOR 54) (hmac_key key) @ msg))"

lemma length_hmac [simp]: "length (hmac_sha256 k m) = 32"
  by (simp add: hmac_sha256_def)

lemma length_hmac_key: "length (hmac_key k) = 64"
  by (simp add: hmac_key_def Let_def)

subsection \<open>BLAKE2b\<close>

definition blake_iv :: "w64 list" where
  "blake_iv =
    [7640891576956012808, 13503953896175478587, 4354685564936845355, 11912009170470909681,
     5840696475078001361, 11170449401992604703, 2270897969802886507, 6620516959819538809]"

definition blake_sigma :: "nat list list" where
  "blake_sigma =
    [[0, 1, 2, 3, 4, 5, 6, 7, 8, 9, 10, 11, 12, 13, 14, 15],
     [14, 10, 4, 8, 9, 15, 13, 6, 1, 12, 0, 2, 11, 7, 5, 3],
     [11, 8, 12, 0, 5, 2, 15, 13, 10, 14, 3, 6, 7, 1, 9, 4],
     [7, 9, 3, 1, 13, 12, 11, 14, 2, 6, 5, 10, 4, 0, 15, 8],
     [9, 0, 5, 7, 2, 4, 10, 15, 14, 1, 11, 12, 6, 8, 3, 13],
     [2, 12, 6, 10, 0, 11, 8, 3, 4, 13, 7, 5, 15, 14, 1, 9],
     [12, 5, 1, 15, 14, 13, 4, 10, 0, 7, 6, 3, 9, 2, 8, 11],
     [13, 11, 7, 14, 12, 1, 3, 9, 5, 0, 15, 4, 8, 6, 2, 10],
     [6, 15, 14, 9, 11, 3, 0, 8, 12, 2, 13, 7, 1, 4, 10, 5],
     [10, 2, 8, 4, 7, 6, 1, 5, 15, 11, 9, 14, 3, 12, 13, 0]]"

definition rotr64 :: "nat \<Rightarrow> w64 \<Rightarrow> w64" where
  "rotr64 n x = drop_bit n x OR push_bit (64 - n) x"

definition blake_g :: "nat \<Rightarrow> nat \<Rightarrow> nat \<Rightarrow> nat \<Rightarrow> w64 \<Rightarrow> w64 \<Rightarrow> w64 list \<Rightarrow> w64 list" where
  "blake_g a b c d x y v =
    (let va = v ! a + v ! b + x;
         vd = rotr64 32 (v ! d XOR va);
         vc = v ! c + vd;
         vb = rotr64 24 (v ! b XOR vc);
         va' = va + vb + y;
         vd' = rotr64 16 (vd XOR va');
         vc' = vc + vd';
         vb' = rotr64 63 (vb XOR vc')
     in v[a := va', b := vb', c := vc', d := vd'])"

definition blake_round :: "w64 list \<Rightarrow> nat list \<Rightarrow> w64 list \<Rightarrow> w64 list" where
  "blake_round m s v =
    fold (\<lambda>(i, a, b, c, d) v. blake_g a b c d (m ! (s ! (2 * i))) (m ! (s ! (2 * i + 1))) v)
      [(0, 0, 4, 8, 12), (1, 1, 5, 9, 13), (2, 2, 6, 10, 14), (3, 3, 7, 11, 15),
       (4, 0, 5, 10, 15), (5, 1, 6, 11, 12), (6, 2, 7, 8, 13), (7, 3, 4, 9, 14)] v"

definition blake_compress :: "w64 list \<Rightarrow> bytes \<Rightarrow> nat \<Rightarrow> bool \<Rightarrow> w64 list" where
  "blake_compress h block t final =
    (let v = h @ blake_iv;
         v1 = v[12 := v ! 12 XOR word_of_nat t, 13 := v ! 13 XOR word_of_nat (t div 2 ^ 64)];
         v2 = (if final then v1[14 := NOT (v1 ! 14)] else v1);
         m = map le_word64 (chunks 16 8 block);
         w = fold (blake_round m) (blake_sigma @ take 2 blake_sigma) v2
     in map (\<lambda>i. h ! i XOR w ! i XOR w ! (i + 8)) [0..<8])"

function blake_loop :: "w64 list \<Rightarrow> nat \<Rightarrow> bytes \<Rightarrow> w64 list" where
  "blake_loop h t bs =
    (if length bs \<le> 128
     then blake_compress h (bs @ replicate (128 - length bs) 0) (t + length bs) True
     else blake_loop (blake_compress h (take 128 bs) (t + 128) False) (t + 128) (drop 128 bs))"
  by auto
termination by (relation "measure (\<lambda>(h, t, bs). length bs)") auto

declare blake_loop.simps [simp del]

text \<open>\<open>hashlib.blake2b(m, key=key, digest_size=nn).digest()\<close> for keys of at most 64 bytes.\<close>

definition blake2b :: "bytes \<Rightarrow> nat \<Rightarrow> bytes \<Rightarrow> bytes" where
  "blake2b key nn m =
    (let h0 = blake_iv[0 := blake_iv ! 0 XOR 16842752 XOR push_bit 8 (word_of_nat (length key))
                         XOR word_of_nat nn];
         kb = (if key = [] then [] else key @ replicate (128 - length key) 0)
     in take nn (concat (map word64_le (blake_loop h0 0 (kb @ m)))))"

lemma length_blake_loop: "length (blake_loop h t bs) = 8"
proof (induction h t bs rule: blake_loop.induct)
  case (1 h t bs)
  then show ?case
    by (subst blake_loop.simps) (simp add: blake_compress_def Let_def)
qed

lemma length_blake2b: "nn \<le> 64 \<Longrightarrow> length (blake2b key nn m) = nn"
  by (simp add: blake2b_def Let_def length_concat_const [of _ 8] word64_le_def length_blake_loop)


end
