(* ===== verification/Command.thy ===== *)
theory Command imports Models Hashes begin

section \<open>Authenticated commands: the client half\<close>

text \<open>
  \<open>command.py\<close>: key derivation, the canonical MAC input, nonces and their tracker, and
  \<open>build_command\<close>. Random bytes, UUID bytes and the clock are arguments: \<open>secrets.token_hex(n)\<close>
  is the hex form of the \<open>n\<close> bytes drawn, attempt \<open>i\<close> of one call of \<open>fresh_nonce\<close> drawing
  \<open>draws i\<close>. Values whose type the code tests at run time (\<open>ts\<close>, \<open>req_id\<close>) are \<open>json\<close>
  values, \<open>JNull\<close> being \<open>None\<close>.
\<close>

unbundle bit_operations_syntax

subsection \<open>Key derivation\<close>

datatype key_arg = KStr pystr | KBytes bytes

definition MAX_BLAKE2B_DIGEST :: nat where [const_defs]: "MAX_BLAKE2B_DIGEST = 64"

definition MIN_HEX_MATERIAL_CHARS :: nat where [const_defs]: "MIN_HEX_MATERIAL_CHARS = 16"

definition HEX_DIGITS :: pystr where [const_defs]: "HEX_DIGITS = py ''0123456789abcdefABCDEF''"

definition encode_utf8 :: "pystr \<Rightarrow> exc + bytes" where
  "encode_utf8 s = (case utf8 s of None \<Rightarrow> Inl UnicodeEncodeError | Some b \<Rightarrow> Inr b)"

fun key_material :: "key_arg \<Rightarrow> exc + bytes" where
  "key_material (KBytes b) = Inr b"
| "key_material (KStr v) =
    (let t = py_strip v
     in if MIN_HEX_MATERIAL_CHARS \<le> length t \<and> length t mod 2 = 0
           \<and> list_all (\<lambda>c. c \<in> set HEX_DIGITS) t
        then (case bytes_fromhex t of Some b \<Rightarrow> Inr b | None \<Rightarrow> Inl ValueError)
        else encode_utf8 t)"

definition derive_command_key :: "key_arg \<Rightarrow> key_arg \<Rightarrow> exc + bytes" where
  "derive_command_key recovery_secret salt =
    bindE (key_material recovery_secret) (\<lambda>secret_bytes.
      if secret_bytes = [] then invalid SecretEmpty
      else bindE (encode_utf8 COMMAND_KEY_LABEL) (\<lambda>label_bytes.
        if MAX_BLAKE2B_DIGEST < length label_bytes then invalid LabelTooLong
        else bindE (key_material salt) (\<lambda>salt_bytes.
          Inr (blake2b label_bytes COMMAND_KEY_LENGTH (secret_bytes @ salt_bytes)))))"

subsection \<open>The MAC\<close>

text \<open>The text of an integer has no limit here; Python's, of 4300 digits, is far beyond any time stamp.\<close>

definition canonical_input :: "int \<Rightarrow> pystr \<Rightarrow> pystr \<Rightarrow> pystr \<Rightarrow> pystr" where
  "canonical_input ts nonce req_id action = dec_int ts @ nonce @ req_id @ action"

definition make_command_mac ::
  "bytes \<Rightarrow> int \<Rightarrow> pystr \<Rightarrow> pystr \<Rightarrow> pystr \<Rightarrow> exc + pystr" where
  "make_command_mac key ts nonce req_id action =
    (if action \<noteq> ACTION_LOCK \<and> action \<noteq> ACTION_UNLOCK then invalid (UnsupportedAction action)
     else bindE (encode_utf8 (canonical_input ts nonce req_id action)) (\<lambda>b.
       Inr (bytes_hex (hmac_sha256 key b))))"

subsection \<open>Nonces and request ids\<close>

definition new_nonce :: "int \<Rightarrow> bytes \<Rightarrow> exc + pystr" where
  "new_nonce num_bytes drawn =
    (if num_bytes \<le> 0 then invalid BadNonceSize else Inr (bytes_hex drawn))"

text \<open>\<open>uuid.uuid4().hex\<close> of sixteen random bytes: version and variant bits are set.\<close>

definition new_request_id :: "bytes \<Rightarrow> pystr" where
  "new_request_id rnd =
    bytes_hex (rnd[6 := (rnd ! 6 AND 15) OR 64, 8 := (rnd ! 8 AND 63) OR 128])"

text \<open>\<open>int(x)\<close> of the clock's float, towards zero.\<close>

definition current_epoch_seconds :: "pyfloat \<Rightarrow> exc + int" where
  "current_epoch_seconds now = (case now of
      FNan \<Rightarrow> Inl ValueError
    | FInf s \<Rightarrow> Inl OverflowError
    | FFin s m e \<Rightarrow>
       (let q = int (float_num now div float_den now) in Inr (if s then - q else q)))"

record nonce_tracker =
  nt_window :: nat
  nt_seen :: "pystr list"

definition new_nonce_tracker :: "nat \<Rightarrow> nonce_tracker" where
  "new_nonce_tracker window = \<lparr>nt_window = max 1 window, nt_seen = []\<rparr>"

definition nonce_contains :: "nonce_tracker \<Rightarrow> pystr \<Rightarrow> bool" where
  "nonce_contains t nonce = (nonce \<in> set (nt_seen t))"

definition remember :: "pystr \<Rightarrow> nonce_tracker \<Rightarrow> nonce_tracker" where
  "remember nonce t =
    (let seen = nt_seen t @ [nonce]
     in t\<lparr>nt_seen := if nt_window t * 2 < length seen then drop (nt_window t) seen else seen\<rparr>)"

fun fresh_loop :: "nat \<Rightarrow> int \<Rightarrow> (nat \<Rightarrow> bytes) \<Rightarrow> nat \<Rightarrow> nonce_tracker
    \<Rightarrow> (exc + pystr) \<times> nonce_tracker" where
  "fresh_loop 0 num_bytes draws i t = (invalid NoFreshNonce, t)"
| "fresh_loop (Suc k) num_bytes draws i t =
    (case new_nonce num_bytes (draws i) of
       Inl e \<Rightarrow> (Inl e, t)
     | Inr nonce \<Rightarrow>
        if nonce \<notin> set (nt_seen t) then (Inr nonce, remember nonce t)
        else fresh_loop k num_bytes draws (i + 1) t)"

definition fresh_nonce :: "int \<Rightarrow> (nat \<Rightarrow> bytes) \<Rightarrow> nonce_tracker \<Rightarrow> (exc + pystr) \<times> nonce_tracker" where
  "fresh_nonce num_bytes draws t = fresh_loop 8 num_bytes draws 0 t"

definition is_plausible :: "pystr \<Rightarrow> bool" where
  "is_plausible nonce =
    (if nonce = [] then False else if 128 < length nonce then False
     else list_all (\<lambda>ch. ch \<in> set HEX_DIGITS) nonce)"

subsection \<open>Building a command\<close>

text \<open>What one call draws from the outside.\<close>

record draw_env =
  de_now :: pyfloat
  de_draws :: "nat \<Rightarrow> bytes"
  de_uuid :: bytes

definition choose_nonce :: "draw_env \<Rightarrow> pystr option \<Rightarrow> nonce_tracker option
    \<Rightarrow> (exc + pystr) \<times> nonce_tracker option" where
  "choose_nonce env nonce tracker =
    (case nonce of
       Some n \<Rightarrow> (Inr n, tracker)
     | None \<Rightarrow>
        (case tracker of
           None \<Rightarrow> (new_nonce (int COMMAND_NONCE_BYTES) (de_draws env 0), None)
         | Some t \<Rightarrow> (case fresh_nonce (int COMMAND_NONCE_BYTES) (de_draws env) t of
                        (r, t') \<Rightarrow> (r, Some t'))))"

definition req_id_checked :: "json \<Rightarrow> exc + pystr" where
  "req_id_checked v = (case v of
      JStr s \<Rightarrow> if s = [] \<or> 128 < length s then invalid BadReqId else Inr s
    | _ \<Rightarrow> invalid BadReqId)"

definition ts_checked :: "json \<Rightarrow> exc + int" where
  "ts_checked v = (case v of JInt i \<Rightarrow> Inr i | _ \<Rightarrow> invalid BadTs)"

definition sign_command :: "bytes \<Rightarrow> pystr \<Rightarrow> int \<Rightarrow> pystr \<Rightarrow> pystr \<Rightarrow> exc + authenticated_command" where
  "sign_command key action ts nonce req_id =
    bindE (make_command_mac key ts nonce req_id action) (\<lambda>mac.
      Inr \<lparr>ac_ts = ts, ac_nonce = nonce, ac_req_id = req_id, ac_mac = mac\<rparr>)"

definition build_command :: "draw_env \<Rightarrow> bytes \<Rightarrow> pystr \<Rightarrow> json \<Rightarrow> pystr option \<Rightarrow> json
    \<Rightarrow> nonce_tracker option \<Rightarrow> (exc + authenticated_command) \<times> nonce_tracker option" where
  "build_command env key action ts nonce req_id tracker =
    (if action \<noteq> ACTION_LOCK \<and> action \<noteq> ACTION_UNLOCK
     then (invalid (UnsupportedAction action), tracker)
     else if key = [] then (invalid KeyEmpty, tracker)
     else case bindE (if ts = JNull then map_sum id JInt (current_epoch_seconds (de_now env)) else Inr ts)
                 ts_checked of
       Inl e \<Rightarrow> (Inl e, tracker)
     | Inr t \<Rightarrow>
        (case choose_nonce env nonce tracker of
           (Inl e, tracker') \<Rightarrow> (Inl e, tracker')
         | (Inr n, tracker') \<Rightarrow>
            (if \<not> is_plausible n then invalid BadNonce
             else bindE (req_id_checked
                      (if req_id = JNull then JStr (new_request_id (de_uuid env)) else req_id))
                    (\<lambda>r. sign_command key action t n r), tracker')))"


subsection \<open>Facts about the key and the MAC\<close>

lemma hex_digits_iff: "c \<in> set HEX_DIGITS \<longleftrightarrow> is_hex c"
  by (simp add: HEX_DIGITS_def is_hex_iff)

lemma hex_digits_all: "list_all (\<lambda>c. c \<in> set HEX_DIGITS) s = list_all is_hex s"
  by (simp add: hex_digits_iff)

lemma label_utf8: "encode_utf8 COMMAND_KEY_LABEL = Inr (map word_of_nat COMMAND_KEY_LABEL)"
proof -
  have "list_all (\<lambda>c. c < 128) COMMAND_KEY_LABEL"
    by (simp add: COMMAND_KEY_LABEL_def py_def)
  then show ?thesis by (simp add: encode_utf8_def utf8_ascii)
qed

lemma strip_hex: "list_all is_hex s \<Longrightarrow> py_strip s = s"
  by (rule py_strip_id) (auto simp: list_all_iff is_hex_not_space)

lemma key_material_hex:
  "8 \<le> length b \<Longrightarrow> key_material (KStr (bytes_hex b)) = Inr b"
  by (simp add: strip_hex bytes_hex_is_hex hex_digits_all MIN_HEX_MATERIAL_CHARS_def)

lemma length_label: "length COMMAND_KEY_LABEL = 19"
  by (simp add: COMMAND_KEY_LABEL_def)

lemma derive_bytes:
  "secret \<noteq> [] \<Longrightarrow> derive_command_key (KBytes secret) (KBytes salt)
     = Inr (blake2b (map word_of_nat COMMAND_KEY_LABEL) 32 (secret @ salt))"
  by (simp add: derive_command_key_def label_utf8 length_label MAX_BLAKE2B_DIGEST_def COMMAND_KEY_LENGTH_def)

lemma derive_hex:
  assumes "8 \<le> length secret" "8 \<le> length salt"
  shows "derive_command_key (KStr (bytes_hex secret)) (KStr (bytes_hex salt))
     = Inr (blake2b (map word_of_nat COMMAND_KEY_LABEL) 32 (secret @ salt))"
proof -
  have "secret \<noteq> []" using assms(1) by auto
  then show ?thesis
    unfolding derive_command_key_def key_material_hex [OF assms(1)] key_material_hex [OF assms(2)]
    by (simp add: label_utf8 length_label MAX_BLAKE2B_DIGEST_def COMMAND_KEY_LENGTH_def)
qed

lemma derive_command_key_Inr:
  assumes "derive_command_key s t = Inr k"
  shows "length k = 32"
  using assms
  by (auto simp: derive_command_key_def res_simps label_utf8 length_blake2b COMMAND_KEY_LENGTH_def
      split: if_splits)

lemma utf8_canonical_ok:
  assumes "list_all is_hex nonce" "utf8 req_id \<noteq> None" "action \<in> {ACTION_LOCK, ACTION_UNLOCK}"
  shows "utf8 (canonical_input ts nonce req_id action) \<noteq> None"
proof -
  have "utf8 (dec_int ts) \<noteq> None" using dec_int_ascii [of ts] by (simp add: utf8_ascii)
  moreover have "utf8 nonce \<noteq> None"
  proof -
    have "list_all (\<lambda>c. c < 128) nonce"
      using assms(1) by (rule list.pred_mono_strong) (rule is_hex_ascii)
    then show ?thesis by (simp add: utf8_ascii)
  qed
  moreover have "utf8 action \<noteq> None"
    using assms(3) by (auto simp: const_defs py_def utf8_cp_def)
  ultimately show ?thesis
    using assms(2) by (auto simp: canonical_input_def utf8_append split: option.splits)
qed

subsection \<open>What the nonce tracker remembers\<close>

text \<open>\<open>tracks t issued\<close>: the tracker holds the end of everything it was told, at most two
  windows of it and, once something was forgotten, more than one window.\<close>

definition tracks :: "nonce_tracker \<Rightarrow> pystr list \<Rightarrow> bool" where
  "tracks t issued \<longleftrightarrow> 0 < nt_window t \<and> length (nt_seen t) \<le> 2 * nt_window t
     \<and> nt_seen t = last_n (length (nt_seen t)) issued
     \<and> (length (nt_seen t) = length issued \<or> nt_window t < length (nt_seen t))"

lemma tracks_new: "tracks (new_nonce_tracker w) []"
  by (simp add: tracks_def new_nonce_tracker_def last_n_def)

lemma remember_window [simp]: "nt_window (remember n t) = nt_window t"
  by (simp add: remember_def Let_def)

lemma remember_contains: "0 < nt_window t \<Longrightarrow> nonce_contains (remember n t) n"
  by (auto simp: remember_def Let_def nonce_contains_def)

lemma tracks_remember:
  assumes "tracks t issued"
  shows "tracks (remember n t) (issued @ [n])"
proof -
  define seen w where "seen = nt_seen t" and "w = nt_window t"
  have 1: "0 < w" "length seen \<le> 2 * w" "seen = last_n (length seen) issued"
    "length seen = length issued \<or> w < length seen"
    using assms by (simp_all add: tracks_def seen_def w_def)
  then have le: "length seen \<le> length issued"
    by (metis length_last_n min.bounded_iff order_refl)
  have app: "seen @ [n] = last_n (length seen + 1) (issued @ [n])"
    using 1(3) by (simp add: last_n_snoc)
  show ?thesis
  proof (cases "w * 2 < length (seen @ [n])")
    case True
    then have len: "length seen = 2 * w" using 1(2) by simp
    have "drop w (seen @ [n]) = last_n (w + 1) (issued @ [n])"
      using len le by (subst app) (simp add: last_n_def)
    moreover have "min w (length issued) = w" using len le by simp
    ultimately show ?thesis
      using True len 1(1) by (simp add: tracks_def remember_def Let_def seen_def w_def)
  next
    case False
    then have r: "nt_seen (remember n t) = seen @ [n]"
      by (simp add: remember_def Let_def seen_def w_def)
    have len: "length (seen @ [n]) = length seen + 1" by simp
    have "length seen + 1 \<le> 2 * w" using False by simp
    moreover have "length seen + 1 = length (issued @ [n]) \<or> w < length seen + 1"
      using 1(4) by auto
    ultimately show ?thesis
      unfolding tracks_def r remember_window w_def [symmetric] len
      using 1(1) app by blast
  qed
qed

lemma tracks_recent:
  assumes "tracks t issued" "n \<notin> set (nt_seen t)" "k \<le> nt_window t + 1"
  shows "n \<notin> set (last_n k issued)"
proof -
  have "set (last_n k issued) \<subseteq> set (nt_seen t)"
  proof (cases "length (nt_seen t) = length issued")
    case True
    then have "nt_seen t = issued"
      using assms(1) by (metis tracks_def last_n_all order_refl)
    then show ?thesis by (simp add: set_last_n)
  next
    case False
    then have k: "k \<le> length (nt_seen t)"
      and seen: "nt_seen t = last_n (length (nt_seen t)) issued"
      using assms(1,3) unfolding tracks_def by auto
    have "set (last_n k issued) \<subseteq> set (last_n (length (nt_seen t)) issued)"
      using k by (simp add: last_n_def set_drop_subset_set_drop)
    then show ?thesis using seen by simp
  qed
  with assms(2) show ?thesis by blast
qed

lemma fresh_loop_Inr:
  "fresh_loop k nb draws i t = (Inr n, t') \<Longrightarrow>
     n \<notin> set (nt_seen t) \<and> t' = remember n t \<and> (\<exists>j. n = bytes_hex (draws j))"
  by (induction k nb draws i t rule: fresh_loop.induct)
    (auto simp: new_nonce_def split: if_splits)

lemma fresh_loop_Inl:
  "fresh_loop k nb draws i t = (Inl e, t') \<Longrightarrow> 0 < nb \<Longrightarrow> t' = t \<and> e = ValidationError NoFreshNonce
     \<and> (\<forall>j<k. bytes_hex (draws (i + j)) \<in> set (nt_seen t))"
proof (induction k nb draws i t rule: fresh_loop.induct)
  case (2 k nb draws i t)
  then have m: "bytes_hex (draws i) \<in> set (nt_seen t)"
    by (auto simp: new_nonce_def split: if_splits)
  then have "fresh_loop k nb draws (i + 1) t = (Inl e, t')"
    using 2 by (simp add: new_nonce_def)
  then have *: "t' = t \<and> e = ValidationError NoFreshNonce
     \<and> (\<forall>j<k. bytes_hex (draws (i + 1 + j)) \<in> set (nt_seen t))"
    using 2 m by (simp add: new_nonce_def)
  have "bytes_hex (draws (i + j)) \<in> set (nt_seen t)" if "j < Suc k" for j
    using * m that by (cases j) auto
  with * show ?case by simp
qed simp

lemma fresh_nonce_Inr:
  assumes "fresh_nonce nb draws t = (Inr n, t')"
  shows "n \<notin> set (nt_seen t)" "t' = remember n t" "list_all is_hex n"
  using fresh_loop_Inr [OF assms [unfolded fresh_nonce_def]] bytes_hex_is_hex by auto

text \<open>Eight draws are enough unless all eight were seen.\<close>

lemma fresh_nonce_total:
  assumes "0 < nb" "j < 8" "bytes_hex (draws j) \<notin> set (nt_seen t)"
  shows "\<exists>n. fresh_nonce nb draws t = (Inr n, remember n t)"
proof (cases "fresh_nonce nb draws t")
  case (Pair r t')
  then show ?thesis
    using assms fresh_loop_Inl [of 8 nb draws 0 t _ t'] fresh_loop_Inr [of 8 nb draws 0 t _ t']
    unfolding fresh_nonce_def by (cases r) fastforce+
qed

subsection \<open>What a built command is\<close>

lemma build_command_Inr:
  assumes "build_command env key action ts nonce req_id tracker = (Inr c, tracker')"
  shows "key \<noteq> []" "action \<in> {ACTION_LOCK, ACTION_UNLOCK}"
    "list_all is_hex (ac_nonce c)" "ac_nonce c \<noteq> []"
    "make_command_mac key (ac_ts c) (ac_nonce c) (ac_req_id c) action = Inr (ac_mac c)"
  using assms
  by (auto simp: build_command_def sign_command_def is_plausible_def res_simps hex_digits_iff
      split: if_splits sum.splits prod.splits)

text \<open>With the nonce left to the tracker and the request id to \<open>uuid4\<close>.\<close>

lemma build_command_fresh:
  assumes "build_command env key action ts None JNull (Some t) = (Inr c, tr)"
  shows "ts = JInt (ac_ts c) \<or> ts = JNull" "ac_nonce c \<notin> set (nt_seen t)"
    "tr = Some (remember (ac_nonce c) t)" "ac_req_id c = new_request_id (de_uuid env)"
  using assms
  by (auto simp: build_command_def sign_command_def res_simps choose_nonce_def req_id_checked_def
      ts_checked_def split: if_splits sum.splits prod.splits json.splits dest: fresh_nonce_Inr)

lemma length_new_request_id [simp]: "length (new_request_id u) = 2 * length u"
  by (simp add: new_request_id_def)

lemma new_request_id_hex: "list_all is_hex (new_request_id u)"
  by (simp add: new_request_id_def bytes_hex_is_hex)

lemma hex_ascii: "list_all is_hex s \<Longrightarrow> list_all (\<lambda>c. c < 128) s"
  by (erule list.pred_mono_strong) (rule is_hex_ascii)

lemma hex_utf8: "list_all is_hex s \<Longrightarrow> utf8 s \<noteq> None"
  by (simp add: utf8_ascii hex_ascii)

text \<open>The random source delivers the sixteen bytes it is asked for.\<close>

definition sound_draws :: "draw_env \<Rightarrow> bool" where
  "sound_draws env = ((\<forall>j. length (de_draws env j) = 16) \<and> length (de_uuid env) = 16)"

lemma make_command_mac_total:
  assumes "list_all is_hex nonce" "list_all is_hex req_id" "action \<in> {ACTION_LOCK, ACTION_UNLOCK}"
  shows "\<exists>mac. make_command_mac key ts nonce req_id action = Inr mac"
  using utf8_canonical_ok [OF assms(1) hex_utf8 [OF assms(2)] assms(3), of ts] assms(3)
  by (auto simp: make_command_mac_def encode_utf8_def)

text \<open>Once a fresh nonce is drawn from a sound source, nothing can fail any more.\<close>

lemma build_command_after_nonce:
  assumes "key \<noteq> []" "action \<in> {ACTION_LOCK, ACTION_UNLOCK}" "sound_draws env"
    and n: "fresh_nonce (int COMMAND_NONCE_BYTES) (de_draws env) t = (Inr n, remember n t)"
  shows "\<exists>c. build_command env key action (JInt ts) None JNull (Some t) = (Inr c, Some (remember n t))"
proof -
  obtain i where i: "n = bytes_hex (de_draws env i)"
    using fresh_loop_Inr [OF n [unfolded fresh_nonce_def]] by blast
  have len: "length n = 32" using i assms(3) by (simp add: sound_draws_def)
  then have "n \<noteq> []" by auto
  with len i have pl: "is_plausible n"
    by (simp add: is_plausible_def hex_digits_iff bytes_hex_is_hex)
  define rid where "rid = new_request_id (de_uuid env)"
  have rid: "length rid = 32" "list_all is_hex rid"
    using assms(3) by (auto simp: rid_def sound_draws_def new_request_id_hex)
  then have "rid \<noteq> []" by auto
  obtain mac where mac: "make_command_mac key ts n rid action = Inr mac"
    using make_command_mac_total [of n rid action] rid assms(2) i bytes_hex_is_hex by metis
  show ?thesis
    using assms(1,2) n pl mac rid \<open>rid \<noteq> []\<close>
    by (auto simp: build_command_def ts_checked_def choose_nonce_def req_id_checked_def
        sign_command_def rid_def [symmetric])
qed

lemma build_command_total:
  assumes "key \<noteq> []" "action \<in> {ACTION_LOCK, ACTION_UNLOCK}" "sound_draws env"
    "j < 8" "bytes_hex (de_draws env j) \<notin> set (nt_seen t)"
  shows "\<exists>c tr. build_command env key action (JInt ts) None JNull (Some t) = (Inr c, tr)"
proof -
  obtain n where "fresh_nonce (int COMMAND_NONCE_BYTES) (de_draws env) t = (Inr n, remember n t)"
    using fresh_nonce_total [of "int COMMAND_NONCE_BYTES" j "de_draws env" t] assms(4,5)
    by (auto simp: COMMAND_NONCE_BYTES_def)
  then show ?thesis using build_command_after_nonce [OF assms(1-3)] by blast
qed

lemma build_command_Inl_keeps:
  assumes b: "build_command env key action (JInt ts) None JNull (Some t) = (Inl e, tr)"
    and "sound_draws env"
  shows "tr = Some t"
proof (cases "key \<noteq> [] \<and> action \<in> {ACTION_LOCK, ACTION_UNLOCK}")
  case True
  show ?thesis
  proof (cases "fresh_nonce (int COMMAND_NONCE_BYTES) (de_draws env) t")
    case (Pair r t')
    show ?thesis
    proof (cases r)
      case (Inl x)
      then have "t' = t"
        using fresh_loop_Inl [of 8 _ "de_draws env" 0 t x t'] Pair
        by (simp add: fresh_nonce_def COMMAND_NONCE_BYTES_def)
      then show ?thesis
        using b Pair Inl True by (auto simp: build_command_def ts_checked_def choose_nonce_def)
    next
      case (Inr n)
      then have "fresh_nonce (int COMMAND_NONCE_BYTES) (de_draws env) t = (Inr n, remember n t)"
        using Pair fresh_nonce_Inr(2) by blast
      then obtain c where "build_command env key action (JInt ts) None JNull (Some t)
          = (Inr c, Some (remember n t))"
        using build_command_after_nonce assms(2) True by blast
      then show ?thesis using b by simp
    qed
  qed
next
  case False
  then show ?thesis using b by (auto simp: build_command_def split: if_splits)
qed

subsection \<open>A run of nonces\<close>

text \<open>One tracker asked once per element of the list; the nonces it returned.\<close>

fun issue_nonces :: "(nat \<Rightarrow> bytes) list \<Rightarrow> nonce_tracker \<Rightarrow> pystr list \<times> nonce_tracker" where
  "issue_nonces [] t = ([], t)"
| "issue_nonces (d # ds) t =
    (case fresh_nonce (int COMMAND_NONCE_BYTES) d t of
       (Inl e, t') \<Rightarrow> issue_nonces ds t'
     | (Inr n, t') \<Rightarrow> (case issue_nonces ds t' of (ns, t'') \<Rightarrow> (n # ns, t'')))"

text \<open>\<open>spaced k issued ns\<close>: continuing \<open>issued\<close> with \<open>ns\<close>, no nonce is among the \<open>k\<close> before it.\<close>

fun spaced :: "nat \<Rightarrow> pystr list \<Rightarrow> pystr list \<Rightarrow> bool" where
  "spaced k issued [] = True"
| "spaced k issued (n # ns) = (n \<notin> set (last_n k issued) \<and> spaced k (issued @ [n]) ns)"

lemma issue_nonces_spaced:
  assumes "tracks t issued" "issue_nonces ds t = (ns, t')"
  shows "spaced (nt_window t + 1) issued ns \<and> tracks t' (issued @ ns) \<and> nt_window t' = nt_window t"
  using assms
proof (induction ds arbitrary: t issued ns)
  case Nil
  then show ?case by simp
next
  case (Cons d ds)
  obtain r t1 where f: "fresh_nonce (int COMMAND_NONCE_BYTES) d t = (r, t1)"
    by (cases "fresh_nonce (int COMMAND_NONCE_BYTES) d t")
  show ?case
  proof (cases r)
    case (Inl e)
    have "t1 = t"
      using fresh_loop_Inl [of 8 "int COMMAND_NONCE_BYTES" d 0 t e t1] f Inl
      by (simp add: fresh_nonce_def COMMAND_NONCE_BYTES_def)
    then show ?thesis using Cons f Inl by simp
  next
    case (Inr n)
    note fr = fresh_nonce_Inr [OF f [unfolded Inr]]
    obtain ms where ms: "issue_nonces ds t1 = (ms, t')" "ns = n # ms"
      using Cons.prems f Inr by (auto split: prod.splits)
    have tr: "tracks t1 (issued @ [n])" "nt_window t1 = nt_window t"
      using tracks_remember [OF Cons.prems(1)] fr(2) by simp_all
    have "n \<notin> set (last_n (nt_window t + 1) issued)"
      using tracks_recent [OF Cons.prems(1) fr(1)] by simp
    then show ?thesis using Cons.IH [OF tr(1) ms(1)] ms(2) tr(2) by simp
  qed
qed

lemma tracks_bounded: "tracks t issued \<Longrightarrow> length (nt_seen t) \<le> 2 * nt_window t"
  by (simp add: tracks_def)

end
