(* ===== verification/Mqtt.thy ===== *)
theory Mqtt imports Command begin

section \<open>The MQTT layer\<close>

text \<open>
  \<open>mqtt.py\<close>: topic parsing, the filter between the broker and the coordinator
  (\<open>on_message\<close> yields the message handed to the callback, if any) and the publication of
  authenticated commands. The transport (Home Assistant's MQTT integration) is a parameter:
  \<open>sub\<close> and \<open>pub\<close> say whether a call raises; what is handed to it is the list of
  publications returned.
\<close>

subsection \<open>Topics\<close>

record message =
  msg_household_id :: pystr
  msg_subtopic :: pystr
  msg_payload :: pystr
  msg_node_id :: "pystr option"
  msg_qos :: int
  msg_retain :: bool
  msg_legacy :: bool

record parsed_topic =
  pt_household_id :: "pystr option"
  pt_node_id :: "pystr option"
  pt_subtopic :: "pystr option"
  pt_legacy :: bool
  pt_reserved :: bool

definition KIND_LEGACY_STATUS :: pystr where [const_defs]: "KIND_LEGACY_STATUS = py ''legacy_status''"

definition KNOWN_SUBTOPICS :: "pystr list" where [const_defs]:
  "KNOWN_SUBTOPICS = JSON_SUBTOPICS @ PLAIN_SUBTOPICS"

definition LEGACY_SUFFIX_KINDS :: "(pystr \<times> pystr) list" where [const_defs]:
  "LEGACY_SUFFIX_KINDS = [(LEGACY_STATUS_SUFFIX, KIND_LEGACY_STATUS),
     (LEGACY_STATE_SUFFIX, py ''legacy_state''), (LEGACY_AUTH_SUFFIX, py ''legacy_auth'')]"

definition is_valid_id :: "pystr \<Rightarrow> bool" where
  "is_valid_id v =
    (if v = [] \<or> 64 < length v then False
     else list_all (\<lambda>ch. ch \<in> set (py ''abcdefghijklmnopqrstuvwxyzABCDEFGHIJKLMNOPQRSTUVWXYZ0123456789_-'')) v)"

definition parse_legacy_topic :: "pystr \<Rightarrow> pystr \<Rightarrow> parsed_topic option" where
  "parse_legacy_topic topic prefix =
    (if \<not> py_startswith topic prefix then None
     else case py_split_once 47 (drop (length prefix) topic) of
       None \<Rightarrow> None
     | Some (client_id, suffix) \<Rightarrow>
        if client_id = [] then None
        else case dict_get LEGACY_SUFFIX_KINDS suffix of
          None \<Rightarrow> None
        | Some kind \<Rightarrow> Some \<lparr>pt_household_id = None, pt_node_id = Some client_id,
            pt_subtopic = Some kind, pt_legacy = True, pt_reserved = False\<rparr>)"

definition parse_topic :: "pystr \<Rightarrow> pystr option \<Rightarrow> parsed_topic option" where
  "parse_topic topic legacy_prefix =
    (let parts = py_split 47 topic in
     if parts \<noteq> [] \<and> parts ! 0 = TOPIC_ROOT then
       (if length parts = 2 \<and> parts ! 1 = TOPIC_HOUSEHOLD then None
        else if 3 \<le> length parts \<and> parts ! 1 = TOPIC_HOUSEHOLD then
          (let household_id = parts ! 2 in
           if \<not> is_valid_id household_id then None
           else if 6 \<le> length parts \<and> parts ! 3 = TOPIC_NODES then
             (let node_id = parts ! 4; subtopic = py_join [47] (drop 5 parts) in
              if \<not> is_valid_id node_id then None
              else Some \<lparr>pt_household_id = Some household_id, pt_node_id = Some node_id,
                pt_subtopic = Some subtopic, pt_legacy = False,
                pt_reserved = (subtopic \<in> set RESERVED_TOPICS)\<rparr>)
           else None)
        else None)
     else case legacy_prefix of
        None \<Rightarrow> None
      | Some p \<Rightarrow> if p = [] then None else parse_legacy_topic topic p)"

subsection \<open>The client\<close>

record mqtt_client =
  mc_household_id :: pystr
  mc_legacy_prefix :: "pystr option"
  mc_subscriptions :: "(pystr \<times> int) list"
  mc_nonces :: nonce_tracker

definition new_mqtt_client :: "pystr \<Rightarrow> pystr option \<Rightarrow> mqtt_client" where
  "new_mqtt_client household_id legacy_prefix =
    \<lparr>mc_household_id = household_id, mc_legacy_prefix = legacy_prefix, mc_subscriptions = [],
     mc_nonces = new_nonce_tracker COMMAND_REPLAY_WINDOW\<rparr>"

definition wanted_subscriptions :: "mqtt_client \<Rightarrow> (pystr \<times> int) list" where
  "wanted_subscriptions c = (TOPIC_SUBSCRIBE_ALL, 1) #
    (case mc_legacy_prefix c of
       None \<Rightarrow> []
     | Some p \<Rightarrow> if p = [] then [] else [(legacy_status_subscribe p, 1)])"

fun subscribe_each :: "(pystr \<Rightarrow> exc option) \<Rightarrow> (pystr \<times> int) list \<Rightarrow> mqtt_client
    \<Rightarrow> (exc + unit) \<times> mqtt_client" where
  "subscribe_each sub [] c = (Inr (), c)"
| "subscribe_each sub ((topic, qos) # ts) c =
    (case sub topic of
       Some e \<Rightarrow> (Inl e, c)
     | None \<Rightarrow> subscribe_each sub ts (c\<lparr>mc_subscriptions := mc_subscriptions c @ [(topic, qos)]\<rparr>))"

definition client_start :: "(pystr \<Rightarrow> exc option) \<Rightarrow> mqtt_client \<Rightarrow> (exc + unit) \<times> mqtt_client" where
  "client_start sub c = subscribe_each sub (wanted_subscriptions c) c"

definition client_stop :: "mqtt_client \<Rightarrow> mqtt_client" where
  "client_stop c = c\<lparr>mc_subscriptions := []\<rparr>"

text \<open>Inbound: the message given to the callback.\<close>

definition on_message ::
  "mqtt_client \<Rightarrow> pystr \<Rightarrow> pystr \<Rightarrow> int \<Rightarrow> bool \<Rightarrow> message option" where
  "on_message c topic payload qos retain =
    (case parse_topic topic (mc_legacy_prefix c) of
       None \<Rightarrow> None
     | Some parsed \<Rightarrow>
        if pt_reserved parsed then None
        else if pt_legacy parsed then
          (if pt_subtopic parsed \<noteq> Some KIND_LEGACY_STATUS then None
           else Some \<lparr>msg_household_id = mc_household_id c, msg_subtopic = KIND_LEGACY_STATUS,
             msg_payload = payload, msg_node_id = pt_node_id parsed, msg_qos = qos,
             msg_retain = retain, msg_legacy = True\<rparr>)
        else case pt_subtopic parsed of
            None \<Rightarrow> None
          | Some subtopic \<Rightarrow>
             if subtopic \<notin> set KNOWN_SUBTOPICS then None
             else Some \<lparr>msg_household_id = str_or (pt_household_id parsed) (mc_household_id c),
               msg_subtopic = subtopic, msg_payload = payload,
               msg_node_id = pt_node_id parsed, msg_qos = qos, msg_retain = retain,
               msg_legacy = False\<rparr>)"

text \<open>Outbound.\<close>

record publication =
  pub_topic :: pystr
  pub_payload :: pystr
  pub_qos :: int
  pub_retain :: bool

definition dumps_command :: "authenticated_command \<Rightarrow> pystr" where
  "dumps_command c = json_dumps [44] [58] (command_to_dict c)"

definition publish_authenticated_command ::
  "(publication \<Rightarrow> exc option) \<Rightarrow> draw_env \<Rightarrow> mqtt_client \<Rightarrow> pystr \<Rightarrow> pystr \<Rightarrow> bytes \<Rightarrow> pystr
    \<Rightarrow> json \<Rightarrow> (exc + authenticated_command) \<times> mqtt_client \<times> publication list" where
  "publish_authenticated_command pub env c household_id node_id key action ts =
    (if key = [] then (invalid KeyUnavailable, c, [])
     else if action \<notin> set (map snd COMMAND_ACTIONS) then (invalid (UnsupportedAction action), c, [])
     else
       (let subtopic = (if action = py ''lock'' then TOPIC_CMD_LOCK else TOPIC_CMD_UNLOCK)
        in case (if ts = JNull then map_sum id JInt (current_epoch_seconds (de_now env)) else Inr ts) of
             Inl e \<Rightarrow> (Inl e, c, [])
           | Inr t \<Rightarrow>
              (case build_command env key action t None JNull (Some (mc_nonces c)) of
                 (r, tr) \<Rightarrow>
                   (let c' = (case tr of None \<Rightarrow> c | Some nt \<Rightarrow> c\<lparr>mc_nonces := nt\<rparr>)
                    in case r of
                         Inl e \<Rightarrow> (Inl e, c', [])
                       | Inr command \<Rightarrow>
                          (let p = \<lparr>pub_topic = node_topic household_id node_id (Some subtopic),
                                    pub_payload = dumps_command command, pub_qos = 1,
                                    pub_retain = False\<rparr>
                           in case pub p of
                                Some e \<Rightarrow> (Inl e, c', [p])
                              | None \<Rightarrow> (Inr command, c', [p]))))))"

definition client_lock where
  "client_lock pub env c household_id node_id key ts =
    publish_authenticated_command pub env c household_id node_id key (py ''lock'') ts"

definition client_unlock where
  "client_unlock pub env c household_id node_id key ts =
    publish_authenticated_command pub env c household_id node_id key (py ''unlock'') ts"

subsection \<open>Topics: parsing inverts construction\<close>

lemma is_valid_id_iff:
  "is_valid_id v \<longleftrightarrow> v \<noteq> [] \<and> length v \<le> 64 \<and> list_all (\<lambda>c. c \<in> set ID_SAFE_CHARS) v"
  by (auto simp: is_valid_id_def ID_SAFE_CHARS_def)

lemma valid_id_no_slash: "is_valid_id v \<Longrightarrow> 47 \<notin> set v"
  by (auto simp: is_valid_id_def list_all_iff py_def split: if_splits)

lemma slash: "py ''/'' = [47]"
  by (simp add: py_def)

lemma node_base_parts:
  "node_base h n = py_join [47] [TOPIC_ROOT, TOPIC_HOUSEHOLD, h, TOPIC_NODES, n]"
  by (simp add: node_base_def slash)

lemma node_topic_parts:
  "s \<noteq> [] \<Longrightarrow> node_topic h n (Some s) =
     TOPIC_ROOT @ 47 # TOPIC_HOUSEHOLD @ 47 # h @ 47 # TOPIC_NODES @ 47 # n @ 47 # s"
  by (simp add: node_topic_def node_base_def slash Let_def)

lemma topic_words_no_slash:
  "47 \<notin> set TOPIC_ROOT" "47 \<notin> set TOPIC_HOUSEHOLD" "47 \<notin> set TOPIC_NODES"
  by (simp_all add: const_defs py_def)

lemma split_node_topic:
  assumes "47 \<notin> set h" "47 \<notin> set n"
  shows "py_split 47 (TOPIC_ROOT @ 47 # TOPIC_HOUSEHOLD @ 47 # h @ 47 # TOPIC_NODES @ 47 # n @ 47 # s)
    = TOPIC_ROOT # TOPIC_HOUSEHOLD # h # TOPIC_NODES # n # py_split 47 s"
  using assms topic_words_no_slash by (simp add: py_split_append_sep)

lemma parse_topic_node:
  assumes "is_valid_id h" "is_valid_id n"
  shows "parse_topic (TOPIC_ROOT @ 47 # TOPIC_HOUSEHOLD @ 47 # h @ 47 # TOPIC_NODES @ 47 # n @ 47 # s) lp =
    Some \<lparr>pt_household_id = Some h, pt_node_id = Some n, pt_subtopic = Some s, pt_legacy = False,
      pt_reserved = (s \<in> set RESERVED_TOPICS)\<rparr>"
proof -
  have "6 \<le> Suc (Suc (Suc (Suc (Suc (length (py_split 47 s))))))"
    using py_split_ne [of 47 s] by (cases "py_split 47 s") auto
  then show ?thesis
    using split_node_topic [OF valid_id_no_slash [OF assms(1)] valid_id_no_slash [OF assms(2)], of s] assms
    by (simp add: parse_topic_def Let_def py_join_split numeral_eq_Suc)
qed

lemma parse_topic_household:
  assumes "parse_topic topic lp = Some p" "\<not> pt_legacy p"
  shows "\<exists>h n s. is_valid_id h \<and> is_valid_id n
    \<and> topic = TOPIC_ROOT @ 47 # TOPIC_HOUSEHOLD @ 47 # h @ 47 # TOPIC_NODES @ 47 # n @ 47 # s
    \<and> p = \<lparr>pt_household_id = Some h, pt_node_id = Some n, pt_subtopic = Some s,
            pt_legacy = False, pt_reserved = (s \<in> set RESERVED_TOPICS)\<rparr>"
proof -
  define parts where "parts = py_split 47 topic"
  have nl: "parse_legacy_topic topic q = Some p \<Longrightarrow> pt_legacy p" for q
    by (auto simp: parse_legacy_topic_def split: if_splits option.splits prod.splits)
  from assms have *: "parts ! 0 = TOPIC_ROOT" "parts ! 1 = TOPIC_HOUSEHOLD" "6 \<le> length parts"
    "parts ! 3 = TOPIC_NODES" "is_valid_id (parts ! 2)" "is_valid_id (parts ! 4)"
    and p: "p = \<lparr>pt_household_id = Some (parts ! 2), pt_node_id = Some (parts ! 4),
      pt_subtopic = Some (py_join [47] (drop 5 parts)), pt_legacy = False,
      pt_reserved = (py_join [47] (drop 5 parts) \<in> set RESERVED_TOPICS)\<rparr>"
    unfolding parse_topic_def parts_def [symmetric] Let_def
    by (auto split: if_splits option.splits dest: nl)
  obtain a b c d e f r where parts: "parts = a # b # c # d # e # f # r"
    using *(3) by (cases parts; cases "tl parts"; cases "tl (tl parts)"; cases "tl (tl (tl parts))";
      cases "tl (tl (tl (tl parts)))"; cases "tl (tl (tl (tl (tl parts))))") auto
  have "topic = py_join [47] parts" by (simp add: parts_def py_join_split)
  then have "topic = TOPIC_ROOT @ 47 # TOPIC_HOUSEHOLD @ 47 # c @ 47 # TOPIC_NODES @ 47 # e @ 47 # py_join [47] (f # r)"
    using * by (simp add: parts numeral_eq_Suc)
  then show ?thesis using * p by (auto simp: parts numeral_eq_Suc)
qed

subsection \<open>What reaches the coordinator\<close>

lemma known_not_reserved: "s \<in> set KNOWN_SUBTOPICS \<Longrightarrow> s \<notin> set RESERVED_TOPICS"
  by (auto simp: const_defs)

lemma known_ne: "s \<in> set KNOWN_SUBTOPICS \<Longrightarrow> s \<noteq> [] \<and> s \<noteq> KIND_LEGACY_STATUS"
  by (auto simp: const_defs)

lemma on_message_Some:
  assumes "on_message c topic payload qos retain = Some m"
  shows "(\<exists>h n s. is_valid_id h \<and> is_valid_id n \<and> s \<in> set KNOWN_SUBTOPICS
            \<and> topic = node_topic h n (Some s)
            \<and> m = \<lparr>msg_household_id = h, msg_subtopic = s, msg_payload = payload,
                 msg_node_id = Some n, msg_qos = qos, msg_retain = retain, msg_legacy = False\<rparr>)
       \<or> (\<exists>p i. mc_legacy_prefix c = Some p \<and> topic = p @ i @ 47 # LEGACY_STATUS_SUFFIX \<and> i \<noteq> []
            \<and> m = \<lparr>msg_household_id = mc_household_id c, msg_subtopic = KIND_LEGACY_STATUS,
                 msg_payload = payload, msg_node_id = Some i, msg_qos = qos, msg_retain = retain,
                 msg_legacy = True\<rparr>)"
proof -
  from assms obtain pt where pt: "parse_topic topic (mc_legacy_prefix c) = Some pt"
    by (auto simp: on_message_def split: option.splits)
  show ?thesis
  proof (cases "pt_legacy pt")
    case False
    then obtain h n s where *: "is_valid_id h" "is_valid_id n"
      "topic = TOPIC_ROOT @ 47 # TOPIC_HOUSEHOLD @ 47 # h @ 47 # TOPIC_NODES @ 47 # n @ 47 # s"
      "pt = \<lparr>pt_household_id = Some h, pt_node_id = Some n, pt_subtopic = Some s,
            pt_legacy = False, pt_reserved = (s \<in> set RESERVED_TOPICS)\<rparr>"
      using parse_topic_household [OF pt] by blast
    then have s: "s \<in> set KNOWN_SUBTOPICS"
      using assms pt by (auto simp: on_message_def split: if_splits)
    have "h \<noteq> []" using *(1) by (simp add: is_valid_id_def split: if_splits)
    then show ?thesis
      using assms pt * s known_ne [OF s] known_not_reserved [OF s]
      by (auto simp: on_message_def str_or_def node_topic_parts split: if_splits)
  next
    case True
    then obtain p where p: "mc_legacy_prefix c = Some p" "parse_legacy_topic topic p = Some pt"
      using pt by (auto simp: parse_topic_def Let_def split: if_splits option.splits)
    then obtain i suf k where i: "topic = p @ i @ 47 # suf" "i \<noteq> []"
      "dict_get LEGACY_SUFFIX_KINDS suf = Some k" "pt_node_id pt = Some i" "pt_subtopic pt = Some k"
      by (fastforce simp: parse_legacy_topic_def py_startswith_iff py_split_once_Some_iff
          split: if_splits option.splits prod.splits)
    have "k = KIND_LEGACY_STATUS" "m = \<lparr>msg_household_id = mc_household_id c,
        msg_subtopic = KIND_LEGACY_STATUS, msg_payload = payload, msg_node_id = Some i,
        msg_qos = qos, msg_retain = retain, msg_legacy = True\<rparr>"
      using assms pt True i by (auto simp: on_message_def split: if_splits)
    moreover have "suf = LEGACY_STATUS_SUFFIX"
      using i(3) \<open>k = KIND_LEGACY_STATUS\<close> by (auto simp: const_defs split: if_splits)
    ultimately show ?thesis using p(1) i by blast
  qed
qed

subsection \<open>What is published\<close>

lemma json_get_command:
  assumes "json_ok (command_to_dict c)"
  shows "json_loads (dumps_command c) = Some (command_to_dict c)"
  using assms by (simp add: dumps_command_def json_loads_dumps seps_ok)

text \<open>The publication of a signed command for a node.\<close>

definition command_publication ::
  "pystr \<Rightarrow> pystr \<Rightarrow> pystr \<Rightarrow> authenticated_command \<Rightarrow> publication" where
  "command_publication h n action command =
    \<lparr>pub_topic = node_topic h n (Some (if action = ACTION_LOCK then TOPIC_CMD_LOCK
                                      else TOPIC_CMD_UNLOCK)),
     pub_payload = dumps_command command, pub_qos = 1, pub_retain = False\<rparr>"

definition signed_fresh ::
  "draw_env \<Rightarrow> bytes \<Rightarrow> pystr \<Rightarrow> nonce_tracker \<Rightarrow> authenticated_command \<Rightarrow> bool" where
  "signed_fresh env key action t command \<longleftrightarrow>
     key \<noteq> [] \<and> action \<in> {ACTION_LOCK, ACTION_UNLOCK}
     \<and> make_command_mac key (ac_ts command) (ac_nonce command) (ac_req_id command) action
         = Inr (ac_mac command)
     \<and> ac_nonce command \<notin> set (nt_seen t) \<and> list_all is_hex (ac_nonce command)
     \<and> ac_req_id command = new_request_id (de_uuid env)"

lemma command_actions_values: "set (map snd COMMAND_ACTIONS) = {ACTION_LOCK, ACTION_UNLOCK}"
  by (auto simp: COMMAND_ACTIONS_def)

lemma lock_word: "(action = py ''lock'') = (action = ACTION_LOCK)"
  by (simp add: ACTION_LOCK_def)

definition signed_at :: "draw_env \<Rightarrow> json \<Rightarrow> int \<Rightarrow> bool" where
  "signed_at env ts t = (ts = JInt t \<or> ts = JNull \<and> current_epoch_seconds (de_now env) = Inr t)"

lemma map_sum_JInt: "map_sum id JInt m = Inr t \<longleftrightarrow> (\<exists>i. m = Inr i \<and> t = JInt i)"
  by (cases m) auto

lemma publish_signed:
  assumes "key \<noteq> []" "action \<in> {ACTION_LOCK, ACTION_UNLOCK}"
    "(if ts = JNull then map_sum id JInt (current_epoch_seconds (de_now env)) else Inr ts) = Inr t"
    "build_command env key action t None JNull (Some (mc_nonces c)) = (q, tr)"
  shows "publish_authenticated_command pub env c h n key action ts =
    (let c' = (case tr of None \<Rightarrow> c | Some nt \<Rightarrow> c\<lparr>mc_nonces := nt\<rparr>) in
     case q of
       Inl e \<Rightarrow> (Inl e, c', [])
     | Inr command \<Rightarrow>
        (case pub (command_publication h n action command) of
           Some e \<Rightarrow> (Inl e, c', [command_publication h n action command])
         | None \<Rightarrow> (Inr command, c', [command_publication h n action command])))"
  unfolding publish_authenticated_command_def command_actions_values assms(3)
  using assms(1,2,4)
  by (cases q) (auto simp: Let_def command_publication_def lock_word split: option.splits)

lemma publish_early:
  assumes "\<not> (key \<noteq> [] \<and> action \<in> {ACTION_LOCK, ACTION_UNLOCK})
    \<or> (if ts = JNull then map_sum id JInt (current_epoch_seconds (de_now env)) else Inr ts) = Inl e"
  shows "\<exists>e'. publish_authenticated_command pub env c h n key action ts = (Inl e', c, [])"
  using assms unfolding publish_authenticated_command_def command_actions_values
  by (auto split: if_splits)

lemma build_refused_keeps:
  assumes "build_command env key action t None JNull (Some n) = (Inl e, tr)" "key \<noteq> []"
    "action \<in> {ACTION_LOCK, ACTION_UNLOCK}" "t \<noteq> JNull" "sound_draws env"
  shows "tr = Some n"
proof (cases "\<exists>i. t = JInt i")
  case True
  then show ?thesis using build_command_Inl_keeps assms(1,5) by blast
next
  case False
  with assms(4) have "ts_checked t = invalid BadTs" by (cases t) (auto simp: ts_checked_def)
  then show ?thesis using assms(1-4) by (auto simp: build_command_def)
qed

lemma publish_spec:
  assumes "publish_authenticated_command pub env c h n key action ts = (r, c', ps)"
  obtains (silent) "ps = []" "\<not> is_ok r" "sound_draws env \<Longrightarrow> c' = c"
  | (published) command where
      "signed_fresh env key action (mc_nonces c) command"
      "signed_at env ts (ac_ts command)"
      "c' = c\<lparr>mc_nonces := remember (ac_nonce command) (mc_nonces c)\<rparr>"
      "ps = [command_publication h n action command]"
      "r = (case pub (hd ps) of None \<Rightarrow> Inr command | Some e \<Rightarrow> Inl e)"
proof -
  define w where "w = (if ts = JNull then map_sum id JInt (current_epoch_seconds (de_now env)) else Inr ts)"
  consider (early) e where "\<not> (key \<noteq> [] \<and> action \<in> {ACTION_LOCK, ACTION_UNLOCK}) \<or> w = Inl e"
    | (late) t where "key \<noteq> []" "action \<in> {ACTION_LOCK, ACTION_UNLOCK}" "w = Inr t"
    by (cases w) blast+
  then show ?thesis
  proof cases
    case early
    then obtain e' where "publish_authenticated_command pub env c h n key action ts = (Inl e', c, [])"
      using publish_early unfolding w_def by blast
    then have "ps = []" "\<not> is_ok r" "c' = c" using assms by auto
    then show ?thesis by (rule silent)
  next
    case late
    obtain q tr where b: "build_command env key action t None JNull (Some (mc_nonces c)) = (q, tr)"
      by (cases "build_command env key action t None JNull (Some (mc_nonces c))")
    note eq = publish_signed [OF late(1,2) late(3) [unfolded w_def] b, of pub h n, unfolded assms Let_def]
    show ?thesis
    proof (cases q)
      case (Inl e)
      have "t \<noteq> JNull" using late(3) by (auto simp: w_def map_sum_JInt split: if_splits)
      then have keeps: "c' = c" if "sound_draws env"
        using build_refused_keeps [OF b [unfolded Inl] late(1,2) _ that] eq Inl by simp
      have none: "ps = []" "\<not> is_ok r" using eq Inl by auto
      show ?thesis by (rule silent [OF none keeps])
    next
      case (Inr command)
      note bf = build_command_fresh [OF b [unfolded Inr]]
      have sf: "signed_fresh env key action (mc_nonces c) command"
        unfolding signed_fresh_def using late build_command_Inr [OF b [unfolded Inr]] bf by blast
      have at: "signed_at env ts (ac_ts command)"
        using bf(1) late(3) by (auto simp: signed_at_def w_def map_sum_JInt split: if_splits)
      have ps: "ps = [command_publication h n action command]"
        "c' = c\<lparr>mc_nonces := remember (ac_nonce command) (mc_nonces c)\<rparr>"
        "r = (case pub (command_publication h n action command) of None \<Rightarrow> Inr command | Some e \<Rightarrow> Inl e)"
        using eq Inr bf(3) by (auto split: option.splits)
      show ?thesis by (rule published [OF sf at]) (use ps in auto)
    qed
  qed
qed

end
