(* ===== verification/Direct.thy ===== *)
theory Direct imports Mqtt begin

section \<open>The direct transport\<close>

text \<open>
  \<open>direct.py\<close>, all but the poller: fingerprints, the translation of a node's \<open>/api/ha/state\<close>
  into the messages MQTT would have carried, the client of the node's API and the connection
  procedure. The network is a parameter \<open>net\<close>: what a request yields may depend on the
  requests sent before, which every operation returns extended by its own. A node may answer
  any JSON value where an object is expected; reading an attribute of it is Python's
  \<open>AttributeError\<close>. \<open>rp\<close> is Python's \<open>str\<close> of a list or an object, which matters only if a
  node answers one where a name is expected.
\<close>

subsection \<open>Fingerprints\<close>

definition normalise_fingerprint :: "pystr \<Rightarrow> pystr" where
  "normalise_fingerprint v = py_upper (filter (\<lambda>c. c \<noteq> 58 \<and> c \<noteq> 32 \<and> c \<noteq> 45) v)"

definition format_fingerprint :: "bytes \<Rightarrow> pystr" where
  "format_fingerprint digest = py_join (py '':'') (map (\<lambda>b. py_upper (hex_byte b)) digest)"

definition fingerprints_match :: "pystr \<Rightarrow> pystr \<Rightarrow> bool" where
  "fingerprints_match expected actual = (normalise_fingerprint expected = normalise_fingerprint actual)"

definition certificate_fingerprint :: "bytes \<Rightarrow> pystr" where
  "certificate_fingerprint der = format_fingerprint (sha256 der)"

subsection \<open>Translation\<close>

definition LOCK_STATE_NOT_REPORTED :: int where [const_defs]: "LOCK_STATE_NOT_REPORTED = 255"

text \<open>\<open>v.get(k)\<close>\<close>

definition attr_get :: "json \<Rightarrow> pystr \<Rightarrow> exc + json" where
  "attr_get v k = (case v of JObj d \<Rightarrow> Inr (obj_get d k) | _ \<Rightarrow> Inl AttributeError)"

definition health_payload_from_state :: "(pystr \<times> json) list \<Rightarrow> exc + (pystr \<times> json) list" where
  "health_payload_from_state state =
    (let lock = json_or (obj_get state (py ''lock'')) (JObj []);
         reader = json_or (obj_get state (py ''reader'')) (JObj []);
         mqtt = json_or (obj_get state (py ''mqtt'')) (JObj []);
         firmware = obj_get state (py ''firmware'')
     in bindE (attr_get reader (py ''connected'')) (\<lambda>rc.
        bindE (attr_get mqtt (py ''connected'')) (\<lambda>mc.
        bindE (attr_get lock (py ''available'')) (\<lambda>avail.
        bindE (attr_get lock (py ''current'')) (\<lambda>current.
        bindE (attr_get lock (py ''target'')) (\<lambda>target.
          Inr ([(py ''network'', JStr HEALTH_NETWORK_UNKNOWN),
                (py ''certificate'', JStr HEALTH_CERTIFICATE_UNKNOWN),
                (py ''nfc'', JStr (if truthy rc then HEALTH_OK else HEALTH_ERROR)),
                (py ''mqtt'', JStr (if truthy mc then HEALTH_OK else HEALTH_ERROR))]
               @ (if truthy firmware then [(py ''firmware_version'', firmware)] else [])
               @ (if truthy avail \<and> current \<noteq> JNull then [(py ''lock_current'', current)] else [])
               @ (if truthy avail \<and> target \<noteq> JNull then [(py ''lock_target'', target)] else []))))))))"

definition drop_not_reported :: "pystr \<Rightarrow> (pystr \<times> json) list \<Rightarrow> (pystr \<times> json) list" where
  "drop_not_reported key payload =
    (if json_eq_int (obj_get payload key) LOCK_STATE_NOT_REPORTED then dict_del payload key else payload)"

definition health_from_state :: "(pystr \<times> json) list \<Rightarrow> exc + (pystr \<times> json) list" where
  "health_from_state state = (case obj_get state (py ''health'') of
      JObj payload \<Rightarrow>
        Inr (drop_not_reported (py ''lock_target'') (drop_not_reported (py ''lock_current'') payload))
    | _ \<Rightarrow> health_payload_from_state state)"

text \<open>\<open>str(v)\<close>\<close>

definition py_str :: "(json \<Rightarrow> pystr) \<Rightarrow> json \<Rightarrow> pystr" where
  "py_str rp v = (case v of
      JStr s \<Rightarrow> s
    | JInt i \<Rightarrow> dec_int i
    | JBool b \<Rightarrow> (if b then py ''True'' else py ''False'')
    | JNull \<Rightarrow> py ''None''
    | JFloat x \<Rightarrow> float_repr x
    | _ \<Rightarrow> rp v)"

definition device_of :: "(pystr \<times> json) list \<Rightarrow> (pystr \<times> json) list" where
  "device_of info = obj_or_empty (obj_get info (py ''device''))"

definition resolve_identity ::
  "(json \<Rightarrow> pystr) \<Rightarrow> (pystr \<times> json) list \<Rightarrow> (pystr \<times> json) list \<Rightarrow> exc + (pystr \<times> pystr)" where
  "resolve_identity rp state info =
    (let device = device_of info;
         household_id = json_or (obj_get state (py ''household_id'')) (JStr []);
         node_id = json_or (json_or (obj_get state (py ''node_id'')) (obj_get device (py ''node_id''))) (JStr [])
     in if \<not> truthy node_id then Inl DirectProtocolError
        else if \<not> truthy household_id then Inl DirectNoHouseholdError
        else Inr (py_str rp household_id, py_str rp node_id))"

definition direct_message :: "pystr \<Rightarrow> pystr \<Rightarrow> pystr \<Rightarrow> pystr \<Rightarrow> bool \<Rightarrow> message" where
  "direct_message household_id node_id subtopic payload retain =
    \<lparr>msg_household_id = household_id, msg_subtopic = subtopic, msg_payload = payload,
     msg_node_id = Some node_id, msg_qos = 0, msg_retain = retain, msg_legacy = False\<rparr>"

text \<open>\<open>v in set(AuthResult)\<close>: a list or an object is unhashable.\<close>

definition in_auth_results :: "json \<Rightarrow> exc + bool" where
  "in_auth_results v = (case v of
      JStr s \<Rightarrow> Inr (is_auth_result s) | JList xs \<Rightarrow> Inl TypeError | JObj d \<Rightarrow> Inl TypeError
    | _ \<Rightarrow> Inr False)"

definition identity_payload ::
  "(pystr \<times> json) list \<Rightarrow> (pystr \<times> json) list \<Rightarrow> pystr \<Rightarrow> pystr \<Rightarrow> json" where
  "identity_payload state device household_id node_id =
    (let node_name = json_or (obj_get state (py ''node_name'')) (obj_get device (py ''node_name''));
         node_role = obj_get state (py ''node_role'');
         node_state = obj_get state (py ''node_state'');
         generation = obj_get state (py ''generation'');
         firmware = obj_get state (py ''firmware'')
     in JObj ([(py ''household_id'', JStr household_id), (py ''node_id'', JStr node_id)]
          @ (if truthy node_name then [(py ''node_name'', node_name)] else [])
          @ (if truthy node_role then [(py ''node_role'', node_role)] else [])
          @ (if truthy node_state then [(py ''node_state'', node_state)] else [])
          @ (case generation of JInt i \<Rightarrow> [(py ''generation'', JInt i)] | _ \<Rightarrow> [])
          @ (if truthy firmware then [(py ''firmware_version'', firmware)] else [])))"

definition lock_last_messages :: "(pystr \<times> json) list \<Rightarrow> pystr \<Rightarrow> pystr \<Rightarrow> message list" where
  "lock_last_messages state h n = (case obj_get state (py ''lock_last'') of
      JObj d \<Rightarrow> if truthy (obj_get d (py ''source''))
                then [direct_message h n TOPIC_LOCK_LAST (dumps_default (JObj d)) True] else []
    | _ \<Rightarrow> [])"

definition plain_messages ::
  "(pystr \<times> json) list \<Rightarrow> pystr \<Rightarrow> (pystr \<Rightarrow> bool) \<Rightarrow> pystr \<Rightarrow> pystr \<Rightarrow> pystr \<Rightarrow> message list" where
  "plain_messages state key enum_has topic h n = (case obj_get state key of
      JStr s \<Rightarrow> if enum_has s then [direct_message h n topic s True] else []
    | _ \<Rightarrow> [])"

definition last_auth_messages ::
  "(pystr \<times> json) list \<Rightarrow> pystr \<Rightarrow> pystr \<Rightarrow> exc + message list" where
  "last_auth_messages state h n = (case obj_get state (py ''last_auth'') of
      JObj d \<Rightarrow> bindE (in_auth_results (obj_get d (py ''result''))) (\<lambda>known.
        Inr (if known then [direct_message h n TOPIC_LAST_AUTH (dumps_default (JObj d)) True] else []))
    | _ \<Rightarrow> Inr [])"

definition state_to_messages ::
  "(pystr \<times> json) list \<Rightarrow> (pystr \<times> json) list \<Rightarrow> pystr \<Rightarrow> pystr \<Rightarrow> exc + message list" where
  "state_to_messages state info h n =
    bindE (health_from_state state) (\<lambda>health.
    bindE (last_auth_messages state h n) (\<lambda>auth.
      Inr ([direct_message h n TOPIC_STATUS (py ''online'') True]
           @ lock_last_messages state h n
           @ [direct_message h n TOPIC_STATE (dumps_default (identity_payload state (device_of info) h n)) True]
           @ [direct_message h n TOPIC_HEALTH (dumps_default (JObj health)) False]
           @ plain_messages state (py ''security'') is_security_state TOPIC_SECURITY h n
           @ plain_messages state (py ''backup_status'') is_backup_outcome TOPIC_BACKUP_STATUS h n
           @ auth)))"

end
