(* ===== verification/Client.thy ===== *)
theory Client imports Direct begin

section \<open>The client of a node's API\<close>

text \<open>
  \<open>direct.py\<close>: \<open>DirectClient\<close>, \<open>DirectProbe\<close> and \<open>async_connect_node\<close>. A computation runs
  over the list of requests sent so far, newest last; the network \<open>net\<close> answers a request
  knowing those sent before it. What a body yields, as text or as JSON, is part of the answer:
  reading it can fail like the request itself, and a body that is not JSON raises Python's
  \<open>ValueError\<close> (\<open>Raises ValueError\<close>). The TLS context built from a pinned certificate is that
  certificate, the credentials are the user name and password the request carries.
\<close>

subsection \<open>Requests\<close>

record client =
  dc_host :: pystr
  dc_port :: int
  dc_pin :: bytes
  dc_username :: pystr
  dc_password :: pystr

record request =
  rq_method :: pystr
  rq_url :: pystr
  rq_body :: "json option"
  rq_pin :: bytes
  rq_username :: pystr
  rq_password :: pystr

datatype net_failure = CertificateError | SslError | ClientFailure | TimedOut | Raises exc

datatype net_outcome =
    NoResponse net_failure
  | Response int "net_failure + pystr" "net_failure + json"

type_synonym network = "request list \<Rightarrow> request \<Rightarrow> net_outcome"
type_synonym 'a net_comp = "(request list, exc, 'a) comp"

text \<open>The constructor of \<open>DirectClient\<close>. \<open>aiohttp.BasicAuth\<close> documents that it refuses a user name with a
  colon, which the header could not carry, with a \<open>ValueError\<close>.\<close>

definition basic_auth_accepts :: "pystr \<Rightarrow> bool" where
  "basic_auth_accepts username = (58 \<notin> set username)"

definition new_client :: "pystr \<Rightarrow> int \<Rightarrow> bytes \<Rightarrow> pystr \<Rightarrow> pystr \<Rightarrow> exc + client" where
  "new_client host port pin username password =
    (if \<not> basic_auth_accepts username then Inl ValueError
     else Inr \<lparr>dc_host = host, dc_port = port, dc_pin = pin, dc_username = username,
            dc_password = password\<rparr>)"

definition base_url :: "client \<Rightarrow> pystr" where
  "base_url c = py ''https://'' @ dc_host c @ py '':'' @ dec_int (dc_port c)"

definition make_request :: "client \<Rightarrow> pystr \<Rightarrow> pystr \<Rightarrow> json option \<Rightarrow> request" where
  "make_request c method path body =
    \<lparr>rq_method = method, rq_url = base_url c @ path, rq_body = body, rq_pin = dc_pin c,
     rq_username = dc_username c, rq_password = dc_password c\<rparr>"

text \<open>The \<open>except\<close> clauses of \<open>_request\<close>.\<close>

definition failure_exc :: "net_failure \<Rightarrow> exc" where
  "failure_exc f = (case f of
      CertificateError \<Rightarrow> DirectFingerprintMismatch [] []
    | SslError \<Rightarrow> DirectTransportError
    | ClientFailure \<Rightarrow> DirectTransportError
    | TimedOut \<Rightarrow> DirectTransportError
    | Raises e \<Rightarrow> e)"

definition read_exc :: "net_failure + 'a \<Rightarrow> exc + 'a" where
  "read_exc r = (case r of Inl f \<Rightarrow> Inl (failure_exc f) | Inr a \<Rightarrow> Inr a)"

definition response_result :: "net_outcome \<Rightarrow> exc + json" where
  "response_result outcome = (case outcome of
      NoResponse f \<Rightarrow> Inl (failure_exc f)
    | Response status body_text body_json \<Rightarrow>
        if status = 401 then Inl DirectAuthError
        else if status = 503 then bindE (read_exc body_text) (\<lambda>t. Inl DirectTlsUnavailableError)
        else if status = 404 then Inl DirectProtocolError
        else if 400 \<le> status then bindE (read_exc body_text) (\<lambda>t. Inl DirectTransportError)
        else read_exc body_json)"

definition do_request :: "network \<Rightarrow> client \<Rightarrow> pystr \<Rightarrow> pystr \<Rightarrow> json option \<Rightarrow> json net_comp" where
  "do_request net c method path body log =
    (let r = make_request c method path body in (response_result (net log r), log @ [r]))"

subsection \<open>The operations of \<open>DirectClient\<close>\<close>

definition GET :: pystr where [const_defs]: "GET = py ''GET''"
definition POST :: pystr where [const_defs]: "POST = py ''POST''"

definition get_info :: "network \<Rightarrow> client \<Rightarrow> json net_comp" where
  "get_info net c = do_request net c GET (py ''/api/ha/info'') None"

definition get_state :: "network \<Rightarrow> client \<Rightarrow> json net_comp" where
  "get_state net c = do_request net c GET (py ''/api/ha/state'') None"

definition check_protocol :: "network \<Rightarrow> client \<Rightarrow> int \<Rightarrow> json net_comp" where
  "check_protocol net c supported = bindS (get_info net c) (\<lambda>info.
     bindS (liftE (attr_get info (py ''protocol''))) (\<lambda>reported.
       liftE (if \<not> json_eq_int reported supported then Inl DirectProtocolError else Inr info)))"

definition direct_lock :: "network \<Rightarrow> client \<Rightarrow> pystr \<Rightarrow> json net_comp" where
  "direct_lock net c action =
    (if action \<noteq> ACTION_LOCK \<and> action \<noteq> ACTION_UNLOCK then liftE (Inl DirectProtocolError)
     else do_request net c POST (py ''/api/ha/lock'') (Some (JObj [(py ''action'', JStr action)])))"

definition create_backup :: "network \<Rightarrow> client \<Rightarrow> bool \<Rightarrow> (pystr \<times> bool) net_comp" where
  "create_backup net c include_credentials =
    bindS (do_request net c POST (py ''/backup/create'')
        (if include_credentials then Some (JObj [(py ''include_credentials'', JBool True)]) else None))
      (\<lambda>result. bindS (liftE (attr_get result (py ''backup''))) (\<lambda>blob.
        case blob of
          JStr b \<Rightarrow>
            if b = [] then liftE (Inl DirectProtocolError)
            else bindS (liftE (attr_get result (py ''includes_credentials'')))
                   (\<lambda>inc. liftE (Inr (b, inc = JBool True)))
        | _ \<Rightarrow> liftE (Inl DirectProtocolError)))"

definition restore_backup :: "network \<Rightarrow> client \<Rightarrow> pystr \<Rightarrow> pystr \<Rightarrow> json net_comp" where
  "restore_backup net c recovery_secret backup = do_request net c POST (py ''/backup/restore'')
     (Some (JObj [(py ''secret'', JStr recovery_secret), (py ''backup'', JStr backup)]))"

definition get_backup_info :: "network \<Rightarrow> client \<Rightarrow> json net_comp" where
  "get_backup_info net c = do_request net c GET (py ''/backup'') None"

text \<open>\<open>None\<close> is Python's \<open>None\<close>: the node has no guest feature. (A body of \<open>null\<close> is \<open>None\<close> as
  well.)\<close>

definition get_guest :: "network \<Rightarrow> client \<Rightarrow> json net_comp" where
  "get_guest net c log = (case do_request net c GET (py ''/api/ha/guest'') None log of
      (Inl e, log') \<Rightarrow> (if is_protocol_error e then Inr JNull else Inl e, log')
    | (Inr v, log') \<Rightarrow> (Inr v, log'))"

definition optional_entry :: "pystr \<Rightarrow> json option \<Rightarrow> (pystr \<times> json) list" where
  "optional_entry k v = (case v of None \<Rightarrow> [] | Some j \<Rightarrow> [(k, j)])"

definition set_guest_config :: "network \<Rightarrow> client \<Rightarrow> bool option \<Rightarrow> int option \<Rightarrow> json net_comp" where
  "set_guest_config net c enabled default_validity_seconds =
    (let body = optional_entry (py ''enabled'') (map_option JBool enabled)
         @ optional_entry (py ''default_validity_seconds'') (map_option JInt default_validity_seconds)
     in if body = [] then liftE (Inl DirectProtocolError)
        else do_request net c POST (py ''/api/ha/guest/config'') (Some (JObj body)))"

text \<open>\<open>valid_days\<close> is the number the caller gives, an integer or a float.\<close>

definition guest_teach :: "network \<Rightarrow> client \<Rightarrow> pystr option \<Rightarrow> json option \<Rightarrow> int option
    \<Rightarrow> int option \<Rightarrow> json net_comp" where
  "guest_teach net c label valid_days valid_from valid_until =
    do_request net c POST (py ''/api/ha/guest/teach'') (Some (JObj
      (optional_entry (py ''label'')
         (case label of None \<Rightarrow> None | Some l \<Rightarrow> if l = [] then None else Some (JStr l))
       @ optional_entry (py ''valid_days'') valid_days
       @ optional_entry (py ''valid_from'') (map_option JInt valid_from)
       @ optional_entry (py ''valid_until'') (map_option JInt valid_until))))"

definition guest_revoke :: "network \<Rightarrow> client \<Rightarrow> pystr \<Rightarrow> json net_comp" where
  "guest_revoke net c tag_id =
    (if tag_id = [] then liftE (Inl DirectProtocolError)
     else do_request net c POST (py ''/api/ha/guest/revoke'') (Some (JObj [(py ''tag_id'', JStr tag_id)])))"

definition guest_cancel :: "network \<Rightarrow> client \<Rightarrow> json net_comp" where
  "guest_cancel net c = do_request net c POST (py ''/api/ha/guest/cancel'') (Some (JObj []))"

subsection \<open>Connecting\<close>

text \<open>What the unvalidated handshake shows: no connection (an \<open>OSError\<close>, which TLS errors are
  too), or a certificate, if any.\<close>

datatype handshake = Unreachable | Presented "bytes option"

definition fetch_peer_certificate :: "handshake \<Rightarrow> exc + bytes" where
  "fetch_peer_certificate hs = (case hs of
      Unreachable \<Rightarrow> Inl OSError
    | Presented None \<Rightarrow> Inl ValueError
    | Presented (Some der) \<Rightarrow> if der = [] then Inl ValueError else Inr der)"

record probe =
  pr_client :: client
  pr_der :: bytes
  pr_fingerprint :: pystr
  pr_household_id :: pystr
  pr_household_name :: pystr
  pr_node_id :: pystr
  pr_node_name :: pystr
  pr_model :: pystr
  pr_firmware :: pystr
  pr_info :: json
  pr_state :: json

text \<open>\<open>v.get(..)\<close> on something that is not a mapping.\<close>

definition as_mapping :: "json \<Rightarrow> exc + (pystr \<times> json) list" where
  "as_mapping v = (case v of JObj d \<Rightarrow> Inr d | _ \<Rightarrow> Inl AttributeError)"

definition make_probe :: "(json \<Rightarrow> pystr) \<Rightarrow> client \<Rightarrow> pystr \<Rightarrow> (pystr \<times> json) list \<Rightarrow> (pystr \<times> json) list
    \<Rightarrow> pystr \<times> pystr \<Rightarrow> probe" where
  "make_probe rp c actual info state ids =
    (let device = device_of info; (household_id, node_id) = ids
     in \<lparr>pr_client = c, pr_der = dc_pin c, pr_fingerprint = actual, pr_household_id = household_id,
         pr_household_name = py_str rp (json_or (obj_get state (py ''household_name'')) (JStr household_id)),
         pr_node_id = node_id,
         pr_node_name = py_str rp (json_or (json_or (obj_get state (py ''node_name''))
            (obj_get device (py ''node_name''))) (JStr node_id)),
         pr_model = py_str rp (json_or (obj_get device (py ''model'')) (JStr [])),
         pr_firmware = py_str rp (json_or (json_or (obj_get state (py ''firmware''))
            (obj_get device (py ''firmware''))) (JStr [])),
         pr_info = JObj info, pr_state = JObj state\<rparr>)"

definition identify_node :: "(json \<Rightarrow> pystr) \<Rightarrow> network \<Rightarrow> client \<Rightarrow> pystr \<Rightarrow> probe net_comp" where
  "identify_node rp net c actual =
    bindS (check_protocol net c HA_API_PROTOCOL) (\<lambda>info.
    bindS (get_state net c) (\<lambda>state.
    bindS (liftE (as_mapping info)) (\<lambda>i.
    bindS (liftE (as_mapping state)) (\<lambda>s.
    bindS (liftE (resolve_identity rp s i)) (\<lambda>ids.
      liftE (Inr (make_probe rp c actual i s ids)))))))"

definition connect_node :: "(json \<Rightarrow> pystr) \<Rightarrow> network \<Rightarrow> handshake \<Rightarrow> pystr \<Rightarrow> int \<Rightarrow> pystr \<Rightarrow> pystr \<Rightarrow> pystr
    \<Rightarrow> probe net_comp" where
  "connect_node rp net hs host port expected_fingerprint username password =
    (case fetch_peer_certificate hs of
       Inl e \<Rightarrow> liftE (Inl DirectTransportError)
     | Inr der \<Rightarrow>
        (let actual = certificate_fingerprint der in
         if \<not> fingerprints_match expected_fingerprint actual
         then liftE (Inl (DirectFingerprintMismatch expected_fingerprint actual))
         else bindS (liftE (new_client host port der username password))
           (\<lambda>c. identify_node rp net c actual)))"

subsection \<open>Every request is pinned\<close>

text \<open>\<open>extends P log\<close>: \<open>log\<close> followed by requests that satisfy \<open>P\<close>.\<close>

definition extends :: "(request \<Rightarrow> bool) \<Rightarrow> request list \<Rightarrow> request list \<Rightarrow> bool" where
  "extends P log log' = (\<exists>rs. log' = log @ rs \<and> list_all P rs)"

definition made_by :: "client \<Rightarrow> request \<Rightarrow> bool" where
  "made_by c r = (rq_pin r = dc_pin c \<and> rq_username r = dc_username c \<and> rq_password r = dc_password c
     \<and> (\<exists>path. rq_url r = base_url c @ path))"

lemma extends_refl [simp]: "extends P log log"
  by (simp add: extends_def)

lemma extends_snoc: "extends P log log' \<Longrightarrow> P r \<Longrightarrow> extends P log (log' @ [r])"
proof -
  assume "extends P log log'" and P: "P r"
  then obtain rs where "log' = log @ rs" "list_all P rs" by (auto simp: extends_def)
  with P have "log' @ [r] = log @ rs @ [r] \<and> list_all P (rs @ [r])" by simp
  then show ?thesis unfolding extends_def by blast
qed

lemma keeps_request [keeps_intros]:
  "keeps (extends (made_by c) log) (do_request net c method path body)"
  by (auto simp: keeps_def do_request_def make_request_def made_by_def Let_def intro!: extends_snoc)

lemma keeps_operations [keeps_intros]:
  "keeps (extends (made_by c) log) (get_info net c)"
  "keeps (extends (made_by c) log) (get_state net c)"
  "keeps (extends (made_by c) log) (check_protocol net c supported)"
  "keeps (extends (made_by c) log) (direct_lock net c action)"
  "keeps (extends (made_by c) log) (create_backup net c inc)"
  "keeps (extends (made_by c) log) (restore_backup net c secret blob)"
  "keeps (extends (made_by c) log) (get_backup_info net c)"
  "keeps (extends (made_by c) log) (set_guest_config net c en sec)"
  "keeps (extends (made_by c) log) (guest_teach net c label days vf vu)"
  "keeps (extends (made_by c) log) (guest_revoke net c tag)"
  "keeps (extends (made_by c) log) (guest_cancel net c)"
  unfolding get_info_def get_state_def check_protocol_def direct_lock_def create_backup_def
    restore_backup_def get_backup_info_def set_guest_config_def guest_teach_def guest_revoke_def
    guest_cancel_def Let_def
  by (auto intro!: keeps_intros split: json.splits)

lemma keeps_guest [keeps_intros]: "keeps (extends (made_by c) log) (get_guest net c)"
  using keeps_request [of c log net GET "py ''/api/ha/guest''" None]
  by (auto simp: keeps_def get_guest_def split: prod.splits sum.splits)

lemma keeps_identify [keeps_intros]:
  "keeps (extends (made_by c) log) (identify_node rp net c actual)"
  unfolding identify_node_def by (auto intro!: keeps_intros)

subsection \<open>What connecting establishes\<close>

lemma resolve_identity_Inr:
  "resolve_identity rp state info = Inr (h, n) \<longleftrightarrow>
     (let household = json_or (obj_get state (py ''household_id'')) (JStr []);
          node = json_or (json_or (obj_get state (py ''node_id'')) (obj_get (device_of info) (py ''node_id''))) (JStr [])
      in truthy household \<and> truthy node \<and> h = py_str rp household \<and> n = py_str rp node)"
  by (auto simp: resolve_identity_def Let_def)

lemma attr_get_Inr [res_simps]: "attr_get v k = Inr w \<longleftrightarrow> (\<exists>d. v = JObj d \<and> w = obj_get d k)"
  by (cases v) (auto simp: attr_get_def)

lemma as_mapping_Inr [res_simps]: "as_mapping v = Inr d \<longleftrightarrow> v = JObj d"
  by (cases v) (auto simp: as_mapping_def)

lemma liftE_eq [res_simps]: "liftE r s = (q, t) \<longleftrightarrow> q = r \<and> t = s"
  by auto

lemma check_protocol_Inr [res_simps]:
  "check_protocol net c supported log = (Inr info, log') \<longleftrightarrow>
    get_info net c log = (Inr info, log')
    \<and> (\<exists>d. info = JObj d \<and> json_eq_int (obj_get d (py ''protocol'')) supported)"
  by (auto simp: check_protocol_def res_simps split: if_splits)

lemma request_log: "do_request net c method path body log = (r, log') \<Longrightarrow> log' = log @ [make_request c method path body]"
  by (simp add: do_request_def Let_def)

lemma response_result_Inr [res_simps]:
  "response_result outcome = Inr v \<longleftrightarrow>
    (\<exists>status t. outcome = Response status t (Inr v) \<and> status < 400)"
  by (cases outcome) (auto simp: response_result_def read_exc_def res_simps split: sum.splits if_splits)

lemma identify_node_Inr:
  assumes "identify_node rp net c actual log = (Inr p, log')"
  obtains info state where
    "get_info net c log = (Inr (JObj info), log @ [make_request c GET (py ''/api/ha/info'') None])"
    "get_state net c (log @ [make_request c GET (py ''/api/ha/info'') None]) = (Inr (JObj state), log')"
    "log' = log @ [make_request c GET (py ''/api/ha/info'') None, make_request c GET (py ''/api/ha/state'') None]"
    "json_eq_int (obj_get info (py ''protocol'')) HA_API_PROTOCOL"
    "resolve_identity rp state info = Inr (pr_household_id p, pr_node_id p)"
    "p = make_probe rp c actual info state (pr_household_id p, pr_node_id p)"
proof -
  from assms obtain info state log1 ids where
    g: "get_info net c log = (Inr (JObj info), log1)" and
    j: "json_eq_int (obj_get info (py ''protocol'')) HA_API_PROTOCOL" and
    s: "get_state net c log1 = (Inr (JObj state), log')" and
    r: "resolve_identity rp state info = Inr ids" and
    p: "p = make_probe rp c actual info state ids"
    by (auto simp: identify_node_def res_simps)
  have l: "log1 = log @ [make_request c GET (py ''/api/ha/info'') None]"
    using g request_log by (simp add: get_info_def)
  moreover have "log' = log1 @ [make_request c GET (py ''/api/ha/state'') None]"
    using s request_log by (simp add: get_state_def)
  moreover have "ids = (pr_household_id p, pr_node_id p)"
    by (cases ids) (simp add: p make_probe_def Let_def)
  ultimately show thesis using that g j s r p by auto
qed

lemma connect_node_Inr:
  assumes "connect_node rp net hs host port expected username password log = (Inr p, log')"
  obtains der where "hs = Presented (Some der)" "der \<noteq> []" "basic_auth_accepts username"
    "fingerprints_match expected (certificate_fingerprint der)"
    "identify_node rp net \<lparr>dc_host = host, dc_port = port, dc_pin = der, dc_username = username,
       dc_password = password\<rparr> (certificate_fingerprint der) log = (Inr p, log')"
  using assms
  by (auto simp: connect_node_def fetch_peer_certificate_def new_client_def Let_def res_simps
      split: handshake.splits option.splits if_splits)

text \<open>Any operation of the client leaves the log extended by requests of this client.\<close>

lemma only_pinned:
  "keeps (extends (made_by c) log) m \<Longrightarrow> m log = (r, log') \<Longrightarrow> extends (made_by c) log log'"
  using keepsD [of "extends (made_by c) log" m log r log'] by simp

definition is_object :: "json \<Rightarrow> bool" where
  "is_object v = (\<exists>d. v = JObj d)"

lemma transport_errors [simp]:
  "is_transport_error DirectTransportError" "is_transport_error DirectProtocolError"
  "is_transport_error DirectNoHouseholdError" "is_transport_error DirectAuthError"
  "is_transport_error DirectTlsUnavailableError" "is_transport_error (DirectFingerprintMismatch a b)"
  by (simp_all add: is_transport_error_def)

text \<open>A transport outcome that is not an escaping exception of the library.\<close>

definition tame_failure :: "net_failure \<Rightarrow> bool" where
  "tame_failure f = (case f of Raises e \<Rightarrow> False | _ \<Rightarrow> True)"

definition tame_outcome :: "net_outcome \<Rightarrow> bool" where
  "tame_outcome out = (case out of
      NoResponse f \<Rightarrow> tame_failure f
    | Response status t v \<Rightarrow> (case t of Inl f \<Rightarrow> tame_failure f | Inr s \<Rightarrow> True)
        \<and> (case v of Inl f \<Rightarrow> tame_failure f | Inr j \<Rightarrow> is_object j))"

lemma tame_failure_exc: "tame_failure f \<Longrightarrow> is_transport_error (failure_exc f)"
  by (cases f) (simp_all add: tame_failure_def failure_exc_def is_transport_error_def)

lemma tame_response:
  assumes "tame_outcome out"
  shows "case response_result out of Inl e \<Rightarrow> is_transport_error e | Inr v \<Rightarrow> is_object v"
proof (cases out)
  case (NoResponse f)
  then show ?thesis
    using assms tame_failure_exc by (simp add: tame_outcome_def response_result_def)
next
  case (Response status t v)
  then have "case read_exc t of Inl e \<Rightarrow> is_transport_error e | Inr s \<Rightarrow> True"
    "case read_exc v of Inl e \<Rightarrow> is_transport_error e | Inr s \<Rightarrow> is_object s"
    using assms tame_failure_exc by (auto simp: tame_outcome_def read_exc_def is_object_def split: sum.splits)
  then show ?thesis
    using Response by (auto simp: response_result_def bindE_def split: sum.splits)
qed

definition tame_network :: "network \<Rightarrow> bool" where
  "tame_network net = (\<forall>log r. tame_outcome (net log r))"

text \<open>\<open>yields Q m\<close>: \<open>m\<close> raises nothing but a transport error, and its value satisfies \<open>Q\<close>.\<close>

definition yields :: "('a \<Rightarrow> bool) \<Rightarrow> 'a net_comp \<Rightarrow> bool" where
  "yields Q m = (\<forall>log. case fst (m log) of Inl e \<Rightarrow> is_transport_error e | Inr a \<Rightarrow> Q a)"

lemma yields_bind: "yields Q m \<Longrightarrow> (\<And>a. Q a \<Longrightarrow> yields R (f a)) \<Longrightarrow> yields R (bindS m f)"
proof -
  assume m: "yields Q m" and f: "\<And>a. Q a \<Longrightarrow> yields R (f a)"
  have "case fst (bindS m f log) of Inl e \<Rightarrow> is_transport_error e | Inr b \<Rightarrow> R b" for log
  proof (cases "m log")
    case (Pair r log')
    show ?thesis
    proof (cases r)
      case (Inl e)
      then show ?thesis using m [unfolded yields_def, rule_format, of log] Pair by simp
    next
      case (Inr a)
      then have "Q a" using m [unfolded yields_def, rule_format, of log] Pair by simp
      then show ?thesis using f [of a, unfolded yields_def, rule_format, of log'] Pair Inr by simp
    qed
  qed
  then show ?thesis by (simp add: yields_def)
qed

lemma yields_lift: "(\<And>e. r = Inl e \<Longrightarrow> is_transport_error e) \<Longrightarrow> (\<And>a. r = Inr a \<Longrightarrow> Q a) \<Longrightarrow> yields Q (liftE r)"
  by (auto simp: yields_def split: sum.splits)

lemma yields_mono: "yields Q m \<Longrightarrow> (\<And>a. Q a \<Longrightarrow> R a) \<Longrightarrow> yields R m"
  unfolding yields_def by (fastforce split: sum.splits)

lemma yieldsD: "yields Q m \<Longrightarrow> m log = (Inl e, log') \<Longrightarrow> is_transport_error e"
  unfolding yields_def by (metis fst_conv sum.simps(5))

lemma yields_request: "tame_network net \<Longrightarrow> yields is_object (do_request net c method path body)"
  using tame_response by (simp add: yields_def do_request_def tame_network_def Let_def)

lemma attr_get_object: "is_object v \<Longrightarrow> \<exists>w. attr_get v k = Inr w"
  by (auto simp: is_object_def attr_get_def)

lemma as_mapping_object: "is_object v \<Longrightarrow> \<exists>d. as_mapping v = Inr d"
  by (auto simp: is_object_def as_mapping_def)

lemma yields_check: "tame_network net \<Longrightarrow> yields is_object (check_protocol net c supported)"
  unfolding check_protocol_def get_info_def
  apply (rule yields_bind [OF yields_request], assumption)
  apply (rule yields_bind [where Q = "\<lambda>_. True"], rule yields_lift)
   apply (metis Inl_Inr_False attr_get_object)
  apply (auto intro!: yields_lift split: if_splits)
  done

lemma yields_identify: "tame_network net \<Longrightarrow> yields (\<lambda>p. True) (identify_node rp net c actual)"
  unfolding identify_node_def get_state_def
  apply (rule yields_bind [OF yields_check], assumption)
  apply (rule yields_bind [OF yields_request], assumption)
  apply (rule yields_bind [where Q = "\<lambda>_. True"], rule yields_lift, simp_all add: as_mapping_object)
   apply (metis Inl_Inr_False as_mapping_object)
  apply (rule yields_bind [where Q = "\<lambda>_. True"], rule yields_lift, simp_all)
   apply (metis Inl_Inr_False as_mapping_object)
  apply (rule yields_bind [where Q = "\<lambda>_. True"], rule yields_lift, simp_all)
   apply (auto simp: resolve_identity_def Let_def intro!: yields_lift split: if_splits)
  done

lemma bindS_lift: "bindS (liftE (Inr a)) f = f a"
  by (simp add: fun_eq_iff)

lemma yields_connect:
  "tame_network net \<Longrightarrow> basic_auth_accepts username \<Longrightarrow>
    yields (\<lambda>p. True) (connect_node rp net hs host port expected username password)"
  unfolding connect_node_def Let_def
  using yields_identify by (auto simp: new_client_def bindS_lift intro!: yields_lift split: sum.splits)

text \<open>A user name the library refuses: nothing is sent, and what is raised is no transport error.\<close>

lemma connect_refused_name:
  assumes "hs = Presented (Some der)" "der \<noteq> []" "fingerprints_match expected (certificate_fingerprint der)"
    "\<not> basic_auth_accepts username"
  shows "connect_node rp net hs host port expected username password log = (Inl ValueError, log)"
  using assms by (simp add: connect_node_def fetch_peer_certificate_def new_client_def)

end
