(* ===== verification/Coordinator.thy ===== *)
theory Coordinator imports Mqtt begin

section \<open>The coordinator\<close>

text \<open>
  \<open>coordinator.py\<close>: the state of one household and the ingestion of messages. \<open>coord\<close> is
  the coordinator with the parts of Home Assistant it writes to: the pool of nodes in
  \<open>hass.data\<close>, the logbook, and the updates delivered to the entities, each with the causes
  (\<open>Context\<close> objects, numbered in order of creation) pending at that moment.
  Node objects are shared between the live dictionary and the pool; the pool is a dictionary
  of values here because every handler that changes a node renews the pool before it ends
  (\<open>pool_agrees\<close> is an invariant, see \<open>handle_message_inv\<close>).
  A handler returns its outcome and the state it reached, so that what a raising handler has
  already changed stays changed. The environment of a message is \<open>env\<close>: the clock in
  microseconds since 1970, \<open>dt_util.parse_datetime\<close>, the entity registry and the logbook.
\<close>

subsection \<open>State and environment\<close>

datatype parsed_datetime = Naive int | Aware int

record ingest_env =
  ie_now :: int
  ie_parse_datetime :: "pystr \<Rightarrow> exc + parsed_datetime option"
  ie_entity_id :: "pystr \<Rightarrow> exc + pystr option"
  ie_logbook :: "exc option"

record log_entry =
  le_message :: pystr
  le_entity_id :: "pystr option"
  le_context :: nat

record coord =
  co_household_id :: pystr
  co_nodes :: "(pystr, node) dict"
  co_known :: "pystr set"
  co_pool :: "(pystr, node) dict option"
  co_pending :: "(pystr, nat) dict"
  co_next_context :: nat
  co_logbook :: "log_entry list"
  co_delivered :: "(pystr, nat) dict list"

text \<open>\<open>__init__\<close> with \<open>_restore_pooled_state\<close>: the nodes a pool holds are taken over.\<close>

definition restore_pooled_state :: "coord \<Rightarrow> coord" where
  "restore_pooled_state c =
    (case co_pool c of
       None \<Rightarrow> c\<lparr>co_known := {}\<rparr>
     | Some pooled \<Rightarrow>
        if pooled = [] then c\<lparr>co_known := {}\<rparr>
        else c\<lparr>co_nodes := dict_update (co_nodes c) pooled, co_known := set (dict_keys pooled)\<rparr>)"

definition new_coord :: "pystr \<Rightarrow> (pystr, node) dict option \<Rightarrow> coord" where
  "new_coord household_id pool = restore_pooled_state
    \<lparr>co_household_id = household_id, co_nodes = [], co_known = {}, co_pool = pool,
     co_pending = [], co_next_context = 0, co_logbook = [], co_delivered = []\<rparr>"

definition pool_state :: "coord \<Rightarrow> coord" where
  "pool_state c = c\<lparr>co_pool := Some (co_nodes c)\<rparr>"

definition drop_pooled_state :: "coord \<Rightarrow> coord" where
  "drop_pooled_state c = c\<lparr>co_pool := None\<rparr>"

definition get_node :: "coord \<Rightarrow> pystr \<Rightarrow> node option" where
  "get_node c nid = dict_get (co_nodes c) nid"

definition put_node :: "pystr \<Rightarrow> node \<Rightarrow> coord \<Rightarrow> coord" where
  "put_node nid n c = c\<lparr>co_nodes := dict_set (co_nodes c) nid n\<rparr>"

subsection \<open>Node lifecycle\<close>

definition maybe_schedule_reload :: "pystr \<Rightarrow> coord \<Rightarrow> coord" where
  "maybe_schedule_reload nid c = c\<lparr>co_known := insert nid (co_known c)\<rparr>"

definition ensure_node :: "pystr \<Rightarrow> coord \<Rightarrow> node \<times> coord" where
  "ensure_node nid c =
    (case get_node c nid of
       Some n \<Rightarrow> (n, c)
     | None \<Rightarrow> (let n = new_node nid (co_household_id c)
               in (n, maybe_schedule_reload nid (put_node nid n c))))"

definition merge_node :: "node \<Rightarrow> coord \<Rightarrow> coord" where
  "merge_node incoming c =
    (let nid = nd_node_id incoming in
     case get_node c nid of
       None \<Rightarrow> maybe_schedule_reload nid (put_node nid incoming c)
     | Some existing \<Rightarrow>
        put_node nid (existing
          \<lparr>nd_node_name := nd_node_name incoming, nd_node_role := nd_node_role incoming,
           nd_node_state := nd_node_state incoming,
           nd_generation := (case nd_generation incoming of None \<Rightarrow> nd_generation existing | g \<Rightarrow> g),
           nd_firmware := (case nd_firmware incoming of None \<Rightarrow> nd_firmware existing | f \<Rightarrow> f)\<rparr>) c)"

subsection \<open>Per-topic handlers\<close>

definition now_iso :: "ingest_env \<Rightarrow> pystr" where
  "now_iso env = (case utc_iso (ie_now env div 1000000) (ie_now env mod 1000000) of
      Some s \<Rightarrow> s | None \<Rightarrow> [])"

definition ONLINE :: pystr where [const_defs]: "ONLINE = py ''online''"
definition OFFLINE :: pystr where [const_defs]: "OFFLINE = py ''offline''"

definition handle_node_status ::
  "ingest_env \<Rightarrow> pystr \<Rightarrow> pystr \<Rightarrow> coord \<Rightarrow> (exc + unit) \<times> coord" where
  "handle_node_status env nid payload c =
    (let v = py_lower (py_strip payload) in
     if v \<noteq> ONLINE \<and> v \<noteq> OFFLINE then (invalid (UnexpectedPayload TOPIC_STATUS payload), c)
     else case ensure_node nid c of
       (n, c') \<Rightarrow> (Inr (), put_node nid (n\<lparr>nd_online := (v = ONLINE),
                                         nd_last_seen := Some (now_iso env)\<rparr>) c'))"

definition handle_legacy_status ::
  "ingest_env \<Rightarrow> pystr \<Rightarrow> pystr \<Rightarrow> coord \<Rightarrow> (exc + unit) \<times> coord" where
  "handle_legacy_status env nid payload c =
    (let v = py_lower (py_strip payload) in
     if v \<noteq> ONLINE \<and> v \<noteq> OFFLINE then (invalid (UnexpectedPayload KIND_LEGACY_STATUS payload), c)
     else case get_node c nid of
       None \<Rightarrow> (Inr (), c)
     | Some n \<Rightarrow>
        (let n1 = n\<lparr>nd_lwt_online := Some (v = ONLINE)\<rparr>;
             n2 = (if v = ONLINE then n1\<lparr>nd_last_seen := Some (now_iso env)\<rparr> else n1)
         in (Inr (), put_node nid n2 c)))"

definition handle_security :: "pystr \<Rightarrow> pystr \<Rightarrow> coord \<Rightarrow> (exc + unit) \<times> coord" where
  "handle_security nid payload c =
    (let v = py_strip payload in
     if \<not> is_security_state v then (invalid (UnknownValue TOPIC_SECURITY v), c)
     else case ensure_node nid c of
       (n, c') \<Rightarrow> (Inr (), put_node nid (n\<lparr>nd_security := Some v\<rparr>) c'))"

definition handle_backup_status :: "pystr \<Rightarrow> pystr \<Rightarrow> coord \<Rightarrow> (exc + unit) \<times> coord" where
  "handle_backup_status nid payload c =
    (let v = py_lower (py_strip payload) in
     if \<not> is_backup_outcome v then (invalid (UnknownValue TOPIC_BACKUP_STATUS v), c)
     else case ensure_node nid c of
       (n, c') \<Rightarrow> (Inr (), put_node nid (n\<lparr>nd_backup_status := Some v\<rparr>) c'))"

subsection \<open>Attributing a lock change to its cause\<close>

text \<open>2001-09-09 in microseconds.\<close>

definition WALL_CLOCK_FLOOR :: int where [const_defs]:
  "WALL_CLOCK_FLOOR = days_of_civil 2001 9 9 * 86400 * 1000000"

definition is_recent :: "ingest_env \<Rightarrow> pystr option \<Rightarrow> exc + bool" where
  "is_recent env timestamp =
    (case timestamp of
       None \<Rightarrow> Inr True
     | Some s \<Rightarrow> bindE (ie_parse_datetime env s) (\<lambda>parsed.
         case parsed of
           None \<Rightarrow> Inr True
         | Some d \<Rightarrow>
            (let us = (case d of Naive u \<Rightarrow> u | Aware u \<Rightarrow> u)
             in if us < WALL_CLOCK_FLOOR then Inr True
                else Inr (ie_now env - us \<le> LOCK_EVENT_MAX_AGE_SECONDS * 1000000))))"

definition source_label :: "pystr \<Rightarrow> pystr" where
  "source_label source = (case dict_get LOCK_SOURCE_LABELS source of Some l \<Rightarrow> l | None \<Rightarrow> source)"

definition actor_for :: "node \<Rightarrow> pystr \<Rightarrow> pystr option \<Rightarrow> pystr" where
  "actor_for n source change_timestamp =
    (case (source = lock_source_str SRC_HOMEKEY, nd_last_auth n) of
       (True, Some auth) \<Rightarrow>
         (case (la_issuer auth, la_timestamp auth) of
            (Some issuer, Some ts) \<Rightarrow>
              if issuer \<noteq> [] \<and> Some ts = change_timestamp then issuer else source_label source
          | _ \<Rightarrow> source_label source)
     | _ \<Rightarrow> source_label source)"

definition cause_message :: "node \<Rightarrow> int \<Rightarrow> pystr \<Rightarrow> pystr option \<Rightarrow> pystr" where
  "cause_message n current source change_timestamp =
    (let actor = actor_for n source change_timestamp; mechanism = source_label source;
         attribution = (if actor = mechanism then actor else actor @ py '' with '' @ mechanism)
     in nd_node_name n @ py '' '' @ lock_state_str (lock_state_of current) @ py '' by '' @ attribution)"

text \<open>\<open>_lock_entity_id\<close>: whatever the entity registry raises, no entity.\<close>

definition lock_entity_id :: "ingest_env \<Rightarrow> pystr \<Rightarrow> pystr \<Rightarrow> pystr option" where
  "lock_entity_id env household_id node_id =
    (case ie_entity_id env (unique_id household_id node_id ENTITY_LOCK) of Inl e \<Rightarrow> None | Inr i \<Rightarrow> i)"

text \<open>The entry in the logbook; what it raises leaves the rest of the state as it is.\<close>

definition log_lock_cause :: "ingest_env \<Rightarrow> node \<Rightarrow> int \<Rightarrow> pystr \<Rightarrow> pystr option \<Rightarrow> nat
    \<Rightarrow> coord \<Rightarrow> (exc + unit) \<times> coord" where
  "log_lock_cause env n current source change_timestamp ctx c =
    (case ie_logbook env of
       Some e \<Rightarrow> (Inl e, c)
     | None \<Rightarrow> (Inr (), c\<lparr>co_logbook := co_logbook c @
         [\<lparr>le_message = cause_message n current source change_timestamp,
           le_entity_id = lock_entity_id env (co_household_id c) (nd_node_id n),
           le_context = ctx\<rparr>]\<rparr>))"

text \<open>\<open>context = Context(); self._pending_contexts[node.node_id] = context\<close>\<close>

definition new_pending_context :: "pystr \<Rightarrow> coord \<Rightarrow> nat \<times> coord" where
  "new_pending_context nid c =
    (let k = co_next_context c
     in (k, c\<lparr>co_next_context := k + 1, co_pending := dict_set (co_pending c) nid k\<rparr>))"

definition device_initiated :: "pystr \<Rightarrow> bool" where
  "device_initiated source = (source \<in> set DEVICE_INITIATED_SOURCES)"

definition attribute_lock_change :: "ingest_env \<Rightarrow> pystr \<Rightarrow> int option \<Rightarrow> node_health
    \<Rightarrow> coord \<Rightarrow> (exc + unit) \<times> coord" where
  "attribute_lock_change env nid previous_current health c =
    (case (get_node c nid, previous_current, nh_lock_current health) of
       (Some n, Some previous, Some current) \<Rightarrow>
         if current = previous then (Inr (), c)
         else (case nd_lock_change n of
             None \<Rightarrow> (Inr (), c)
           | Some change \<Rightarrow>
              if lc_current change \<noteq> current then (Inr (), c)
              else if nd_attributed_lock_change n \<noteq> None
                   \<and> nd_attributed_lock_change n = lock_change_key n then (Inr (), c)
              else if \<not> device_initiated (lc_source change) then (Inr (), c)
              else case new_pending_context (nd_node_id n) c of
                (ctx, c1) \<Rightarrow> log_lock_cause env n current (lc_source change) (lc_timestamp change) ctx c1)
     | _ \<Rightarrow> (Inr (), c))"

definition attribute_lock_event :: "ingest_env \<Rightarrow> pystr \<Rightarrow> lock_change
    \<Rightarrow> coord \<Rightarrow> (exc + unit) \<times> coord" where
  "attribute_lock_event env nid change c =
    (case get_node c nid of
       None \<Rightarrow> (Inr (), c)
     | Some n \<Rightarrow>
        if \<not> device_initiated (lc_source change) then (Inr (), c)
        else if lock_change_key n \<noteq> None \<and> nd_attributed_lock_change n = lock_change_key n
        then (Inr (), c)
        else (case is_recent env (lc_timestamp change) of
            Inl e \<Rightarrow> (Inl e, c)
          | Inr recent \<Rightarrow>
             if \<not> recent then (Inr (), c)
             else case new_pending_context (nd_node_id n) c of
               (ctx, c1) \<Rightarrow>
                 (let n1 = n\<lparr>nd_attributed_lock_change := lock_change_key n\<rparr>
                  in log_lock_cause env n1 (lc_current change) (lc_source change)
                       (lc_timestamp change) ctx (put_node nid n1 c1))))"

subsection \<open>Ingestion\<close>

definition decode_json :: "pystr \<Rightarrow> exc + json" where
  "decode_json payload = (case json_loads payload of Some v \<Rightarrow> Inr v | None \<Rightarrow> invalid InvalidJson)"

text \<open>\<open>B/health\<close> and \<open>B/lock/last\<close> register the node before they validate the payload; a
  failing attribution is logged and swallowed.\<close>

definition handle_health :: "ingest_env \<Rightarrow> pystr \<Rightarrow> json \<Rightarrow> coord \<Rightarrow> (exc + unit) \<times> coord" where
  "handle_health env nid payload c =
    (case ensure_node nid c of
       (n, c1) \<Rightarrow>
         (let previous = (case nd_health n of None \<Rightarrow> None | Some h \<Rightarrow> nh_lock_current h) in
          case node_health_from_dict payload (co_household_id c) nid of
            Inl e \<Rightarrow> (Inl e, c1)
          | Inr health \<Rightarrow>
             (let c2 = put_node nid (n\<lparr>nd_health := Some health,
                                      nd_lock_change_is_fresh := False\<rparr>) c1
              in (Inr (), snd (attribute_lock_change env nid previous health c2)))))"

definition handle_lock_last :: "ingest_env \<Rightarrow> pystr \<Rightarrow> json \<Rightarrow> coord \<Rightarrow> (exc + unit) \<times> coord" where
  "handle_lock_last env nid payload c =
    (case ensure_node nid c of
       (n, c1) \<Rightarrow>
         (case lock_change_from_dict payload (co_household_id c) nid of
            Inl e \<Rightarrow> (Inl e, c1)
          | Inr change \<Rightarrow>
             (let c2 = put_node nid (n\<lparr>nd_lock_change := Some change,
                                      nd_lock_change_is_fresh := True\<rparr>) c1
              in (Inr (), snd (attribute_lock_event env nid change c2)))))"

text \<open>An assignment to an attribute of \<open>_ensure_node(node_id)\<close>: the parsed value is computed
  first, so a payload that does not parse registers nothing.\<close>

definition assign_parsed :: "exc + 'a \<Rightarrow> ('a \<Rightarrow> node \<Rightarrow> node) \<Rightarrow> pystr
    \<Rightarrow> coord \<Rightarrow> (exc + unit) \<times> coord" where
  "assign_parsed parsed assign nid c =
    (case parsed of
       Inl e \<Rightarrow> (Inl e, c)
     | Inr v \<Rightarrow> (case ensure_node nid c of (n, c1) \<Rightarrow> (Inr (), put_node nid (assign v n) c1)))"

text \<open>The handler of a subtopic; \<open>None\<close> when no branch of \<open>_dispatch\<close> takes the message.\<close>

definition handler_for :: "ingest_env \<Rightarrow> coord \<Rightarrow> pystr \<Rightarrow> pystr \<Rightarrow> pystr \<Rightarrow> json
    \<Rightarrow> (coord \<Rightarrow> (exc + unit) \<times> coord) option" where
  "handler_for env c subtopic nid raw payload =
    (if subtopic = KIND_LEGACY_STATUS then Some (handle_legacy_status env nid raw)
     else if subtopic = TOPIC_STATUS then Some (handle_node_status env nid raw)
     else if subtopic = TOPIC_STATE then
       Some (\<lambda>c. case node_from_state (co_household_id c) nid payload of
              Inl e \<Rightarrow> (Inl e, c) | Inr n \<Rightarrow> (Inr (), merge_node n c))
     else if subtopic = TOPIC_HEALTH then Some (handle_health env nid payload)
     else if subtopic = TOPIC_LOCK_LAST then Some (handle_lock_last env nid payload)
     else if subtopic = TOPIC_SECURITY then Some (handle_security nid raw)
     else if subtopic = TOPIC_BACKUP_STATUS then Some (handle_backup_status nid raw)
     else if subtopic = TOPIC_BACKUP_LAST then
       Some (assign_parsed (backup_record_from_dict payload (co_household_id c) nid)
              (\<lambda>v n. n\<lparr>nd_backup := Some v\<rparr>) nid)
     else if subtopic = TOPIC_LAST_AUTH then
       Some (assign_parsed (last_auth_from_dict payload (co_household_id c) nid)
              (\<lambda>v n. n\<lparr>nd_last_auth := Some v\<rparr>) nid)
     else if subtopic = TOPIC_GUEST_STATUS then
       Some (assign_parsed (guest_state_from_dict payload) (\<lambda>v n. n\<lparr>nd_guest := Some v\<rparr>) nid)
     else None)"

text \<open>The pool is renewed, the entities are told, the causes are dropped.\<close>

definition publish_update :: "coord \<Rightarrow> coord" where
  "publish_update c = (pool_state c)
     \<lparr>co_delivered := co_delivered c @ [co_pending c], co_pending := []\<rparr>"

definition dispatch :: "ingest_env \<Rightarrow> message \<Rightarrow> coord \<Rightarrow> (exc + bool) \<times> coord" where
  "dispatch env m c =
    (case (if msg_subtopic m \<in> set JSON_SUBTOPICS then decode_json (msg_payload m)
           else Inr (JStr (msg_payload m))) of
       Inl e \<Rightarrow> (Inl e, c)
     | Inr payload \<Rightarrow>
        (case msg_node_id m of
           None \<Rightarrow> (Inr False, c)
         | Some nid \<Rightarrow>
            if nid = [] then (Inr False, c)
            else case handler_for env c (msg_subtopic m) nid (msg_payload m) payload of
              None \<Rightarrow> (Inr False, c)
            | Some handle \<Rightarrow>
               (case handle c of
                  (Inl e, c') \<Rightarrow> (Inl e, c')
                | (Inr u, c') \<Rightarrow> (Inr True, publish_update c'))))"

text \<open>\<open>async_handle_message\<close>: other households are ignored, exceptions are logged.\<close>

definition handle_message :: "ingest_env \<Rightarrow> message \<Rightarrow> coord \<Rightarrow> coord" where
  "handle_message env m c =
    (if msg_household_id m \<noteq> co_household_id c then c else snd (dispatch env m c))"

fun handle_messages :: "(ingest_env \<times> message) list \<Rightarrow> coord \<Rightarrow> coord" where
  "handle_messages [] c = c"
| "handle_messages ((env, m) # ms) c = handle_messages ms (handle_message env m c)"

definition pending_context :: "coord \<Rightarrow> pystr \<Rightarrow> nat option" where
  "pending_context c nid = dict_get (co_pending c) nid"

end
