(* ===== verification/Coordinator_Facts.thy ===== *)
theory Coordinator_Facts imports Coordinator begin

section \<open>What the coordinator guarantees\<close>

text \<open>
  The well-formedness invariant of the coordinator and its reachable states, the effect of a
  message on the nodes (only the addressed node, nothing on a rejected payload but the
  registration of a node), the state of a lock after a report, and what is written to the
  logbook.
\<close>

subsection \<open>Elementary updates\<close>

lemma get_put [simp]: "get_node (put_node k n c) k' = (if k' = k then Some n else get_node c k')"
  by (simp add: get_node_def put_node_def)

lemma get_node_updates [simp]:
  "get_node (c\<lparr>co_logbook := x\<rparr>) = get_node c" "get_node (c\<lparr>co_pending := y\<rparr>) = get_node c"
  "get_node (c\<lparr>co_next_context := z\<rparr>) = get_node c" "get_node (c\<lparr>co_delivered := w\<rparr>) = get_node c"
  "get_node (c\<lparr>co_pool := u\<rparr>) = get_node c"
  by (auto simp: get_node_def)

lemma put_node_fields [simp]:
  "co_household_id (put_node k n c) = co_household_id c" "co_known (put_node k n c) = co_known c"
  "co_pool (put_node k n c) = co_pool c" "co_pending (put_node k n c) = co_pending c"
  "co_next_context (put_node k n c) = co_next_context c"
  "co_logbook (put_node k n c) = co_logbook c" "co_delivered (put_node k n c) = co_delivered c"
  by (simp_all add: put_node_def)

lemma schedule_fields [simp]:
  "get_node (maybe_schedule_reload k c) = get_node c"
  "co_nodes (maybe_schedule_reload k c) = co_nodes c"
  "co_household_id (maybe_schedule_reload k c) = co_household_id c"
  "co_known (maybe_schedule_reload k c) = insert k (co_known c)"
  "co_pool (maybe_schedule_reload k c) = co_pool c"
  "co_pending (maybe_schedule_reload k c) = co_pending c"
  "co_next_context (maybe_schedule_reload k c) = co_next_context c"
  "co_logbook (maybe_schedule_reload k c) = co_logbook c"
  "co_delivered (maybe_schedule_reload k c) = co_delivered c"
  by (auto simp: maybe_schedule_reload_def get_node_def)

text \<open>Everything but the nodes and the known ids.\<close>

definition same_rest :: "coord \<Rightarrow> coord \<Rightarrow> bool" where
  "same_rest c c' \<longleftrightarrow> co_household_id c' = co_household_id c \<and> co_pool c' = co_pool c
     \<and> co_pending c' = co_pending c \<and> co_next_context c' = co_next_context c
     \<and> co_logbook c' = co_logbook c \<and> co_delivered c' = co_delivered c"

lemma same_rest_refl [simp]: "same_rest c c"
  by (simp add: same_rest_def)

lemma same_rest_trans [trans]: "same_rest a b \<Longrightarrow> same_rest b c \<Longrightarrow> same_rest a c"
  by (simp add: same_rest_def)

lemma same_rest_put [simp]: "same_rest c (put_node k n c') = same_rest c c'"
  by (simp add: same_rest_def)

lemma same_rest_schedule [simp]: "same_rest c (maybe_schedule_reload k c') = same_rest c c'"
  by (simp add: same_rest_def)

lemma ensure_node_spec:
  assumes "ensure_node k c = (n, c')"
  shows "get_node c' = (get_node c)(k \<mapsto> n)" "same_rest c c'"
    "n = (case get_node c k of Some m \<Rightarrow> m | None \<Rightarrow> new_node k (co_household_id c))"
    "c' = c \<or> get_node c k = None \<and> c' = maybe_schedule_reload k (put_node k (new_node k (co_household_id c)) c)"
  using assms
  by (auto simp: ensure_node_def Let_def fun_eq_iff split: option.splits)

subsection \<open>The invariant\<close>

definition opt_all :: "('a \<Rightarrow> bool) \<Rightarrow> 'a option \<Rightarrow> bool" where
  "opt_all P v = (case v of None \<Rightarrow> True | Some x \<Rightarrow> P x)"

lemma opt_all_simps [simp]: "opt_all P None" "opt_all P (Some x) = P x"
  by (simp_all add: opt_all_def)

definition node_ok :: "pystr \<Rightarrow> pystr \<Rightarrow> node \<Rightarrow> bool" where
  "node_ok hid nid n \<longleftrightarrow> nid \<noteq> [] \<and> nd_node_id n = nid \<and> nd_household_id n = hid
     \<and> nd_node_name n \<noteq> [] \<and> nd_node_role n \<noteq> [] \<and> nd_node_state n \<noteq> []
     \<and> opt_all is_security_state (nd_security n)
     \<and> opt_all is_backup_outcome (nd_backup_status n)
     \<and> opt_all (\<lambda>b. is_backup_outcome (br_status b)) (nd_backup n)
     \<and> opt_all (\<lambda>a. is_auth_result (la_result a) \<and> la_auth_type a \<noteq> []) (nd_last_auth n)
     \<and> opt_all (\<lambda>h. nh_mqtt h \<noteq> [] \<and> nh_network h \<noteq> [] \<and> nh_certificate h \<noteq> []) (nd_health n)
     \<and> opt_all (\<lambda>l. is_lock_source (lc_source l)) (nd_lock_change n)
     \<and> (nd_lock_change_is_fresh n \<longrightarrow> nd_lock_change n \<noteq> None)
     \<and> opt_all (\<lambda>(t, i, s). device_initiated s) (nd_attributed_lock_change n)"

definition nodes_ok :: "pystr \<Rightarrow> (pystr, node) dict \<Rightarrow> bool" where
  "nodes_ok hid d \<longleftrightarrow> dict_ok d \<and> (\<forall>k n. dict_get d k = Some n \<longrightarrow> node_ok hid k n)"

definition pool_agrees :: "coord \<Rightarrow> bool" where
  "pool_agrees c = opt_all (\<lambda>p. dict_ok p \<and> (\<forall>k n. dict_get p k = Some n \<longrightarrow> get_node c k = Some n))
     (co_pool c)"

definition coord_inv :: "coord \<Rightarrow> bool" where
  "coord_inv c \<longleftrightarrow> nodes_ok (co_household_id c) (co_nodes c)
     \<and> co_known c = set (dict_keys (co_nodes c)) \<and> pool_agrees c \<and> co_pending c = []
     \<and> list_all (\<lambda>e. le_context e < co_next_context c) (co_logbook c)
     \<and> list_all (\<lambda>d. dict_ok d \<and> list_all (\<lambda>p. snd p < co_next_context c) d) (co_delivered c)"

text \<open>The part of the invariant that holds at every point of a handler.\<close>

definition core_inv :: "coord \<Rightarrow> bool" where
  "core_inv c \<longleftrightarrow> nodes_ok (co_household_id c) (co_nodes c)
     \<and> co_known c = set (dict_keys (co_nodes c))"

lemma node_ok_new: "nid \<noteq> [] \<Longrightarrow> node_ok hid nid (new_node nid hid)"
  by (simp add: node_ok_def new_node_def)

lemma nodes_ok_set: "nodes_ok hid d \<Longrightarrow> node_ok hid k n \<Longrightarrow> nodes_ok hid (dict_set d k n)"
  by (auto simp: nodes_ok_def)

lemma core_inv_get: "core_inv c \<Longrightarrow> get_node c k = Some n \<Longrightarrow> node_ok (co_household_id c) k n"
  by (simp add: core_inv_def nodes_ok_def get_node_def)

lemma core_inv_put_known:
  assumes "core_inv c" "node_ok (co_household_id c) k n" "get_node c k \<noteq> None"
  shows "core_inv (put_node k n c)"
proof -
  have "k \<in> set (dict_keys (co_nodes c))"
    using assms(3) dict_get_None_iff [of "co_nodes c" k] by (auto simp: get_node_def)
  then show ?thesis
    using assms by (auto simp: core_inv_def put_node_def nodes_ok_set)
qed

lemma core_inv_put_new:
  assumes "core_inv c" "node_ok (co_household_id c) k n"
  shows "core_inv (maybe_schedule_reload k (put_node k n c))"
  using assms by (auto simp: core_inv_def put_node_def maybe_schedule_reload_def nodes_ok_set)

lemma core_inv_ensure:
  assumes "core_inv c" "ensure_node k c = (n, c')" "k \<noteq> []"
  shows "core_inv c'" "node_ok (co_household_id c) k n" "get_node c' k = Some n"
    "co_household_id c' = co_household_id c"
proof -
  show n: "node_ok (co_household_id c) k n"
    using assms core_inv_get [OF assms(1), of k] ensure_node_spec(3) [OF assms(2)]
    by (auto simp: node_ok_new split: option.splits)
  show "core_inv c'"
    using ensure_node_spec(4) [OF assms(2)] assms(1,3) core_inv_put_new [OF assms(1)] node_ok_new
    by auto
  show "get_node c' k = Some n" "co_household_id c' = co_household_id c"
    using ensure_node_spec(1,2) [OF assms(2)] by (simp_all add: same_rest_def)
qed

subsection \<open>What the parsers deliver\<close>

lemma node_from_state_Inr:
  "node_from_state hid nid v = Inr n \<Longrightarrow> nid \<noteq> [] \<Longrightarrow> node_ok hid nid n"
  by (auto simp: node_from_state_def node_state_from_dict_def res_simps node_ok_def new_node_def
      const_defs)

lemma node_from_state_id: "node_from_state hid nid v = Inr n \<Longrightarrow> nd_node_id n = nid"
  by (auto simp: node_from_state_def res_simps new_node_def)

lemma node_health_from_dict_Inr:
  "node_health_from_dict v hid nid = Inr h \<Longrightarrow> nh_mqtt h \<noteq> [] \<and> nh_network h \<noteq> [] \<and> nh_certificate h \<noteq> []"
  by (auto simp: node_health_from_dict_def res_simps)

lemma backup_record_from_dict_Inr:
  "backup_record_from_dict v hid nid = Inr b \<Longrightarrow> is_backup_outcome (br_status b)"
  by (auto simp: backup_record_from_dict_def res_simps split: if_splits)

lemma last_auth_from_dict_Inr:
  "last_auth_from_dict v hid nid = Inr a \<Longrightarrow> is_auth_result (la_result a) \<and> la_auth_type a \<noteq> []"
  by (auto simp: last_auth_from_dict_def res_simps split: if_splits)

lemma lock_change_from_dict_Inr:
  "lock_change_from_dict v hid nid = Inr l \<Longrightarrow> is_lock_source (lc_source l)"
  by (auto simp: lock_change_from_dict_def bindE_Inr_iff split: if_splits option.splits)

subsection \<open>Attribution\<close>

text \<open>What attribution may change: the causes, the logbook and, for an event, the key of the
  change already announced.\<close>

definition attribution_frame :: "pystr \<Rightarrow> coord \<Rightarrow> coord \<Rightarrow> bool" where
  "attribution_frame nid c c' \<longleftrightarrow>
     co_household_id c' = co_household_id c \<and> co_known c' = co_known c
   \<and> co_pool c' = co_pool c \<and> co_delivered c' = co_delivered c
   \<and> (\<exists>pend. co_pending c' = co_pending c \<or>
         (co_pending c' = dict_set (co_pending c) pend (co_next_context c) \<and> co_next_context c' = co_next_context c + 1))
   \<and> co_next_context c \<le> co_next_context c'
   \<and> (\<exists>es. co_logbook c' = co_logbook c @ es \<and> length es \<le> 1
          \<and> list_all (\<lambda>e. le_context e < co_next_context c' \<and> co_next_context c \<le> le_context e) es)
   \<and> (co_nodes c' = co_nodes c
      \<or> (\<exists>n. get_node c nid = Some n
            \<and> co_nodes c' = dict_set (co_nodes c) nid (n\<lparr>nd_attributed_lock_change := lock_change_key n\<rparr>)
            \<and> opt_all (\<lambda>l. device_initiated (lc_source l)) (nd_lock_change n)))"

lemma attribution_frame_refl [simp]: "attribution_frame nid c c"
  by (auto simp: attribution_frame_def)

lemma attribution_frame_log:
  assumes "new_pending_context k c = (ctx, c1)" "log_lock_cause env n i s t ctx c1 = (r, c2)"
  shows "attribution_frame nid c c2"
  using assms
  by (auto simp: attribution_frame_def new_pending_context_def log_lock_cause_def Let_def
      split: option.splits)

lemma attribute_lock_change_frame:
  "attribute_lock_change env nid prev h c = (r, c') \<Longrightarrow> attribution_frame nid c c'"
  by (auto simp: attribute_lock_change_def split: option.splits if_splits prod.splits
      dest: attribution_frame_log)

lemma attribute_lock_event_frame:
  assumes "attribute_lock_event env nid change c = (r, c')"
    "\<And>n. get_node c nid = Some n \<Longrightarrow> nd_lock_change n = Some change"
  shows "attribution_frame nid c c'"
proof (cases "c' = c")
  case False
  then obtain n ctx c1 where n: "get_node c nid = Some n" "device_initiated (lc_source change)"
    and ctx: "new_pending_context (nd_node_id n) c = (ctx, c1)"
    and log: "log_lock_cause env (n\<lparr>nd_attributed_lock_change := lock_change_key n\<rparr>) (lc_current change)
        (lc_source change) (lc_timestamp change) ctx
        (put_node nid (n\<lparr>nd_attributed_lock_change := lock_change_key n\<rparr>) c1) = (r, c')"
    using assms(1)
    by (auto simp: attribute_lock_event_def Let_def split: option.splits if_splits prod.splits sum.splits)
  then show ?thesis
    using assms(2) [OF n(1)]
    by (auto simp: attribution_frame_def new_pending_context_def log_lock_cause_def Let_def
        put_node_def split: option.splits)
qed simp

lemma core_inv_attribution:
  assumes "core_inv c" "attribution_frame nid c c'"
  shows "core_inv c'"
proof -
  have same: "co_household_id c' = co_household_id c" "co_known c' = co_known c"
    using assms(2) by (simp_all add: attribution_frame_def)
  from assms(2) consider "co_nodes c' = co_nodes c"
    | n where "get_node c nid = Some n"
        "co_nodes c' = dict_set (co_nodes c) nid (n\<lparr>nd_attributed_lock_change := lock_change_key n\<rparr>)"
        "opt_all (\<lambda>l. device_initiated (lc_source l)) (nd_lock_change n)"
    by (auto simp: attribution_frame_def)
  then show ?thesis
  proof cases
    case 1
    then show ?thesis using assms(1) same by (simp add: core_inv_def)
  next
    case 2
    have "node_ok (co_household_id c) nid (n\<lparr>nd_attributed_lock_change := lock_change_key n\<rparr>)"
      using core_inv_get [OF assms(1) 2(1)] 2(3)
      by (auto simp: node_ok_def lock_change_key_def change_key_def opt_all_def split: option.splits)
    then have "core_inv (put_node nid (n\<lparr>nd_attributed_lock_change := lock_change_key n\<rparr>) c)"
      using core_inv_put_known [OF assms(1)] 2(1) by simp
    then show ?thesis using 2(2) same by (simp add: core_inv_def put_node_def)
  qed
qed

subsection \<open>Handlers\<close>

definition registered :: "pystr \<Rightarrow> coord \<Rightarrow> coord" where
  "registered nid c = maybe_schedule_reload nid (put_node nid (new_node nid (co_household_id c)) c)"

text \<open>The frame of a handler for node \<open>nid\<close>: other nodes, the pool and what was delivered stay,
  a failure is a \<open>ValidationError\<close> that changed nothing but, at most, registered the node.\<close>

definition handled :: "pystr \<Rightarrow> coord \<Rightarrow> (exc + unit) \<times> coord \<Rightarrow> bool" where
  "handled nid c rc \<longleftrightarrow> (case rc of (r, c') \<Rightarrow>
     (core_inv c \<longrightarrow> core_inv c')
   \<and> co_household_id c' = co_household_id c \<and> co_pool c' = co_pool c
   \<and> co_delivered c' = co_delivered c
   \<and> (\<forall>k. k \<noteq> nid \<longrightarrow> get_node c' k = get_node c k)
   \<and> (get_node c nid \<noteq> None \<longrightarrow> get_node c' nid \<noteq> None)
   \<and> (\<exists>pend. co_pending c' = co_pending c \<or>
         (co_pending c' = dict_set (co_pending c) pend (co_next_context c) \<and> co_next_context c' = co_next_context c + 1))
   \<and> co_next_context c \<le> co_next_context c'
   \<and> (\<exists>es. co_logbook c' = co_logbook c @ es \<and> length es \<le> 1
          \<and> list_all (\<lambda>e. le_context e < co_next_context c' \<and> co_next_context c \<le> le_context e) es)
   \<and> (\<forall>e. r = Inl e \<longrightarrow> is_validation_error e
          \<and> (c' = c \<or> get_node c nid = None \<and> c' = registered nid c)))"

lemma handled_error: "is_validation_error e \<Longrightarrow> handled nid c (Inl e, c)"
  by (simp add: handled_def)

lemma handled_ok: "handled nid c (Inr (), c)"
  by (simp add: handled_def)

lemma handled_ensure_put:
  assumes "ensure_node nid c = (n, c1)" "nid \<noteq> []"
    "node_ok (co_household_id c) nid n \<Longrightarrow> node_ok (co_household_id c) nid m"
  shows "handled nid c (Inr (), put_node nid m c1)"
proof -
  note e = ensure_node_spec [OF assms(1)]
  have "core_inv (put_node nid m c1)" if "core_inv c"
    using core_inv_ensure [OF that assms(1,2)] assms(3) core_inv_put_known [of c1 nid m] by simp
  then show ?thesis
    using e(1,2) by (auto simp: handled_def same_rest_def)
qed

lemma handled_put_existing:
  assumes "get_node c nid = Some n"
    "node_ok (co_household_id c) nid n \<Longrightarrow> node_ok (co_household_id c) nid m"
  shows "handled nid c (Inr (), put_node nid m c)"
  using assms core_inv_get [of c nid n] core_inv_put_known [of c nid m]
  by (auto simp: handled_def)

lemma handled_merge:
  assumes "nd_node_id inc = nid" "node_ok (co_household_id c) nid inc"
  shows "handled nid c (Inr (), merge_node inc c)"
proof (cases "get_node c nid")
  case None
  then have "merge_node inc c = maybe_schedule_reload nid (put_node nid inc c)"
    using assms(1) by (simp add: merge_node_def Let_def)
  then show ?thesis using assms core_inv_put_new by (auto simp: handled_def)
next
  case (Some n)
  then show ?thesis
    using assms unfolding merge_node_def Let_def
    by (auto intro!: handled_put_existing simp: node_ok_def)
qed

lemma handled_attributed:
  assumes h: "handled nid c (Inr (), c2)" and same: "same_rest c c2"
    and f: "attribution_frame nid c2 c3"
  shows "handled nid c (Inr (), c3)"
proof -
  have nodes: "get_node c3 k = get_node c2 k" if "k \<noteq> nid" for k
    using f that by (auto simp: attribution_frame_def get_node_def)
  have dom: "get_node c2 nid \<noteq> None \<Longrightarrow> get_node c3 nid \<noteq> None"
    using f by (auto simp: attribution_frame_def get_node_def)
  have 1: "core_inv c \<longrightarrow> core_inv c3" using h core_inv_attribution [OF _ f] by (simp add: handled_def)
  have 2: "\<forall>k. k \<noteq> nid \<longrightarrow> get_node c3 k = get_node c k"
    "get_node c nid \<noteq> None \<longrightarrow> get_node c3 nid \<noteq> None"
    using h nodes dom by (simp_all add: handled_def)
  have 3: "co_household_id c3 = co_household_id c" "co_pool c3 = co_pool c"
    "co_delivered c3 = co_delivered c" "co_next_context c \<le> co_next_context c3"
    using same f by (simp_all add: same_rest_def attribution_frame_def)
  have 4: "\<exists>pend. co_pending c3 = co_pending c \<or>
      (co_pending c3 = dict_set (co_pending c) pend (co_next_context c)
       \<and> co_next_context c3 = co_next_context c + 1)"
    using same f by (simp add: same_rest_def attribution_frame_def)
  have 5: "\<exists>es. co_logbook c3 = co_logbook c @ es \<and> length es \<le> 1
      \<and> list_all (\<lambda>e. le_context e < co_next_context c3 \<and> co_next_context c \<le> le_context e) es"
    using same f by (simp add: same_rest_def attribution_frame_def)
  show ?thesis
    unfolding handled_def prod.case using 1 2 3 4 5 by (intro conjI) simp_all
qed

lemma handled_health:
  assumes "nid \<noteq> []"
  shows "handled nid c (handle_health env nid payload c)"
proof -
  obtain n c1 where e: "ensure_node nid c = (n, c1)" by (cases "ensure_node nid c")
  note es = ensure_node_spec [OF e]
  have hid: "co_household_id c1 = co_household_id c" using es(2) by (simp add: same_rest_def)
  show ?thesis
  proof (cases "node_health_from_dict payload (co_household_id c) nid")
    case (Inl x)
    have "is_validation_error x"
      using validating_from_dict(2) [of payload "co_household_id c" nid] Inl by simp
    moreover have "core_inv c1" if "core_inv c" using core_inv_ensure(1) [OF that e assms] .
    ultimately show ?thesis
      using e es Inl unfolding handle_health_def
      by (auto simp: handled_def same_rest_def registered_def)
  next
    case (Inr h)
    define c2 where "c2 = put_node nid (n\<lparr>nd_health := Some h, nd_lock_change_is_fresh := False\<rparr>) c1"
    have "handled nid c (Inr (), c2)"
      unfolding c2_def using e assms node_health_from_dict_Inr [OF Inr]
      by (intro handled_ensure_put) (auto simp: node_ok_def)
    moreover have "same_rest c c2" using es(2) by (simp add: c2_def)
    moreover have "attribution_frame nid c2 (snd (attribute_lock_change env nid
        (case nd_health n of None \<Rightarrow> None | Some h \<Rightarrow> nh_lock_current h) h c2))"
      by (rule attribute_lock_change_frame [OF prod.collapse [symmetric]])
    ultimately show ?thesis
      using e Inr handled_attributed
      unfolding handle_health_def Let_def c2_def by (simp add: hid)
  qed
qed

lemma handled_lock_last:
  assumes "nid \<noteq> []"
  shows "handled nid c (handle_lock_last env nid payload c)"
proof -
  obtain n c1 where e: "ensure_node nid c = (n, c1)" by (cases "ensure_node nid c")
  note es = ensure_node_spec [OF e]
  have hid: "co_household_id c1 = co_household_id c" using es(2) by (simp add: same_rest_def)
  show ?thesis
  proof (cases "lock_change_from_dict payload (co_household_id c) nid")
    case (Inl x)
    have "is_validation_error x"
      using validating_from_dict(5) [of payload "co_household_id c" nid] Inl by simp
    moreover have "core_inv c1" if "core_inv c" using core_inv_ensure(1) [OF that e assms] .
    ultimately show ?thesis
      using e es Inl unfolding handle_lock_last_def
      by (auto simp: handled_def same_rest_def registered_def)
  next
    case (Inr l)
    define c2 where "c2 = put_node nid (n\<lparr>nd_lock_change := Some l, nd_lock_change_is_fresh := True\<rparr>) c1"
    have "handled nid c (Inr (), c2)"
      unfolding c2_def using e assms lock_change_from_dict_Inr [OF Inr]
      by (intro handled_ensure_put) (auto simp: node_ok_def)
    moreover have "same_rest c c2" using es(2) by (simp add: c2_def)
    moreover have "attribution_frame nid c2 (snd (attribute_lock_event env nid l c2))"
      by (rule attribute_lock_event_frame [OF prod.collapse [symmetric]]) (simp add: c2_def)
    ultimately show ?thesis
      using e Inr handled_attributed
      unfolding handle_lock_last_def Let_def c2_def by (simp add: hid)
  qed
qed

lemma handled_assign_parsed:
  assumes "nid \<noteq> []" "validating p"
    "\<And>v n. p = Inr v \<Longrightarrow> node_ok (co_household_id c) nid n \<Longrightarrow> node_ok (co_household_id c) nid (f v n)"
  shows "handled nid c (assign_parsed p f nid c)"
proof (cases p)
  case (Inl e)
  then show ?thesis using assms(2) by (simp add: assign_parsed_def handled_error)
next
  case (Inr v)
  obtain n c1 where e: "ensure_node nid c = (n, c1)" by (cases "ensure_node nid c")
  then show ?thesis
    using assms(1,3) Inr by (simp add: assign_parsed_def handled_ensure_put)
qed

lemma handler_for_handled:
  assumes "handler_for env c sub nid raw payload = Some h" "nid \<noteq> []"
  shows "handled nid c (h c)"
proof -
  have status: "handled nid c (handle_node_status env nid raw c)"
    using assms(2) unfolding handle_node_status_def Let_def
    by (auto intro!: handled_error handled_ensure_put simp: node_ok_def split: prod.splits)
  have legacy: "handled nid c (handle_legacy_status env nid raw c)"
    unfolding handle_legacy_status_def Let_def
    by (auto intro!: handled_error handled_ok handled_put_existing simp: node_ok_def split: option.splits)
  have security: "handled nid c (handle_security nid raw c)"
    using assms(2) unfolding handle_security_def Let_def
    by (auto intro!: handled_error handled_ensure_put simp: node_ok_def split: prod.splits)
  have backup: "handled nid c (handle_backup_status nid raw c)"
    using assms(2) unfolding handle_backup_status_def Let_def
    by (auto intro!: handled_error handled_ensure_put simp: node_ok_def split: prod.splits)
  have state: "handled nid c (case node_from_state (co_household_id c) nid payload of
      Inl e \<Rightarrow> (Inl e, c) | Inr n \<Rightarrow> (Inr (), merge_node n c))"
    using validating_node_from_state [of "co_household_id c" nid payload] assms(2)
    by (auto intro!: handled_error handled_merge node_from_state_id node_from_state_Inr split: sum.splits)
  show ?thesis
    using assms status legacy security backup state handled_health handled_lock_last
    unfolding handler_for_def
    by (auto split: if_splits intro!: handled_assign_parsed validating_intros
        dest: backup_record_from_dict_Inr last_auth_from_dict_Inr simp: node_ok_def)
qed

subsection \<open>Messages\<close>

lemma dispatch_cases:
  assumes "dispatch env m c = (r, c')"
  obtains (refused) r' where "c' = c" "r = r'" "r' = Inr False \<or> (\<exists>e. r' = invalid e)"
  | (failed) nid h e where "msg_node_id m = Some nid" "nid \<noteq> []" "h c = (Inl e, c')" "r = Inl e"
      "handled nid c (h c)"
  | (finished) nid h c1 where "msg_node_id m = Some nid" "nid \<noteq> []" "h c = (Inr (), c1)" "r = Inr True"
      "handled nid c (h c)" "c' = publish_update c1"
proof -
  show ?thesis
  proof (cases "c' = c \<and> (r = Inr False \<or> (\<exists>e. r = invalid e))")
    case True
    then show ?thesis using refused by blast
  next
    case False
    then obtain payload nid h where m: "msg_node_id m = Some nid" "nid \<noteq> []"
      and h: "handler_for env c (msg_subtopic m) nid (msg_payload m) payload = Some h"
      and hc: "(case h c of (Inl e, c') \<Rightarrow> (Inl e, c') | (Inr u, c') \<Rightarrow> (Inr True, publish_update c')) = (r, c')"
      using assms
      by (auto simp: dispatch_def decode_json_def split: sum.splits option.splits if_splits)
    have "handled nid c (h c)" using handler_for_handled [OF h m(2)] .
    moreover obtain q c1 where q: "h c = (q, c1)" by (cases "h c")
    ultimately show ?thesis
    proof (cases q)
      case (Inl e)
      then show ?thesis using m hc q \<open>handled nid c (h c)\<close> by (intro failed [of nid h e]) auto
    next
      case (Inr u)
      then show ?thesis using m hc q \<open>handled nid c (h c)\<close> by (intro finished [of nid h c1]) auto
    qed
  qed
qed

lemma publish_update_fields [simp]:
  "get_node (publish_update c) = get_node c" "co_nodes (publish_update c) = co_nodes c"
  "co_household_id (publish_update c) = co_household_id c"
  "co_known (publish_update c) = co_known c" "co_pool (publish_update c) = Some (co_nodes c)"
  "co_pending (publish_update c) = []" "co_next_context (publish_update c) = co_next_context c"
  "co_logbook (publish_update c) = co_logbook c"
  "co_delivered (publish_update c) = co_delivered c @ [co_pending c]"
  by (auto simp: publish_update_def pool_state_def get_node_def)

lemma coord_inv_core: "coord_inv c \<Longrightarrow> core_inv c"
  by (simp add: coord_inv_def core_inv_def)

lemma pool_agrees_ext:
  "pool_agrees c \<Longrightarrow> co_pool c' = co_pool c \<Longrightarrow>
     (\<And>k n. get_node c k = Some n \<Longrightarrow> get_node c' k = Some n) \<Longrightarrow> pool_agrees c'"
  by (auto simp: pool_agrees_def opt_all_def split: option.splits)

lemma pool_agrees_publish: "core_inv c \<Longrightarrow> pool_agrees (publish_update c)"
  by (simp add: pool_agrees_def get_node_def core_inv_def nodes_ok_def)

lemma registered_keeps: "get_node c nid = None \<Longrightarrow> get_node c k = Some n \<Longrightarrow> get_node (registered nid c) k = Some n"
  by (auto simp: registered_def)

lemma list_all_less_mono:
  "list_all (\<lambda>e. f e < (a :: nat)) xs \<Longrightarrow> a \<le> b \<Longrightarrow> list_all (\<lambda>e. f e < b) xs"
  by (erule list.pred_mono_strong) simp

lemma delivered_mono:
  "list_all (\<lambda>d. dict_ok d \<and> list_all (\<lambda>p. snd p < (a :: nat)) d) ds \<Longrightarrow> a \<le> b \<Longrightarrow>
   list_all (\<lambda>d. dict_ok d \<and> list_all (\<lambda>p. snd p < b) d) ds"
  by (erule list.pred_mono_strong) (auto elim: list_all_less_mono)

lemma dispatch_inv:
  assumes inv: "coord_inv c" and d: "dispatch env m c = (r, c')"
  shows "coord_inv c' \<and> co_household_id c' = co_household_id c"
  using d
proof (cases rule: dispatch_cases)
  case refused
  then show ?thesis using inv by simp
next
  case (failed nid h e)
  then have or: "c' = c \<or> get_node c nid = None \<and> c' = registered nid c" and core: "core_inv c'"
    using coord_inv_core [OF inv] by (auto simp: handled_def)
  from or show ?thesis
  proof
    assume "get_node c nid = None \<and> c' = registered nid c"
    then have c': "c' = registered nid c" and new: "get_node c nid = None" by simp_all
    have "pool_agrees c'"
      using inv new pool_agrees_ext [of c c'] registered_keeps [OF new]
      unfolding c' coord_inv_def by (simp add: registered_def)
    then show ?thesis
      using inv core unfolding c' coord_inv_def core_inv_def by (simp add: registered_def)
  qed (use inv in simp)
next
  case (finished nid h c1)
  have h: "handled nid c (Inr (), c1)" using finished by simp
  have core: "core_inv c1" and hid: "co_household_id c1 = co_household_id c"
    and next_: "co_next_context c \<le> co_next_context c1"
    and del: "co_delivered c1 = co_delivered c"
    using h coord_inv_core [OF inv] by (simp_all add: handled_def)
  from h obtain es where es: "co_logbook c1 = co_logbook c @ es"
    "list_all (\<lambda>e. le_context e < co_next_context c1 \<and> co_next_context c \<le> le_context e) es"
    by (auto simp: handled_def)
  have log: "list_all (\<lambda>e. le_context e < co_next_context c1) (co_logbook c1)"
    using inv es next_ list_all_less_mono [of le_context "co_next_context c" "co_logbook c" "co_next_context c1"]
    by (auto simp: coord_inv_def list_all_iff)
  have pend: "dict_ok (co_pending c1) \<and> list_all (\<lambda>p. snd p < co_next_context c1) (co_pending c1)"
    using h inv by (auto simp: handled_def coord_inv_def dict_set_def dict_ok_def)
  have dels: "list_all (\<lambda>d. dict_ok d \<and> list_all (\<lambda>p. snd p < co_next_context c1) d) (co_delivered c1)"
    unfolding del by (rule delivered_mono [OF _ next_]) (use inv in \<open>simp add: coord_inv_def\<close>)
  show ?thesis
    using core pool_agrees_publish [OF core] log pend dels finished(6) hid
    unfolding coord_inv_def core_inv_def by simp
qed

lemma handle_message_inv:
  "coord_inv c \<Longrightarrow> coord_inv (handle_message env m c) \<and> co_household_id (handle_message env m c) = co_household_id c"
  using dispatch_inv [of c env m "fst (dispatch env m c)" "snd (dispatch env m c)"]
  by (simp add: handle_message_def)

subsection \<open>Reachable coordinators\<close>

text \<open>A coordinator starts without a pool or takes over the pool a predecessor left; it ingests
  messages in any environment; \<open>async_drop_pooled_state\<close> may run at any moment.\<close>

inductive reachable :: "pystr \<Rightarrow> coord \<Rightarrow> bool" for hid :: pystr where
  start: "reachable hid (new_coord hid None)"
| ingest: "reachable hid c \<Longrightarrow> reachable hid (handle_message env m c)"
| reload: "reachable hid c \<Longrightarrow> reachable hid (new_coord hid (co_pool c))"
| dropped: "reachable hid c \<Longrightarrow> reachable hid (drop_pooled_state c)"

inductive_cases reachableE: "reachable hid c"

lemma new_coord_hid [simp]: "co_household_id (new_coord hid p) = hid"
  by (simp add: new_coord_def restore_pooled_state_def split: option.splits)

lemma new_coord_inv:
  assumes "case p of None \<Rightarrow> True | Some d \<Rightarrow> nodes_ok hid d"
  shows "coord_inv (new_coord hid p)"
proof (cases "p = None \<or> p = Some []")
  case True
  then show ?thesis
    by (auto simp: new_coord_def restore_pooled_state_def coord_inv_def nodes_ok_def
        pool_agrees_def dict_keys_def)
next
  case False
  then obtain d where d: "p = Some d" "d \<noteq> []" by auto
  then have "dict_update [] d = d" "nodes_ok hid d"
    using assms dict_update_Nil_ok [of "[]" d] by (simp_all add: nodes_ok_def)
  then show ?thesis
    using d by (simp add: new_coord_def restore_pooled_state_def coord_inv_def pool_agrees_def
        get_node_def nodes_ok_def)
qed

lemma pool_nodes_ok:
  assumes "coord_inv c"
  shows "case co_pool c of None \<Rightarrow> True | Some d \<Rightarrow> nodes_ok (co_household_id c) d"
  using assms by (auto simp: coord_inv_def pool_agrees_def nodes_ok_def get_node_def split: option.splits)

lemma reachable_inv: "reachable hid c \<Longrightarrow> coord_inv c \<and> co_household_id c = hid"
proof (induction rule: reachable.induct)
  case start
  then show ?case using new_coord_inv [where p = None and hid = hid] by simp
next
  case (ingest c env m)
  then show ?case using handle_message_inv by simp
next
  case (reload c)
  then have "case co_pool c of None \<Rightarrow> True | Some d \<Rightarrow> nodes_ok hid d"
    using pool_nodes_ok [of c] by auto
  then show ?case using new_coord_inv by simp
next
  case (dropped c)
  then show ?case
    by (auto simp: drop_pooled_state_def coord_inv_def pool_agrees_def)
qed

lemma handle_messages_reachable: "reachable hid c \<Longrightarrow> reachable hid (handle_messages ms c)"
  by (induction ms c rule: handle_messages.induct) (auto intro: reachable.ingest)

subsection \<open>Rejected payloads\<close>

lemma dispatch_rejects:
  assumes "dispatch env m c = (Inl e, c')"
  shows "is_validation_error e" "c' = c \<or> (\<exists>nid. msg_node_id m = Some nid \<and> nid \<noteq> []
    \<and> get_node c nid = None \<and> c' = registered nid c)"
proof -
  from assms have "is_validation_error e \<and> (c' = c \<or> (\<exists>nid. msg_node_id m = Some nid \<and> nid \<noteq> []
    \<and> get_node c nid = None \<and> c' = registered nid c))"
  proof (cases rule: dispatch_cases)
    case (failed nid h e)
    then show ?thesis by (auto simp: handled_def)
  qed auto
  then show "is_validation_error e" "c' = c \<or> (\<exists>nid. msg_node_id m = Some nid \<and> nid \<noteq> []
    \<and> get_node c nid = None \<and> c' = registered nid c)" by simp_all
qed

lemma subtopic_words:
  "distinct [KIND_LEGACY_STATUS, TOPIC_STATUS, TOPIC_STATE, TOPIC_HEALTH, TOPIC_LOCK_LAST, TOPIC_SECURITY,
     TOPIC_BACKUP_STATUS, TOPIC_BACKUP_LAST, TOPIC_LAST_AUTH, TOPIC_GUEST_STATUS]"
  by (simp add: const_defs)

lemma json_subtopics:
  "s \<in> set JSON_SUBTOPICS \<longleftrightarrow> s \<in> {TOPIC_STATE, TOPIC_HEALTH, TOPIC_BACKUP_LAST, TOPIC_LAST_AUTH,
     TOPIC_LOCK_LAST, TOPIC_GUEST_STATUS}"
  by (auto simp: JSON_SUBTOPICS_def)

text \<open>The two handlers, as \<open>dispatch\<close> runs them.\<close>

lemma dispatch_health:
  assumes "msg_subtopic m = TOPIC_HEALTH" "msg_node_id m = Some nid" "nid \<noteq> []"
  shows "dispatch env m c = (case decode_json (msg_payload m) of
      Inl e \<Rightarrow> (Inl e, c)
    | Inr v \<Rightarrow> (case handle_health env nid v c of
          (Inl e, c') \<Rightarrow> (Inl e, c') | (Inr u, c') \<Rightarrow> (Inr True, publish_update c')))"
  using assms subtopic_words
  by (auto simp: dispatch_def handler_for_def json_subtopics split: sum.splits)

lemma dispatch_lock_last:
  assumes "msg_subtopic m = TOPIC_LOCK_LAST" "msg_node_id m = Some nid" "nid \<noteq> []"
  shows "dispatch env m c = (case decode_json (msg_payload m) of
      Inl e \<Rightarrow> (Inl e, c)
    | Inr v \<Rightarrow> (case handle_lock_last env nid v c of
          (Inl e, c') \<Rightarrow> (Inl e, c') | (Inr u, c') \<Rightarrow> (Inr True, publish_update c')))"
  using assms subtopic_words
  by (auto simp: dispatch_def handler_for_def json_subtopics split: sum.splits)

lemma dispatch_legacy:
  assumes "msg_subtopic m = KIND_LEGACY_STATUS" "msg_node_id m = Some nid" "nid \<noteq> []"
  shows "dispatch env m c = (case handle_legacy_status env nid (msg_payload m) c of
          (Inl e, c') \<Rightarrow> (Inl e, c') | (Inr u, c') \<Rightarrow> (Inr True, publish_update c'))"
  using assms subtopic_words
  by (auto simp: dispatch_def handler_for_def json_subtopics split: sum.splits)

lemma dispatch_security:
  assumes "msg_subtopic m = TOPIC_SECURITY" "msg_node_id m = Some nid" "nid \<noteq> []"
  shows "dispatch env m c = (case handle_security nid (msg_payload m) c of
          (Inl e, c') \<Rightarrow> (Inl e, c') | (Inr u, c') \<Rightarrow> (Inr True, publish_update c'))"
  using assms by (simp add: dispatch_def handler_for_def const_defs)

lemma handle_message_dispatch:
  "msg_household_id m = co_household_id c \<Longrightarrow> handle_message env m c = snd (dispatch env m c)"
  by (simp add: handle_message_def)

subsection \<open>Other nodes\<close>

lemma handle_message_other_nodes:
  assumes "msg_node_id m \<noteq> Some k"
  shows "get_node (handle_message env m c) k = get_node c k"
proof (cases "msg_household_id m = co_household_id c")
  case True
  obtain r c' where d: "dispatch env m c = (r, c')" by (cases "dispatch env m c")
  from d have "get_node c' k = get_node c k"
  proof (cases rule: dispatch_cases)
    case (failed nid h e)
    then show ?thesis using assms by (auto simp: handled_def)
  next
    case (finished nid h c1)
    then show ?thesis using assms by (auto simp: handled_def)
  qed simp
  then show ?thesis using True d by (simp add: handle_message_def)
qed (simp add: handle_message_def)

lemma handle_message_keeps_nodes:
  assumes "get_node c k \<noteq> None"
  shows "get_node (handle_message env m c) k \<noteq> None"
proof (cases "msg_household_id m = co_household_id c")
  case True
  obtain r c' where d: "dispatch env m c = (r, c')" by (cases "dispatch env m c")
  from d have "get_node c' k \<noteq> None"
  proof (cases rule: dispatch_cases)
    case (failed nid h e)
    then show ?thesis using assms by (cases "k = nid") (auto simp: handled_def)
  next
    case (finished nid h c1)
    then show ?thesis using assms by (cases "k = nid") (auto simp: handled_def)
  qed (use assms in simp)
  then show ?thesis using True d by (simp add: handle_message_def)
qed (use assms in \<open>simp add: handle_message_def\<close>)

lemma handle_message_hid [simp]: "co_household_id (handle_message env m c) = co_household_id c"
proof -
  obtain r c' where d: "dispatch env m c = (r, c')" by (cases "dispatch env m c")
  from d have "co_household_id c' = co_household_id c"
    by (cases rule: dispatch_cases) (auto simp: handled_def)
  then show ?thesis using d by (simp add: handle_message_def)
qed

lemma handle_messages_hid [simp]: "co_household_id (handle_messages ms c) = co_household_id c"
  by (induction ms c rule: handle_messages.induct) simp_all

subsection \<open>The lock after a report\<close>

text \<open>Attribution changes nothing of a node but the key of the change announced last.\<close>

lemma attribution_frame_node:
  assumes "attribution_frame nid c c'" "get_node c nid = Some n"
  obtains a where "get_node c' nid = Some (n\<lparr>nd_attributed_lock_change := a\<rparr>)"
proof -
  from assms(1) consider "co_nodes c' = co_nodes c"
    | m where "get_node c nid = Some m"
        "co_nodes c' = dict_set (co_nodes c) nid (m\<lparr>nd_attributed_lock_change := lock_change_key m\<rparr>)"
    by (auto simp: attribution_frame_def)
  then show ?thesis
  proof cases
    case 1
    then have "get_node c' nid = Some (n\<lparr>nd_attributed_lock_change := nd_attributed_lock_change n\<rparr>)"
      using assms(2) by (simp add: get_node_def)
    then show ?thesis by (rule that)
  next
    case 2
    then have "get_node c' nid = Some (n\<lparr>nd_attributed_lock_change := lock_change_key n\<rparr>)"
      using assms(2) by (simp add: get_node_def)
    then show ?thesis by (rule that)
  qed
qed

lemma attribute_lock_change_fst: "attribution_frame nid c (snd (attribute_lock_change env nid p h c))"
  by (rule attribute_lock_change_frame [OF prod.collapse [symmetric]])

lemma handle_lock_last_state:
  assumes "lock_change_from_dict v (co_household_id c) nid = Inr l"
  shows "\<exists>c' n. handle_lock_last env nid v c = (Inr (), c') \<and> get_node c' nid = Some n
    \<and> node_lock_state n = lock_state_of (lc_current l) \<and> nd_lock_change n = Some l"
proof -
  obtain n c1 where e: "ensure_node nid c = (n, c1)" by (cases "ensure_node nid c")
  have hid: "co_household_id c1 = co_household_id c"
    using ensure_node_spec(2) [OF e] by (simp add: same_rest_def)
  define c2 where "c2 = put_node nid (n\<lparr>nd_lock_change := Some l, nd_lock_change_is_fresh := True\<rparr>) c1"
  have f: "attribution_frame nid c2 (snd (attribute_lock_event env nid l c2))"
    by (rule attribute_lock_event_frame [OF prod.collapse [symmetric]]) (simp add: c2_def)
  have "handle_lock_last env nid v c = (Inr (), snd (attribute_lock_event env nid l c2))"
    using e assms by (simp add: handle_lock_last_def hid c2_def Let_def)
  moreover obtain a where "get_node (snd (attribute_lock_event env nid l c2)) nid =
      Some (n\<lparr>nd_lock_change := Some l, nd_lock_change_is_fresh := True, nd_attributed_lock_change := a\<rparr>)"
    by (rule attribution_frame_node [OF f]) (auto simp: c2_def)
  ultimately show ?thesis by (simp add: node_lock_state_def)
qed

lemma handle_health_state:
  assumes "node_health_from_dict v (co_household_id c) nid = Inr h"
  shows "\<exists>c' n. handle_health env nid v c = (Inr (), c') \<and> get_node c' nid = Some n
    \<and> node_lock_state n = (case nh_lock_current h of None \<Rightarrow> LS_UNKNOWN | Some i \<Rightarrow> lock_state_of i)
    \<and> nd_health n = Some h"
proof -
  obtain n c1 where e: "ensure_node nid c = (n, c1)" by (cases "ensure_node nid c")
  have hid: "co_household_id c1 = co_household_id c"
    using ensure_node_spec(2) [OF e] by (simp add: same_rest_def)
  define c2 where "c2 = put_node nid (n\<lparr>nd_health := Some h, nd_lock_change_is_fresh := False\<rparr>) c1"
  define prev where "prev = (case nd_health n of None \<Rightarrow> None | Some h \<Rightarrow> nh_lock_current h)"
  have "handle_health env nid v c = (Inr (), snd (attribute_lock_change env nid prev h c2))"
    using e assms by (simp add: handle_health_def hid c2_def Let_def prev_def)
  moreover obtain a where "get_node (snd (attribute_lock_change env nid prev h c2)) nid =
      Some (n\<lparr>nd_health := Some h, nd_lock_change_is_fresh := False, nd_attributed_lock_change := a\<rparr>)"
    by (rule attribution_frame_node [OF attribute_lock_change_fst]) (auto simp: c2_def)
  ultimately show ?thesis
    by (simp add: node_lock_state_def lock_current_state_def split: option.splits)
qed

subsection \<open>Announcements\<close>

text \<open>Whether a lock event is news: it happened at the device, it is not the event announced
  last, and its stamp is recent.\<close>

definition announces :: "ingest_env \<Rightarrow> node \<Rightarrow> lock_change \<Rightarrow> bool" where
  "announces env n l \<longleftrightarrow> device_initiated (lc_source l)
     \<and> nd_attributed_lock_change n \<noteq> Some (change_key l) \<and> is_recent env (lc_timestamp l) = Inr True"

definition event_entry :: "ingest_env \<Rightarrow> pystr \<Rightarrow> node \<Rightarrow> lock_change \<Rightarrow> nat \<Rightarrow> log_entry" where
  "event_entry env hid n l ctx =
    \<lparr>le_message = cause_message n (lc_current l) (lc_source l) (lc_timestamp l),
     le_entity_id = lock_entity_id env hid (nd_node_id n), le_context = ctx\<rparr>"

lemma cause_message_cong:
  "nd_node_name n = nd_node_name m \<Longrightarrow> nd_last_auth n = nd_last_auth m \<Longrightarrow>
     cause_message n = cause_message m"
  by (auto simp: fun_eq_iff cause_message_def actor_for_def)

text \<open>The effect of an accepted lock event, as a function of the node \<open>n\<close> it is about.\<close>

definition event_effect :: "ingest_env \<Rightarrow> node \<Rightarrow> lock_change \<Rightarrow> pystr \<Rightarrow> coord \<Rightarrow> coord \<Rightarrow> bool" where
  "event_effect env n l nid c c' \<longleftrightarrow>
     co_logbook c' = (if announces env n l \<and> ie_logbook env = None
       then co_logbook c @ [event_entry env (co_household_id c) n l (co_next_context c)]
       else co_logbook c)
   \<and> get_node c' nid = Some (n\<lparr>nd_lock_change := Some l, nd_lock_change_is_fresh := True,
       nd_attributed_lock_change := (if announces env n l then Some (change_key l)
                                     else nd_attributed_lock_change n)\<rparr>)
   \<and> co_pending c' = (if announces env n l then dict_set (co_pending c) (nd_node_id n) (co_next_context c)
                      else co_pending c)
   \<and> co_delivered c' = co_delivered c"

lemma handle_lock_last_effect:
  assumes p: "lock_change_from_dict v (co_household_id c) nid = Inr l"
    and e: "ensure_node nid c = (n, c1)"
    and h: "handle_lock_last env nid v c = (r, c')"
  shows "event_effect env n l nid c c'"
proof -
  have s: "same_rest c c1" and hid: "co_household_id c1 = co_household_id c"
    using ensure_node_spec(2) [OF e] by (simp_all add: same_rest_def)
  define m where "m = n\<lparr>nd_lock_change := Some l, nd_lock_change_is_fresh := True\<rparr>"
  define c2 where "c2 = put_node nid m c1"
  have c': "c' = snd (attribute_lock_event env nid l c2)"
    using e p h by (simp add: handle_lock_last_def hid c2_def m_def Let_def)
  have g: "get_node c2 nid = Some m" and key: "lock_change_key m = Some (change_key l)"
    and att: "nd_attributed_lock_change m = nd_attributed_lock_change n"
    by (simp_all add: c2_def m_def lock_change_key_def)
  have rest: "co_logbook c2 = co_logbook c" "co_pending c2 = co_pending c"
    "co_next_context c2 = co_next_context c" "co_household_id c2 = co_household_id c"
    "co_delivered c2 = co_delivered c"
    using s by (simp_all add: c2_def same_rest_def)
  show ?thesis
  proof (cases "announces env n l")
    case True
    then have "c' = snd (log_lock_cause env (m\<lparr>nd_attributed_lock_change := Some (change_key l)\<rparr>)
        (lc_current l) (lc_source l) (lc_timestamp l) (co_next_context c2)
        (put_node nid (m\<lparr>nd_attributed_lock_change := Some (change_key l)\<rparr>)
          (c2\<lparr>co_next_context := co_next_context c2 + 1,
              co_pending := dict_set (co_pending c2) (nd_node_id m) (co_next_context c2)\<rparr>)))"
      unfolding c' attribute_lock_event_def g
      by (simp add: announces_def key att new_pending_context_def Let_def)
    moreover have "cause_message (m\<lparr>nd_attributed_lock_change := Some (change_key l)\<rparr>) = cause_message n"
      by (rule cause_message_cong) (simp_all add: m_def)
    ultimately show ?thesis
      using True rest
      by (simp add: log_lock_cause_def event_entry_def event_effect_def m_def split: option.splits)
  next
    case False
    then have "c' = c2"
      unfolding c' attribute_lock_event_def g
      by (auto simp: announces_def key att split: sum.splits)
    then show ?thesis using False g rest by (simp add: event_effect_def m_def)
  qed
qed

subsection \<open>An event is announced once\<close>

definition is_lock_event_for :: "pystr \<Rightarrow> message \<Rightarrow> bool" where
  "is_lock_event_for nid m \<longleftrightarrow> msg_subtopic m = TOPIC_LOCK_LAST \<and> msg_node_id m = Some nid"

subsection \<open>Which topic writes which field\<close>

text \<open>\<open>keeps_field f a b\<close>: a node that is registered stays so, with its \<open>f\<close> unchanged.\<close>

definition keeps_field :: "(node \<Rightarrow> 'f) \<Rightarrow> node option \<Rightarrow> node option \<Rightarrow> bool" where
  "keeps_field f a b = (case a of None \<Rightarrow> True | Some n \<Rightarrow> (\<exists>n'. b = Some n' \<and> f n' = f n))"

lemma keeps_field_refl [simp]: "keeps_field f a a"
  by (simp add: keeps_field_def split: option.splits)

lemma keeps_field_trans: "keeps_field f a b \<Longrightarrow> keeps_field f b c \<Longrightarrow> keeps_field f a c"
  by (auto simp: keeps_field_def split: option.splits)

lemma attribute_lock_change_nodes:
  "co_nodes (snd (attribute_lock_change env nid p h c)) = co_nodes c"
  by (auto simp: attribute_lock_change_def new_pending_context_def log_lock_cause_def Let_def
      split: option.splits)

lemma attribute_lock_change_get [simp]:
  "get_node (snd (attribute_lock_change env nid p h c)) = get_node c"
  by (auto simp: get_node_def attribute_lock_change_nodes)

lemma keeps_field_ensure_put:
  assumes "ensure_node nid c = (n, c1)" "f m = f n"
  shows "keeps_field f (get_node c nid) (Some m)"
  using ensure_node_spec(3) [OF assms(1)] assms(2)
  by (auto simp: keeps_field_def split: option.splits)

lemma keeps_field_ensure:
  assumes "ensure_node nid c = (n, c1)"
  shows "keeps_field f (get_node c nid) (get_node c1 nid)"
  using ensure_node_spec(1,3) [OF assms] by (auto simp: keeps_field_def split: option.splits)

lemma keeps_field_assign:
  "(\<And>v n. f (g v n) = f n) \<Longrightarrow>
   keeps_field f (get_node c nid) (get_node (snd (assign_parsed p g nid c)) nid)"
  by (auto simp: assign_parsed_def split: sum.splits prod.splits intro: keeps_field_ensure_put)

text \<open>A field of the node that only messages on \<open>topic\<close> write: every update another handler
  makes leaves it alone.\<close>

locale node_field =
  fixes f :: "node \<Rightarrow> 'f" and topic :: pystr
  assumes status_update: "topic \<noteq> TOPIC_STATUS \<Longrightarrow> f (n\<lparr>nd_online := b, nd_last_seen := t\<rparr>) = f n"
    and legacy_update: "topic \<noteq> KIND_LEGACY_STATUS \<Longrightarrow> f (n\<lparr>nd_lwt_online := w\<rparr>) = f n"
      "topic \<noteq> KIND_LEGACY_STATUS \<Longrightarrow> f (n\<lparr>nd_lwt_online := w, nd_last_seen := t\<rparr>) = f n"
    and security_update: "topic \<noteq> TOPIC_SECURITY \<Longrightarrow> f (n\<lparr>nd_security := s\<rparr>) = f n"
    and backup_status_update: "topic \<noteq> TOPIC_BACKUP_STATUS \<Longrightarrow> f (n\<lparr>nd_backup_status := s\<rparr>) = f n"
    and backup_update: "topic \<noteq> TOPIC_BACKUP_LAST \<Longrightarrow> f (n\<lparr>nd_backup := r\<rparr>) = f n"
    and auth_update: "topic \<noteq> TOPIC_LAST_AUTH \<Longrightarrow> f (n\<lparr>nd_last_auth := a\<rparr>) = f n"
    and guest_update: "topic \<noteq> TOPIC_GUEST_STATUS \<Longrightarrow> f (n\<lparr>nd_guest := g\<rparr>) = f n"
    and health_update: "topic \<noteq> TOPIC_HEALTH \<Longrightarrow>
      f (n\<lparr>nd_health := h, nd_lock_change_is_fresh := False\<rparr>) = f n"
    and lock_update: "topic \<noteq> TOPIC_LOCK_LAST \<Longrightarrow>
      f (n\<lparr>nd_lock_change := l, nd_lock_change_is_fresh := True\<rparr>) = f n"
      "topic \<noteq> TOPIC_LOCK_LAST \<Longrightarrow> f (n\<lparr>nd_attributed_lock_change := k\<rparr>) = f n"
    and state_update: "topic \<noteq> TOPIC_STATE \<Longrightarrow> f (n\<lparr>nd_node_name := name, nd_node_role := role,
      nd_node_state := state, nd_generation := gen, nd_firmware := fw\<rparr>) = f n"
begin

lemma keeps_health:
  assumes "topic \<noteq> TOPIC_HEALTH"
  shows "keeps_field f (get_node c nid) (get_node (snd (handle_health env nid v c)) nid)"
proof -
  obtain n c1 where e: "ensure_node nid c = (n, c1)" by (cases "ensure_node nid c")
  show ?thesis
  proof (cases "node_health_from_dict v (co_household_id c) nid")
    case (Inl x)
    then show ?thesis using e keeps_field_ensure [OF e] by (simp add: handle_health_def)
  next
    case (Inr h)
    then show ?thesis
      using e keeps_field_ensure_put [OF e, of f "n\<lparr>nd_health := Some h, nd_lock_change_is_fresh := False\<rparr>"]
        health_update [OF assms]
      by (simp add: handle_health_def Let_def)
  qed
qed

lemma keeps_lock_last:
  assumes "topic \<noteq> TOPIC_LOCK_LAST"
  shows "keeps_field f (get_node c nid) (get_node (snd (handle_lock_last env nid v c)) nid)"
proof -
  obtain n c1 where e: "ensure_node nid c = (n, c1)" by (cases "ensure_node nid c")
  show ?thesis
  proof (cases "lock_change_from_dict v (co_household_id c) nid")
    case (Inl x)
    then show ?thesis using e keeps_field_ensure [OF e] by (simp add: handle_lock_last_def)
  next
    case (Inr l)
    define m where "m = n\<lparr>nd_lock_change := Some l, nd_lock_change_is_fresh := True\<rparr>"
    define c2 where "c2 = put_node nid m c1"
    have m: "get_node c2 nid = Some m" by (simp add: c2_def)
    have "attribution_frame nid c2 (snd (attribute_lock_event env nid l c2))"
      by (rule attribute_lock_event_frame [OF prod.collapse [symmetric]]) (use m in \<open>auto simp: m_def\<close>)
    from attribution_frame_node [OF this m] obtain a where
      "get_node (snd (attribute_lock_event env nid l c2)) nid = Some (m\<lparr>nd_attributed_lock_change := a\<rparr>)" .
    moreover have "f (m\<lparr>nd_attributed_lock_change := a\<rparr>) = f n"
      using lock_update [OF assms] by (simp add: m_def)
    ultimately show ?thesis
      using e Inr keeps_field_ensure_put [OF e, of f "m\<lparr>nd_attributed_lock_change := a\<rparr>"]
      by (simp add: handle_lock_last_def Let_def m_def [symmetric] c2_def [symmetric])
  qed
qed

lemma keeps_handler:
  assumes "handler_for env c sub nid raw v = Some h" "sub \<noteq> topic"
  shows "keeps_field f (get_node c nid) (get_node (snd (h c)) nid)"
proof -
  have status: "topic \<noteq> TOPIC_STATUS \<Longrightarrow>
      keeps_field f (get_node c nid) (get_node (snd (handle_node_status env nid raw c)) nid)"
    "topic \<noteq> TOPIC_SECURITY \<Longrightarrow>
      keeps_field f (get_node c nid) (get_node (snd (handle_security nid raw c)) nid)"
    "topic \<noteq> TOPIC_BACKUP_STATUS \<Longrightarrow>
      keeps_field f (get_node c nid) (get_node (snd (handle_backup_status nid raw c)) nid)"
    by (auto simp: handle_node_status_def handle_security_def handle_backup_status_def Let_def
        status_update security_update backup_status_update
        split: prod.splits intro!: keeps_field_ensure_put)
  have legacy: "topic \<noteq> KIND_LEGACY_STATUS \<Longrightarrow>
      keeps_field f (get_node c nid) (get_node (snd (handle_legacy_status env nid raw c)) nid)"
    by (auto simp: handle_legacy_status_def Let_def keeps_field_def legacy_update split: option.splits)
  have state: "topic \<noteq> TOPIC_STATE \<Longrightarrow>
      keeps_field f (get_node c nid) (get_node (snd (case node_from_state (co_household_id c) nid v of
      Inl e \<Rightarrow> (Inl e, c) | Inr n \<Rightarrow> (Inr (), merge_node n c))) nid)"
    by (auto simp: merge_node_def Let_def keeps_field_def state_update split: sum.splits option.splits
        dest: node_from_state_id)
  show ?thesis
    using assms status legacy state keeps_health keeps_lock_last
    unfolding handler_for_def
    by (auto split: if_splits intro: keeps_field_assign simp: backup_update auth_update guest_update)
qed

lemma keeps_message:
  assumes "msg_subtopic m \<noteq> topic \<or> msg_node_id m \<noteq> Some nid"
  shows "keeps_field f (get_node c nid) (get_node (handle_message env m c) nid)"
proof (cases "msg_node_id m = Some nid \<and> nid \<noteq> [] \<and> msg_household_id m = co_household_id c")
  case True
  then have "msg_subtopic m \<noteq> topic" using assms by simp
  then show ?thesis
    using True keeps_handler
    by (fastforce simp: handle_message_def dispatch_def split: sum.splits option.splits prod.splits)
next
  case False
  then show ?thesis
    using handle_message_other_nodes [of m nid env c]
    by (cases "msg_node_id m = Some nid") (auto simp: handle_message_def dispatch_def
        split: sum.splits option.splits)
qed

lemma keeps_messages:
  "list_all (\<lambda>(env, m). msg_subtopic m \<noteq> topic \<or> msg_node_id m \<noteq> Some nid) ms \<Longrightarrow>
     keeps_field f (get_node c nid) (get_node (handle_messages ms c) nid)"
  by (induction ms c rule: handle_messages.induct)
    (auto intro: keeps_field_trans keeps_message)

end

interpretation online_field: node_field nd_online TOPIC_STATUS
  by unfold_locales simp_all

interpretation lwt_field: node_field nd_lwt_online KIND_LEGACY_STATUS
  by unfold_locales simp_all

interpretation security_field: node_field nd_security TOPIC_SECURITY
  by unfold_locales simp_all

interpretation backup_status_field: node_field nd_backup_status TOPIC_BACKUP_STATUS
  by unfold_locales simp_all

interpretation backup_field: node_field nd_backup TOPIC_BACKUP_LAST
  by unfold_locales simp_all

interpretation auth_field: node_field nd_last_auth TOPIC_LAST_AUTH
  by unfold_locales simp_all

interpretation guest_field: node_field nd_guest TOPIC_GUEST_STATUS
  by unfold_locales simp_all

interpretation health_field: node_field nd_health TOPIC_HEALTH
  by unfold_locales simp_all

interpretation event_field: node_field
  "\<lambda>n. (nd_lock_change n, nd_attributed_lock_change n)" TOPIC_LOCK_LAST
  by unfold_locales simp_all

interpretation identity_field: node_field
  "\<lambda>n. (nd_node_name n, nd_node_role n, nd_node_state n, nd_generation n, nd_firmware n)" TOPIC_STATE
  by unfold_locales simp_all

text \<open>Delivering an event whose key the node already carries adds nothing to the logbook.\<close>

lemma lock_event_message:
  assumes "is_lock_event_for nid m" "nid \<noteq> []" "msg_household_id m = co_household_id c"
    "decode_json (msg_payload m) = Inr v" "lock_change_from_dict v (co_household_id c) nid = Inr l"
    "ensure_node nid c = (n, c1)"
  shows "\<exists>c2. handle_message env m c = publish_update c2 \<and> event_effect env n l nid c c2"
proof -
  obtain r c2 where h: "handle_lock_last env nid v c = (r, c2)"
    by (cases "handle_lock_last env nid v c")
  then have "r = Inr ()" using handle_lock_last_state [OF assms(5), of env] by auto
  then have "handle_message env m c = publish_update c2"
    using assms h by (simp add: handle_message_def is_lock_event_for_def dispatch_lock_last)
  then show ?thesis using handle_lock_last_effect [OF assms(5,6) h] by blast
qed

end
