(* ===== verification/Poller.thy ===== *)
theory Poller imports Client Coordinator_Facts begin

section \<open>The poller\<close>

text \<open>
  \<open>direct.py\<close>: \<open>DirectPoller\<close>. The coordinator it feeds is known to it by one operation,
  \<open>async_handle_message\<close>, so the poller is defined over an argument \<open>ingest\<close> and a coordinator
  state of any type; the locales \<open>message_sink\<close> and \<open>household_sink\<close> state what it relies on,
  and the coordinator of \<open>coordinator.py\<close> is shown to provide it. The clock and the registries
  may differ from message to message: \<open>sink envs\<close> gives each subtopic its environment.
\<close>

subsection \<open>State and operations\<close>

record 'c poller =
  po_client :: client
  po_household_id :: pystr
  po_node_id :: "pystr option"
  po_failures :: nat
  po_mismatch_logged :: bool
  po_scheduled :: bool
  po_coordinator :: 'c
  po_log :: "request list"

definition new_poller :: "client \<Rightarrow> pystr \<Rightarrow> 'c \<Rightarrow> 'c poller" where
  "new_poller c household_id coordinator =
    \<lparr>po_client = c, po_household_id = household_id, po_node_id = None, po_failures = 0,
     po_mismatch_logged = False, po_scheduled = False, po_coordinator = coordinator, po_log = []\<rparr>"

definition read_node :: "(json \<Rightarrow> pystr) \<Rightarrow> network \<Rightarrow> client
    \<Rightarrow> ((pystr \<times> json) list \<times> (pystr \<times> json) list \<times> pystr \<times> pystr) net_comp" where
  "read_node rp net c =
    bindS (get_info net c) (\<lambda>info.
    bindS (get_state net c) (\<lambda>state.
    bindS (liftE (as_mapping info)) (\<lambda>i.
    bindS (liftE (as_mapping state)) (\<lambda>s.
    bindS (liftE (resolve_identity rp s i)) (\<lambda>(h, n).
      liftE (Inr (i, s, h, n)))))))"

definition ingest_all :: "(message \<Rightarrow> 'c \<Rightarrow> 'c) \<Rightarrow> message list \<Rightarrow> 'c poller \<Rightarrow> 'c poller" where
  "ingest_all ingest ms p = p\<lparr>po_coordinator := fold ingest ms (po_coordinator p)\<rparr>"

text \<open>The guest endpoint: every exception is swallowed.\<close>

definition guest_messages :: "exc + json \<Rightarrow> pystr \<Rightarrow> pystr \<Rightarrow> message list" where
  "guest_messages guest h n = (case guest of
      Inl e \<Rightarrow> []
    | Inr v \<Rightarrow> if v = JNull then [] else [direct_message h n TOPIC_GUEST_STATUS (dumps_default v) True])"

definition poll_guest :: "(message \<Rightarrow> 'c \<Rightarrow> 'c) \<Rightarrow> network \<Rightarrow> pystr \<Rightarrow> pystr \<Rightarrow> 'c poller \<Rightarrow> 'c poller" where
  "poll_guest ingest net h n p =
    (case get_guest net (po_client p) (po_log p) of
       (guest, log) \<Rightarrow> ingest_all ingest (guest_messages guest h n) (p\<lparr>po_log := log\<rparr>))"

definition poll_once :: "(message \<Rightarrow> 'c \<Rightarrow> 'c) \<Rightarrow> (json \<Rightarrow> pystr) \<Rightarrow> network
    \<Rightarrow> ('c poller, exc, unit) comp" where
  "poll_once ingest rp net p =
    (case read_node rp net (po_client p) (po_log p) of
       (Inl e, log) \<Rightarrow> (Inl e, p\<lparr>po_log := log\<rparr>)
     | (Inr (info, state, h, n), log) \<Rightarrow>
        (let p1 = p\<lparr>po_log := log\<rparr> in
         if h \<noteq> po_household_id p then (Inr (), p1\<lparr>po_mismatch_logged := True\<rparr>)
         else (let p2 = p1\<lparr>po_node_id := Some n\<rparr> in
           case state_to_messages state info h n of
             Inl e \<Rightarrow> (Inl e, p2)
           | Inr ms \<Rightarrow>
              (Inr (), (poll_guest ingest net h n (ingest_all ingest ms p2))\<lparr>po_failures := 0\<rparr>))))"

definition offline_message :: "pystr \<Rightarrow> pystr \<Rightarrow> message" where
  "offline_message h n = direct_message h n TOPIC_STATUS (py ''offline'') True"

definition mark_offline :: "(message \<Rightarrow> 'c \<Rightarrow> 'c) \<Rightarrow> 'c poller \<Rightarrow> 'c poller" where
  "mark_offline ingest p = (case po_node_id p of
      None \<Rightarrow> p
    | Some n \<Rightarrow> if n = [] then p else ingest_all ingest [offline_message (po_household_id p) n] p)"

text \<open>\<open>async_poll_safely\<close>; the exceptions it does not catch are its outcome.\<close>

definition poll_safely :: "(message \<Rightarrow> 'c \<Rightarrow> 'c) \<Rightarrow> (json \<Rightarrow> pystr) \<Rightarrow> network
    \<Rightarrow> ('c poller, exc, unit) comp" where
  "poll_safely ingest rp net p =
    (case poll_once ingest rp net p of
       (Inl e, p1) \<Rightarrow>
         if is_transport_error e \<or> is_validation_error e
         then (let p2 = p1\<lparr>po_failures := po_failures p1 + 1\<rparr>
               in (Inr (), if po_failures p2 = DIRECT_OFFLINE_AFTER_FAILURES
                           then mark_offline ingest p2 else p2))
         else (Inl e, p1)
     | (Inr u, p1) \<Rightarrow> (Inr (), p1\<lparr>po_failures := 0\<rparr>))"

definition poller_start :: "'c poller \<Rightarrow> 'c poller" where
  "poller_start p = p\<lparr>po_scheduled := True\<rparr>"

definition tick :: "(message \<Rightarrow> 'c \<Rightarrow> 'c) \<Rightarrow> (json \<Rightarrow> pystr) \<Rightarrow> network
    \<Rightarrow> ('c poller, exc, unit) comp" where
  "tick ingest rp net p = poll_safely ingest rp net p"

definition poller_stop :: "'c poller \<Rightarrow> 'c poller" where
  "poller_stop p = p\<lparr>po_scheduled := False\<rparr>"

text \<open>A run of polls, each with the coordinator's environment and the network of its time.\<close>

fun run_polls :: "('e \<Rightarrow> message \<Rightarrow> 'c \<Rightarrow> 'c) \<Rightarrow> (json \<Rightarrow> pystr) \<Rightarrow> ('e \<times> network) list
    \<Rightarrow> 'c poller \<Rightarrow> 'c poller" where
  "run_polls ingest rp [] p = p"
| "run_polls ingest rp ((env, net) # ps) p =
    run_polls ingest rp ps (snd (poll_safely (ingest env) rp net p))"

subsection \<open>What a poll does\<close>

lemma ingest_all_fields [simp]:
  "po_client (ingest_all i ms p) = po_client p" "po_household_id (ingest_all i ms p) = po_household_id p"
  "po_node_id (ingest_all i ms p) = po_node_id p" "po_failures (ingest_all i ms p) = po_failures p"
  "po_coordinator (ingest_all i ms p) = fold i ms (po_coordinator p)"
  "po_log (ingest_all i ms p) = po_log p"
  "po_scheduled (ingest_all i ms p) = po_scheduled p"
  by (simp_all add: ingest_all_def)

lemma poll_guest_fields [simp]:
  "po_client (poll_guest i net h n p) = po_client p" "po_household_id (poll_guest i net h n p) = po_household_id p"
  "po_node_id (poll_guest i net h n p) = po_node_id p" "po_failures (poll_guest i net h n p) = po_failures p"
  "po_scheduled (poll_guest i net h n p) = po_scheduled p"
  "po_coordinator (poll_guest i net h n p) =
     fold i (guest_messages (fst (get_guest net (po_client p) (po_log p))) h n) (po_coordinator p)"
  by (simp_all add: poll_guest_def split: prod.splits)

lemma mark_offline_fields [simp]:
  "po_client (mark_offline i p) = po_client p" "po_household_id (mark_offline i p) = po_household_id p"
  "po_node_id (mark_offline i p) = po_node_id p" "po_failures (mark_offline i p) = po_failures p"
  "po_log (mark_offline i p) = po_log p" "po_scheduled (mark_offline i p) = po_scheduled p"
  by (simp_all add: mark_offline_def split: option.splits)

text \<open>A poll that raises has told the coordinator nothing.\<close>

lemma poll_once_error:
  assumes "poll_once ingest rp net p = (Inl e, p1)"
  shows "po_coordinator p1 = po_coordinator p" "po_failures p1 = po_failures p"
    "po_household_id p1 = po_household_id p" "po_client p1 = po_client p"
    "po_node_id p1 = po_node_id p \<or> (\<exists>n. po_node_id p1 = Some n)"
    "po_node_id p \<noteq> None \<Longrightarrow> po_node_id p1 \<noteq> None"
  using assms
  by (auto simp: poll_once_def Let_def split: prod.splits sum.splits if_splits)

text \<open>The exceptions \<open>async_poll_safely\<close> catches.\<close>

definition caught :: "exc \<Rightarrow> bool" where
  "caught e = (is_transport_error e \<or> is_validation_error e)"

lemma translation_errors:
  "state_to_messages state info h n = Inl e \<Longrightarrow> \<not> caught e"
  by (auto simp: state_to_messages_def health_from_state_def health_payload_from_state_def
      last_auth_messages_def in_auth_results_def attr_get_def res_simps Let_def caught_def
      is_transport_error_def is_validation_error_def split: json.splits)

lemma poll_once_caught:
  assumes "poll_once ingest rp net p = (Inl e, p1)" "caught e"
  shows "p1 = p\<lparr>po_log := po_log p1\<rparr>"
  using assms translation_errors
  by (auto simp: poll_once_def Let_def split: prod.splits sum.splits if_splits)

lemma poll_once_answered:
  assumes "poll_once ingest rp net p = (Inr u, p1)"
  obtains (moved) info state h n log where
    "read_node rp net (po_client p) (po_log p) = (Inr (info, state, h, n), log)"
    "h \<noteq> po_household_id p" "p1 = p\<lparr>po_log := log, po_mismatch_logged := True\<rparr>"
  | (told) info state n log ms guest where
    "read_node rp net (po_client p) (po_log p) = (Inr (info, state, po_household_id p, n), log)"
    "state_to_messages state info (po_household_id p) n = Inr ms"
    "guest = fst (get_guest net (po_client p) log)"
    "po_node_id p1 = Some n" "po_failures p1 = 0" "po_household_id p1 = po_household_id p"
    "po_client p1 = po_client p" "po_scheduled p1 = po_scheduled p"
    "po_coordinator p1 = fold ingest (ms @ guest_messages guest (po_household_id p) n) (po_coordinator p)"
  using assms
  by (cases "read_node rp net (po_client p) (po_log p)")
    (auto simp: poll_once_def Let_def split: prod.splits sum.splits if_splits)

datatype poll_result = Answered | Failed | Escaped

definition poll_result :: "(message \<Rightarrow> 'c \<Rightarrow> 'c) \<Rightarrow> (json \<Rightarrow> pystr) \<Rightarrow> network \<Rightarrow> 'c poller \<Rightarrow> poll_result" where
  "poll_result ingest rp net p = (case fst (poll_once ingest rp net p) of
      Inr u \<Rightarrow> Answered | Inl e \<Rightarrow> if caught e then Failed else Escaped)"

fun poll_results :: "('e \<Rightarrow> message \<Rightarrow> 'c \<Rightarrow> 'c) \<Rightarrow> (json \<Rightarrow> pystr) \<Rightarrow> ('e \<times> network) list
    \<Rightarrow> 'c poller \<Rightarrow> poll_result list" where
  "poll_results ingest rp [] p = []"
| "poll_results ingest rp ((env, net) # ps) p = poll_result (ingest env) rp net p #
    poll_results ingest rp ps (snd (poll_safely (ingest env) rp net p))"

lemma poll_safely_cases:
  obtains (answered) p1 where "poll_result ingest rp net p = Answered"
      "poll_once ingest rp net p = (Inr (), p1)" "poll_safely ingest rp net p = (Inr (), p1\<lparr>po_failures := 0\<rparr>)"
  | (failed) log p2 where "poll_result ingest rp net p = Failed"
      "p2 = p\<lparr>po_log := log, po_failures := po_failures p + 1\<rparr>"
      "poll_safely ingest rp net p = (Inr (),
         if po_failures p + 1 = DIRECT_OFFLINE_AFTER_FAILURES then mark_offline ingest p2 else p2)"
  | (escaped) e p1 where "poll_result ingest rp net p = Escaped" "\<not> caught e"
      "poll_once ingest rp net p = (Inl e, p1)" "poll_safely ingest rp net p = (Inl e, p1)"
proof (cases "poll_once ingest rp net p")
  case (Pair r p1)
  show thesis
  proof (cases r)
    case (Inr u)
    then show thesis using Pair by (intro answered) (auto simp: poll_result_def poll_safely_def)
  next
    case (Inl e)
    show thesis
    proof (cases "caught e")
      case True
      define log where "log = po_log p1"
      have p1: "p1 = p\<lparr>po_log := log\<rparr>" using poll_once_caught Pair Inl True log_def by blast
      show thesis
        by (rule failed [OF _ refl, of log])
          (use True Inl Pair p1 in \<open>auto simp: poll_result_def poll_safely_def caught_def Let_def\<close>)
    next
      case False
      then show thesis
        using Pair Inl by (intro escaped) (auto simp: poll_result_def poll_safely_def caught_def)
    qed
  qed
qed

subsection \<open>Counting failures\<close>

text \<open>The failures since the node answered last, oldest poll first.\<close>

definition trailing_failures :: "poll_result list \<Rightarrow> nat" where
  "trailing_failures rs = length (filter (\<lambda>r. r = Failed) (takeWhile (\<lambda>r. r \<noteq> Answered) (rev rs)))"

fun count_failures :: "nat \<Rightarrow> poll_result list \<Rightarrow> nat" where
  "count_failures k [] = k"
| "count_failures k (Answered # rs) = count_failures 0 rs"
| "count_failures k (Failed # rs) = count_failures (k + 1) rs"
| "count_failures k (Escaped # rs) = count_failures k rs"

lemma trailing_failures_Cons:
  "trailing_failures (r # rs) =
    (if Answered \<in> set rs \<or> r \<noteq> Failed then trailing_failures rs else Suc (trailing_failures rs))"
proof (cases "Answered \<in> set rs")
  case True
  then have "takeWhile (\<lambda>r. r \<noteq> Answered) (rev rs @ [r]) = takeWhile (\<lambda>r. r \<noteq> Answered) (rev rs)"
    by (intro takeWhile_append1) auto
  then show ?thesis using True by (simp add: trailing_failures_def)
next
  case False
  then have t: "takeWhile (\<lambda>r. r \<noteq> Answered) (rev rs) = rev rs" by (auto simp: takeWhile_eq_all_conv)
  have u: "takeWhile (\<lambda>r. r \<noteq> Answered) (rev rs @ [r]) = rev rs @ takeWhile (\<lambda>r. r \<noteq> Answered) [r]"
    using False by (intro takeWhile_append2) auto
  show ?thesis unfolding trailing_failures_def rev.simps t u using False by (cases r) simp_all
qed

lemma count_failures_trailing:
  "count_failures k rs = (if Answered \<in> set rs then 0 else k) + trailing_failures rs"
  by (induction k rs rule: count_failures.induct)
    (auto simp: trailing_failures_Cons, simp add: trailing_failures_def)

lemma poll_failures:
  "po_failures (snd (poll_safely ingest rp net p)) = count_failures (po_failures p) [poll_result ingest rp net p]"
proof (cases rule: poll_safely_cases [of ingest rp net p])
  case (escaped e p1)
  then show ?thesis using poll_once_error(2) [OF escaped(3)] by simp
qed simp_all

lemma count_failures_Cons: "count_failures k (r # rs) = count_failures (count_failures k [r]) rs"
  by (cases r) simp_all

lemma run_failures:
  "po_failures (run_polls ingest rp ps p) = count_failures (po_failures p) (poll_results ingest rp ps p)"
proof (induction ps arbitrary: p)
  case (Cons x ps)
  obtain env net where x: "x = (env, net)" by (cases x)
  show ?case
    unfolding x run_polls.simps poll_results.simps Cons.IH poll_failures
    by (rule count_failures_Cons [symmetric])
qed simp

text \<open>A run of failures tells the coordinator nothing but, at the third one, that the node is
  offline.\<close>

definition offline_poll :: "nat \<Rightarrow> nat \<Rightarrow> nat option" where
  "offline_poll k polls =
    (if k < DIRECT_OFFLINE_AFTER_FAILURES \<and> DIRECT_OFFLINE_AFTER_FAILURES \<le> k + polls
     then Some (DIRECT_OFFLINE_AFTER_FAILURES - 1 - k) else None)"

lemma offline_poll_Suc:
  "offline_poll k (Suc polls) =
    (if k + 1 = DIRECT_OFFLINE_AFTER_FAILURES then Some 0
     else map_option Suc (offline_poll (k + 1) polls))"
proof -
  consider "k = 0" | "k = 1" | "k = 2" | "2 < k" by linarith
  then show ?thesis by cases (simp_all add: offline_poll_def DIRECT_OFFLINE_AFTER_FAILURES_def)
qed

lemma run_failing:
  assumes "po_node_id p = Some n" "n \<noteq> []" "list_all (\<lambda>r. r = Failed) (poll_results ingest rp ps p)"
  shows "po_coordinator (run_polls ingest rp ps p) =
      (case offline_poll (po_failures p) (length ps) of
         None \<Rightarrow> po_coordinator p
       | Some i \<Rightarrow> ingest (fst (ps ! i)) (offline_message (po_household_id p) n) (po_coordinator p))"
  using assms
proof (induction ps arbitrary: p)
  case Nil
  then show ?case by (auto simp: offline_poll_def)
next
  case (Cons x ps)
  obtain env net where x: "x = (env, net)" by (cases x)
  define q where "q = snd (poll_safely (ingest env) rp net p)"
  from Cons.prems x have f: "poll_result (ingest env) rp net p = Failed"
    and fs: "list_all (\<lambda>r. r = Failed) (poll_results ingest rp ps q)"
    by (simp_all add: q_def)
  from f obtain log p2 where p2: "p2 = p\<lparr>po_log := log, po_failures := po_failures p + 1\<rparr>"
    and q: "q = (if po_failures p + 1 = DIRECT_OFFLINE_AFTER_FAILURES then mark_offline (ingest env) p2 else p2)"
    by (cases rule: poll_safely_cases [of "ingest env" rp net p]) (auto simp: q_def)
  have fields: "po_node_id q = Some n" "po_household_id q = po_household_id p" "po_failures q = po_failures p + 1"
    using q p2 Cons.prems(1) by simp_all
  have c: "po_coordinator q = (if po_failures p + 1 = DIRECT_OFFLINE_AFTER_FAILURES
      then ingest env (offline_message (po_household_id p) n) (po_coordinator p) else po_coordinator p)"
    using q p2 Cons.prems(1,2) by (simp add: mark_offline_def)
  have "po_failures p + 1 = DIRECT_OFFLINE_AFTER_FAILURES \<Longrightarrow> offline_poll (po_failures q) (length ps) = None"
    using fields by (simp add: offline_poll_def)
  then show ?case
    using Cons.IH [OF fields(1) Cons.prems(2) fs] fields c x q_def
    by (simp add: offline_poll_Suc split: option.splits)
qed

subsection \<open>What the poller relies on\<close>

text \<open>A sink keeps an invariant of its state whatever message it is given.\<close>

locale message_sink =
  fixes ingest :: "'e \<Rightarrow> message \<Rightarrow> 'c \<Rightarrow> 'c"
    and inv :: "'c \<Rightarrow> bool"
  assumes ingest_inv: "inv c \<Longrightarrow> inv (ingest env m c)"
begin

lemma fold_inv: "inv c \<Longrightarrow> inv (fold (ingest env) ms c)"
  by (induction ms arbitrary: c) (auto intro: ingest_inv)

lemma poll_once_inv:
  assumes "inv (po_coordinator p)"
  shows "inv (po_coordinator (snd (poll_once (ingest env) rp net p)))"
  using assms
  by (auto simp: poll_once_def Let_def intro!: fold_inv split: prod.splits sum.splits)

lemma poll_safely_inv:
  assumes "inv (po_coordinator p)"
  shows "inv (po_coordinator (snd (poll_safely (ingest env) rp net p)))"
proof (cases rule: poll_safely_cases [of "ingest env" rp net p])
  case (answered p1)
  then show ?thesis using poll_once_inv [OF assms, of env rp net] by simp
next
  case (failed log p2)
  then show ?thesis
    using assms by (auto simp: mark_offline_def intro!: ingest_inv split: option.splits)
next
  case (escaped e p1)
  then show ?thesis using poll_once_inv [OF assms, of env rp net] by simp
qed

lemma run_inv: "inv (po_coordinator p) \<Longrightarrow> inv (po_coordinator (run_polls ingest rp ps p))"
proof (induction ps arbitrary: p)
  case (Cons x ps)
  then show ?case by (cases x) (auto intro!: Cons.IH poll_safely_inv)
qed simp

end

text \<open>A household's sink ignores messages of other households, and nodes it is not told about.\<close>

locale household_sink = message_sink ingest inv
  for ingest :: "'e \<Rightarrow> message \<Rightarrow> 'c \<Rightarrow> 'c" and inv +
  fixes household :: "'c \<Rightarrow> pystr"
    and node_of :: "'c \<Rightarrow> pystr \<Rightarrow> 'n option"
  assumes household_kept: "household (ingest env m c) = household c"
    and foreign_ignored: "msg_household_id m \<noteq> household c \<Longrightarrow> ingest env m c = c"
    and other_nodes_kept: "msg_node_id m \<noteq> Some k \<Longrightarrow> node_of (ingest env m c) k = node_of c k"
begin

lemma fold_household: "household (fold (ingest env) ms c) = household c"
  by (induction ms arbitrary: c) (simp_all add: household_kept)

lemma fold_other_nodes:
  "list_all (\<lambda>m. msg_node_id m \<noteq> Some k) ms \<Longrightarrow> node_of (fold (ingest env) ms c) k = node_of c k"
  by (induction ms arbitrary: c) (simp_all add: other_nodes_kept)

text \<open>A household the entry was not created for: nothing is written.\<close>

lemma fold_foreign:
  "list_all (\<lambda>m. msg_household_id m \<noteq> household c) ms \<Longrightarrow> fold (ingest env) ms c = c"
  by (induction ms) (simp_all add: foreign_ignored)

end

text \<open>The coordinator is such a sink, for its invariant and for being reachable.\<close>

definition sink :: "(pystr \<Rightarrow> ingest_env) \<Rightarrow> message \<Rightarrow> coord \<Rightarrow> coord" where
  "sink envs m c = handle_message (envs (msg_subtopic m)) m c"

interpretation coordinator_sink: household_sink sink coord_inv co_household_id get_node
  by unfold_locales
    (simp_all add: sink_def handle_message_inv handle_message_other_nodes, simp add: handle_message_def)

interpretation reachable_sink: message_sink sink "reachable hid" for hid
  by unfold_locales (simp add: sink_def reachable.ingest)

subsection \<open>The two transports\<close>

lemma direct_message_fields [simp]:
  "msg_household_id (direct_message h n s p r) = h" "msg_node_id (direct_message h n s p r) = Some n"
  "msg_subtopic (direct_message h n s p r) = s" "msg_payload (direct_message h n s p r) = p"
  "msg_retain (direct_message h n s p r) = r"
  by (simp_all add: direct_message_def)

text \<open>\<open>translated h n m\<close>: a message MQTT could have carried for node \<open>n\<close> of household \<open>h\<close>.\<close>

definition translated :: "pystr \<Rightarrow> pystr \<Rightarrow> message \<Rightarrow> bool" where
  "translated h n m = (m = direct_message h n (msg_subtopic m) (msg_payload m) (msg_retain m)
     \<and> msg_subtopic m \<in> set KNOWN_SUBTOPICS)"

lemma known_topics:
  "TOPIC_STATUS \<in> set KNOWN_SUBTOPICS" "TOPIC_LOCK_LAST \<in> set KNOWN_SUBTOPICS"
  "TOPIC_STATE \<in> set KNOWN_SUBTOPICS" "TOPIC_HEALTH \<in> set KNOWN_SUBTOPICS"
  "TOPIC_SECURITY \<in> set KNOWN_SUBTOPICS" "TOPIC_BACKUP_STATUS \<in> set KNOWN_SUBTOPICS"
  "TOPIC_LAST_AUTH \<in> set KNOWN_SUBTOPICS" "TOPIC_GUEST_STATUS \<in> set KNOWN_SUBTOPICS"
  by (simp_all add: KNOWN_SUBTOPICS_def JSON_SUBTOPICS_def PLAIN_SUBTOPICS_def)

lemma translated_direct [simp]:
  "translated h n (direct_message h n s p r) \<longleftrightarrow> s \<in> set KNOWN_SUBTOPICS"
  by (simp add: translated_def)

lemma translated_parts:
  "list_all (translated h n) (lock_last_messages state h n)"
  "s \<in> set KNOWN_SUBTOPICS \<Longrightarrow> list_all (translated h n) (plain_messages state k enum_has s h n)"
  "last_auth_messages state h n = Inr ms \<Longrightarrow> list_all (translated h n) ms"
  "list_all (translated h n) (guest_messages guest h n)"
  by (auto simp: lock_last_messages_def plain_messages_def last_auth_messages_def guest_messages_def
      known_topics res_simps split: json.splits sum.splits)

lemma translated_messages:
  assumes "state_to_messages state info h n = Inr ms"
  shows "list_all (translated h n) ms"
proof -
  from assms obtain health auth where
    "last_auth_messages state h n = Inr auth" and
    ms: "ms = [direct_message h n TOPIC_STATUS (py ''online'') True]
           @ lock_last_messages state h n
           @ [direct_message h n TOPIC_STATE (dumps_default (identity_payload state (device_of info) h n)) True]
           @ [direct_message h n TOPIC_HEALTH (dumps_default (JObj health)) False]
           @ plain_messages state (py ''security'') is_security_state TOPIC_SECURITY h n
           @ plain_messages state (py ''backup_status'') is_backup_outcome TOPIC_BACKUP_STATUS h n
           @ auth"
    unfolding state_to_messages_def bindE_Inr_iff by blast
  then show ?thesis
    by (simp add: translated_parts known_topics)
qed

lemma on_message_node:
  assumes "is_valid_id h" "is_valid_id n" "s \<in> set KNOWN_SUBTOPICS"
  shows "on_message c (node_topic h n (Some s)) payload qos retain =
    Some \<lparr>msg_household_id = h, msg_subtopic = s, msg_payload = payload, msg_node_id = Some n,
      msg_qos = qos, msg_retain = retain, msg_legacy = False\<rparr>"
  using known_ne [OF assms(3)] known_not_reserved [OF assms(3)] assms
  by (simp add: on_message_def node_topic_parts parse_topic_node str_or_def is_valid_id_iff)

lemma handle_message_flags:
  "msg_household_id m = msg_household_id m' \<Longrightarrow> msg_node_id m = msg_node_id m' \<Longrightarrow>
   msg_subtopic m = msg_subtopic m' \<Longrightarrow> msg_payload m = msg_payload m' \<Longrightarrow>
   handle_message env m c = handle_message env m' c"
  by (simp only: handle_message_def dispatch_def)

text \<open>What the MQTT client hands over for a publication of a node.\<close>

definition broker_receive :: "(pystr \<Rightarrow> ingest_env) \<Rightarrow> mqtt_client \<Rightarrow> publication \<Rightarrow> coord \<Rightarrow> coord" where
  "broker_receive envs client p c =
    (case on_message client (pub_topic p) (pub_payload p) (pub_qos p) (pub_retain p) of
       None \<Rightarrow> c | Some m \<Rightarrow> sink envs m c)"

definition as_publication :: "int \<Rightarrow> message \<Rightarrow> publication" where
  "as_publication qos m =
    \<lparr>pub_topic = node_topic (msg_household_id m)
       (case msg_node_id m of Some n \<Rightarrow> n | None \<Rightarrow> []) (Some (msg_subtopic m)),
     pub_payload = msg_payload m, pub_qos = qos, pub_retain = msg_retain m\<rparr>"

lemma receive_direct_message:
  assumes "is_valid_id h" "is_valid_id n" "s \<in> set KNOWN_SUBTOPICS"
  shows "broker_receive envs client (as_publication qos (direct_message h n s payload retain)) c
    = sink envs (direct_message h n s payload retain) c"
  using assms
  by (simp add: broker_receive_def as_publication_def on_message_node sink_def)
    (rule handle_message_flags, simp_all)

lemma receive_translated:
  assumes "is_valid_id h" "is_valid_id n"
    "list_all (translated h n) ms"
  shows "fold (broker_receive envs client) (map (as_publication qos) ms) c = fold (sink envs) ms c"
  using assms(3)
proof (induction ms arbitrary: c)
  case (Cons m ms)
  then have m: "m = direct_message h n (msg_subtopic m) (msg_payload m) (msg_retain m)"
    "msg_subtopic m \<in> set KNOWN_SUBTOPICS" by (simp_all add: translated_def)
  have "broker_receive envs client (as_publication qos m) c = sink envs m c"
    using receive_direct_message [OF assms(1,2) m(2), of envs client qos "msg_payload m" "msg_retain m" c]
      m(1) by simp
  then show ?case using Cons by simp
qed simp

subsection \<open>Availability\<close>

lemma dispatch_status:
  assumes "msg_subtopic m = TOPIC_STATUS" "msg_node_id m = Some nid" "nid \<noteq> []"
  shows "dispatch env m c = (case handle_node_status env nid (msg_payload m) c of
          (Inl e, c') \<Rightarrow> (Inl e, c') | (Inr u, c') \<Rightarrow> (Inr True, publish_update c'))"
  using assms by (simp add: dispatch_def handler_for_def const_defs)

lemma status_words:
  "py_lower (py_strip (py ''offline'')) = OFFLINE" "py_lower (py_strip (py ''online'')) = ONLINE"
  "(OFFLINE = ONLINE) = False" "(ONLINE = OFFLINE) = False"
proof -
  have "py_strip (py ''offline'') = py ''offline''" "py_strip (py ''online'') = py ''online''"
    by (rule py_strip_id, simp add: py_def is_space_def)+
  then show "py_lower (py_strip (py ''offline'')) = OFFLINE" "py_lower (py_strip (py ''online'')) = ONLINE"
    "(OFFLINE = ONLINE) = False" "(ONLINE = OFFLINE) = False"
    by (simp_all add: ONLINE_def OFFLINE_def py_def py_lower_def lower_cp_def)
qed

lemma sink_status:
  assumes "co_household_id c = h" "n \<noteq> []" "payload = py ''online'' \<or> payload = py ''offline''"
  shows "\<exists>node. get_node (sink envs (direct_message h n TOPIC_STATUS payload r) c) n = Some node
      \<and> nd_online node = (payload = py ''online'')"
proof -
  define m where "m = direct_message h n TOPIC_STATUS payload r"
  obtain node c1 where e: "ensure_node n c = (node, c1)" by (cases "ensure_node n c")
  have p: "py_lower (py_strip payload) = (if payload = py ''online'' then ONLINE else OFFLINE)"
    using assms(3) status_words by auto
  have "sink envs m c = publish_update (put_node n (node\<lparr>nd_online := (payload = py ''online''),
      nd_last_seen := Some (now_iso (envs TOPIC_STATUS))\<rparr>) c1)"
    using assms(1,2) p e status_words(3,4)
    by (simp add: m_def sink_def handle_message_dispatch dispatch_status [where nid = n]
        handle_node_status_def Let_def)
  then show ?thesis unfolding m_def [symmetric] by simp
qed

definition not_status :: "message \<Rightarrow> bool" where
  "not_status m = (msg_subtopic m \<noteq> TOPIC_STATUS)"

lemma fold_keeps_online:
  "list_all not_status ms \<Longrightarrow> keeps_field nd_online (get_node c n) (get_node (fold (sink envs) ms c) n)"
proof (induction ms arbitrary: c)
  case (Cons m ms)
  then have "keeps_field nd_online (get_node c n) (get_node (sink envs m c) n)"
    by (simp add: sink_def not_status_def online_field.keeps_message)
  then show ?case using Cons by (auto intro: keeps_field_trans)
qed simp

lemma translated_starts_online:
  assumes "state_to_messages state info h n = Inr ms"
  obtains rest where "ms = direct_message h n TOPIC_STATUS (py ''online'') True # rest"
    "list_all not_status rest"
proof -
  have t: "(TOPIC_LOCK_LAST = TOPIC_STATUS) = False" "(TOPIC_STATE = TOPIC_STATUS) = False"
    "(TOPIC_HEALTH = TOPIC_STATUS) = False" "(TOPIC_SECURITY = TOPIC_STATUS) = False"
    "(TOPIC_BACKUP_STATUS = TOPIC_STATUS) = False" "(TOPIC_LAST_AUTH = TOPIC_STATUS) = False"
    by (simp_all add: const_defs)
  have parts: "list_all not_status (lock_last_messages state h n)"
    "topic \<noteq> TOPIC_STATUS \<Longrightarrow> list_all not_status (plain_messages state k enum_has topic h n)"
    "last_auth_messages state h n = Inr auth \<Longrightarrow> list_all not_status auth" for topic k enum_has auth
    by (auto simp: lock_last_messages_def plain_messages_def last_auth_messages_def not_status_def
        t res_simps split: json.splits)
  from assms obtain health auth where
    "last_auth_messages state h n = Inr auth" and
    "ms = [direct_message h n TOPIC_STATUS (py ''online'') True]
           @ lock_last_messages state h n
           @ [direct_message h n TOPIC_STATE (dumps_default (identity_payload state (device_of info) h n)) True]
           @ [direct_message h n TOPIC_HEALTH (dumps_default (JObj health)) False]
           @ plain_messages state (py ''security'') is_security_state TOPIC_SECURITY h n
           @ plain_messages state (py ''backup_status'') is_backup_outcome TOPIC_BACKUP_STATUS h n
           @ auth"
    unfolding state_to_messages_def bindE_Inr_iff by blast
  then show thesis
    using that parts by (simp add: not_status_def t)
qed

lemma told_online:
  assumes "state_to_messages state info h n = Inr ms" "co_household_id c = h" "n \<noteq> []"
  shows "\<exists>node. get_node (fold (sink envs) (ms @ guest_messages guest h n) c) n = Some node \<and> nd_online node"
proof -
  obtain rest where ms: "ms = direct_message h n TOPIC_STATUS (py ''online'') True # rest"
    and rest: "list_all not_status rest"
    using translated_starts_online [OF assms(1)] .
  have "(TOPIC_GUEST_STATUS = TOPIC_STATUS) = False" by (simp add: const_defs)
  then have "list_all not_status (rest @ guest_messages guest h n)"
    using rest by (auto simp: guest_messages_def not_status_def split: sum.splits)
  from fold_keeps_online [OF this, of "sink envs (direct_message h n TOPIC_STATUS (py ''online'') True) c" n envs]
    sink_status [OF assms(2,3), of "py ''online''" envs True]
  show ?thesis by (auto simp: ms keeps_field_def)
qed

subsection \<open>What a node reports\<close>

text \<open>The reference for the translation, as a table: the topics a node with this answer would publish, in
  order, each with its payload (\<open>None\<close>: it has nothing to publish) and whether it is retained.
  \<open>health\<close> is the health document.\<close>

definition direct_report :: "(pystr \<times> json) list \<Rightarrow> (pystr \<times> json) list \<Rightarrow> (pystr \<times> json) list \<Rightarrow> pystr \<Rightarrow> pystr
    \<Rightarrow> (pystr \<times> pystr option \<times> bool) list" where
  "direct_report state info health h n =
    [(TOPIC_STATUS, Some (py ''online''), True),
     (TOPIC_LOCK_LAST, (case obj_get state (py ''lock_last'') of
          JObj d \<Rightarrow> if truthy (obj_get d (py ''source'')) then Some (dumps_default (JObj d)) else None
        | _ \<Rightarrow> None), True),
     (TOPIC_STATE, Some (dumps_default (JObj (
          [(py ''household_id'', JStr h), (py ''node_id'', JStr n)]
          @ filter (\<lambda>(k, v). truthy v)
              [(py ''node_name'', json_or (obj_get state (py ''node_name'')) (obj_get (device_of info) (py ''node_name''))),
               (py ''node_role'', obj_get state (py ''node_role'')),
               (py ''node_state'', obj_get state (py ''node_state''))]
          @ filter (\<lambda>(k, v). \<exists>i. v = JInt i) [(py ''generation'', obj_get state (py ''generation''))]
          @ filter (\<lambda>(k, v). truthy v) [(py ''firmware_version'', obj_get state (py ''firmware''))]))), True),
     (TOPIC_HEALTH, Some (dumps_default (JObj health)), False),
     (TOPIC_SECURITY, (case obj_get state (py ''security'') of
          JStr s \<Rightarrow> if s \<in> {py ''OK'', py ''WARNING'', py ''ERROR''} then Some s else None | _ \<Rightarrow> None), True),
     (TOPIC_BACKUP_STATUS, (case obj_get state (py ''backup_status'') of
          JStr s \<Rightarrow> if s \<in> {py ''completed'', py ''failed''} then Some s else None | _ \<Rightarrow> None), True),
     (TOPIC_LAST_AUTH, (case obj_get state (py ''last_auth'') of
          JObj d \<Rightarrow> if obj_get d (py ''result'') \<in> {JStr (py ''SUCCESS''), JStr (py ''FAILURE'')}
                   then Some (dumps_default (JObj d)) else None
        | _ \<Rightarrow> None), True)]"

definition report_messages :: "pystr \<Rightarrow> pystr \<Rightarrow> (pystr \<times> pystr option \<times> bool) list \<Rightarrow> message list" where
  "report_messages h n entries =
    concat (map (\<lambda>(topic, payload, retain). case payload of
        None \<Rightarrow> [] | Some s \<Rightarrow> [direct_message h n topic s retain]) entries)"

text \<open>The health document: the one the node embeds, less the lock fields it marks as not reported with
  255, or the one put together for older firmware.\<close>

definition health_document :: "(pystr \<times> json) list \<Rightarrow> (pystr \<times> json) list \<Rightarrow> bool" where
  "health_document state health = (case obj_get state (py ''health'') of
      JObj d \<Rightarrow> health = filter (\<lambda>(k, v). \<not> (k \<in> {py ''lock_current'', py ''lock_target''}
                   \<and> json_eq_int (obj_get d k) 255)) d
    | _ \<Rightarrow> health_payload_from_state state = Inr health)"

lemma health_from_state_document:
  assumes "health_from_state state = Inr health"
  shows "health_document state health"
proof (cases "\<exists>d. obj_get state (py ''health'') = JObj d")
  case True
  then obtain d where d: "obj_get state (py ''health'') = JObj d" by blast
  let ?a = "py ''lock_current''" and ?b = "py ''lock_target''"
  have "obj_get (drop_not_reported ?a d) ?b = obj_get d ?b"
    by (simp add: drop_not_reported_def obj_get_def py_def)
  then have "drop_not_reported ?b (drop_not_reported ?a d)
      = filter (\<lambda>(k, v). \<not> (k \<in> {?a, ?b} \<and> json_eq_int (obj_get d k) 255)) d"
    by (auto simp: drop_not_reported_def dict_del_def LOCK_STATE_NOT_REPORTED_def intro!: filter_cong filter_True [symmetric])
  then show ?thesis using assms d by (simp add: health_from_state_def health_document_def)
qed (use assms in \<open>auto simp: health_from_state_def health_document_def split: json.splits\<close>)

lemma report_messages_simps [simp]:
  "report_messages h n [] = []"
  "report_messages h n ((t, None, r) # es) = report_messages h n es"
  "report_messages h n ((t, Some s, r) # es) = direct_message h n t s r # report_messages h n es"
  by (simp_all add: report_messages_def)

lemma report_words:
  "is_security_state s \<longleftrightarrow> s \<in> {py ''OK'', py ''WARNING'', py ''ERROR''}"
  "is_backup_outcome s \<longleftrightarrow> s \<in> {py ''completed'', py ''failed''}"
  "is_auth_result s \<longleftrightarrow> s \<in> {py ''SUCCESS'', py ''FAILURE''}"
  "is_lock_source s \<longleftrightarrow> s \<in> {py ''homekit'', py ''homekey'', py ''mqtt'', py ''api'', py ''device'', py ''unknown''}"
  by (simp_all add: is_security_state_def is_backup_outcome_def is_auth_result_def is_lock_source_def
      enum_security_state_def enum_backup_outcome_def enum_auth_result_def enum_lock_source_def)

lemma identity_reported:
  "identity_payload state device h n = JObj (
          [(py ''household_id'', JStr h), (py ''node_id'', JStr n)]
          @ filter (\<lambda>(k, v). truthy v)
              [(py ''node_name'', json_or (obj_get state (py ''node_name'')) (obj_get device (py ''node_name''))),
               (py ''node_role'', obj_get state (py ''node_role'')),
               (py ''node_state'', obj_get state (py ''node_state''))]
          @ filter (\<lambda>(k, v). \<exists>i. v = JInt i) [(py ''generation'', obj_get state (py ''generation''))]
          @ filter (\<lambda>(k, v). truthy v) [(py ''firmware_version'', obj_get state (py ''firmware''))])"
  by (cases "obj_get state (py ''generation'')") (simp_all add: identity_payload_def Let_def)

lemma plain_reported:
  "plain_messages state k enum_has topic h n @ report_messages h n es
    = report_messages h n ((topic, (case obj_get state k of JStr s \<Rightarrow> if enum_has s then Some s else None | _ \<Rightarrow> None), True) # es)"
  by (simp add: plain_messages_def split: json.splits)

lemma lock_last_reported:
  "lock_last_messages state h n @ report_messages h n es
    = report_messages h n ((TOPIC_LOCK_LAST, (case obj_get state (py ''lock_last'') of
          JObj d \<Rightarrow> if truthy (obj_get d (py ''source'')) then Some (dumps_default (JObj d)) else None
        | _ \<Rightarrow> None), True) # es)"
  by (simp add: lock_last_messages_def split: json.splits)

lemma last_auth_reported:
  "last_auth_messages state h n = Inr ms \<Longrightarrow> ms = report_messages h n [(TOPIC_LAST_AUTH,
      (case obj_get state (py ''last_auth'') of
          JObj d \<Rightarrow> if obj_get d (py ''result'') \<in> {JStr (py ''SUCCESS''), JStr (py ''FAILURE'')}
                   then Some (dumps_default (JObj d)) else None
        | _ \<Rightarrow> None), True)]"
  by (auto simp: last_auth_messages_def in_auth_results_def report_words res_simps split: json.splits if_splits)

lemma state_to_messages_report:
  assumes "state_to_messages state info h n = Inr ms"
  shows "\<exists>health. health_document state health \<and> ms = report_messages h n (direct_report state info health h n)"
proof -
  from assms obtain health auth where "health_from_state state = Inr health"
    and auth: "last_auth_messages state h n = Inr auth"
    and ms: "ms = [direct_message h n TOPIC_STATUS (py ''online'') True]
           @ lock_last_messages state h n
           @ [direct_message h n TOPIC_STATE (dumps_default (identity_payload state (device_of info) h n)) True]
           @ [direct_message h n TOPIC_HEALTH (dumps_default (JObj health)) False]
           @ plain_messages state (py ''security'') is_security_state TOPIC_SECURITY h n
           @ plain_messages state (py ''backup_status'') is_backup_outcome TOPIC_BACKUP_STATUS h n
           @ auth"
    unfolding state_to_messages_def bindE_Inr_iff by blast
  have "ms = report_messages h n (direct_report state info health h n)"
    unfolding ms last_auth_reported [OF auth] plain_reported identity_reported direct_report_def
      report_words [abs_def] append_Cons append_Nil report_messages_simps(3) [symmetric] lock_last_reported ..
  then show ?thesis using health_from_state_document \<open>health_from_state state = Inr health\<close> by blast
qed

lemma read_node_Inr:
  assumes "read_node rp net c log = (Inr (info, state, h, n), log')"
  shows "response_result (net log (make_request c GET (py ''/api/ha/info'') None)) = Inr (JObj info)"
    "response_result (net (log @ [make_request c GET (py ''/api/ha/info'') None])
       (make_request c GET (py ''/api/ha/state'') None)) = Inr (JObj state)"
    "resolve_identity rp state info = Inr (h, n)"
    "log' = log @ [make_request c GET (py ''/api/ha/info'') None, make_request c GET (py ''/api/ha/state'') None]"
  using assms by (auto simp: read_node_def bindS_Inr_iff get_info_def get_state_def do_request_def Let_def res_simps)

text \<open>The guest endpoint's answer, if any, as the message it is replayed as.\<close>

definition guest_report :: "exc + json \<Rightarrow> (pystr \<times> pystr option \<times> bool) list" where
  "guest_report answer = [(TOPIC_GUEST_STATUS, (case answer of
      Inl e \<Rightarrow> None | Inr v \<Rightarrow> if v = JNull then None else Some (dumps_default v)), True)]"

lemma guest_messages_report:
  "guest_messages (fst (get_guest net c log)) h n
    = report_messages h n (guest_report (response_result (net log (make_request c GET (py ''/api/ha/guest'') None))))"
  by (auto simp: guest_messages_def guest_report_def get_guest_def do_request_def Let_def split: sum.splits)

lemma report_messages_append: "report_messages h n (as @ bs) = report_messages h n as @ report_messages h n bs"
  by (simp add: report_messages_def)

end
