(* ===== verification/Persistence.thy ===== *)
theory Persistence imports Prelude begin

section \<open>Stores that survive a restart\<close>

text \<open>
  The integration keeps two things on disk, the command keys and the backups, and each of its stores
  writes its document after every change and reads it once, when it is made. \<open>persistent_store\<close> is the
  contract they share: what a restart finds is what was there. What follows from it, that the
  restarts in a history cannot be told from its outcome, is proved once.
\<close>

text \<open>The history of a store.\<close>

datatype 'op store_event = Operation 'op | Restart

fun run_store :: "('op \<Rightarrow> 's \<Rightarrow> 's) \<Rightarrow> ('s \<Rightarrow> 's) \<Rightarrow> 'op store_event list \<Rightarrow> 's \<Rightarrow> 's" where
  "run_store perform restart [] s = s"
| "run_store perform restart (Operation x # es) s = run_store perform restart es (perform x s)"
| "run_store perform restart (Restart # es) s = run_store perform restart es (restart s)"

fun operations :: "'op store_event list \<Rightarrow> 'op list" where
  "operations [] = []"
| "operations (Operation x # es) = x # operations es"
| "operations (Restart # es) = operations es"

lemma operations_append [simp]: "operations (as @ bs) = operations as @ operations bs"
  by (induction as rule: operations.induct) simp_all

text \<open>\<open>content\<close> is what the store's users can see, \<open>saved\<close> says that its document holds it.\<close>

locale persistent_store =
  fixes perform :: "'op \<Rightarrow> 's \<Rightarrow> 's"
    and restart :: "'s \<Rightarrow> 's"
    and content :: "'s \<Rightarrow> 'c"
    and saved :: "'s \<Rightarrow> bool"
    and allowed :: "'op \<Rightarrow> bool"
  assumes saved_perform: "saved s \<Longrightarrow> allowed x \<Longrightarrow> saved (perform x s)"
    and saved_restart: "saved s \<Longrightarrow> saved (restart s)"
    and content_restart: "saved s \<Longrightarrow> content (restart s) = content s"
    and content_perform: "content s = content t \<Longrightarrow> content (perform x s) = content (perform x t)"
begin

lemma content_performs: "content s = content t \<Longrightarrow> content (fold perform xs s) = content (fold perform xs t)"
proof (induction xs arbitrary: s t)
  case (Cons x xs)
  from Cons.IH [OF content_perform [OF Cons.prems]] show ?case by simp
qed simp

lemma saved_run: "saved s \<Longrightarrow> list_all allowed (operations es) \<Longrightarrow> saved (run_store perform restart es s)"
proof (induction es arbitrary: s)
  case (Cons e es)
  then show ?case by (cases e) (simp_all add: saved_perform saved_restart)
qed simp

lemma restarts_invisible:
  "saved s \<Longrightarrow> list_all allowed (operations es) \<Longrightarrow>
    content (run_store perform restart es s) = content (fold perform (operations es) s)"
proof (induction es arbitrary: s)
  case (Cons e es)
  show ?case
  proof (cases e)
    case (Operation x)
    then show ?thesis using Cons saved_perform by simp
  next
    case Restart
    then have "content (run_store perform restart es (restart s)) = content (fold perform (operations es) (restart s))"
      using Cons saved_restart by simp
    also have "\<dots> = content (fold perform (operations es) s)"
      by (rule content_performs) (rule content_restart [OF Cons.prems(1)])
    finally show ?thesis using Restart by simp
  qed
qed simp

end

end
