(* ===== verification/Backup.thy ===== *)
theory Backup imports Poller Persistence begin

section \<open>Backups\<close>

text \<open>
  \<open>backup.py\<close>: the record of one backup, the store with its rolling window per node, and the
  services that take and restore one. The store's document on disk is \<open>bs_disk\<close>. A backup the
  store is given is an object of its own, as \<open>async_back_up_entry\<close> makes a new one for every
  call. \<open>hass.data\<close> is the list of the runtimes by entry id, which the services do not change;
  the requests they send extend the log of the world, on the network \<open>net\<close> and with the
  handshakes \<open>hs\<close> that an entry's host shows. A backup handed to the restore service is a string.
\<close>

subsection \<open>\<open>StoredBackup\<close>\<close>

text \<open>\<open>sb_node_time\<close> is an integer, which in Python \<open>True\<close> and \<open>False\<close> are too, or \<open>JNull\<close>.\<close>

record stored_backup =
  sb_node_id :: pystr
  sb_household_id :: pystr
  sb_created :: pystr
  sb_node_time :: json
  sb_blob :: pystr
  sb_includes_credentials :: bool

definition is_python_int :: "json \<Rightarrow> bool" where
  "is_python_int v = (case v of JInt i \<Rightarrow> True | JBool b \<Rightarrow> True | _ \<Rightarrow> False)"

definition backup_as_dict :: "stored_backup \<Rightarrow> json" where
  "backup_as_dict b = JObj
    [(py ''node_id'', JStr (sb_node_id b)),
     (py ''household_id'', JStr (sb_household_id b)),
     (py ''created'', JStr (sb_created b)),
     (py ''node_time'', sb_node_time b),
     (py ''blob'', JStr (sb_blob b)),
     (py ''includes_credentials'', JBool (sb_includes_credentials b))]"

definition backup_from_dict :: "(json \<Rightarrow> pystr) \<Rightarrow> json \<Rightarrow> stored_backup option" where
  "backup_from_dict rp raw = (case raw of
      JObj d \<Rightarrow>
        (case (obj_get d (py ''blob''), obj_get d (py ''node_id'')) of
           (JStr blob, JStr node_id) \<Rightarrow>
             if blob = [] \<or> node_id = [] then None
             else Some \<lparr>sb_node_id = node_id,
               sb_household_id = py_str rp (json_or (obj_get d (py ''household_id'')) (JStr [])),
               sb_created = py_str rp (json_or (obj_get d (py ''created'')) (JStr [])),
               sb_node_time = (let t = obj_get d (py ''node_time'') in if is_python_int t then t else JNull),
               sb_blob = blob,
               sb_includes_credentials = (obj_get d (py ''includes_credentials'') = JBool True)\<rparr>
         | _ \<Rightarrow> None)
    | _ \<Rightarrow> None)"

subsection \<open>\<open>BackupStore\<close>\<close>

record backup_store =
  bs_disk :: json
  bs_keep :: int
  bs_backups :: "stored_backup list"

definition new_backup_store :: "json \<Rightarrow> int \<Rightarrow> backup_store" where
  "new_backup_store disk keep = \<lparr>bs_disk = disk, bs_keep = keep, bs_backups = []\<rparr>"

definition stored_entries :: "json \<Rightarrow> json list" where
  "stored_entries raw = (case raw of
      JObj d \<Rightarrow> (case obj_get d (py ''backups'') of JList es \<Rightarrow> es | _ \<Rightarrow> [])
    | _ \<Rightarrow> [])"

definition load_backups :: "(json \<Rightarrow> pystr) \<Rightarrow> backup_store \<Rightarrow> backup_store" where
  "load_backups rp s = s\<lparr>bs_backups := List.map_filter (backup_from_dict rp) (stored_entries (bs_disk s))\<rparr>"

definition for_node :: "backup_store \<Rightarrow> pystr \<Rightarrow> stored_backup list" where
  "for_node s node_id = filter (\<lambda>b. sb_node_id b = node_id) (bs_backups s)"

definition latest_backup :: "backup_store \<Rightarrow> pystr option \<Rightarrow> stored_backup option" where
  "latest_backup s node_id =
    (let candidates = (case node_id of None \<Rightarrow> bs_backups s | Some n \<Rightarrow> for_node s n)
     in if candidates = [] then None else Some (last candidates))"

text \<open>The list without the first \<open>k\<close> backups of a node.\<close>

fun drop_oldest :: "nat \<Rightarrow> pystr \<Rightarrow> stored_backup list \<Rightarrow> stored_backup list" where
  "drop_oldest k node_id [] = []"
| "drop_oldest k node_id (b # bs) =
    (if sb_node_id b = node_id \<and> 0 < k then drop_oldest (k - 1) node_id bs
     else b # drop_oldest k node_id bs)"

definition prune :: "pystr \<Rightarrow> backup_store \<Rightarrow> backup_store" where
  "prune node_id s =
    (let excess = int (length (for_node s node_id)) - bs_keep s
     in if excess \<le> 0 then s
        else s\<lparr>bs_backups := drop_oldest (nat excess) node_id (bs_backups s)\<rparr>)"

definition save_backups :: "backup_store \<Rightarrow> backup_store" where
  "save_backups s = s\<lparr>bs_disk := JObj [(py ''backups'', JList (map backup_as_dict (bs_backups s)))]\<rparr>"

definition add_backup :: "stored_backup \<Rightarrow> backup_store \<Rightarrow> backup_store" where
  "add_backup b s = save_backups (prune (sb_node_id b) (s\<lparr>bs_backups := bs_backups s @ [b]\<rparr>))"

subsection \<open>What is kept\<close>

text \<open>The abstract store: every backup ever given, of which a node keeps the newest.\<close>

definition newest :: "int \<Rightarrow> pystr \<Rightarrow> stored_backup list \<Rightarrow> stored_backup list" where
  "newest keep node_id given = last_n (nat keep) (filter (\<lambda>b. sb_node_id b = node_id) given)"

lemma filter_drop_oldest:
  "filter (\<lambda>b. sb_node_id b = n) (drop_oldest k m bs) =
    (if n = m then drop k (filter (\<lambda>b. sb_node_id b = n) bs) else filter (\<lambda>b. sb_node_id b = n) bs)"
proof (induction k m bs rule: drop_oldest.induct)
  case (2 k m b bs)
  then show ?case by (cases k) auto
qed simp

lemma set_drop_oldest: "set (drop_oldest k n bs) \<subseteq> set bs"
  by (induction k n bs rule: drop_oldest.induct) auto

lemma save_backups_fields [simp]:
  "bs_backups (save_backups s) = bs_backups s" "bs_keep (save_backups s) = bs_keep s"
  "for_node (save_backups s) n = for_node s n"
  by (simp_all add: save_backups_def for_node_def)

lemma prune_fields [simp]: "bs_keep (prune n s) = bs_keep s" "bs_disk (prune n s) = bs_disk s"
  by (simp_all add: prune_def Let_def)

lemma for_node_prune:
  "for_node (prune m s) n = (if n = m then last_n (nat (bs_keep s)) (for_node s n) else for_node s n)"
proof -
  have "last_n (nat (bs_keep s)) xs = (if int (length xs) \<le> bs_keep s then xs
      else drop (nat (int (length xs) - bs_keep s)) xs)" for xs :: "stored_backup list"
    by (cases "0 \<le> bs_keep s") (auto simp: last_n_def nat_diff_distrib)
  then show ?thesis
    by (simp add: prune_def for_node_def Let_def filter_drop_oldest)
qed

lemma last_n_app_last: "last_n k (last_n k xs @ ys) = last_n k (xs @ ys)"
  by (cases "length xs \<le> k") (auto simp: last_n_def add.commute)

lemma for_node_add:
  "for_node (add_backup b s) n =
    (if sb_node_id b = n then last_n (nat (bs_keep s)) (for_node s n @ [b]) else for_node s n)"
  by (simp add: add_backup_def for_node_prune) (simp add: for_node_def)

lemma add_backup_keep [simp]: "bs_keep (add_backup b s) = bs_keep s"
  by (simp add: add_backup_def)

lemma adds_keep [simp]: "bs_keep (fold add_backup bs s) = bs_keep s"
  by (induction bs arbitrary: s) simp_all

text \<open>The refinement: the store holds the newest of what it was given.\<close>

definition store_refines :: "backup_store \<Rightarrow> stored_backup list \<Rightarrow> bool" where
  "store_refines s given = (\<forall>n. for_node s n = newest (bs_keep s) n given)"

lemma store_refines_new: "store_refines (new_backup_store disk keep) []"
  by (simp add: store_refines_def new_backup_store_def for_node_def newest_def last_n_def)

lemma store_refines_add: "store_refines s given \<Longrightarrow> store_refines (add_backup b s) (given @ [b])"
  by (auto simp: store_refines_def for_node_add newest_def last_n_app_last)

lemma store_refines_adds:
  "store_refines s given \<Longrightarrow> store_refines (fold add_backup bs s) (given @ bs)"
proof (induction bs arbitrary: s given)
  case (Cons b bs)
  from Cons.IH [OF store_refines_add [OF Cons.prems, of b]] show ?case by simp
qed simp

subsection \<open>What is saved is loaded\<close>

definition backup_ok :: "stored_backup \<Rightarrow> bool" where
  "backup_ok b = (sb_node_id b \<noteq> [] \<and> sb_blob b \<noteq> [] \<and> (sb_node_time b = JNull \<or> is_python_int (sb_node_time b)))"

lemma backup_from_as_dict: "backup_ok b \<Longrightarrow> backup_from_dict rp (backup_as_dict b) = Some b"
  by (cases "sb_node_time b")
    (auto simp: backup_ok_def backup_from_dict_def backup_as_dict_def json_or_def py_str_def is_python_int_def Let_def)

lemma load_saved_backups:
  "list_all backup_ok bs \<Longrightarrow> List.map_filter (backup_from_dict rp) (map backup_as_dict bs) = bs"
  by (induction bs) (simp_all add: backup_from_as_dict)

text \<open>Every backup the store holds could be loaded again, so the document it last saved is the
  store.\<close>

definition store_ok :: "backup_store \<Rightarrow> bool" where
  "store_ok s = list_all backup_ok (bs_backups s)"

lemma store_ok_add: "store_ok s \<Longrightarrow> backup_ok b \<Longrightarrow> store_ok (add_backup b s)"
  using set_drop_oldest [of _ "sb_node_id b" "bs_backups s @ [b]"]
  by (auto simp: store_ok_def add_backup_def prune_def Let_def list_all_iff)

lemma store_ok_adds: "store_ok s \<Longrightarrow> list_all backup_ok bs \<Longrightarrow> store_ok (fold add_backup bs s)"
  by (induction bs arbitrary: s) (simp_all add: store_ok_add)

text \<open>A restart: a new store over the document last saved.\<close>

definition restart_backups :: "(json \<Rightarrow> pystr) \<Rightarrow> backup_store \<Rightarrow> backup_store" where
  "restart_backups rp s = load_backups rp (new_backup_store (bs_disk s) (bs_keep s))"

definition backups_saved :: "backup_store \<Rightarrow> bool" where
  "backups_saved s = (store_ok s
     \<and> (bs_disk s = bs_disk (save_backups s) \<or> bs_disk s = JNull \<and> bs_backups s = []))"

lemma restart_backups_saved:
  assumes "backups_saved s"
  shows "restart_backups rp s = s"
proof (cases "bs_disk s = bs_disk (save_backups s)")
  case True
  then have "stored_entries (bs_disk s) = map backup_as_dict (bs_backups s)"
    by (simp add: stored_entries_def save_backups_def)
  then show ?thesis
    using assms
    by (simp add: restart_backups_def load_backups_def new_backup_store_def load_saved_backups backups_saved_def store_ok_def)
next
  case False
  then show ?thesis
    using assms by (simp add: restart_backups_def load_backups_def new_backup_store_def backups_saved_def stored_entries_def)
qed

interpretation backup_persistence: persistent_store add_backup "restart_backups rp"
    "\<lambda>s. (bs_keep s, bs_backups s)" backups_saved backup_ok for rp
proof
  fix s :: backup_store and b :: stored_backup
  assume s: "backups_saved s" "backup_ok b"
  have "bs_disk (add_backup b s) = bs_disk (save_backups (add_backup b s))"
    by (simp add: add_backup_def save_backups_def)
  then show "backups_saved (add_backup b s)"
    using s store_ok_add [of s b] unfolding backups_saved_def by blast
next
  fix s t :: backup_store and b :: stored_backup
  assume "(bs_keep s, bs_backups s) = (bs_keep t, bs_backups t)"
  then show "(bs_keep (add_backup b s), bs_backups (add_backup b s)) = (bs_keep (add_backup b t), bs_backups (add_backup b t))"
    by (simp add: add_backup_def prune_def for_node_def Let_def)
qed (simp_all add: restart_backups_saved)

lemma new_backups_saved: "backups_saved (new_backup_store JNull keep)"
  by (simp add: backups_saved_def store_ok_def new_backup_store_def)

text \<open>A store that is given records it cannot read back: a restart drops those, and nothing else.\<close>

definition readable :: "stored_backup \<Rightarrow> bool" where
  "readable b = (sb_node_id b \<noteq> [] \<and> sb_blob b \<noteq> [])"

text \<open>The type of the stamp: an integer or \<open>None\<close>.\<close>

definition stamp_typed :: "stored_backup \<Rightarrow> bool" where
  "stamp_typed b = (sb_node_time b = JNull \<or> is_python_int (sb_node_time b))"

lemma backup_ok_iff: "backup_ok b \<longleftrightarrow> readable b \<and> stamp_typed b"
  by (auto simp: backup_ok_def readable_def stamp_typed_def)

lemma backup_from_as_dict_typed:
  assumes "stamp_typed b"
  shows "backup_from_dict rp (backup_as_dict b) = (if readable b then Some b else None)"
proof (cases "readable b")
  case True
  then show ?thesis using assms backup_from_as_dict by (simp add: backup_ok_iff)
next
  case False
  then show ?thesis by (auto simp: backup_from_dict_def backup_as_dict_def readable_def py_def)
qed

lemma load_typed_backups:
  "list_all stamp_typed bs \<Longrightarrow> List.map_filter (backup_from_dict rp) (map backup_as_dict bs) = filter readable bs"
  by (induction bs) (simp_all add: backup_from_as_dict_typed)

text \<open>The window of one node over a history: every backup of the node enters it, the oldest leave it,
  and a restart takes out what cannot be read back.\<close>

definition window_event :: "int \<Rightarrow> pystr \<Rightarrow> stored_backup store_event \<Rightarrow> stored_backup list \<Rightarrow> stored_backup list" where
  "window_event keep n e window = (case e of
      Operation b \<Rightarrow> if sb_node_id b = n then last_n (nat keep) (window @ [b]) else window
    | Restart \<Rightarrow> filter readable window)"

text \<open>What the next restart will find is what the store holds, less what cannot be read back.\<close>

definition disk_follows :: "(json \<Rightarrow> pystr) \<Rightarrow> backup_store \<Rightarrow> bool" where
  "disk_follows rp s = (list_all stamp_typed (bs_backups s)
     \<and> List.map_filter (backup_from_dict rp) (stored_entries (bs_disk s)) = filter readable (bs_backups s))"

lemma disk_follows_add: "disk_follows rp s \<Longrightarrow> stamp_typed b \<Longrightarrow> disk_follows rp (add_backup b s)"
proof -
  assume s: "disk_follows rp s" and b: "stamp_typed b"
  have "list_all stamp_typed (bs_backups (add_backup b s))"
    using s b set_drop_oldest [of _ "sb_node_id b" "bs_backups s @ [b]"]
    by (auto simp: disk_follows_def add_backup_def prune_def Let_def list_all_iff)
  moreover have "stored_entries (bs_disk (add_backup b s)) = map backup_as_dict (bs_backups (add_backup b s))"
    by (simp add: add_backup_def save_backups_def stored_entries_def)
  ultimately show ?thesis by (simp add: disk_follows_def load_typed_backups)
qed

lemma restart_follows:
  assumes "disk_follows rp s"
  shows "bs_backups (restart_backups rp s) = filter readable (bs_backups s)" "bs_keep (restart_backups rp s) = bs_keep s"
    "disk_follows rp (restart_backups rp s)"
  using assms
  by (auto simp: disk_follows_def restart_backups_def load_backups_def new_backup_store_def list_all_iff filter_id_conv)

lemma run_windows:
  assumes "disk_follows rp s" "list_all stamp_typed (operations es)"
  shows "for_node (run_store add_backup (restart_backups rp) es s) n = fold (window_event (bs_keep s) n) es (for_node s n)"
  using assms
proof (induction es arbitrary: s)
  case (Cons e es)
  show ?case
  proof (cases e)
    case (Operation b)
    then show ?thesis
      using Cons.prems Cons.IH [OF disk_follows_add] by (simp add: window_event_def for_node_add)
  next
    case Restart
    have "for_node (restart_backups rp s) n = filter readable (for_node s n)"
      by (simp add: for_node_def restart_follows(1) [OF Cons.prems(1)] conj_commute)
    then show ?thesis
      using Cons.prems Restart Cons.IH [OF restart_follows(3)] restart_follows(2) by (simp add: window_event_def)
  qed
qed simp

subsection \<open>Settings of an entry\<close>

datatype transport = MqttTransport | DirectTransport client "pystr option"

text \<open>A runtime: its entry's data and options (\<open>None\<close> when \<open>hass.data\<close> holds something else under
  the id), its coordinator's household and its transport.\<close>

record runtime =
  rt_entry :: "((pystr \<times> json) list \<times> (pystr \<times> json) list) option"
  rt_household_id :: pystr
  rt_transport :: transport

definition backup_client_for :: "(pystr \<times> json) list \<Rightarrow> bool" where
  "backup_client_for entry_data = list_all (\<lambda>k. truthy (obj_get entry_data k))
     [CONF_HOST, CONF_FINGERPRINT, CONF_USERNAME, CONF_PASSWORD]"

definition entry_backup_settings :: "runtime \<Rightarrow> (pystr \<times> json) list" where
  "entry_backup_settings r = dict_set
     (case rt_entry r of None \<Rightarrow> []
      | Some (data, options) \<Rightarrow> dict_update (dict_update [] data) options)
     (py ''household_id'') (JStr (rt_household_id r))"

definition target_entry_ids :: "(pystr, runtime) dict \<Rightarrow> (pystr \<times> json) list \<Rightarrow> pystr list" where
  "target_entry_ids runtimes data =
    (let requested = obj_get data (py ''config_entry_id'')
     in map fst (filter (\<lambda>(entry_id, r). \<not> (truthy requested \<and> JStr entry_id \<noteq> requested)
          \<and> backup_client_for (entry_backup_settings r)) runtimes))"

text \<open>\<open>int(v)\<close>; of the strings, those of ASCII digits with surrounding space and a sign.\<close>

definition py_int :: "json \<Rightarrow> exc + int" where
  "py_int v = (case v of
      JInt i \<Rightarrow> Inr i
    | JBool b \<Rightarrow> Inr (of_bool b)
    | JFloat x \<Rightarrow> current_epoch_seconds x
    | JStr s \<Rightarrow>
       (let t = py_strip s; neg = (take 1 t = [45]);
            d = (if neg \<or> take 1 t = [43] then drop 1 t else t)
        in if d \<noteq> [] \<and> list_all is_digit d
           then Inr ((if neg then - 1 else 1) * foldl (\<lambda>n c. 10 * n + (int c - 48)) 0 d)
           else Inl ValueError)
    | _ \<Rightarrow> Inl TypeError)"

definition connect_entry :: "(json \<Rightarrow> pystr) \<Rightarrow> network \<Rightarrow> (pystr \<Rightarrow> int \<Rightarrow> handshake) \<Rightarrow> (pystr \<times> json) list
    \<Rightarrow> probe net_comp" where
  "connect_entry rp net hs entry_data =
    bindS (liftE (case dict_get entry_data CONF_PORT of None \<Rightarrow> Inr DEFAULT_HTTPS_PORT | Some v \<Rightarrow> py_int v))
      (\<lambda>port. let host = py_str rp (obj_get entry_data CONF_HOST)
         in connect_node rp net (hs host port) host port (py_str rp (obj_get entry_data CONF_FINGERPRINT))
              (py_str rp (obj_get entry_data CONF_USERNAME)) (py_str rp (obj_get entry_data CONF_PASSWORD)))"

subsection \<open>Taking a backup\<close>

definition node_backup_time :: "network \<Rightarrow> client \<Rightarrow> json net_comp" where
  "node_backup_time net c log = (case get_backup_info net c log of
      (Inl e, log') \<Rightarrow> (if is_transport_error e then Inr JNull else Inl e, log')
    | (Inr info, log') \<Rightarrow>
       (bindE (attr_get info (py ''last_backup_time'')) (\<lambda>v. Inr (case v of
          JInt i \<Rightarrow> if 0 < i then v else JNull
        | JBool b \<Rightarrow> if b then v else JNull
        | _ \<Rightarrow> JNull)), log'))"

definition now_text :: "int \<Rightarrow> pystr" where
  "now_text now = (case utc_iso (now div 1000000) (now mod 1000000) of Some s \<Rightarrow> s | None \<Rightarrow> [])"

definition fetch_backup :: "(json \<Rightarrow> pystr) \<Rightarrow> network \<Rightarrow> (pystr \<Rightarrow> int \<Rightarrow> handshake) \<Rightarrow> int
    \<Rightarrow> (pystr \<times> json) list \<Rightarrow> pystr option \<Rightarrow> client option \<Rightarrow> bool \<Rightarrow> stored_backup net_comp" where
  "fetch_backup rp net hs now entry_data node_id running_client include_credentials =
    bindS (case running_client of
        Some c \<Rightarrow> liftE (Inr (c, node_id))
      | None \<Rightarrow> bindS (connect_entry rp net hs entry_data) (\<lambda>p. liftE (Inr (pr_client p, Some (pr_node_id p)))))
      (\<lambda>(c, nid). bindS (create_backup net c include_credentials) (\<lambda>(blob, included).
        bindS (node_backup_time net c) (\<lambda>time.
          liftE (Inr \<lparr>sb_node_id = str_or nid [],
            sb_household_id = py_str rp (json_or (obj_get entry_data (py ''household_id'')) (JStr [])),
            sb_created = now_text now, sb_node_time = time, sb_blob = blob,
            sb_includes_credentials = included\<rparr>))))"

record backup_world =
  bw_store :: backup_store
  bw_log :: "request list"
  bw_reloaded :: "pystr list"

definition running_client :: "runtime \<Rightarrow> client option" where
  "running_client r = (case rt_transport r of MqttTransport \<Rightarrow> None | DirectTransport c n \<Rightarrow> Some c)"

definition transport_node_id :: "runtime \<Rightarrow> pystr option" where
  "transport_node_id r = (case rt_transport r of MqttTransport \<Rightarrow> None | DirectTransport c n \<Rightarrow> n)"

definition wants_credentials :: "(pystr \<times> json) list \<Rightarrow> bool option \<Rightarrow> bool" where
  "wants_credentials entry_data include_credentials = (case include_credentials of
      Some b \<Rightarrow> b
    | None \<Rightarrow> (case dict_get entry_data CONF_BACKUP_INCLUDE_CREDENTIALS of
        None \<Rightarrow> DEFAULT_BACKUP_INCLUDE_CREDENTIALS | Some v \<Rightarrow> truthy v))"

definition back_up_entry :: "(json \<Rightarrow> pystr) \<Rightarrow> network \<Rightarrow> (pystr \<Rightarrow> int \<Rightarrow> handshake) \<Rightarrow> int
    \<Rightarrow> (pystr, runtime) dict \<Rightarrow> pystr \<Rightarrow> bool \<Rightarrow> bool option \<Rightarrow> (backup_world, exc, unit) comp" where
  "back_up_entry rp net hs now runtimes entry_id explicit include_credentials w =
    (case dict_get runtimes entry_id of
       None \<Rightarrow> (if explicit then Inl ServiceValidationError else Inr (), w)
     | Some r \<Rightarrow>
        if rt_entry r = None then (if explicit then Inl ServiceValidationError else Inr (), w)
        else
         (let entry_data = entry_backup_settings r in
          if \<not> backup_client_for entry_data
          then (if explicit then Inl ServiceValidationError else Inr (), w)
          else (case fetch_backup rp net hs now entry_data (transport_node_id r) (running_client r)
                       (wants_credentials entry_data include_credentials) (bw_log w) of
              (Inl e, log) \<Rightarrow>
                (if is_transport_error e then (if explicit then Inl ServiceValidationError else Inr ())
                 else Inl e, w\<lparr>bw_log := log\<rparr>)
            | (Inr b, log) \<Rightarrow> (Inr (), w\<lparr>bw_log := log, bw_store := add_backup b (bw_store w)\<rparr>))))"

fun each_entry :: "(pystr \<Rightarrow> (backup_world, exc, unit) comp) \<Rightarrow> pystr list \<Rightarrow> (backup_world, exc, unit) comp" where
  "each_entry f [] = liftE (Inr ())"
| "each_entry f (i # is) = bindS (f i) (\<lambda>_. each_entry f is)"

text \<open>The service \<open>create_backup\<close>, and the scheduled run.\<close>

definition back_up_now :: "(json \<Rightarrow> pystr) \<Rightarrow> network \<Rightarrow> (pystr \<Rightarrow> int \<Rightarrow> handshake) \<Rightarrow> int
    \<Rightarrow> (pystr, runtime) dict \<Rightarrow> (pystr \<times> json) list \<Rightarrow> (backup_world, exc, unit) comp" where
  "back_up_now rp net hs now runtimes data =
    (let entry_ids = target_entry_ids runtimes data in
     if entry_ids = [] then liftE (Inl ServiceValidationError)
     else each_entry (\<lambda>entry_id. back_up_entry rp net hs now runtimes entry_id True
            (let v = obj_get data CONF_BACKUP_INCLUDE_CREDENTIALS
             in if v = JNull then None else Some (truthy v))) entry_ids)"

definition scheduled_backups :: "(json \<Rightarrow> pystr) \<Rightarrow> network \<Rightarrow> (pystr \<Rightarrow> int \<Rightarrow> handshake) \<Rightarrow> int
    \<Rightarrow> (pystr, runtime) dict \<Rightarrow> (backup_world, exc, unit) comp" where
  "scheduled_backups rp net hs now runtimes =
    each_entry (\<lambda>entry_id. back_up_entry rp net hs now runtimes entry_id False None)
      (target_entry_ids runtimes [])"

subsection \<open>Restoring\<close>

definition restore_on_node :: "(json \<Rightarrow> pystr) \<Rightarrow> network \<Rightarrow> (pystr \<Rightarrow> int \<Rightarrow> handshake)
    \<Rightarrow> (pystr \<times> json) list \<Rightarrow> pystr \<Rightarrow> pystr \<Rightarrow> client option \<Rightarrow> client net_comp" where
  "restore_on_node rp net hs entry_data recovery_secret blob running =
    bindS (case running of
        Some c \<Rightarrow> liftE (Inr c)
      | None \<Rightarrow> bindS (connect_entry rp net hs entry_data) (\<lambda>p. liftE (Inr (pr_client p))))
      (\<lambda>c. bindS (restore_backup net c recovery_secret blob) (\<lambda>result. liftE (Inr c)))"

text \<open>The copy a restore uses: the one handed over, or the newest one of the household.\<close>

definition stored_for_household :: "backup_store \<Rightarrow> pystr \<Rightarrow> stored_backup list" where
  "stored_for_household s household_id =
    filter (\<lambda>b. household_id = [] \<or> sb_household_id b = household_id) (bs_backups s)"

definition backup_to_restore :: "backup_store \<Rightarrow> pystr \<Rightarrow> pystr option \<Rightarrow> exc + pystr" where
  "backup_to_restore s household_id backup_hex =
    (if str_or backup_hex [] \<noteq> [] then Inr (str_or backup_hex [])
     else (let stored = stored_for_household s household_id in
       if stored = [] then Inl ServiceValidationError else Inr (sb_blob (last stored))))"

text \<open>After the restore the node's identity is read back, for the log only; what reading it raises
  beyond the transport errors is raised.\<close>

definition read_back :: "network \<Rightarrow> client \<Rightarrow> unit net_comp" where
  "read_back net c log = (case get_info net c log of
      (Inl e, log') \<Rightarrow> (if is_transport_error e then Inr () else Inl e, log')
    | (Inr info, log') \<Rightarrow> (bindE (attr_get info (py ''household_id'')) (\<lambda>_. Inr ()), log'))"

definition restore_entry :: "(json \<Rightarrow> pystr) \<Rightarrow> network \<Rightarrow> (pystr \<Rightarrow> int \<Rightarrow> handshake)
    \<Rightarrow> (pystr, runtime) dict \<Rightarrow> pystr \<Rightarrow> pystr \<Rightarrow> pystr option \<Rightarrow> (backup_world, exc, unit) comp" where
  "restore_entry rp net hs runtimes entry_id recovery_secret backup_hex w =
    (if recovery_secret = [] then (Inl ServiceValidationError, w)
     else case dict_get runtimes entry_id of
       None \<Rightarrow> (Inl ServiceValidationError, w)
     | Some r \<Rightarrow>
        if rt_entry r = None then (Inl ServiceValidationError, w)
        else
         (let entry_data = entry_backup_settings r in
          if \<not> backup_client_for entry_data then (Inl ServiceValidationError, w)
          else case backup_to_restore (bw_store w)
              (py_str rp (json_or (obj_get entry_data (py ''household_id'')) (JStr []))) backup_hex of
            Inl e \<Rightarrow> (Inl e, w)
          | Inr blob \<Rightarrow>
             (case restore_on_node rp net hs entry_data recovery_secret blob (running_client r) (bw_log w) of
                (Inl e, log) \<Rightarrow>
                  (Inl (if is_transport_error e then ServiceValidationError else e), w\<lparr>bw_log := log\<rparr>)
              | (Inr c, log) \<Rightarrow>
                 (case read_back net c log of (r, log') \<Rightarrow> (r, w\<lparr>bw_log := log'\<rparr>)))))"

text \<open>The service \<open>restore_backup\<close>; \<open>has_entry\<close> says which config entries exist, which are then set
  up again.\<close>

definition restore_now :: "(json \<Rightarrow> pystr) \<Rightarrow> network \<Rightarrow> (pystr \<Rightarrow> int \<Rightarrow> handshake)
    \<Rightarrow> (pystr, runtime) dict \<Rightarrow> (pystr \<Rightarrow> bool) \<Rightarrow> (pystr \<times> json) list \<Rightarrow> (backup_world, exc, unit) comp" where
  "restore_now rp net hs runtimes has_entry data =
    (let entry_ids = target_entry_ids runtimes data in
     if entry_ids = [] then liftE (Inl ServiceValidationError)
     else each_entry (\<lambda>entry_id.
       bindS (restore_entry rp net hs runtimes entry_id
           (py_str rp (json_or (obj_get data (py ''recovery_secret'')) (JStr [])))
           (case obj_get data (py ''backup'') of JStr b \<Rightarrow> Some b | _ \<Rightarrow> None))
         (\<lambda>_ w. (Inr (), if has_entry entry_id then w\<lparr>bw_reloaded := bw_reloaded w @ [entry_id]\<rparr> else w)))
       entry_ids)"

text \<open>\<open>async_setup_backups\<close>: the store is loaded before anything runs.\<close>

definition setup_backups :: "(json \<Rightarrow> pystr) \<Rightarrow> json \<Rightarrow> backup_store" where
  "setup_backups rp disk = load_backups rp (new_backup_store disk (int BACKUP_KEEP))"


subsection \<open>Who is asked\<close>

text \<open>\<open>trusted r q\<close>: the request is one of the running client's, or pinned to a certificate with the
  fingerprint the entry names.\<close>

definition trusted :: "(json \<Rightarrow> pystr) \<Rightarrow> runtime \<Rightarrow> request \<Rightarrow> bool" where
  "trusted rp r q = (case running_client r of
      Some c \<Rightarrow> made_by c q
    | None \<Rightarrow> fingerprints_match (py_str rp (obj_get (entry_backup_settings r) CONF_FINGERPRINT))
                (certificate_fingerprint (rq_pin q)))"

text \<open>\<open>runs P Q m\<close>: \<open>m\<close> sends requests that satisfy \<open>P\<close> and nothing else, and its value satisfies \<open>Q\<close>.\<close>

definition runs :: "(request \<Rightarrow> bool) \<Rightarrow> ('a \<Rightarrow> bool) \<Rightarrow> 'a net_comp \<Rightarrow> bool" where
  "runs P Q m = (\<forall>log r log'. m log = (r, log') \<longrightarrow> extends P log log' \<and> (\<forall>a. r = Inr a \<longrightarrow> Q a))"

lemma runsD: "runs P Q m \<Longrightarrow> m log = (r, log') \<Longrightarrow> extends P log log'"
  "runs P Q m \<Longrightarrow> m log = (Inr a, log') \<Longrightarrow> Q a"
  unfolding runs_def by blast+

lemma extends_trans: "extends P a b \<Longrightarrow> extends P b c \<Longrightarrow> extends P a c"
  by (auto simp: extends_def)

lemma extends_mono: "extends P a b \<Longrightarrow> (\<And>q. P q \<Longrightarrow> Q q) \<Longrightarrow> extends Q a b"
  unfolding extends_def by (auto simp: list_all_iff)

lemma runs_bind: "runs P Q m \<Longrightarrow> (\<And>a. Q a \<Longrightarrow> runs P R (f a)) \<Longrightarrow> runs P R (bindS m f)"
  unfolding runs_def
proof (intro allI impI)
  fix log r log'
  assume m: "\<forall>log r log'. m log = (r, log') \<longrightarrow> extends P log log' \<and> (\<forall>a. r = Inr a \<longrightarrow> Q a)"
    and f: "\<And>a. Q a \<Longrightarrow> \<forall>log r log'. f a log = (r, log') \<longrightarrow> extends P log log' \<and> (\<forall>a. r = Inr a \<longrightarrow> R a)"
    and e: "bindS m f log = (r, log')"
  obtain q log1 where q: "m log = (q, log1)" by (cases "m log")
  then have x: "extends P log log1" "\<forall>a. q = Inr a \<longrightarrow> Q a" using m by blast+
  show "extends P log log' \<and> (\<forall>a. r = Inr a \<longrightarrow> R a)"
  proof (cases q)
    case (Inl e')
    then show ?thesis using e q x by auto
  next
    case (Inr a)
    then have "f a log1 = (r, log')" "Q a" using e q x(2) by simp_all
    then show ?thesis using f x(1) extends_trans by blast
  qed
qed

lemma runs_lift: "(\<And>a. r = Inr a \<Longrightarrow> Q a) \<Longrightarrow> runs P Q (liftE r)"
  by (auto simp: runs_def)

lemma runs_mono: "runs P Q m \<Longrightarrow> (\<And>q. P q \<Longrightarrow> P' q) \<Longrightarrow> (\<And>a. Q a \<Longrightarrow> Q' a) \<Longrightarrow> runs P' Q' m"
  unfolding runs_def by (blast intro: extends_mono)

lemma runs_client: "(\<And>log. keeps (extends (made_by c) log) m) \<Longrightarrow> runs (made_by c) (\<lambda>a. True) m"
  using only_pinned unfolding runs_def by blast

lemma runs_connect:
  "runs (\<lambda>q. fingerprints_match expected (certificate_fingerprint (rq_pin q)))
     (\<lambda>p. fingerprints_match expected (certificate_fingerprint (dc_pin (pr_client p))))
     (connect_node rp net hs host port expected username password)"
proof (cases "basic_auth_accepts username
    \<and> (\<exists>der. fetch_peer_certificate hs = Inr der \<and> fingerprints_match expected (certificate_fingerprint der))")
  case True
  then obtain der where name: "basic_auth_accepts username" and
    der: "fetch_peer_certificate hs = Inr der" "fingerprints_match expected (certificate_fingerprint der)"
    by blast
  define c where "c = \<lparr>dc_host = host, dc_port = port, dc_pin = der, dc_username = username, dc_password = password\<rparr>"
  have c: "connect_node rp net hs host port expected username password = identify_node rp net c (certificate_fingerprint der)"
    using der name by (simp add: connect_node_def new_client_def Let_def c_def fun_eq_iff)
  have "runs (made_by c) (\<lambda>p. dc_pin (pr_client p) = der) (identify_node rp net c (certificate_fingerprint der))"
    unfolding identify_node_def
    apply (rule runs_bind [OF runs_client [OF keeps_operations(3)]])
    apply (rule runs_bind [OF runs_client [OF keeps_operations(2)]])
    apply (rule runs_bind [where Q = "\<lambda>a. True"], rule runs_lift, rule TrueI)+
    apply (rule runs_lift)
    apply (auto simp: make_probe_def Let_def c_def split: prod.splits)
    done
  then show ?thesis
    unfolding c by (rule runs_mono) (use der(2) in \<open>auto simp: made_by_def c_def\<close>)
next
  case False
  then show ?thesis
    by (auto simp: runs_def connect_node_def new_client_def Let_def split: sum.splits if_splits)
qed

text \<open>The client a backup or a restore uses: the running one, or one connected for it.\<close>

lemma runs_connect_entry:
  assumes None: "running_client r = None"
  shows "runs (trusted rp r) (\<lambda>p. \<forall>q. made_by (pr_client p) q \<longrightarrow> trusted rp r q)
    (connect_entry rp net hs (entry_backup_settings r))"
proof -
  let ?e = "py_str rp (obj_get (entry_backup_settings r) CONF_FINGERPRINT)"
  have "runs (\<lambda>q. fingerprints_match ?e (certificate_fingerprint (rq_pin q)))
      (\<lambda>p. fingerprints_match ?e (certificate_fingerprint (dc_pin (pr_client p))))
      (connect_entry rp net hs (entry_backup_settings r))"
    unfolding connect_entry_def Let_def
    by (rule runs_bind [where Q = "\<lambda>a. True"]) (auto intro!: runs_lift runs_connect)
  then show ?thesis
    by (rule runs_mono) (auto simp: trusted_def None made_by_def)
qed

lemma runs_chosen_client:
  "(\<And>c. (\<forall>q. made_by c q \<longrightarrow> trusted rp r q) \<Longrightarrow> runs (trusted rp r) Q (liftE (Inr (k c)))) \<Longrightarrow>
   (\<And>p. (\<forall>q. made_by (pr_client p) q \<longrightarrow> trusted rp r q) \<Longrightarrow> runs (trusted rp r) Q (liftE (Inr (g p)))) \<Longrightarrow>
   runs (trusted rp r) Q
    (case running_client r of
        Some c \<Rightarrow> liftE (Inr (k c))
      | None \<Rightarrow> bindS (connect_entry rp net hs (entry_backup_settings r)) (\<lambda>p. liftE (Inr (g p))))"
  by (cases "running_client r") (auto simp: trusted_def intro: runs_bind [OF runs_connect_entry])

lemma runs_trusted:
  "\<forall>q. made_by c q \<longrightarrow> trusted rp r q \<Longrightarrow> (\<And>log. keeps (extends (made_by c) log) m) \<Longrightarrow>
   runs (trusted rp r) (\<lambda>a. True) m"
  by (rule runs_mono [OF runs_client]) auto

lemma keeps_backup_time [keeps_intros]: "keeps (extends (made_by c) log) (node_backup_time net c)"
  using keeps_operations(7) [of c log net]
  by (auto simp: keeps_def node_backup_time_def split: prod.splits sum.splits)

lemma keeps_read_back [keeps_intros]: "keeps (extends (made_by c) log) (read_back net c)"
  using keeps_operations(1) [of c log net]
  by (auto simp: keeps_def read_back_def split: prod.splits sum.splits)

lemma runs_fetch:
  "runs (trusted rp r) (\<lambda>b. True)
     (fetch_backup rp net hs now (entry_backup_settings r) nid (running_client r) inc)"
proof -
  have chosen: "runs (trusted rp r) (\<lambda>(c, n). \<forall>q. made_by c q \<longrightarrow> trusted rp r q)
    (case running_client r of Some c \<Rightarrow> liftE (Inr (c, nid))
      | None \<Rightarrow> bindS (connect_entry rp net hs (entry_backup_settings r)) (\<lambda>p. liftE (Inr (pr_client p, Some (pr_node_id p)))))"
    by (rule runs_chosen_client) (auto intro!: runs_lift)
  show ?thesis
    unfolding fetch_backup_def
    apply (rule runs_bind [OF chosen], clarify)
    apply (rule runs_bind [OF runs_trusted [OF _ keeps_operations(5)]], blast, clarify)
    apply (rule runs_bind [OF runs_trusted [OF _ keeps_backup_time]], blast)
    apply (rule runs_lift, rule TrueI)
    done
qed

lemma runs_restore:
  "runs (trusted rp r) (\<lambda>c. \<forall>q. made_by c q \<longrightarrow> trusted rp r q)
     (restore_on_node rp net hs (entry_backup_settings r) secret blob (running_client r))"
proof -
  have chosen: "runs (trusted rp r) (\<lambda>c. \<forall>q. made_by c q \<longrightarrow> trusted rp r q)
    (case running_client r of Some c \<Rightarrow> liftE (Inr c)
      | None \<Rightarrow> bindS (connect_entry rp net hs (entry_backup_settings r)) (\<lambda>p. liftE (Inr (pr_client p))))"
    by (rule runs_chosen_client) (auto intro!: runs_lift)
  show ?thesis
    unfolding restore_on_node_def
    apply (rule runs_bind [OF chosen])
    apply (rule runs_bind [OF runs_trusted [OF _ keeps_operations(6)]], assumption)
    apply (rule runs_lift, simp)
    done
qed

text \<open>Whatever one entry's backup or restore does, it talks to that entry's node only.\<close>

lemma back_up_entry_trusted:
  assumes "back_up_entry rp net hs now runtimes entry_id explicit inc w = (x, w')"
  shows "bw_log w' = bw_log w \<or> (\<exists>r. dict_get runtimes entry_id = Some r \<and> extends (trusted rp r) (bw_log w) (bw_log w'))"
  using assms runsD(1) [OF runs_fetch]
  by (fastforce simp: back_up_entry_def Let_def split: option.splits if_splits prod.splits sum.splits)

lemma restore_entry_trusted:
  assumes "restore_entry rp net hs runtimes entry_id secret blob w = (x, w')"
  shows "bw_log w' = bw_log w \<or> (\<exists>r. dict_get runtimes entry_id = Some r \<and> extends (trusted rp r) (bw_log w) (bw_log w'))"
proof (cases "bw_log w' = bw_log w")
  case False
  then obtain r b y log where r: "dict_get runtimes entry_id = Some r"
    and y: "restore_on_node rp net hs (entry_backup_settings r) secret b (running_client r) (bw_log w) = (y, log)"
    and l: "case y of Inl e \<Rightarrow> bw_log w' = log | Inr c \<Rightarrow> (\<exists>z. read_back net c log = (z, bw_log w'))"
    using assms
    by (auto simp: restore_entry_def Let_def split: option.splits if_splits prod.splits sum.splits)
  have e: "extends (trusted rp r) (bw_log w) log" by (rule runsD(1) [OF runs_restore y])
  have "extends (trusted rp r) (bw_log w) (bw_log w')"
  proof (cases y)
    case (Inl e)
    then show ?thesis using e l by simp
  next
    case (Inr c)
    then obtain z where z: "read_back net c log = (z, bw_log w')" using l by auto
    have "\<forall>q. made_by c q \<longrightarrow> trusted rp r q" using runsD(2) [OF runs_restore] y Inr by blast
    then have "extends (trusted rp r) log (bw_log w')"
      using runsD(1) [OF runs_trusted [OF _ keeps_read_back] z] by blast
    with e show ?thesis by (rule extends_trans)
  qed
  then show ?thesis using r by blast
qed simp

subsection \<open>What a run ends with\<close>

lemma create_backup_Inr:
  assumes "create_backup net c inc log = (Inr (blob, included), log')"
  shows "\<exists>d. response_result (net log (make_request c POST (py ''/backup/create'')
        (if inc then Some (JObj [(py ''include_credentials'', JBool True)]) else None))) = Inr (JObj d)
    \<and> obj_get d (py ''backup'') = JStr blob \<and> blob \<noteq> []
    \<and> included = (obj_get d (py ''includes_credentials'') = JBool True)"
proof -
  let ?rq = "make_request c POST (py ''/backup/create'')
        (if inc then Some (JObj [(py ''include_credentials'', JBool True)]) else None)"
  from assms obtain v b where v: "response_result (net log ?rq) = Inr v" "attr_get v (py ''backup'') = Inr b"
    and b: "(case b of JStr s \<Rightarrow> if s = [] then liftE (Inl DirectProtocolError)
        else bindS (liftE (attr_get v (py ''includes_credentials''))) (\<lambda>i. liftE (Inr (s, i = JBool True)))
      | _ \<Rightarrow> liftE (Inl DirectProtocolError)) (log @ [?rq]) = (Inr (blob, included), log')"
    unfolding create_backup_def bindS_Inr_iff do_request_def Let_def by auto
  from b have s: "b = JStr blob" "blob \<noteq> []" "\<exists>i. attr_get v (py ''includes_credentials'') = Inr i \<and> included = (i = JBool True)"
    by (auto simp: bindS_Inr_iff split: json.splits if_splits)
  then show ?thesis using v by (auto simp: res_simps)
qed

text \<open>A run somebody asked for either stores one backup, as the node answered it, or raises.\<close>

lemma explicit_stores:
  assumes "back_up_entry rp net hs now runtimes entry_id True inc w = (Inr u, w')"
  shows "\<exists>r c log log' b. dict_get runtimes entry_id = Some r
    \<and> create_backup net c (wants_credentials (entry_backup_settings r) inc) log = (Inr (sb_blob b, sb_includes_credentials b), log')
    \<and> bw_store w' = add_backup b (bw_store w)"
proof -
  from assms obtain r b log where r: "dict_get runtimes entry_id = Some r"
    and f: "fetch_backup rp net hs now (entry_backup_settings r) (transport_node_id r) (running_client r)
        (wants_credentials (entry_backup_settings r) inc) (bw_log w) = (Inr b, log)"
    and w: "bw_store w' = add_backup b (bw_store w)"
    by (auto simp: back_up_entry_def Let_def split: option.splits if_splits prod.splits sum.splits)
  from f obtain c nid log1 blob included log2 where
    "create_backup net c (wants_credentials (entry_backup_settings r) inc) log1 = (Inr (blob, included), log2)"
    "sb_blob b = blob" "sb_includes_credentials b = included"
    by (auto simp: fetch_backup_def res_simps split: prod.splits)
  then show ?thesis using r w by blast
qed

text \<open>A scheduled run over nodes that answer sensibly does not raise, for settings a connection can be
  made with: a port that reads as a number, where there is one, and a user name without a colon.\<close>

definition settings_usable :: "(json \<Rightarrow> pystr) \<Rightarrow> runtime \<Rightarrow> bool" where
  "settings_usable rp r = (
     (case dict_get (entry_backup_settings r) CONF_PORT of None \<Rightarrow> True | Some v \<Rightarrow> is_ok (py_int v))
     \<and> basic_auth_accepts (py_str rp (obj_get (entry_backup_settings r) CONF_USERNAME)))"

lemma yields_create:
  "tame_network net \<Longrightarrow> yields (\<lambda>p. True) (create_backup net c inc)"
  unfolding create_backup_def
  apply (rule yields_bind [OF yields_request], assumption)
  apply (rule yields_bind [where Q = "\<lambda>_. True"], rule yields_lift)
    apply (metis Inl_Inr_False attr_get_object)
   apply simp
  apply (auto intro!: yields_lift split: json.splits)
  apply (rule yields_bind [where Q = "\<lambda>_. True"], rule yields_lift)
    apply (metis Inl_Inr_False attr_get_object)
   apply (auto intro!: yields_lift)
  done

lemma yields_time: "tame_network net \<Longrightarrow> yields (\<lambda>v. True) (node_backup_time net c)"
proof -
  assume net: "tame_network net"
  have i: "yields is_object (get_backup_info net c)"
    unfolding get_backup_info_def by (rule yields_request [OF net])
  have "case fst (node_backup_time net c log) of Inl e \<Rightarrow> is_transport_error e | Inr a \<Rightarrow> True" for log
  proof (cases "get_backup_info net c log")
    case (Pair x log')
    then show ?thesis
      using i [unfolded yields_def, rule_format, of log] attr_get_object
      by (cases x) (auto simp: node_backup_time_def is_object_def attr_get_def)
  qed
  then show ?thesis by (simp add: yields_def)
qed

lemma yields_fetch:
  assumes net: "tame_network net" and ok: "running_client r \<noteq> None \<or> settings_usable rp r"
  shows "yields (\<lambda>b. True) (fetch_backup rp net hs now (entry_backup_settings r) nid (running_client r) inc)"
proof -
  have connect: "yields (\<lambda>p. True) (connect_entry rp net hs (entry_backup_settings r))" if "settings_usable rp r"
    unfolding connect_entry_def Let_def
    apply (rule yields_bind [where Q = "\<lambda>_. True"], rule yields_lift)
    using that apply (auto simp: settings_usable_def is_ok_def split: option.splits sum.splits intro!: yields_connect [OF net])
    done
  have chosen: "yields (\<lambda>p. True) (case running_client r of Some c \<Rightarrow> liftE (Inr (c, nid))
      | None \<Rightarrow> bindS (connect_entry rp net hs (entry_backup_settings r)) (\<lambda>p. liftE (Inr (pr_client p, Some (pr_node_id p)))))"
    using ok by (auto split: option.splits intro!: yields_lift yields_bind [OF connect])
  show ?thesis
    unfolding fetch_backup_def
    apply (rule yields_bind [OF chosen], clarify)
    apply (rule yields_bind [OF yields_create [OF net]], clarify)
    apply (rule yields_bind [OF yields_time [OF net]])
    apply (rule yields_lift, simp_all)
    done
qed

lemma scheduled_entry_ok:
  assumes "tame_network net"
    "\<And>r. dict_get runtimes entry_id = Some r \<Longrightarrow> running_client r \<noteq> None \<or> settings_usable rp r"
  shows "fst (back_up_entry rp net hs now runtimes entry_id False inc w) = Inr ()"
proof -
  have "fetch_backup rp net hs now (entry_backup_settings r) nid (running_client r) b log = (Inl e, log')
      \<Longrightarrow> is_transport_error e" if "dict_get runtimes entry_id = Some r" for r nid b log e log'
    using yieldsD [OF yields_fetch [OF assms(1) assms(2) [OF that]]] .
  then show ?thesis
    by (auto simp: back_up_entry_def Let_def split: option.splits prod.splits sum.splits)
qed

lemma each_entry_ok:
  "(\<And>i w. i \<in> set is \<Longrightarrow> fst (f i w) = Inr ()) \<Longrightarrow> fst (each_entry f is w) = Inr ()"
proof (induction "is" arbitrary: w)
  case (Cons i "is")
  obtain x w1 where x: "f i w = (x, w1)" by (cases "f i w")
  then have "x = Inr ()" using Cons.prems [of i w] by simp
  then show ?case using x Cons.IH [of w1] Cons.prems by simp
qed simp

end
