(* ===== verification/Control.thy ===== *)
theory Control imports Backup begin

section \<open>Commands of the household\<close>

text \<open>
  The command helpers of \<open>coordinator.py\<close>, the guest services of \<open>guest.py\<close> and the start of a
  direct entry (\<open>__init__.py\<close>). A \<open>hub\<close> is the coordinator with the transport it was given: the
  poller of a direct entry, which holds the coordinator it feeds, or the MQTT client, if any.
  \<open>hb_key\<close> is the command key provider with what it returns at the time of the call. What is
  outside (the network, the broker, the random source and the clock, the environment of
  ingestion) is a record \<open>outside\<close>.
\<close>

subsection \<open>State\<close>

datatype hub_transport =
    OverDirect "coord poller"
  | OverMqtt "mqtt_client option" coord "publication list"

record hub =
  hb_transport :: hub_transport
  hb_key :: "bytes option option"

record outside =
  ou_envs :: "pystr \<Rightarrow> ingest_env"
  ou_str :: "json \<Rightarrow> pystr"
  ou_net :: network
  ou_pub :: "publication \<Rightarrow> exc option"
  ou_draws :: draw_env

definition hub_coord :: "hub \<Rightarrow> coord" where
  "hub_coord h = (case hb_transport h of OverDirect p \<Rightarrow> po_coordinator p | OverMqtt m c ps \<Rightarrow> c)"

definition is_direct :: "hub \<Rightarrow> bool" where
  "is_direct h = (case hb_transport h of OverDirect p \<Rightarrow> True | OverMqtt m c ps \<Rightarrow> False)"

definition command_key :: "hub \<Rightarrow> bytes option" where
  "command_key h = (case hb_key h of
      None \<Rightarrow> None | Some k \<Rightarrow> (case k of None \<Rightarrow> None | Some b \<Rightarrow> if b = [] then None else Some b))"

definition command_control_enabled :: "hub \<Rightarrow> bool" where
  "command_control_enabled h = (if is_direct h then True else command_key h \<noteq> None)"

definition guest_manageable :: "hub \<Rightarrow> bool" where
  "guest_manageable h = is_direct h"

subsection \<open>Lock commands\<close>

datatype delivered = Reply json | Published authenticated_command

text \<open>One operation of the client, then a poll whose failure is swallowed.\<close>

definition refresh :: "outside \<Rightarrow> coord poller \<Rightarrow> coord poller" where
  "refresh w p = snd (poll_once (sink (ou_envs w)) (ou_str w) (ou_net w) p)"

definition then_refresh :: "outside \<Rightarrow> (client \<Rightarrow> json net_comp) \<Rightarrow> (coord poller, exc, json) comp" where
  "then_refresh w operation p = (case operation (po_client p) (po_log p) of
      (Inl e, log) \<Rightarrow> (Inl e, p\<lparr>po_log := log\<rparr>)
    | (Inr v, log) \<Rightarrow> (Inr v, refresh w (p\<lparr>po_log := log\<rparr>)))"

definition send_direct_command :: "outside \<Rightarrow> pystr \<Rightarrow> (coord poller, exc, json) comp" where
  "send_direct_command w action p =
    (if action \<notin> {py ''lock'', py ''unlock''} then (invalid (UnsupportedAction action), p)
     else then_refresh w (\<lambda>c. direct_lock (ou_net w) c action) p)"

definition send_lock_command :: "outside \<Rightarrow> pystr \<Rightarrow> pystr \<Rightarrow> (hub, exc, delivered) comp" where
  "send_lock_command w node_id action h =
    (case hb_transport h of
       OverDirect p \<Rightarrow>
         (case send_direct_command w action p of
            (r, p') \<Rightarrow> (map_sum id Reply r, h\<lparr>hb_transport := OverDirect p'\<rparr>))
     | OverMqtt m c ps \<Rightarrow>
        (case command_key h of
           None \<Rightarrow> (invalid KeyUnavailable, h)
         | Some key \<Rightarrow>
            (case m of
               None \<Rightarrow> (invalid MqttUnavailable, h)
             | Some client \<Rightarrow>
                (case (if action = py ''lock''
                       then client_lock (ou_pub w) (ou_draws w) client (co_household_id c) node_id key JNull
                       else client_unlock (ou_pub w) (ou_draws w) client (co_household_id c) node_id key JNull) of
                   (r, client', new) \<Rightarrow>
                     (map_sum id Published r, h\<lparr>hb_transport := OverMqtt (Some client') c (ps @ new)\<rparr>)))))"

definition lock_node :: "outside \<Rightarrow> pystr \<Rightarrow> (hub, exc, delivered) comp" where
  "lock_node w node_id = send_lock_command w node_id (py ''lock'')"

definition unlock_node :: "outside \<Rightarrow> pystr \<Rightarrow> (hub, exc, delivered) comp" where
  "unlock_node w node_id = send_lock_command w node_id (py ''unlock'')"

subsection \<open>Guest tags\<close>

definition guest_operation :: "outside \<Rightarrow> (client \<Rightarrow> json net_comp) \<Rightarrow> (hub, exc, json) comp" where
  "guest_operation w operation h = (case hb_transport h of
      OverMqtt m c ps \<Rightarrow> (invalid DirectOnly, h)
    | OverDirect p \<Rightarrow> (case then_refresh w operation p of
        (r, p') \<Rightarrow> (r, h\<lparr>hb_transport := OverDirect p'\<rparr>)))"

text \<open>\<open>int(round(days * GUEST_SECONDS_PER_DAY))\<close>\<close>

definition validity_seconds :: "pyfloat \<Rightarrow> exc + int" where
  "validity_seconds days =
    (let x = float_times days (nat GUEST_SECONDS_PER_DAY) in case float_round x of
        Some i \<Rightarrow> Inr i | None \<Rightarrow> Inl (if x = FNan then ValueError else OverflowError))"

definition set_guest_access :: "outside \<Rightarrow> bool option \<Rightarrow> pyfloat option \<Rightarrow> (hub, exc, json) comp" where
  "set_guest_access w enabled validity_days h =
    (if \<not> is_direct h then (invalid DirectOnly, h)
     else case (case validity_days of
          None \<Rightarrow> Inr None | Some d \<Rightarrow> map_sum id Some (validity_seconds d)) of
        Inl e \<Rightarrow> (Inl e, h)
      | Inr seconds \<Rightarrow> guest_operation w (\<lambda>c. set_guest_config (ou_net w) c enabled seconds) h)"

definition teach_guest_tag :: "outside \<Rightarrow> pystr option \<Rightarrow> json option \<Rightarrow> (hub, exc, json) comp" where
  "teach_guest_tag w label valid_days =
    guest_operation w (\<lambda>c. guest_teach (ou_net w) c label valid_days None None)"

definition revoke_guest_tag :: "outside \<Rightarrow> pystr \<Rightarrow> (hub, exc, json) comp" where
  "revoke_guest_tag w tag_id = guest_operation w (\<lambda>c. guest_revoke (ou_net w) c tag_id)"

definition cancel_guest_write :: "outside \<Rightarrow> (hub, exc, json) comp" where
  "cancel_guest_write w = guest_operation w (\<lambda>c. guest_cancel (ou_net w) c)"

subsection \<open>The guest services\<close>

text \<open>\<open>hass.data\<close>: the hubs by entry id.\<close>

definition hub_for :: "(pystr, hub) dict \<Rightarrow> (pystr \<times> json) list \<Rightarrow> exc + pystr \<times> hub" where
  "hub_for hubs data =
    (let requested = obj_get data (py ''config_entry_id'') in
     if hubs = [] then Inl ServiceValidationError
     else if truthy requested then
       (case requested of
          JStr i \<Rightarrow> (case dict_get hubs i of None \<Rightarrow> Inl ServiceValidationError | Some h \<Rightarrow> Inr (i, h))
        | JList xs \<Rightarrow> Inl TypeError
        | JObj d \<Rightarrow> Inl TypeError
        | _ \<Rightarrow> Inl ServiceValidationError)
     else if 1 < length hubs then Inl ServiceValidationError
     else Inr (hd hubs))"

definition node_id_for :: "hub \<Rightarrow> exc + pystr" where
  "node_id_for h = (case hb_transport h of
      OverMqtt m c ps \<Rightarrow> Inl ServiceValidationError
    | OverDirect p \<Rightarrow> if str_or (po_node_id p) [] = [] then Inl ServiceValidationError
                     else Inr (str_or (po_node_id p) []))"

text \<open>A service: the hub and its node are looked up, then the operation runs; whatever it raises is
  reported to the caller as a \<open>ServiceValidationError\<close>.\<close>

definition guest_service :: "((pystr \<times> json) list \<Rightarrow> exc + (hub, exc, json) comp) \<Rightarrow> (pystr \<times> json) list
    \<Rightarrow> ((pystr, hub) dict, exc, unit) comp" where
  "guest_service operation data hubs =
    (case hub_for hubs data of
       Inl e \<Rightarrow> (Inl e, hubs)
     | Inr (i, h) \<Rightarrow>
        (case bindE (node_id_for h) (\<lambda>n. operation data) of
           Inl e \<Rightarrow> (Inl e, hubs)
         | Inr f \<Rightarrow> (case f h of
             (r, h') \<Rightarrow> (case r of Inl e \<Rightarrow> Inl ServiceValidationError | Inr v \<Rightarrow> Inr (), dict_set hubs i h'))))"

text \<open>\<open>str(data.get(k) or "").strip()\<close>\<close>

definition stripped_text :: "outside \<Rightarrow> (pystr \<times> json) list \<Rightarrow> pystr \<Rightarrow> pystr" where
  "stripped_text w data k = py_strip (py_str (ou_str w) (json_or (obj_get data k) (JStr [])))"

text \<open>\<open>float(v)\<close>; of the strings, those of a JSON number with surrounding space.\<close>

definition py_float :: "json \<Rightarrow> exc + pyfloat" where
  "py_float v = (case v of
      JFloat x \<Rightarrow> Inr x
    | JInt i \<Rightarrow> (case float_of_int i of Some x \<Rightarrow> Inr x | None \<Rightarrow> Inl OverflowError)
    | JBool b \<Rightarrow> (case float_of_int (of_bool b) of Some x \<Rightarrow> Inr x | None \<Rightarrow> Inl OverflowError)
    | JStr s \<Rightarrow> (case parse_number (py_strip s) of
        Some (JFloat x, []) \<Rightarrow> Inr x
      | Some (JInt i, []) \<Rightarrow> (case float_of_int i of Some x \<Rightarrow> Inr x | None \<Rightarrow> Inl OverflowError)
      | _ \<Rightarrow> Inl ValueError)
    | _ \<Rightarrow> Inl TypeError)"

definition service_teach :: "outside \<Rightarrow> (pystr \<times> json) list \<Rightarrow> ((pystr, hub) dict, exc, unit) comp" where
  "service_teach w = guest_service (\<lambda>data.
     let label = stripped_text w data (py ''label''); raw_days = obj_get data (py ''valid_days'') in
     bindE (if raw_days = JNull then Inr None else map_sum id (\<lambda>x. Some (JFloat x)) (py_float raw_days))
       (\<lambda>valid_days. Inr (teach_guest_tag w (if label = [] then None else Some label) valid_days)))"

definition service_revoke :: "outside \<Rightarrow> (pystr \<times> json) list \<Rightarrow> ((pystr, hub) dict, exc, unit) comp" where
  "service_revoke w = guest_service (\<lambda>data.
     let tag_id = stripped_text w data (py ''tag_id'') in
     if tag_id = [] then Inl ServiceValidationError else Inr (revoke_guest_tag w tag_id))"

definition service_cancel :: "outside \<Rightarrow> (pystr \<times> json) list \<Rightarrow> ((pystr, hub) dict, exc, unit) comp" where
  "service_cancel w = guest_service (\<lambda>data. Inr (cancel_guest_write w))"

subsection \<open>Commands over MQTT\<close>

lemma send_over_mqtt:
  assumes "hb_transport h = OverMqtt (Some client) c ps"
    "send_lock_command w node_id action h = (r, h')"
  obtains (refused) "r = invalid KeyUnavailable" "h' = h" "command_key h = None"
  | (sent) key q client' new where "command_key h = Some key"
      "publish_authenticated_command (ou_pub w) (ou_draws w) client (co_household_id c) node_id key
         (if action = ACTION_LOCK then ACTION_LOCK else ACTION_UNLOCK) JNull = (q, client', new)"
      "r = map_sum id Published q" "h' = h\<lparr>hb_transport := OverMqtt (Some client') c (ps @ new)\<rparr>"
  using assms
  by (auto simp: send_lock_command_def client_lock_def [folded ACTION_LOCK_def]
      client_unlock_def [folded ACTION_UNLOCK_def] lock_word
      split: option.splits prod.splits if_splits)

end
