(* ===== verification/Credential.thy ===== *)
theory Credential imports Command Persistence begin

section \<open>The store of command keys\<close>

text \<open>
  \<open>credential.py\<close>: derived keys, one per household, cached in memory and persisted by Home
  Assistant's \<open>Store\<close>. The document last saved is \<open>ks_disk\<close> (\<open>JNull\<close>: none yet), which is
  what the \<open>Store\<close> returns when it loads. \<open>load_keys\<close> returns its outcome and the store it
  reached: an exception in the middle leaves the entries already read.
\<close>

record credential =
  cr_key :: bytes
  cr_salt :: "pystr option"
  cr_fingerprint :: "pystr option"

text \<open>The constructor with \<open>__post_init__\<close>.\<close>

definition make_credential :: "bytes \<Rightarrow> pystr option \<Rightarrow> pystr option \<Rightarrow> exc + credential" where
  "make_credential key salt fp =
    (if key = [] then invalid KeyEmpty
     else Inr \<lparr>cr_key = key, cr_salt = salt, cr_fingerprint = fp\<rparr>)"

definition command_key_hex :: "credential \<Rightarrow> pystr" where
  "command_key_hex c = bytes_hex (cr_key c)"

definition key_fingerprint :: "bytes \<Rightarrow> pystr" where
  "key_fingerprint key = take 8 (bytes_hex (sha256 key))"

record key_store =
  ks_disk :: json
  ks_cache :: "(pystr, credential) dict"
  ks_loaded :: bool

definition new_key_store :: "json \<Rightarrow> key_store" where
  "new_key_store disk = \<lparr>ks_disk = disk, ks_cache = [], ks_loaded = False\<rparr>"

text \<open>One stored entry: skipped (\<open>Inr None\<close>) when malformed.\<close>

definition load_entry :: "json \<Rightarrow> exc + credential option" where
  "load_entry payload = (case payload of
      JObj d \<Rightarrow>
        (case obj_get d (py ''key'') of
           JStr key_hex \<Rightarrow>
             if key_hex = [] then Inr None
             else (case bytes_fromhex key_hex of
                 None \<Rightarrow> Inr None
               | Some key \<Rightarrow>
                  bindE (make_credential key
                      (case obj_get d (py ''salt'') of JStr s \<Rightarrow> Some s | _ \<Rightarrow> None)
                      (Some (key_fingerprint key))) (\<lambda>c. Inr (Some c)))
         | _ \<Rightarrow> Inr None)
    | _ \<Rightarrow> Inr None)"

fun load_entries :: "(pystr \<times> json) list \<Rightarrow> (pystr, credential) dict
    \<Rightarrow> (exc + unit) \<times> (pystr, credential) dict" where
  "load_entries [] cache = (Inr (), cache)"
| "load_entries ((h, payload) # es) cache =
    (case load_entry payload of
       Inl e \<Rightarrow> (Inl e, cache)
     | Inr None \<Rightarrow> load_entries es cache
     | Inr (Some c) \<Rightarrow> load_entries es (dict_set cache h c))"

definition stored_households :: "json \<Rightarrow> exc + (pystr \<times> json) list" where
  "stored_households raw =
    (if \<not> truthy raw then Inr []
     else case raw of
       JObj d \<Rightarrow> (case dict_get d (py ''households'') of Some (JObj es) \<Rightarrow> Inr es | _ \<Rightarrow> Inr [])
     | _ \<Rightarrow> Inl AttributeError)"

definition load_keys :: "key_store \<Rightarrow> (exc + unit) \<times> key_store" where
  "load_keys s =
    (if ks_loaded s then (Inr (), s)
     else case stored_households (ks_disk s) of
       Inl e \<Rightarrow> (Inl e, s)
     | Inr es \<Rightarrow>
        (case load_entries es (ks_cache s) of
           (Inl e, cache) \<Rightarrow> (Inl e, s\<lparr>ks_cache := cache\<rparr>)
         | (Inr u, cache) \<Rightarrow> (Inr (), s\<lparr>ks_cache := cache, ks_loaded := True\<rparr>)))"

definition get_key :: "key_store \<Rightarrow> pystr \<Rightarrow> credential option" where
  "get_key s h = dict_get (ks_cache s) h"

definition credential_entry :: "credential \<Rightarrow> json" where
  "credential_entry c = JObj ([(py ''key'', JStr (command_key_hex c))]
     @ (case cr_salt c of Some t \<Rightarrow> [(py ''salt'', JStr t)] | None \<Rightarrow> [])
     @ [(py ''fingerprint'', case cr_fingerprint c of Some f \<Rightarrow> JStr f | None \<Rightarrow> JNull)])"

definition save_keys :: "key_store \<Rightarrow> key_store" where
  "save_keys s = s\<lparr>ks_disk := JObj [(py ''households'',
     JObj (map (\<lambda>(h, c). (h, credential_entry c)) (ks_cache s)))]\<rparr>"

definition set_key :: "pystr \<Rightarrow> bytes \<Rightarrow> pystr option \<Rightarrow> key_store \<Rightarrow> (exc + credential) \<times> key_store" where
  "set_key h key salt s =
    (case make_credential key salt (Some (key_fingerprint key)) of
       Inl e \<Rightarrow> (Inl e, s)
     | Inr c \<Rightarrow> (Inr c, save_keys (s\<lparr>ks_cache := dict_set (ks_cache s) h c\<rparr>)))"

definition set_key_from_secret :: "pystr \<Rightarrow> pystr \<Rightarrow> pystr option \<Rightarrow> key_store
    \<Rightarrow> (exc + credential) \<times> key_store" where
  "set_key_from_secret h recovery_secret salt s =
    (case derive_command_key (KStr recovery_secret) (KStr (str_or salt [])) of
       Inl e \<Rightarrow> (Inl e, s)
     | Inr key \<Rightarrow> set_key h key salt s)"

definition remove_key :: "pystr \<Rightarrow> key_store \<Rightarrow> key_store" where
  "remove_key h s =
    (case dict_get (ks_cache s) h of
       None \<Rightarrow> s
     | Some c \<Rightarrow> save_keys (s\<lparr>ks_cache := dict_del (ks_cache s) h\<rparr>))"

subsection \<open>What is loaded is what was saved\<close>

text \<open>The credentials the store makes: a key, and the fingerprint of that key.\<close>

definition credential_ok :: "credential \<Rightarrow> bool" where
  "credential_ok c = (cr_key c \<noteq> [] \<and> cr_fingerprint c = Some (key_fingerprint (cr_key c)))"

definition cache_ok :: "(pystr, credential) dict \<Rightarrow> bool" where
  "cache_ok d = (dict_ok d \<and> list_all (\<lambda>p. credential_ok (snd p)) d)"

lemma load_credential_entry: "credential_ok c \<Longrightarrow> load_entry (credential_entry c) = Inr (Some c)"
  by (cases c; cases "cr_salt c")
    (auto simp: load_entry_def credential_entry_def command_key_hex_def make_credential_def credential_ok_def)

lemma load_saved_entries:
  "list_all (\<lambda>p. credential_ok (snd p)) es \<Longrightarrow>
   load_entries (map (\<lambda>(h, c). (h, credential_entry c)) es) cache = (Inr (), dict_update cache es)"
  by (induction es arbitrary: cache) (auto simp: load_credential_entry split: prod.splits)

lemma save_keys_fields [simp]:
  "ks_cache (save_keys s) = ks_cache s" "ks_loaded (save_keys s) = ks_loaded s"
  by (simp_all add: save_keys_def)

lemma load_after_save:
  assumes "cache_ok (ks_cache s)"
  shows "load_keys (new_key_store (ks_disk (save_keys s)))
    = (Inr (), \<lparr>ks_disk = ks_disk (save_keys s), ks_cache = ks_cache s, ks_loaded = True\<rparr>)"
  using assms load_saved_entries [of "ks_cache s" "[]"] dict_update_Nil_ok [of "[]" "ks_cache s"]
  by (simp add: load_keys_def new_key_store_def stored_households_def save_keys_def cache_ok_def)

lemma cache_ok_set:
  "cache_ok d \<Longrightarrow> credential_ok c \<Longrightarrow> cache_ok (dict_set d h c)"
  by (auto simp: cache_ok_def intro: list_all_dict_set)

lemma cache_ok_del: "cache_ok d \<Longrightarrow> cache_ok (dict_del d h)"
  by (auto simp: cache_ok_def intro: list_all_dict_del)

lemma set_key_ok:
  assumes "cache_ok (ks_cache s)" "set_key h key salt s = (Inr c, s')"
  shows "credential_ok c" "cr_key c = key" "cache_ok (ks_cache s')" "get_key s' h = Some c"
    "s' = save_keys s'" "\<And>k. k \<noteq> h \<Longrightarrow> get_key s' k = get_key s k"
proof -
  have c: "c = \<lparr>cr_key = key, cr_salt = salt, cr_fingerprint = Some (key_fingerprint key)\<rparr>"
    and s': "s' = save_keys (s\<lparr>ks_cache := dict_set (ks_cache s) h c\<rparr>)" and k: "key \<noteq> []"
    using assms(2) by (auto simp: set_key_def make_credential_def split: if_splits)
  show ok: "credential_ok c" and "cr_key c = key" using c k by (simp_all add: credential_ok_def)
  show "cache_ok (ks_cache s')" using cache_ok_set [OF assms(1) ok] s' by simp
  show "get_key s' h = Some c" "\<And>k. k \<noteq> h \<Longrightarrow> get_key s' k = get_key s k"
    using s' by (simp_all add: get_key_def)
  show "s' = save_keys s'" using s' by (simp add: save_keys_def)
qed

subsection \<open>The history of a store\<close>

datatype key_operation = StoreKey pystr bytes "pystr option" | RemoveKey pystr

fun perform_key :: "key_operation \<Rightarrow> key_store \<Rightarrow> key_store" where
  "perform_key (StoreKey h key salt) s = snd (set_key h key salt s)"
| "perform_key (RemoveKey h) s = remove_key h s"

text \<open>A restart: a new store over the document last saved.\<close>

definition restart_keys :: "key_store \<Rightarrow> key_store" where
  "restart_keys s = snd (load_keys (new_key_store (ks_disk s)))"

definition keys_saved :: "key_store \<Rightarrow> bool" where
  "keys_saved s = (cache_ok (ks_cache s)
     \<and> (ks_disk s = ks_disk (save_keys s) \<or> ks_disk s = JNull \<and> ks_cache s = []))"

text \<open>The abstract store: a map, which an operation updates at its household.\<close>

fun key_spec :: "key_operation \<Rightarrow> (pystr \<Rightarrow> credential option) \<Rightarrow> pystr \<Rightarrow> credential option" where
  "key_spec (StoreKey h key salt) m = (if key = [] then m
     else m(h \<mapsto> \<lparr>cr_key = key, cr_salt = salt, cr_fingerprint = Some (key_fingerprint key)\<rparr>))"
| "key_spec (RemoveKey h) m = m(h := None)"

lemma perform_key_refines: "get_key (perform_key x s) = key_spec x (get_key s)"
  by (cases x) (auto simp: fun_eq_iff set_key_def make_credential_def remove_key_def get_key_def split: option.splits)

lemma perform_keys_refine: "get_key (fold perform_key xs s) = fold key_spec xs (get_key s)"
  by (induction xs arbitrary: s) (simp_all add: perform_key_refines)

lemma restart_saved:
  assumes "keys_saved s"
  shows "load_keys (new_key_store (ks_disk s)) = (Inr (), \<lparr>ks_disk = ks_disk s, ks_cache = ks_cache s, ks_loaded = True\<rparr>)"
proof (cases "ks_disk s = ks_disk (save_keys s)")
  case True
  show ?thesis unfolding True by (rule load_after_save) (use assms in \<open>simp add: keys_saved_def\<close>)
next
  case False
  then have "ks_disk s = JNull" "ks_cache s = []" using assms by (simp_all add: keys_saved_def)
  then show ?thesis by (simp add: load_keys_def new_key_store_def stored_households_def)
qed

lemma save_keys_idem: "ks_disk (save_keys (s\<lparr>ks_loaded := b\<rparr>)) = ks_disk (save_keys s)"
  "ks_disk (save_keys \<lparr>ks_disk = d, ks_cache = ks_cache s, ks_loaded = b\<rparr>) = ks_disk (save_keys s)"
  by (simp_all add: save_keys_def)

interpretation key_persistence: persistent_store perform_key restart_keys ks_cache keys_saved "\<lambda>x. True"
proof
  fix s :: key_store and x :: key_operation
  assume s: "keys_saved s"
  show "keys_saved (perform_key x s)"
  proof (cases x)
    case (StoreKey h key salt)
    obtain r s' where r: "set_key h key salt s = (r, s')" by (rule prod.exhaust)
    have "keys_saved s'"
    proof (cases r)
      case (Inl x)
      then show ?thesis using r s by (auto simp: set_key_def split: sum.splits)
    next
      case (Inr c)
      have c: "cache_ok (ks_cache s)" using s by (simp add: keys_saved_def)
      note ok = set_key_ok [OF c r [unfolded Inr]]
      have "ks_disk s' = ks_disk (save_keys s')" by (rule arg_cong [OF ok(5)])
      then show ?thesis using ok(3) unfolding keys_saved_def by blast
    qed
    then show ?thesis using StoreKey r by simp
  next
    case (RemoveKey h)
    then show ?thesis
      using s cache_ok_del [of "ks_cache s" h]
      by (auto simp: keys_saved_def remove_key_def save_keys_def split: option.splits)
  qed
  show "keys_saved (restart_keys s)" "ks_cache (restart_keys s) = ks_cache s"
    using s by (simp_all add: restart_keys_def restart_saved keys_saved_def save_keys_idem)
next
  fix s t :: key_store and x :: key_operation
  assume "ks_cache s = ks_cache t"
  then show "ks_cache (perform_key x s) = ks_cache (perform_key x t)"
    by (cases x) (auto simp: set_key_def make_credential_def remove_key_def split: option.splits)
qed

lemma new_store_saved: "keys_saved (new_key_store JNull)"
  by (simp add: keys_saved_def new_key_store_def cache_ok_def)

end
