(* ===== verification/Setup.thy ===== *)
theory Setup imports Control Credential begin

section \<open>The life of a config entry\<close>

text \<open>
  \<open>__init__.py\<close>, with the start-up and reload helpers of \<open>coordinator.py\<close>. An entry's data and
  options are a record: each key the code reads, at the type it is annotated with, \<open>None\<close> where
  the key is absent; \<open>ce_raw\<close> is the data and the options as they stand, which the backups read. What Home Assistant keeps is passed in: the document of the key store, the
  pooled nodes of the household, whether the platforms unload. The publications that the broker
  delivers while the entry waits for its first nodes are a list.
\<close>

subsection \<open>State\<close>

record config_entry =
  ce_household_id :: "pystr option"
  ce_household_name :: "pystr option"
  ce_transport :: "pystr option"
  ce_command_control :: "bool option"
  ce_host :: "pystr option"
  ce_port :: "json option"
  ce_fingerprint :: "pystr option"
  ce_username :: "pystr option"
  ce_password :: "pystr option"
  ce_opt_legacy_prefix :: "pystr option option"
  ce_opt_command_control :: "bool option"
  ce_raw :: "(pystr \<times> json) list \<times> (pystr \<times> json) list"

record homekey_runtime =
  hr_hub :: hub
  hr_key_store :: key_store
  hr_transport_kind :: pystr

text \<open>\<open>d[k]\<close>\<close>

definition required :: "'a option \<Rightarrow> exc + 'a" where
  "required v = (case v of None \<Rightarrow> Inl KeyError | Some x \<Rightarrow> Inr x)"

definition stored_key :: "key_store \<Rightarrow> pystr \<Rightarrow> bytes option" where
  "stored_key s household_id = map_option cr_key (get_key s household_id)"

definition runtime_command_key :: "homekey_runtime \<Rightarrow> bytes option" where
  "runtime_command_key r = stored_key (hr_key_store r) (co_household_id (hub_coord (hr_hub r)))"

subsection \<open>Starting a direct entry\<close>

text \<open>The \<open>except\<close> clauses, in their order.\<close>

definition setup_error :: "exc \<Rightarrow> exc" where
  "setup_error e = (case e of
      DirectAuthError \<Rightarrow> ConfigEntryAuthFailed
    | DirectFingerprintMismatch a b \<Rightarrow> ConfigEntryError
    | DirectNoHouseholdError \<Rightarrow> ConfigEntryError
    | DirectProtocolError \<Rightarrow> ConfigEntryError
    | _ \<Rightarrow> if is_transport_error e then ConfigEntryNotReady else e)"

definition or_empty :: "pystr option \<Rightarrow> pystr" where
  "or_empty v = (case v of None \<Rightarrow> [] | Some s \<Rightarrow> s)"

definition connect_direct :: "outside \<Rightarrow> (pystr \<Rightarrow> int \<Rightarrow> handshake) \<Rightarrow> config_entry \<Rightarrow> probe net_comp" where
  "connect_direct w hs e =
    bindS (liftE (required (ce_host e))) (\<lambda>host.
    bindS (liftE (case ce_port e of None \<Rightarrow> Inr DEFAULT_HTTPS_PORT | Some v \<Rightarrow> py_int v)) (\<lambda>port.
    bindS (liftE (required (ce_fingerprint e))) (\<lambda>fingerprint.
    \<lambda>log. case connect_node (ou_str w) (ou_net w) (hs host port) host port fingerprint
                (or_empty (ce_username e)) (or_empty (ce_password e)) log of
        (Inl x, log') \<Rightarrow> (Inl (setup_error x), log')
      | (Inr p, log') \<Rightarrow> (Inr p, log'))))"

definition start_direct :: "outside \<Rightarrow> (pystr \<Rightarrow> int \<Rightarrow> handshake) \<Rightarrow> config_entry \<Rightarrow> coord
    \<Rightarrow> coord poller net_comp" where
  "start_direct w hs e c = bindS (connect_direct w hs e) (\<lambda>probe.
     if pr_household_id probe \<noteq> co_household_id c then liftE (Inl ConfigEntryError)
     else (\<lambda>log. case poll_safely (sink (ou_envs w)) (ou_str w) (ou_net w)
              ((new_poller (pr_client probe) (co_household_id c) c)\<lparr>po_log := log\<rparr>) of
         (Inl x, p) \<Rightarrow> (Inl x, po_log p)
       | (Inr u, p) \<Rightarrow> (Inr p, po_log p)))"

subsection \<open>Starting an MQTT entry\<close>

text \<open>The wait ends with the first update that leaves a node, or when nothing more arrives in time;
  what arrives later is not read here.\<close>

fun wait_for_initial_nodes :: "(publication \<Rightarrow> coord \<Rightarrow> coord) \<Rightarrow> publication list \<Rightarrow> coord \<Rightarrow> coord" where
  "wait_for_initial_nodes receive [] c = c"
| "wait_for_initial_nodes receive (p # ps) c =
    (let c' = receive p c
     in if co_nodes c' \<noteq> [] \<and> length (co_delivered c) < length (co_delivered c') then c'
        else wait_for_initial_nodes receive ps c')"

definition async_wait_for_initial_nodes ::
  "(publication \<Rightarrow> coord \<Rightarrow> coord) \<Rightarrow> publication list \<Rightarrow> coord \<Rightarrow> bool \<times> coord" where
  "async_wait_for_initial_nodes receive arriving c =
    (if co_nodes c \<noteq> [] then (True, c)
     else let c' = wait_for_initial_nodes receive arriving c in (co_nodes c' \<noteq> [], c'))"

definition start_mqtt :: "outside \<Rightarrow> (pystr \<Rightarrow> exc option) \<Rightarrow> publication list \<Rightarrow> pystr option
    \<Rightarrow> coord \<Rightarrow> exc + hub_transport" where
  "start_mqtt w subscribe arriving legacy_prefix c =
    (case client_start subscribe (new_mqtt_client (co_household_id c) legacy_prefix) of
       (Inl x, client) \<Rightarrow> Inl x
     | (Inr u, client) \<Rightarrow> Inr (OverMqtt (Some client)
         (snd (async_wait_for_initial_nodes (broker_receive (ou_envs w) client) arriving c)) []))"

subsection \<open>Setting an entry up and unloading it\<close>

definition transport_kind :: "config_entry \<Rightarrow> pystr" where
  "transport_kind e = (case ce_transport e of None \<Rightarrow> TRANSPORT_MQTT | Some t \<Rightarrow> t)"

definition legacy_prefix_of :: "config_entry \<Rightarrow> pystr option" where
  "legacy_prefix_of e = (case ce_opt_legacy_prefix e of
      None \<Rightarrow> Some DEFAULT_LEGACY_CLIENT_ID_PREFIX | Some p \<Rightarrow> p)"

definition command_control_of :: "config_entry \<Rightarrow> bool" where
  "command_control_of e = (case ce_opt_command_control e of
      Some b \<Rightarrow> b
    | None \<Rightarrow> (case ce_command_control e of Some b \<Rightarrow> b | None \<Rightarrow> DEFAULT_COMMAND_CONTROL))"

text \<open>The coordinator's key provider is a closure over the store, which is not written once it is
  loaded: what it returns is read here.\<close>

definition key_provider :: "config_entry \<Rightarrow> key_store \<Rightarrow> pystr \<Rightarrow> bytes option option" where
  "key_provider e s household_id =
    (if command_control_of e \<and> transport_kind e \<noteq> TRANSPORT_DIRECT
     then Some (stored_key s household_id) else None)"

definition start_transport :: "outside \<Rightarrow> (pystr \<Rightarrow> int \<Rightarrow> handshake) \<Rightarrow> (pystr \<Rightarrow> exc option)
    \<Rightarrow> publication list \<Rightarrow> config_entry \<Rightarrow> coord \<Rightarrow> hub_transport net_comp" where
  "start_transport w hs subscribe arriving e c =
    (if transport_kind e = TRANSPORT_DIRECT
     then bindS (start_direct w hs e c) (\<lambda>p. liftE (Inr (OverDirect p)))
     else liftE (start_mqtt w subscribe arriving (legacy_prefix_of e) c))"

text \<open>The recurring poll is started last.\<close>

definition schedule_transport :: "hub_transport \<Rightarrow> hub_transport" where
  "schedule_transport t = (case t of
      OverDirect p \<Rightarrow> OverDirect (poller_start p) | OverMqtt m c ps \<Rightarrow> OverMqtt m c ps)"

definition setup_entry :: "outside \<Rightarrow> (pystr \<Rightarrow> int \<Rightarrow> handshake) \<Rightarrow> (pystr \<Rightarrow> exc option)
    \<Rightarrow> publication list \<Rightarrow> json \<Rightarrow> (pystr, node) dict option \<Rightarrow> config_entry
    \<Rightarrow> homekey_runtime net_comp" where
  "setup_entry w hs subscribe arriving key_document pool e =
    bindS (liftE (required (ce_household_id e))) (\<lambda>household_id.
    case load_keys (new_key_store key_document) of
      (Inl x, s) \<Rightarrow> liftE (Inl x)
    | (Inr u, s) \<Rightarrow>
       bindS (start_transport w hs subscribe arriving e (new_coord household_id pool)) (\<lambda>t.
         liftE (Inr \<lparr>hr_hub = \<lparr>hb_transport = schedule_transport t,
                               hb_key = key_provider e s household_id\<rparr>,
           hr_key_store = s, hr_transport_kind = transport_kind e\<rparr>)))"

text \<open>The runtime's part of unloading: the pool dropped, then the transport stopped.\<close>

definition stop_transport :: "hub_transport \<Rightarrow> hub_transport" where
  "stop_transport t = (case t of
      OverDirect p \<Rightarrow> OverDirect (poller_stop (p\<lparr>po_coordinator := drop_pooled_state (po_coordinator p)\<rparr>))
    | OverMqtt m c ps \<Rightarrow> OverMqtt (map_option client_stop m) (drop_pooled_state c) ps)"

definition stop_runtime :: "homekey_runtime \<Rightarrow> homekey_runtime" where
  "stop_runtime r = r\<lparr>hr_hub := (hr_hub r)\<lparr>hb_transport := stop_transport (hb_transport (hr_hub r))\<rparr>\<rparr>"

definition unload_entry :: "bool \<Rightarrow> pystr \<Rightarrow> (pystr, homekey_runtime) dict
    \<Rightarrow> bool \<times> homekey_runtime option \<times> (pystr, homekey_runtime) dict" where
  "unload_entry platforms_unload entry_id runtimes =
    (platforms_unload, map_option stop_runtime (dict_get runtimes entry_id), dict_del runtimes entry_id)"

definition entry_title :: "config_entry \<Rightarrow> pystr" where
  "entry_title e = (if or_empty (ce_household_name e) \<noteq> [] then or_empty (ce_household_name e)
     else case ce_household_id e of Some h \<Rightarrow> h | None \<Rightarrow> DOMAIN)"

subsection \<open>The debounced reload\<close>

text \<open>\<open>rl_started\<close> counts the reloads asked of Home Assistant.\<close>

record reload_state =
  rl_paused :: bool
  rl_pending :: bool
  rl_handle :: bool
  rl_stopping :: bool
  rl_started :: nat

definition new_reload_state :: reload_state where
  "new_reload_state = \<lparr>rl_paused = False, rl_pending = False, rl_handle = False,
     rl_stopping = False, rl_started = 0\<rparr>"

definition pause_discovery_reload :: "reload_state \<Rightarrow> reload_state" where
  "pause_discovery_reload r = r\<lparr>rl_paused := True\<rparr>"

definition resume_discovery_reload :: "reload_state \<Rightarrow> reload_state" where
  "resume_discovery_reload r = r\<lparr>rl_paused := False\<rparr>"

definition schedule_reload :: "reload_state \<Rightarrow> reload_state" where
  "schedule_reload r = (if rl_paused r \<or> rl_pending r then r
     else r\<lparr>rl_pending := True, rl_handle := True\<rparr>)"

definition cancel_pending_reload :: "reload_state \<Rightarrow> reload_state" where
  "cancel_pending_reload r = r\<lparr>rl_pending := False, rl_handle := False\<rparr>"

text \<open>The timer's callback.\<close>

definition reload_due :: "reload_state \<Rightarrow> reload_state" where
  "reload_due r = (let r' = r\<lparr>rl_handle := False, rl_pending := False\<rparr>
     in if rl_stopping r then r' else r'\<lparr>rl_started := rl_started r + 1\<rparr>)"

inductive reload_step :: "reload_state \<Rightarrow> reload_state \<Rightarrow> bool" where
  pause: "reload_step r (pause_discovery_reload r)"
| resume: "reload_step r (resume_discovery_reload r)"
| schedule: "reload_step r (schedule_reload r)"
| cancel: "reload_step r (cancel_pending_reload r)"
| stopping: "reload_step r (r\<lparr>rl_stopping := True\<rparr>)"
| due: "rl_handle r \<Longrightarrow> reload_step r (reload_due r)"

subsection \<open>What starting a direct entry establishes\<close>

lemma setup_error_kind: "is_transport_error x \<Longrightarrow>
    setup_error x \<in> {ConfigEntryAuthFailed, ConfigEntryError, ConfigEntryNotReady}"
  by (cases x) (simp_all add: setup_error_def is_transport_error_def)

lemma keeps_read_node: "keeps (extends (made_by c) log) (read_node rp net c)"
  unfolding read_node_def by (auto intro!: keeps_intros split: prod.splits)

lemma poll_once_log: "extends (made_by (po_client p)) (po_log p) (po_log (snd (poll_once i rp net p)))"
proof -
  obtain r log where r: "read_node rp net (po_client p) (po_log p) = (r, log)" by (rule prod.exhaust)
  have e: "extends (made_by (po_client p)) (po_log p) log"
    by (rule only_pinned [OF keeps_read_node r])
  obtain g log' where g: "get_guest net (po_client p) log = (g, log')" by (rule prod.exhaust)
  have "extends (made_by (po_client p)) log log'" by (rule only_pinned [OF keeps_guest g])
  with e have "extends (made_by (po_client p)) (po_log p) log'" by (rule extends_trans)
  with e r g show ?thesis
    by (auto simp: poll_once_def Let_def poll_guest_def split: prod.splits sum.splits)
qed

lemma poll_safely_log:
  "extends (made_by (po_client p)) (po_log p) (po_log (snd (poll_safely i rp net p)))"
  "po_client (snd (poll_safely i rp net p)) = po_client p"
  "po_household_id (snd (poll_safely i rp net p)) = po_household_id p"
  using poll_once_log [of p i rp net]
  by (auto simp: poll_safely_def poll_once_def Let_def split: prod.splits sum.splits)

definition pinned_by :: "config_entry \<Rightarrow> request \<Rightarrow> bool" where
  "pinned_by e q = (\<exists>f. ce_fingerprint e = Some f \<and> fingerprints_match f (certificate_fingerprint (rq_pin q)))"

lemma runs_catch:
  "runs P Q m \<Longrightarrow> runs P Q (\<lambda>log. case m log of (Inl x, l) \<Rightarrow> (Inl (f x), l) | (Inr p, l) \<Rightarrow> (Inr p, l))"
  unfolding runs_def by (auto split: prod.splits sum.splits)

lemma runs_connect_direct:
  "runs (pinned_by e) (\<lambda>p. \<forall>q. made_by (pr_client p) q \<longrightarrow> pinned_by e q) (connect_direct w hs e)"
proof -
  have connect: "runs (pinned_by e) (\<lambda>p. \<forall>q. made_by (pr_client p) q \<longrightarrow> pinned_by e q)
      (connect_node rp net h host port f user pw)" if "ce_fingerprint e = Some f" for rp net h host port f user pw
    by (rule runs_mono [OF runs_connect [where expected = f]]) (auto simp: pinned_by_def made_by_def that)
  show ?thesis
    unfolding connect_direct_def
    apply (rule runs_bind [where Q = "\<lambda>_. True"], rule runs_lift, simp)
    apply (rule runs_bind [where Q = "\<lambda>_. True"], rule runs_lift, simp)
    apply (rule runs_bind [where Q = "\<lambda>f. ce_fingerprint e = Some f"], rule runs_lift)
     apply (simp add: required_def split: option.splits)
    apply (rule runs_catch, rule connect, assumption)
    done
qed

lemma runs_start_direct:
  "runs (pinned_by e) (\<lambda>p. (\<forall>q. made_by (po_client p) q \<longrightarrow> pinned_by e q)
      \<and> po_household_id p = co_household_id c) (start_direct w hs e c)"
  unfolding start_direct_def
proof (rule runs_bind [OF runs_connect_direct])
  fix probe
  assume made: "\<forall>q. made_by (pr_client probe) q \<longrightarrow> pinned_by e q"
  let ?new = "\<lambda>log. (new_poller (pr_client probe) (co_household_id c) c)\<lparr>po_log := log\<rparr>"
  let ?poll = "\<lambda>log. poll_safely (sink (ou_envs w)) (ou_str w) (ou_net w) (?new log)"
  have log: "extends (pinned_by e) log (po_log (snd (?poll log)))" for log
    using extends_mono [OF poll_safely_log(1) [of "?new log" "sink (ou_envs w)" "ou_str w" "ou_net w"], of "pinned_by e"] made
    by (simp add: new_poller_def)
  have kept: "po_client (snd (?poll log)) = pr_client probe" "po_household_id (snd (?poll log)) = co_household_id c" for log
    by (simp_all add: poll_safely_log new_poller_def)
  have "runs (pinned_by e) (\<lambda>p. (\<forall>q. made_by (po_client p) q \<longrightarrow> pinned_by e q)
      \<and> po_household_id p = co_household_id c)
    (\<lambda>log. case ?poll log of (Inl x, p) \<Rightarrow> (Inl x, po_log p) | (Inr u, p) \<Rightarrow> (Inr p, po_log p))"
    unfolding runs_def
  proof (intro allI impI)
    fix l r l'
    assume r: "(case ?poll l of (Inl x, p) \<Rightarrow> (Inl x, po_log p) | (Inr u, p) \<Rightarrow> (Inr p, po_log p)) = (r, l')"
    obtain a p where p: "?poll l = (a, p)" by (rule prod.exhaust)
    have "l' = po_log p" "r = Inr b \<longrightarrow> b = p" for b using r p by (auto split: sum.splits)
    then show "extends (pinned_by e) l l' \<and> (\<forall>b. r = Inr b \<longrightarrow> (\<forall>q. made_by (po_client b) q \<longrightarrow> pinned_by e q)
        \<and> po_household_id b = co_household_id c)"
      using log [of l] kept [of l] p made by auto
  qed
  then show "runs (pinned_by e) (\<lambda>p. (\<forall>q. made_by (po_client p) q \<longrightarrow> pinned_by e q)
      \<and> po_household_id p = co_household_id c)
    (if pr_household_id probe \<noteq> co_household_id c then liftE (Inl ConfigEntryError)
     else (\<lambda>log. case ?poll log of (Inl x, p) \<Rightarrow> (Inl x, po_log p) | (Inr u, p) \<Rightarrow> (Inr p, po_log p)))"
    by (auto intro: runs_lift)
qed

lemma poller_start_fields [simp]:
  "po_client (poller_start p) = po_client p" "po_household_id (poller_start p) = po_household_id p"
  "po_coordinator (poller_start p) = po_coordinator p" "po_scheduled (poller_start p)"
  by (simp_all add: poller_start_def)

text \<open>A reload: unloading drops the pool the new coordinator would have restored.\<close>

lemma stop_transport_pool:
  "co_pool (case stop_transport t of OverDirect p \<Rightarrow> po_coordinator p | OverMqtt m c ps \<Rightarrow> c) = None"
  by (cases t) (simp_all add: stop_transport_def drop_pooled_state_def poller_stop_def)

lemma empty_start [simp]: "co_nodes (new_coord h None) = []" "co_known (new_coord h None) = {}"
  by (simp_all add: new_coord_def restore_pooled_state_def)

subsection \<open>The timer of the reload\<close>

inductive_cases reload_stepE: "reload_step r r'"

lemma reload_step_handle: "reload_step r r' \<Longrightarrow> rl_pending r = rl_handle r \<Longrightarrow> rl_pending r' = rl_handle r'"
  by (erule reload_stepE)
    (auto simp: pause_discovery_reload_def resume_discovery_reload_def schedule_reload_def
      cancel_pending_reload_def reload_due_def Let_def)

lemma reload_reachable_handle: "reload_step\<^sup>*\<^sup>* new_reload_state r \<Longrightarrow> rl_pending r = rl_handle r"
  by (induction rule: rtranclp_induct) (simp add: new_reload_state_def, erule reload_step_handle)

end
