(* ===== verification/Transport.thy ===== *)
theory Transport imports Poller begin

section \<open>The transport over Home Assistant's MQTT integration\<close>

text \<open>
  \<open>mqtt.py\<close>: \<open>HAMqttTransport\<close> and the start of the client over it. The integration hands over a
  payload as text or as bytes; bytes are decoded as UTF-8 with \<open>errors="replace"\<close>, which is
  written out here as CPython does it: every maximal prefix of a character that its next byte
  does not continue becomes one U+FFFD, and decoding goes on at that byte.
\<close>

subsection \<open>Decoding UTF-8 with replacement\<close>

definition replacement :: nat where "replacement = 65533"

text \<open>A lead byte: how many bytes follow, between which bounds the next one lies, and its payload.\<close>

definition utf8_lead :: "nat \<Rightarrow> (nat \<times> nat \<times> nat \<times> nat) option" where
  "utf8_lead b =
    (if b < 194 then None
     else if b < 224 then Some (1, 128, 191, b - 192)
     else if b = 224 then Some (2, 160, 191, 0)
     else if b = 237 then Some (2, 128, 159, 13)
     else if b < 240 then Some (2, 128, 191, b - 224)
     else if b = 240 then Some (3, 144, 191, 0)
     else if b < 244 then Some (3, 128, 191, b - 240)
     else if b = 244 then Some (3, 128, 143, 4)
     else None)"

fun utf8_tail :: "nat \<Rightarrow> nat \<Rightarrow> nat \<Rightarrow> nat \<Rightarrow> bytes \<Rightarrow> nat \<times> bytes" where
  "utf8_tail 0 lo hi acc bs = (acc, bs)"
| "utf8_tail (Suc k) lo hi acc [] = (replacement, [])"
| "utf8_tail (Suc k) lo hi acc (b # bs) =
    (if lo \<le> unat b \<and> unat b \<le> hi then utf8_tail k 128 191 (acc * 64 + (unat b - 128)) bs
     else (replacement, b # bs))"

definition utf8_step :: "byte \<Rightarrow> bytes \<Rightarrow> nat \<times> bytes" where
  "utf8_step b bs =
    (if unat b < 128 then (unat b, bs)
     else case utf8_lead (unat b) of
       None \<Rightarrow> (replacement, bs) | Some (k, lo, hi, acc) \<Rightarrow> utf8_tail k lo hi acc bs)"

lemma utf8_tail_shortens: "length (snd (utf8_tail k lo hi acc bs)) \<le> length bs"
  by (induction k lo hi acc bs rule: utf8_tail.induct) auto

lemma utf8_step_shortens: "length (snd (utf8_step b bs)) \<le> length bs"
  by (auto simp: utf8_step_def utf8_tail_shortens split: option.splits)

function decode_utf8 :: "bytes \<Rightarrow> pystr" where
  "decode_utf8 [] = []"
| "decode_utf8 (b # bs) = fst (utf8_step b bs) # decode_utf8 (snd (utf8_step b bs))"
  by pat_completeness auto
termination
  by (relation "measure length") (simp_all add: less_Suc_eq_le utf8_step_shortens)

subsection \<open>What decoding yields\<close>

text \<open>Every character is a Unicode scalar value, and no byte yields more than one.\<close>

text \<open>\<open>scalar_block v k\<close>: the characters whose bits start with \<open>v\<close>, \<open>6 * k\<close> bits being open.\<close>

definition scalar_block :: "nat \<Rightarrow> nat \<Rightarrow> bool" where
  "scalar_block v k \<longleftrightarrow> (v + 1) * 64 ^ k \<le> 55296 \<or> 57344 \<le> v * 64 ^ k \<and> (v + 1) * 64 ^ k \<le> 1114112"

lemma scalar_block_0: "scalar_block v 0 \<longleftrightarrow> scalar_value v"
  by (auto simp: scalar_block_def scalar_value_def)

lemma scalar_block_Suc:
  assumes "scalar_block v (Suc k)" "d \<le> 63"
  shows "scalar_block (v * 64 + d) k"
proof -
  have "v * 64 * 64 ^ k \<le> (v * 64 + d) * 64 ^ k" "(v * 64 + d + 1) * 64 ^ k \<le> (v * 64 + 64) * 64 ^ k"
    by (rule mult_le_mono1, use assms(2) in simp)+
  moreover have "(v * 64 + 64) * 64 ^ k = (v + 1) * 64 ^ Suc k" "v * 64 * 64 ^ k = v * 64 ^ Suc k"
    by (simp_all add: algebra_simps)
  ultimately show ?thesis using assms(1) unfolding scalar_block_def by linarith
qed

lemma utf8_tail_value:
  assumes "128 \<le> lo" "hi \<le> 191" "k = 0 \<Longrightarrow> scalar_value acc"
    "\<And>j d. k = Suc j \<Longrightarrow> lo - 128 \<le> d \<Longrightarrow> d \<le> hi - 128 \<Longrightarrow> scalar_block (acc * 64 + d) j"
  shows "scalar_value (fst (utf8_tail k lo hi acc bs))"
  using assms
proof (induction k lo hi acc bs rule: utf8_tail.induct)
  case (2 k lo hi acc)
  show ?case by (simp add: replacement_def scalar_value_def)
next
  case (3 k lo hi acc b bs)
  show ?case
  proof (cases "lo \<le> unat b \<and> unat b \<le> hi")
    case True
    then have "lo - 128 \<le> unat b - 128" "unat b - 128 \<le> hi - 128" by (auto intro: diff_le_mono)
    then have block: "scalar_block (acc * 64 + (unat b - 128)) k" by (rule 3(5) [OF refl])
    define v where "v = acc * 64 + (unat b - 128)"
    have "scalar_value (fst (utf8_tail k 128 191 v bs))"
      by (rule 3(1) [OF True, folded v_def])
        (use block [folded v_def] scalar_block_0 in \<open>auto intro: scalar_block_Suc\<close>)
    then show ?thesis using True by (simp add: v_def)
  next
    case False
    then show ?thesis by (auto simp: replacement_def scalar_value_def)
  qed
qed simp

lemma utf8_step_value: "scalar_value (fst (utf8_step b bs))"
proof -
  have t: "scalar_value (fst (utf8_tail k lo hi acc bs))" if "utf8_lead n = Some (k, lo, hi, acc)" for n k lo hi acc
    using that
    by (intro utf8_tail_value) (auto simp: utf8_lead_def scalar_block_def numeral_2_eq_2 split: if_splits)
  have "scalar_value replacement" by (simp add: replacement_def scalar_value_def)
  then show ?thesis
    using t by (auto simp: utf8_step_def scalar_value_def split: option.splits)
qed

lemma decode_utf8_text: "str_ok (decode_utf8 bs)" "length (decode_utf8 bs) \<le> length bs"
proof -
  show "str_ok (decode_utf8 bs)"
    by (induction bs rule: decode_utf8.induct) (auto simp: str_ok_def utf8_step_value)
  show "length (decode_utf8 bs) \<le> length bs"
    by (induction bs rule: decode_utf8.induct) (auto intro: le_trans [OF _ utf8_step_shortens])
qed

subsection \<open>Decoding what was encoded\<close>

lemma unat_of_byte: "n < 256 \<Longrightarrow> unat (word_of_nat n :: byte) = n"
  by (simp add: unat_of_nat)

lemma unat_byte_plus: "numeral k + n < 256 \<Longrightarrow> unat (numeral k + word_of_nat n :: byte) = numeral k + n"
  using unat_of_byte [of "numeral k + n"] by simp

lemma div_4096: "c div 4096 = c div 64 div 64" "c div 262144 = c div 64 div 64 div 64" for c :: nat
  by (simp_all add: div_mult2_eq [symmetric])

lemma utf8_tail_numeral:
  "utf8_tail 2 lo hi acc bs = utf8_tail (Suc (Suc 0)) lo hi acc bs"
  "utf8_tail 3 lo hi acc bs = utf8_tail (Suc (Suc (Suc 0))) lo hi acc bs"
  by (simp_all only: numeral_2_eq_2 numeral_3_eq_3)

lemma decode_utf8_cp:
  assumes "utf8_cp c = Some bs" "c < 1114112"
  shows "decode_utf8 (bs @ rest) = c # decode_utf8 rest"
proof -
  consider (one) "c < 128" | (two) "128 \<le> c" "c < 2048"
    | (three) "2048 \<le> c" "c < 65536" "c < 55296 \<or> 57343 < c" | (four) "65536 \<le> c"
    using assms(1) by (fastforce simp: utf8_cp_def split: if_splits)
  then show ?thesis
  proof cases
    case one
    then show ?thesis using assms(1) by (auto simp: utf8_cp_def utf8_step_def unat_of_byte)
  next
    case two
    define x y where "x = c div 64" and "y = c mod 64"
    have c: "c = x * 64 + y" by (simp add: x_def y_def)
    have b: "2 \<le> x" "x < 32" "y < 64" using two unfolding x_def y_def by auto
    have "bs = [word_of_nat (192 + x), word_of_nat (128 + y)]"
      using assms(1) two by (simp add: utf8_cp_def x_def y_def)
    moreover have "utf8_lead (192 + x) = Some (1, 128, 191, x)" using b by (simp add: utf8_lead_def)
    ultimately show ?thesis using b by (simp add: utf8_step_def unat_byte_plus c)
  next
    case three
    define x y z where "x = c div 4096" and "y = c div 64 mod 64" and "z = c mod 64"
    have c: "c = (x * 64 + y) * 64 + z" unfolding x_def y_def z_def by (simp add: div_4096)
    have b: "x < 16" "y < 64" "z < 64" using three unfolding x_def y_def z_def by auto
    have r: "x = 0 \<longrightarrow> 32 \<le> y" "x = 13 \<longrightarrow> y < 32" using three b unfolding c by auto
    have bs: "bs = [word_of_nat (224 + x), word_of_nat (128 + y), word_of_nat (128 + z)]"
      using assms(1) three by (auto simp: utf8_cp_def x_def y_def z_def)
    have "utf8_lead (224 + x) = Some (2, if x = 0 then 160 else 128, if x = 13 then 159 else 191, x)"
      using b by (auto simp: utf8_lead_def)
    then show ?thesis using b r by (auto simp: bs utf8_step_def unat_byte_plus utf8_tail_numeral c)
  next
    case four
    define x y z u where "x = c div 262144" and "y = c div 4096 mod 64" and "z = c div 64 mod 64" and "u = c mod 64"
    have c: "c = ((x * 64 + y) * 64 + z) * 64 + u" unfolding x_def y_def z_def u_def by (simp add: div_4096)
    have b: "x < 5" "y < 64" "z < 64" "u < 64" using assms(2) unfolding x_def y_def z_def u_def by auto
    have r: "x = 0 \<longrightarrow> 16 \<le> y" "x = 4 \<longrightarrow> y < 16" using four assms(2) b unfolding c by auto
    have bs: "bs = [word_of_nat (240 + x), word_of_nat (128 + y), word_of_nat (128 + z), word_of_nat (128 + u)]"
      using assms(1) four by (auto simp: utf8_cp_def x_def y_def z_def u_def)
    have "utf8_lead (240 + x) = Some (3, if x = 0 then 144 else 128, if x = 4 then 143 else 191, x)"
      using b by (auto simp: utf8_lead_def)
    then show ?thesis using b r by (auto simp: bs utf8_step_def unat_byte_plus utf8_tail_numeral c)
  qed
qed

lemma decode_encode:
  assumes "utf8 s = Some bs" "list_all (\<lambda>c. c < 1114112) s"
  shows "decode_utf8 bs = s"
  using assms
proof (induction s arbitrary: bs)
  case (Cons c s)
  then obtain b r where "utf8_cp c = Some b" "utf8 s = Some r" "bs = b @ r"
    by (auto split: option.splits)
  then show ?case using Cons by (simp add: decode_utf8_cp)
qed simp

subsection \<open>The transport\<close>

datatype wire_payload = TextPayload pystr | BinaryPayload bytes

record receive_message =
  rm_topic :: pystr
  rm_payload :: wire_payload
  rm_qos :: int
  rm_retain :: bool

definition payload_text :: "wire_payload \<Rightarrow> pystr" where
  "payload_text p = (case p of TextPayload s \<Rightarrow> s | BinaryPayload bs \<Rightarrow> decode_utf8 bs)"

text \<open>\<open>_forward\<close>, with the callback it was given.\<close>

definition forward :: "(pystr \<Rightarrow> pystr \<Rightarrow> int \<Rightarrow> bool \<Rightarrow> 'a) \<Rightarrow> receive_message \<Rightarrow> 'a" where
  "forward callback m = callback (rm_topic m) (payload_text (rm_payload m)) (rm_qos m) (rm_retain m)"

definition ha_publish :: "(publication \<Rightarrow> exc option) \<Rightarrow> pystr \<Rightarrow> pystr \<Rightarrow> int \<Rightarrow> bool \<Rightarrow> exc option" where
  "ha_publish integration topic payload qos retain =
    integration \<lparr>pub_topic = topic, pub_payload = payload, pub_qos = qos, pub_retain = retain\<rparr>"

text \<open>\<open>_ensure_mqtt_ready\<close>: only the transport over Home Assistant waits, and what the wait answers
  is not looked at. \<open>wait\<close> is what \<open>async_wait_for_mqtt_client\<close> does.\<close>

definition ensure_mqtt_ready :: "bool \<Rightarrow> exc + bool \<Rightarrow> exc + unit" where
  "ensure_mqtt_ready over_ha wait = (if \<not> over_ha then Inr () else bindE wait (\<lambda>ready. Inr ()))"

definition async_start :: "bool \<Rightarrow> exc + bool \<Rightarrow> (pystr \<Rightarrow> exc option) \<Rightarrow> mqtt_client
    \<Rightarrow> (exc + unit) \<times> mqtt_client" where
  "async_start over_ha wait sub c = (case ensure_mqtt_ready over_ha wait of
      Inl e \<Rightarrow> (Inl e, c) | Inr u \<Rightarrow> client_start sub c)"

definition client_publish :: "(publication \<Rightarrow> exc option) \<Rightarrow> pystr \<Rightarrow> pystr \<Rightarrow> int \<Rightarrow> bool
    \<Rightarrow> exc + unit" where
  "client_publish integration topic payload qos retain =
    (case ha_publish integration topic payload qos retain of None \<Rightarrow> Inr () | Some e \<Rightarrow> Inl e)"

definition build_node_base :: "pystr \<Rightarrow> pystr \<Rightarrow> pystr" where
  "build_node_base household_id node_id = node_base household_id node_id"

text \<open>A message from the integration to the coordinator.\<close>

definition ha_receive :: "(pystr \<Rightarrow> ingest_env) \<Rightarrow> mqtt_client \<Rightarrow> receive_message \<Rightarrow> coord \<Rightarrow> coord" where
  "ha_receive envs client m c = (case forward (on_message client) m of
      None \<Rightarrow> c | Some msg \<Rightarrow> sink envs msg c)"

definition received :: "wire_payload \<Rightarrow> publication \<Rightarrow> receive_message" where
  "received payload p = \<lparr>rm_topic = pub_topic p, rm_payload = payload, rm_qos = pub_qos p,
     rm_retain = pub_retain p\<rparr>"

lemma ha_receive_text:
  "payload_text payload = pub_payload p \<Longrightarrow> ha_receive envs client (received payload p) = broker_receive envs client p"
  by (simp add: ha_receive_def received_def forward_def broker_receive_def fun_eq_iff)

subsection \<open>Starting and stopping\<close>

lemma subscribe_each_ok:
  "subscribe_each sub ts c = (Inr (), c\<lparr>mc_subscriptions := mc_subscriptions c @ ts\<rparr>)"
  if "list_all (\<lambda>(t, q). sub t = None) ts"
  using that by (induction ts arbitrary: c) auto

lemma wanted_subscriptions_stop [simp]: "wanted_subscriptions (client_stop c) = wanted_subscriptions c"
  by (simp add: wanted_subscriptions_def client_stop_def)

text \<open>A start that fails at the second topic leaves the first subscribed.\<close>

theorem failed_start_stays_subscribed:
  assumes "legacy \<noteq> []" "sub TOPIC_SUBSCRIBE_ALL = None" "sub (legacy_status_subscribe legacy) = Some e"
  shows "async_start True (Inr ready) sub (new_mqtt_client h (Some legacy))
    = (Inl e, (new_mqtt_client h (Some legacy))\<lparr>mc_subscriptions := [(TOPIC_SUBSCRIBE_ALL, 1)]\<rparr>)"
  using assms
  by (simp add: async_start_def ensure_mqtt_ready_def client_start_def wanted_subscriptions_def new_mqtt_client_def)

theorem failed_start_stays_subscribed_witness:
  "async_start True (Inr True)
      (\<lambda>t. if t = legacy_status_subscribe (py ''HK-'') then Some HomeAssistantError else None)
      (new_mqtt_client (py ''HOME001'') (Some (py ''HK-'')))
    = (Inl HomeAssistantError, (new_mqtt_client (py ''HOME001'') (Some (py ''HK-'')))
        \<lparr>mc_subscriptions := [(TOPIC_SUBSCRIBE_ALL, 1)]\<rparr>)"
  by (rule failed_start_stays_subscribed) (simp_all add: const_defs legacy_status_subscribe_def py_def)

end
