(* ===== verification/Lifecycle.thy ===== *)
theory Lifecycle imports Setup Transport begin

section \<open>The life of an entry\<close>

text \<open>
  The components put together: a config entry that Home Assistant sets up, feeds and unloads, as a
  step relation. A step is one callback the code runs to its end: setting the entry up (whatever
  its outcome), a message from the broker while a subscription stands, a tick of the recurring poll
  while it is scheduled, a lock command or a guest operation, a backup or a restore, unloading. The
  relations \<open>operated\<close> and \<open>archived\<close> collect the operations of \<open>Control\<close> and \<open>Backup\<close> that entities,
  services, the schedule and the backup button call; they add nothing to them. The network, the broker, the
  clock, the documents of the key store and the pool left in \<open>hass.data\<close> may differ at every step.
\<close>

subsection \<open>State and steps\<close>

text \<open>\<open>es_requests\<close>: the HTTPS requests made until the runtime was started; \<open>es_stopped\<close>: the runtimes
  that were unloaded, as they were left; \<open>es_backups\<close>: the requests of its backups and restores, which may
  use a connection of their own.\<close>

record entry_state =
  es_runtime :: "homekey_runtime option"
  es_requests :: "request list"
  es_stopped :: "homekey_runtime list"
  es_backups :: "request list"

definition not_loaded :: entry_state where
  "not_loaded = \<lparr>es_runtime = None, es_requests = [], es_stopped = [], es_backups = []\<rparr>"

definition requests_after :: "request list \<Rightarrow> homekey_runtime \<Rightarrow> request list" where
  "requests_after before r = (case hb_transport (hr_hub r) of
      OverDirect p \<Rightarrow> po_log p | OverMqtt m c ps \<Rightarrow> before)"

definition all_requests :: "entry_state \<Rightarrow> request list" where
  "all_requests s = (case es_runtime s of
      None \<Rightarrow> es_requests s | Some r \<Rightarrow> requests_after (es_requests s) r)"

definition with_transport :: "hub_transport \<Rightarrow> homekey_runtime \<Rightarrow> homekey_runtime" where
  "with_transport t r = r\<lparr>hr_hub := (hr_hub r)\<lparr>hb_transport := t\<rparr>\<rparr>"

definition pool_fits :: "config_entry \<Rightarrow> (pystr, node) dict option \<Rightarrow> bool" where
  "pool_fits e pool = (\<forall>hid d. ce_household_id e = Some hid \<longrightarrow> pool = Some d \<longrightarrow> nodes_ok hid d)"

text \<open>The operations a user, an automation or a service can ask of the hub.\<close>

inductive operated :: "hub \<Rightarrow> hub \<Rightarrow> bool" where
  command: "send_lock_command w node_id action h = (r, h') \<Longrightarrow> operated h h'"
| access: "set_guest_access w enabled days h = (r, h') \<Longrightarrow> operated h h'"
| teach: "teach_guest_tag w label valid_days h = (r, h') \<Longrightarrow> operated h h'"
| revoke: "revoke_guest_tag w tag_id h = (r, h') \<Longrightarrow> operated h h'"
| cancel: "cancel_guest_write w h = (r, h') \<Longrightarrow> operated h h'"

text \<open>What the backup services, the schedule and the backup button ask of a loaded entry: a backup of its
  node, or a restore. The store of backups and the world are what they find.\<close>

definition backup_view :: "config_entry \<Rightarrow> homekey_runtime \<Rightarrow> runtime" where
  "backup_view e r = \<lparr>rt_entry = Some (ce_raw e), rt_household_id = co_household_id (hub_coord (hr_hub r)),
     rt_transport = (case hb_transport (hr_hub r) of
        OverDirect p \<Rightarrow> DirectTransport (po_client p) (po_node_id p) | OverMqtt m c ps \<Rightarrow> MqttTransport)\<rparr>"

inductive archived :: "config_entry \<Rightarrow> homekey_runtime \<Rightarrow> request list \<Rightarrow> request list \<Rightarrow> bool" for e r where
  backup: "back_up_entry rp net hs now [(i, backup_view e r)] i explicit inc w = (x, w') \<Longrightarrow>
    archived e r (bw_log w) (bw_log w')"
| restore: "restore_entry rp net hs [(i, backup_view e r)] i secret blob w = (x, w') \<Longrightarrow>
    archived e r (bw_log w) (bw_log w')"

inductive entry_step :: "config_entry \<Rightarrow> entry_state \<Rightarrow> entry_state \<Rightarrow> bool" for e where
  started: "es_runtime s = None \<Longrightarrow> pool_fits e pool \<Longrightarrow>
    setup_entry w hs subscribe arriving keys pool e (es_requests s) = (Inr r, log) \<Longrightarrow>
    entry_step e s (s\<lparr>es_runtime := Some r, es_requests := log\<rparr>)"
| failed: "es_runtime s = None \<Longrightarrow> pool_fits e pool \<Longrightarrow>
    setup_entry w hs subscribe arriving keys pool e (es_requests s) = (Inl x, log) \<Longrightarrow>
    entry_step e s (s\<lparr>es_requests := log\<rparr>)"
| message: "es_runtime s = Some r \<Longrightarrow> hb_transport (hr_hub r) = OverMqtt (Some client) c ps \<Longrightarrow>
    mc_subscriptions client \<noteq> [] \<Longrightarrow>
    entry_step e s (s\<lparr>es_runtime := Some (with_transport
      (OverMqtt (Some client) (ha_receive envs client m c) ps) r)\<rparr>)"
| polled: "es_runtime s = Some r \<Longrightarrow> hb_transport (hr_hub r) = OverDirect p \<Longrightarrow> po_scheduled p \<Longrightarrow>
    tick (sink envs) rp net p = (q, p') \<Longrightarrow>
    entry_step e s (s\<lparr>es_runtime := Some (with_transport (OverDirect p') r)\<rparr>)"
| operation: "es_runtime s = Some r \<Longrightarrow> operated (hr_hub r) h' \<Longrightarrow>
    entry_step e s (s\<lparr>es_runtime := Some (r\<lparr>hr_hub := h'\<rparr>)\<rparr>)"
| archiving: "es_runtime s = Some r \<Longrightarrow> archived e r (es_backups s) log \<Longrightarrow>
    entry_step e s (s\<lparr>es_backups := log\<rparr>)"
| unloaded: "es_runtime s = Some r \<Longrightarrow> unload_entry platforms_unload i [(i, r)] = (b, Some r', []) \<Longrightarrow>
    entry_step e s (s\<lparr>es_runtime := None, es_requests := requests_after (es_requests s) r',
      es_stopped := es_stopped s @ [r']\<rparr>)"

inductive_cases operatedE: "operated h h'"

text \<open>The runtimes the entry has had.\<close>

definition entry_runtimes :: "entry_state \<Rightarrow> homekey_runtime set" where
  "entry_runtimes s = set (es_stopped s) \<union> set_option (es_runtime s)"

subsection \<open>What a hub keeps\<close>

definition key_signed :: "bytes option \<Rightarrow> pystr \<Rightarrow> publication \<Rightarrow> bool" where
  "key_signed k hid p = (\<exists>key env t node_id action command. k = Some key
     \<and> signed_fresh env key action t command \<and> p = command_publication hid node_id action command)"

definition poller_ok :: "config_entry \<Rightarrow> pystr \<Rightarrow> coord poller \<Rightarrow> bool" where
  "poller_ok e hid p = (po_household_id p = hid \<and> (\<forall>q. made_by (po_client p) q \<longrightarrow> pinned_by e q)
     \<and> list_all (pinned_by e) (po_log p)
     \<and> coord_inv (po_coordinator p) \<and> co_household_id (po_coordinator p) = hid)"

definition hub_ok :: "config_entry \<Rightarrow> pystr \<Rightarrow> hub \<Rightarrow> bool" where
  "hub_ok e hid h = (case hb_transport h of
      OverDirect p \<Rightarrow> transport_kind e = TRANSPORT_DIRECT \<and> hb_key h = None \<and> poller_ok e hid p
    | OverMqtt m c ps \<Rightarrow> transport_kind e \<noteq> TRANSPORT_DIRECT \<and> m \<noteq> None
        \<and> coord_inv c \<and> co_household_id c = hid \<and> list_all (key_signed (command_key h) hid) ps)"

lemma list_all_extends: "extends P a b \<Longrightarrow> list_all P a \<Longrightarrow> list_all P b"
  by (auto simp: extends_def)

lemma poller_log:
  assumes "poller_ok e hid p" "extends (made_by (po_client p)) (po_log p) log"
  shows "list_all (pinned_by e) log"
  using assms by (auto simp: poller_ok_def intro: list_all_extends extends_mono)

lemma fold_sink: "co_household_id (fold (sink envs) ms c) = co_household_id c"
  by (rule coordinator_sink.fold_household)

lemma poll_once_household:
  "co_household_id (po_coordinator (snd (poll_once (sink envs) rp net p))) = co_household_id (po_coordinator p)"
  "po_household_id (snd (poll_once (sink envs) rp net p)) = po_household_id p"
  "po_client (snd (poll_once (sink envs) rp net p)) = po_client p"
  by (auto simp: poll_once_def Let_def fold_sink split: prod.splits sum.splits)

lemma poll_once_ok: "poller_ok e hid p \<Longrightarrow> poller_ok e hid (snd (poll_once (sink envs) rp net p))"
  using poller_log [OF _ poll_once_log [of p "sink envs" rp net]]
    coordinator_sink.poll_once_inv [of p envs rp net]
  by (auto simp: poller_ok_def poll_once_household)

lemma poll_safely_ok: "poller_ok e hid p \<Longrightarrow> poller_ok e hid (snd (poll_safely (sink envs) rp net p))"
proof -
  assume ok: "poller_ok e hid p"
  have "co_household_id (po_coordinator (snd (poll_safely (sink envs) rp net p))) = co_household_id (po_coordinator p)"
  proof (cases rule: poll_safely_cases [of "sink envs" rp net p])
    case (failed log p2)
    then show ?thesis
      by (auto simp: mark_offline_def sink_def split: option.splits)
  qed (use poll_once_household(1) [of envs rp net p] in simp_all)
  then show ?thesis
    using ok poller_log [OF ok poll_safely_log(1) [of p "sink envs" rp net]]
      coordinator_sink.poll_safely_inv [of p envs rp net]
    by (simp add: poller_ok_def poll_safely_log)
qed

subsection \<open>Operations over the direct transport\<close>

text \<open>An operation of the pinned client that sends only its own requests.\<close>

locale pinned_operation =
  fixes send :: "network \<Rightarrow> client \<Rightarrow> json net_comp"
  assumes pinned: "keeps (extends (made_by c) log) (send net c)"
begin

lemma refreshed_ok:
  assumes "poller_ok e hid p" "then_refresh w (send net) p = (r, p')"
  shows "poller_ok e hid p'"
proof -
  obtain a log where a: "send net (po_client p) (po_log p) = (a, log)" by (rule prod.exhaust)
  have "list_all (pinned_by e) log"
    by (rule poller_log [OF assms(1) only_pinned [OF pinned a]])
  then have "poller_ok e hid (p\<lparr>po_log := log\<rparr>)" using assms(1) by (simp add: poller_ok_def)
  then show ?thesis
    using assms(2) poll_once_ok by (auto simp: then_refresh_def refresh_def a split: sum.splits)
qed

lemma operation_ok:
  assumes "hub_ok e hid h" "guest_operation w (send net) h = (r, h')"
  shows "hub_ok e hid h' \<and> hb_key h' = hb_key h"
  using assms refreshed_ok
  by (auto simp: guest_operation_def hub_ok_def split: hub_transport.splits prod.splits)

end

interpretation lock_operation: pinned_operation "\<lambda>net c. direct_lock net c action" for action
  by unfold_locales (rule keeps_intros)

interpretation access_operation: pinned_operation "\<lambda>net c. set_guest_config net c enabled seconds" for enabled seconds
  by unfold_locales (rule keeps_intros)

interpretation teach_operation: pinned_operation "\<lambda>net c. guest_teach net c label days from until" for label days "from" until
  by unfold_locales (rule keeps_intros)

interpretation revoke_operation: pinned_operation "\<lambda>net c. guest_revoke net c tag" for tag
  by unfold_locales (rule keeps_intros)

interpretation cancel_operation: pinned_operation guest_cancel
  by unfold_locales (rule keeps_intros)

lemma command_kept: "hb_key h' = hb_key h \<Longrightarrow> command_key h' = command_key h"
  by (simp add: command_key_def)

lemma send_direct_ok:
  "poller_ok e hid p \<Longrightarrow> send_direct_command w action p = (r, p') \<Longrightarrow> poller_ok e hid p'"
  by (auto simp: send_direct_command_def intro: lock_operation.refreshed_ok split: if_splits)

lemma key_signed_new:
  assumes "publish_authenticated_command pub env client hid node_id key action ts = (q, client', new)"
  shows "list_all (key_signed (Some key) hid) new"
  using assms by (cases rule: publish_spec) (simp, simp add: key_signed_def, blast)

lemma lock_command_ok:
  assumes "hub_ok e hid h" "send_lock_command w node_id action h = (r, h')"
  shows "hub_ok e hid h' \<and> hb_key h' = hb_key h"
proof (cases "hb_transport h")
  case (OverDirect p)
  obtain q p' where q: "send_direct_command w action p = (q, p')" by (rule prod.exhaust)
  have "poller_ok e hid p" using assms(1) OverDirect by (simp add: hub_ok_def)
  then have "poller_ok e hid p'" using q by (rule send_direct_ok)
  then show ?thesis using assms OverDirect q by (auto simp: send_lock_command_def hub_ok_def)
next
  case (OverMqtt m c ps)
  then obtain client where m: "m = Some client" using assms(1) by (auto simp: hub_ok_def)
  from OverMqtt [unfolded m] assms(2) show ?thesis
  proof (cases rule: send_over_mqtt)
    case (sent key q client' new)
    have "list_all (key_signed (command_key h) hid) new"
      using key_signed_new [OF sent(2)] assms(1) OverMqtt sent(1) by (simp add: hub_ok_def)
    then show ?thesis
      using assms(1) OverMqtt sent(4) by (simp add: hub_ok_def command_key_def)
  qed (use assms(1) in simp)
qed

lemma access_ok:
  "hub_ok e hid h \<Longrightarrow> set_guest_access w enabled days h = (r, h') \<Longrightarrow> hub_ok e hid h' \<and> hb_key h' = hb_key h"
  using access_operation.operation_ok
  by (auto simp: set_guest_access_def split: if_splits sum.splits option.splits)

lemma operated_ok: "operated h h' \<Longrightarrow> hub_ok e hid h \<Longrightarrow> hub_ok e hid h' \<and> hb_key h' = hb_key h"
proof (induction rule: operated.induct)
  case (teach w label valid_days h r h')
  then show ?case
    by (auto simp: teach_guest_tag_def dest: teach_operation.operation_ok)
next
  case (revoke w tag_id h r h')
  then show ?case by (auto simp: revoke_guest_tag_def dest: revoke_operation.operation_ok)
next
  case (cancel w h r h')
  then show ?case by (auto simp: cancel_guest_write_def dest: cancel_operation.operation_ok)
qed (use lock_command_ok access_ok in blast)+

subsection \<open>Messages from the broker\<close>

lemma ha_receive_sink: "ha_receive envs client m c = c \<or> (\<exists>msg. ha_receive envs client m c = sink envs msg c)"
  by (auto simp: ha_receive_def split: option.splits)

lemma ha_receive_ok:
  "coord_inv c \<Longrightarrow> coord_inv (ha_receive envs client m c)"
  "co_household_id (ha_receive envs client m c) = co_household_id c"
  using ha_receive_sink [of envs client m c]
  by (metis coordinator_sink.ingest_inv, metis coordinator_sink.household_kept)

lemma broker_receive_ok:
  "coord_inv c \<Longrightarrow> coord_inv (broker_receive envs client p c)"
  "co_household_id (broker_receive envs client p c) = co_household_id c"
  using ha_receive_ok [where m = "received (TextPayload (pub_payload p)) p"]
  by (simp_all add: ha_receive_text payload_text_def)

lemma wait_for_initial_nodes_ok:
  "coord_inv c \<Longrightarrow> coord_inv (wait_for_initial_nodes (broker_receive envs client) ps c)"
  "co_household_id (wait_for_initial_nodes (broker_receive envs client) ps c) = co_household_id c"
  by (induction ps arbitrary: c) (auto simp: Let_def broker_receive_ok)

subsection \<open>What every runtime keeps\<close>

definition runtime_ok :: "config_entry \<Rightarrow> homekey_runtime \<Rightarrow> bool" where
  "runtime_ok e r = (\<exists>hid. ce_household_id e = Some hid \<and> hub_ok e hid (hr_hub r)
     \<and> hr_transport_kind r = transport_kind e
     \<and> hb_key (hr_hub r) = key_provider e (hr_key_store r) hid)"

text \<open>A runtime that was stopped: no poll is scheduled, nothing is subscribed and the pool is gone.\<close>

definition quiet :: "hub_transport \<Rightarrow> bool" where
  "quiet t = (case t of
      OverDirect p \<Rightarrow> \<not> po_scheduled p \<and> co_pool (po_coordinator p) = None
    | OverMqtt m c ps \<Rightarrow> (\<forall>client. m = Some client \<longrightarrow> mc_subscriptions client = []) \<and> co_pool c = None)"

definition listening_transport :: "hub_transport \<Rightarrow> bool" where
  "listening_transport t = (case t of
      OverDirect p \<Rightarrow> po_scheduled p
    | OverMqtt m c ps \<Rightarrow> (\<exists>client. m = Some client \<and> (TOPIC_SUBSCRIBE_ALL, 1) \<in> set (mc_subscriptions client)))"

text \<open>A request of a backup or a restore: a direct entry's are its client's, another entry's are pinned to
  the fingerprint of its settings, of which the options win over the data.\<close>

definition settings_fingerprint :: "config_entry \<Rightarrow> json" where
  "settings_fingerprint e = obj_get (dict_update (dict_update [] (fst (ce_raw e))) (snd (ce_raw e))) CONF_FINGERPRINT"

definition backup_pinned :: "config_entry \<Rightarrow> request \<Rightarrow> bool" where
  "backup_pinned e q = (if transport_kind e = TRANSPORT_DIRECT then pinned_by e q
     else \<exists>rp. fingerprints_match (py_str rp (settings_fingerprint e)) (certificate_fingerprint (rq_pin q)))"

definition entry_inv :: "config_entry \<Rightarrow> entry_state \<Rightarrow> bool" where
  "entry_inv e s = ((\<forall>r \<in> entry_runtimes s. runtime_ok e r)
     \<and> (\<forall>r \<in> set (es_stopped s). quiet (hb_transport (hr_hub r)))
     \<and> (\<forall>r. es_runtime s = Some r \<longrightarrow> listening_transport (hb_transport (hr_hub r)))
     \<and> list_all (pinned_by e) (es_requests s) \<and> list_all (backup_pinned e) (es_backups s)
     \<and> (transport_kind e \<noteq> TRANSPORT_DIRECT \<longrightarrow> es_requests s = []))"

lemma subscribe_each_set:
  "subscribe_each sub ts k = (Inr u, k') \<Longrightarrow> set (mc_subscriptions k') = set (mc_subscriptions k) \<union> set ts"
proof (induction ts arbitrary: k)
  case (Cons x ts)
  obtain t q where x: "x = (t, q)" by (cases x)
  show ?case using Cons.prems Cons.IH unfolding x by (force split: option.splits)
qed simp

lemma start_mqtt_ok:
  assumes "start_mqtt w subscribe arriving lp c = Inr t" "coord_inv c" "co_household_id c = hid"
  obtains client c' where "t = OverMqtt (Some client) c' []" "coord_inv c'" "co_household_id c' = hid"
    "(TOPIC_SUBSCRIBE_ALL, 1) \<in> set (mc_subscriptions client)"
proof -
  obtain a client where s: "client_start subscribe (new_mqtt_client (co_household_id c) lp) = (a, client)"
    by (rule prod.exhaust)
  have "a = Inr () \<Longrightarrow> (TOPIC_SUBSCRIBE_ALL, 1) \<in> set (mc_subscriptions client)"
    using s subscribe_each_set unfolding client_start_def wanted_subscriptions_def by fastforce
  moreover have "a = Inr () \<and> t = OverMqtt (Some client)
      (snd (async_wait_for_initial_nodes (broker_receive (ou_envs w) client) arriving c)) []"
    using assms(1) s by (auto simp: start_mqtt_def split: sum.splits)
  moreover have "coord_inv (snd (async_wait_for_initial_nodes (broker_receive envs client) ps c))"
    "co_household_id (snd (async_wait_for_initial_nodes (broker_receive envs client) ps c)) = hid" for envs ps
    using assms(2,3) by (simp_all add: async_wait_for_initial_nodes_def Let_def wait_for_initial_nodes_ok)
  ultimately show thesis using that by blast
qed

subsection \<open>Setting up\<close>

lemma start_direct_ok:
  assumes "start_direct w hs e c log = (Inr p, log')" "list_all (pinned_by e) log"
    "coord_inv c" "co_household_id c = hid"
  shows "poller_ok e hid p" "log' = po_log p"
proof -
  obtain probe log1 where probe: "connect_direct w hs e log = (Inr probe, log1)"
    and rest: "(if pr_household_id probe \<noteq> co_household_id c then liftE (Inl ConfigEntryError)
       else (\<lambda>log. case poll_safely (sink (ou_envs w)) (ou_str w) (ou_net w)
              ((new_poller (pr_client probe) (co_household_id c) c)\<lparr>po_log := log\<rparr>) of
         (Inl x, p) \<Rightarrow> (Inl x, po_log p) | (Inr u, p) \<Rightarrow> (Inr p, po_log p))) log1 = (Inr p, log')"
    using assms(1) by (auto simp: start_direct_def res_simps)
  define start where "start = (new_poller (pr_client probe) (co_household_id c) c)\<lparr>po_log := log1\<rparr>"
  obtain u where poll: "poll_safely (sink (ou_envs w)) (ou_str w) (ou_net w) start = (Inr u, p)" and l: "log' = po_log p"
    using rest by (auto simp: start_def split: if_splits prod.splits sum.splits)
  have "list_all (pinned_by e) log1"
    using runsD(1) [OF runs_connect_direct probe] assms(2) by (rule list_all_extends)
  moreover have "\<forall>q. made_by (pr_client probe) q \<longrightarrow> pinned_by e q"
    by (rule runsD(2) [OF runs_connect_direct probe])
  ultimately have "poller_ok e hid start"
    using assms(3,4) by (simp add: poller_ok_def start_def new_poller_def)
  from poll_safely_ok [OF this, of "ou_envs w" "ou_str w" "ou_net w"] show "poller_ok e hid p" by (simp add: poll)
  show "log' = po_log p" by (rule l)
qed

lemma runs_setup: "runs (pinned_by e) (\<lambda>r. True) (setup_entry w hs subscribe arriving keys pool e)"
proof -
  have start: "runs (pinned_by e) (\<lambda>t. True) (start_transport w hs subscribe arriving e c)" for c
    by (auto simp: start_transport_def intro!: runs_lift runs_bind [OF runs_start_direct])
  show ?thesis
    unfolding setup_entry_def
    by (rule runs_bind [where Q = "\<lambda>_. True"], rule runs_lift, simp)
      (auto intro!: runs_lift runs_bind [OF start] split: prod.splits sum.splits)
qed

lemma setup_over_mqtt:
  "setup_entry w hs subscribe arriving keys pool e log = (q, log') \<Longrightarrow> transport_kind e \<noteq> TRANSPORT_DIRECT \<Longrightarrow> log' = log"
  by (auto simp: setup_entry_def start_transport_def bindS_def split: prod.splits sum.splits)

lemma setup_ok:
  assumes "setup_entry w hs subscribe arriving keys pool e log = (Inr r, log')" "pool_fits e pool"
    "list_all (pinned_by e) log"
  shows "runtime_ok e r" "listening_transport (hb_transport (hr_hub r))" "requests_after log' r = log'"
proof -
  obtain hid s t where hid: "ce_household_id e = Some hid"
    and t: "start_transport w hs subscribe arriving e (new_coord hid pool) log = (Inr t, log')"
    and r: "r = \<lparr>hr_hub = \<lparr>hb_transport = schedule_transport t, hb_key = key_provider e s hid\<rparr>,
               hr_key_store = s, hr_transport_kind = transport_kind e\<rparr>"
    using assms(1)
    by (auto simp: setup_entry_def required_def res_simps split: option.splits prod.splits sum.splits)
  have c: "coord_inv (new_coord hid pool)"
    by (rule new_coord_inv) (use assms(2) hid in \<open>auto simp: pool_fits_def split: option.splits\<close>)
  have h: "co_household_id (new_coord hid pool) = hid"
    by (simp add: new_coord_def restore_pooled_state_def split: option.splits)
  note c = c h
  have "runtime_ok e r \<and> listening_transport (hb_transport (hr_hub r)) \<and> requests_after log' r = log'"
  proof (cases "transport_kind e = TRANSPORT_DIRECT")
    case True
    then obtain p where p: "t = OverDirect p" "start_direct w hs e (new_coord hid pool) log = (Inr p, log')"
      using t by (auto simp: start_transport_def res_simps)
    have ok: "poller_ok e hid (poller_start p)" "log' = po_log (poller_start p)"
      using start_direct_ok [OF p(2) assms(3) c] by (simp_all add: poller_ok_def poller_start_def)
    then show ?thesis
      using True p(1) hid
      by (simp add: runtime_ok_def hub_ok_def r schedule_transport_def key_provider_def
          listening_transport_def requests_after_def)
  next
    case False
    then have "start_mqtt w subscribe arriving (legacy_prefix_of e) (new_coord hid pool) = Inr t"
      using t by (simp add: start_transport_def)
    from start_mqtt_ok [OF this c] obtain client c' where t': "t = OverMqtt (Some client) c' []" and
      "coord_inv c'" "co_household_id c' = hid" "(TOPIC_SUBSCRIBE_ALL, 1) \<in> set (mc_subscriptions client)" .
    then show ?thesis
      using False hid
      by (auto simp: runtime_ok_def hub_ok_def r schedule_transport_def listening_transport_def requests_after_def)
  qed
  then show "runtime_ok e r" "listening_transport (hb_transport (hr_hub r))" "requests_after log' r = log'"
    by simp_all
qed

subsection \<open>Backups and restores\<close>

lemma backup_view_fingerprint:
  "obj_get (entry_backup_settings (backup_view e r)) CONF_FINGERPRINT = settings_fingerprint e"
proof -
  have "CONF_FINGERPRINT \<noteq> py ''household_id''" by (simp add: CONF_FINGERPRINT_def py_def)
  then show ?thesis
    by (simp add: entry_backup_settings_def backup_view_def settings_fingerprint_def obj_get_def split: prod.splits)
qed

lemma trusted_pinned:
  assumes "hub_ok e hid (hr_hub r)" "trusted rp (backup_view e r) q"
  shows "backup_pinned e q"
  using assms backup_view_fingerprint [of e r]
  by (auto simp: hub_ok_def poller_ok_def trusted_def running_client_def backup_pinned_def backup_view_def
      split: hub_transport.splits)

lemma archived_pinned:
  assumes "hub_ok e hid (hr_hub r)" "archived e r log log'"
  shows "extends (backup_pinned e) log log'"
  using assms(2)
proof cases
  case (backup rp net hs now i explicit inc w x w')
  then show ?thesis
    using back_up_entry_trusted [OF backup(3)] trusted_pinned [OF assms(1)]
    by (auto simp: dict_get_def intro: extends_mono)
next
  case (restore rp net hs i secret blob w x w')
  then show ?thesis
    using restore_entry_trusted [OF restore(3)] trusted_pinned [OF assms(1)]
    by (auto simp: dict_get_def intro: extends_mono)
qed

subsection \<open>The invariant\<close>

lemma dropped_ok: "coord_inv c \<Longrightarrow> coord_inv (drop_pooled_state c)"
  "co_household_id (drop_pooled_state c) = co_household_id c" "co_pool (drop_pooled_state c) = None"
  by (auto simp: drop_pooled_state_def coord_inv_def pool_agrees_def)

lemma stopped_ok:
  assumes "hub_ok e hid h"
  shows "hub_ok e hid (h\<lparr>hb_transport := stop_transport (hb_transport h)\<rparr>)"
    "quiet (stop_transport (hb_transport h))"
  using assms
  by (auto simp: hub_ok_def poller_ok_def stop_transport_def poller_stop_def quiet_def client_stop_def
      command_key_def dropped_ok split: hub_transport.splits)

lemma unload_entry_one: "unload_entry b i [(i, r)] = (b, Some (stop_runtime r), [])"
  by (simp add: unload_entry_def dict_get_def dict_del_def)

lemma poll_scheduled:
  "po_scheduled (snd (poll_once i rp net p)) = po_scheduled p"
  "po_scheduled (snd (poll_safely i rp net p)) = po_scheduled p"
  by (auto simp: poll_safely_def poll_once_def Let_def split: prod.splits sum.splits)

lemma refreshed_scheduled: "then_refresh w op p = (r, p') \<Longrightarrow> po_scheduled p' = po_scheduled p"
  by (auto simp: then_refresh_def refresh_def poll_scheduled split: prod.splits sum.splits)

lemma publish_keeps_subscriptions:
  assumes "publish_authenticated_command pub env client h n key action ts = (q, client', new)"
  shows "mc_subscriptions client' = mc_subscriptions client"
  using assms
  by (auto simp: publish_authenticated_command_def Let_def split: if_splits sum.splits prod.splits option.splits)

definition same_listening :: "hub \<Rightarrow> hub \<Rightarrow> bool" where
  "same_listening h h' = (listening_transport (hb_transport h) \<longrightarrow> listening_transport (hb_transport h'))"

lemma guest_listening: "guest_operation w op h = (r, h') \<Longrightarrow> same_listening h h'"
  by (auto simp: guest_operation_def same_listening_def listening_transport_def refreshed_scheduled
      split: hub_transport.splits prod.splits)

lemma command_listening:
  assumes "send_lock_command w node_id action h = (r, h')"
  shows "same_listening h h'"
proof (cases "hb_transport h")
  case (OverDirect p)
  then show ?thesis
    using assms refreshed_scheduled
    by (auto simp: send_lock_command_def send_direct_command_def same_listening_def listening_transport_def
        split: prod.splits if_splits)
next
  case (OverMqtt m c ps)
  show ?thesis
  proof (cases m)
    case (Some client)
    from OverMqtt [unfolded Some] assms show ?thesis
    proof (cases rule: send_over_mqtt)
      case (sent key q client' new)
      then show ?thesis
        using OverMqtt Some publish_keeps_subscriptions [OF sent(2)]
        by (simp add: same_listening_def listening_transport_def)
    qed (simp add: same_listening_def)
  qed (use OverMqtt in \<open>simp add: same_listening_def listening_transport_def\<close>)
qed

lemma listening_operated: "operated h h' \<Longrightarrow> same_listening h h'"
proof (induction rule: operated.induct)
  case (access w enabled days h r h')
  then show ?case
    using guest_listening
    by (auto simp: set_guest_access_def same_listening_def split: if_splits sum.splits option.splits)
next
  case (command w node_id action h r h')
  then show ?case by (rule command_listening)
qed (simp_all only: teach_guest_tag_def revoke_guest_tag_def cancel_guest_write_def, (rule guest_listening, assumption)+)

lemma entry_step_inv: "entry_step e s s' \<Longrightarrow> entry_inv e s \<Longrightarrow> entry_inv e s'"
proof (induction rule: entry_step.induct)
  case (started s pool w hs subscribe arriving keys r log)
  note ok = setup_ok [OF started(3,2)] and log = runsD(1) [OF runs_setup started(3)]
  show ?case using started(1,4) ok log setup_over_mqtt [OF started(3)]
    by (auto simp: entry_inv_def entry_runtimes_def intro: list_all_extends)
next
  case (failed s pool w hs subscribe arriving keys x log)
  then show ?case
    using runsD(1) [OF runs_setup failed(3)] setup_over_mqtt [OF failed(3)]
    by (auto simp: entry_inv_def entry_runtimes_def intro: list_all_extends)
next
  case (message s r client c ps envs m)
  then show ?case
    by (auto simp: entry_inv_def entry_runtimes_def runtime_ok_def hub_ok_def with_transport_def ha_receive_ok
        listening_transport_def command_key_def)
next
  case (polled s r p envs rp net q p')
  have "po_scheduled p'" using poll_scheduled(2) [of "sink envs" rp net p] polled(3,4) by (simp add: tick_def)
  have "poller_ok e hid p \<Longrightarrow> poller_ok e hid p'" for hid
    using poll_safely_ok [of e hid p envs rp net] polled(4) by (simp add: tick_def)
  then show ?case
    using polled \<open>po_scheduled p'\<close>
    by (auto simp: entry_inv_def entry_runtimes_def runtime_ok_def hub_ok_def with_transport_def listening_transport_def)
next
  case (operation s r h')
  then show ?case
    using operated_ok [OF operation(2)] listening_operated [OF operation(2)]
    by (auto simp: same_listening_def entry_inv_def entry_runtimes_def runtime_ok_def)
next
  case (archiving s r log)
  then obtain hid where "hub_ok e hid (hr_hub r)" by (auto simp: entry_inv_def entry_runtimes_def runtime_ok_def)
  from archived_pinned [OF this archiving(2)] show ?case
    using archiving by (auto simp: entry_inv_def entry_runtimes_def intro: list_all_extends)
next
  case (unloaded s r platforms_unload i b r')
  then have r': "r' = stop_runtime r" by (simp add: unload_entry_one)
  obtain hid where hid: "ce_household_id e = Some hid" "hub_ok e hid (hr_hub r)"
    using unloaded by (auto simp: entry_inv_def entry_runtimes_def runtime_ok_def)
  have "list_all (pinned_by e) (requests_after (es_requests s) r')
      \<and> (transport_kind e \<noteq> TRANSPORT_DIRECT \<longrightarrow> requests_after (es_requests s) r' = [])"
    using stopped_ok(1) [OF hid(2)] unloaded(3)
    by (auto simp: r' stop_runtime_def requests_after_def hub_ok_def poller_ok_def entry_inv_def split: hub_transport.splits)
  moreover have "runtime_ok e r'"
    using hid stopped_ok(1) [OF hid(2)] unloaded by (auto simp: runtime_ok_def r' stop_runtime_def entry_inv_def entry_runtimes_def)
  ultimately show ?case
    using unloaded stopped_ok(2) [OF hid(2)] by (auto simp: entry_inv_def entry_runtimes_def r' stop_runtime_def)
qed

lemma entry_reachable_inv: "(entry_step e)\<^sup>*\<^sup>* not_loaded s \<Longrightarrow> entry_inv e s"
  by (induction rule: rtranclp_induct) (simp add: entry_inv_def entry_runtimes_def not_loaded_def, erule (1) entry_step_inv)

lemma all_requests_pinned:
  assumes "entry_inv e s"
  shows "list_all (pinned_by e) (all_requests s)"
proof (cases "es_runtime s")
  case (Some r)
  then obtain hid where "hub_ok e hid (hr_hub r)" using assms by (auto simp: entry_inv_def entry_runtimes_def runtime_ok_def)
  then show ?thesis
    using assms Some
    by (auto simp: all_requests_def requests_after_def hub_ok_def poller_ok_def entry_inv_def split: hub_transport.splits)
qed (use assms in \<open>simp add: all_requests_def entry_inv_def\<close>)

lemma mqtt_requests:
  assumes "entry_inv e s" "transport_kind e \<noteq> TRANSPORT_DIRECT"
  shows "all_requests s = []"
proof (cases "es_runtime s")
  case (Some r)
  then obtain hid where "hub_ok e hid (hr_hub r)" using assms by (auto simp: entry_inv_def entry_runtimes_def runtime_ok_def)
  then show ?thesis
    using assms Some by (auto simp: all_requests_def requests_after_def hub_ok_def entry_inv_def split: hub_transport.splits)
qed (use assms in \<open>simp add: all_requests_def entry_inv_def\<close>)

subsection \<open>What a runtime guarantees\<close>

lemma runtime_coordinator:
  assumes "runtime_ok e r"
  shows "coord_inv (hub_coord (hr_hub r))" "ce_household_id e = Some (co_household_id (hub_coord (hr_hub r)))"
  using assms by (auto simp: runtime_ok_def hub_ok_def hub_coord_def poller_ok_def split: hub_transport.splits)

lemma runtime_trusted:
  assumes "runtime_ok e r"
  shows "\<exists>hid. ce_household_id e = Some hid \<and> (case hb_transport (hr_hub r) of
      OverDirect p \<Rightarrow> transport_kind e = TRANSPORT_DIRECT \<and> command_key (hr_hub r) = None
    | OverMqtt m c ps \<Rightarrow> transport_kind e \<noteq> TRANSPORT_DIRECT
        \<and> (\<forall>p \<in> set ps. command_control_of e \<and> key_signed (stored_key (hr_key_store r) hid) hid p))"
proof -
  obtain hid where hid: "ce_household_id e = Some hid" "hub_ok e hid (hr_hub r)"
    "hb_key (hr_hub r) = key_provider e (hr_key_store r) hid"
    using assms by (auto simp: runtime_ok_def)
  show ?thesis
  proof (cases "hb_transport (hr_hub r)")
    case (OverDirect p)
    then show ?thesis using hid by (simp add: hub_ok_def command_key_def)
  next
    case (OverMqtt m c ps)
    have "command_control_of e \<and> key_signed (stored_key (hr_key_store r) hid) hid p"
      if "key_signed (command_key (hr_hub r)) hid p" for p
    proof -
      have "command_key (hr_hub r) \<noteq> None" using that by (auto simp: key_signed_def)
      then have "command_key (hr_hub r) = stored_key (hr_key_store r) hid \<and> command_control_of e"
        using hid(3) by (auto simp: command_key_def key_provider_def split: option.splits if_splits)
      then show ?thesis using that by simp
    qed
    then show ?thesis using hid(1,2) OverMqtt by (auto simp: hub_ok_def list_all_iff)
  qed
qed

end
