(* ===== verification/Verifier.thy ===== *)
theory Verifier imports Json Hashes Errors begin

section \<open>The firmware's side of a command\<close>

text \<open>
  \<open>tools/integration/firmware_verifier.py\<close>, the repository's independent statement of how the
  node checks a command: the action from the topic, the four typed fields, the MAC, the time
  window and the window of 32 nonces. \<open>verify\<close> returns its outcome and the verifier with its
  nonce window; exceptions other than \<open>FirmwareReject\<close> that the code lets escape are
  \<open>Escapes\<close>.
\<close>

definition V_COMMAND_KEY_LABEL :: pystr where [const_defs]: "V_COMMAND_KEY_LABEL = py ''HK-HOUSEHOLD-CMD-v1''"

definition MAX_SKEW_SECONDS :: int where [const_defs]: "MAX_SKEW_SECONDS = 300"

definition REPLAY_WINDOW :: nat where [const_defs]: "REPLAY_WINDOW = 32"

datatype reject_reason =
    EmptyKeyMaterial | UnknownTopic pystr | MalformedJson | NotAnObject | TsNotNumber
  | FieldsNotStrings | MacNotString | MacMismatch | OutsideWindow | ReplayedNonce

datatype verify_exc = FirmwareReject reject_reason | Escapes exc

definition v_encode :: "pystr \<Rightarrow> verify_exc + bytes" where
  "v_encode s = (case utf8 s of None \<Rightarrow> Inl (Escapes UnicodeEncodeError) | Some b \<Rightarrow> Inr b)"

definition v_derive_command_key :: "pystr \<Rightarrow> pystr \<Rightarrow> verify_exc + bytes" where
  "v_derive_command_key recovery_secret salt =
    bindE (v_encode (recovery_secret @ salt)) (\<lambda>material.
      if material = [] then Inl (FirmwareReject EmptyKeyMaterial)
      else bindE (v_encode V_COMMAND_KEY_LABEL) (\<lambda>label. Inr (blake2b label 32 material)))"

definition action_for_topic :: "pystr \<Rightarrow> pystr \<Rightarrow> verify_exc + pystr" where
  "action_for_topic base topic =
    (if topic = base @ py ''/command/unlock'' then Inr (py ''unlock'')
     else if topic = base @ py ''/command/lock'' then Inr (py ''lock'')
     else Inl (FirmwareReject (UnknownTopic topic)))"

definition expected_mac :: "bytes \<Rightarrow> int \<Rightarrow> pystr \<Rightarrow> pystr \<Rightarrow> pystr \<Rightarrow> verify_exc + pystr" where
  "expected_mac key ts nonce req_id action =
    bindE (v_encode (dec_int ts @ nonce @ req_id @ action)) (\<lambda>b.
      Inr (bytes_hex (hmac_sha256 key b)))"

text \<open>\<open>hmac.compare_digest\<close> on two strings: both must be ASCII.\<close>

definition compare_digest :: "pystr \<Rightarrow> pystr \<Rightarrow> verify_exc + bool" where
  "compare_digest a b =
    (if list_all (\<lambda>c. c < 128) a \<and> list_all (\<lambda>c. c < 128) b then Inr (a = b)
     else Inl (Escapes TypeError))"

record firmware_verifier =
  fv_key :: bytes
  fv_now :: "int option"
  fv_seen :: "pystr list"

definition accept_nonce :: "pystr \<Rightarrow> firmware_verifier \<Rightarrow> firmware_verifier" where
  "accept_nonce nonce v =
    (let seen = fv_seen v @ [nonce]
     in v\<lparr>fv_seen := if REPLAY_WINDOW < length seen then drop 1 seen else seen\<rparr>)"

definition command_fields ::
  "pystr \<Rightarrow> verify_exc + (int \<times> pystr \<times> pystr \<times> pystr)" where
  "command_fields payload =
    (case json_loads payload of
       None \<Rightarrow> Inl (FirmwareReject MalformedJson)
     | Some (JObj data) \<Rightarrow>
        (case obj_get data (py ''ts'') of
           JInt ts \<Rightarrow>
             (case (obj_get data (py ''nonce''), obj_get data (py ''req_id'')) of
                (JStr nonce, JStr req_id) \<Rightarrow>
                  (case obj_get data (py ''mac'') of
                     JStr mac \<Rightarrow> Inr (ts, nonce, req_id, mac)
                   | _ \<Rightarrow> Inl (FirmwareReject MacNotString))
              | _ \<Rightarrow> Inl (FirmwareReject FieldsNotStrings))
         | _ \<Rightarrow> Inl (FirmwareReject TsNotNumber))
     | _ \<Rightarrow> Inl (FirmwareReject NotAnObject))"

definition outside_window :: "int option \<Rightarrow> int \<Rightarrow> bool" where
  "outside_window now ts = (case now of
      None \<Rightarrow> False
    | Some n \<Rightarrow> ts - n < - MAX_SKEW_SECONDS \<or> MAX_SKEW_SECONDS < ts - n)"

definition verify :: "firmware_verifier \<Rightarrow> pystr \<Rightarrow> pystr \<Rightarrow> pystr
    \<Rightarrow> (verify_exc + pystr) \<times> firmware_verifier" where
  "verify v base topic payload =
    (case bindE (action_for_topic base topic) (\<lambda>action.
          bindE (command_fields payload) (\<lambda>(ts, nonce, req_id, mac).
          bindE (expected_mac (fv_key v) ts nonce req_id action) (\<lambda>expected.
          bindE (compare_digest expected mac) (\<lambda>same.
            if \<not> same then Inl (FirmwareReject MacMismatch)
            else if outside_window (fv_now v) ts then Inl (FirmwareReject OutsideWindow)
            else if nonce \<in> set (fv_seen v) then Inl (FirmwareReject ReplayedNonce)
            else Inr (action, nonce))))) of
       Inl e \<Rightarrow> (Inl e, v)
     | Inr (action, nonce) \<Rightarrow> (Inr action, accept_nonce nonce v))"

subsection \<open>What acceptance means\<close>

lemma bytes_hex_ascii: "list_all (\<lambda>c. c < 128) (bytes_hex b)"
  using bytes_hex_is_hex [of b] by (rule list.pred_mono_strong) (rule is_hex_ascii)

lemma action_for_topic_Inr:
  "action_for_topic base topic = Inr a \<longleftrightarrow>
     a = py ''unlock'' \<and> topic = base @ py ''/command/unlock''
     \<or> a = py ''lock'' \<and> topic = base @ py ''/command/lock''"
  by (auto simp: action_for_topic_def)

lemma command_fields_Inr:
  "command_fields payload = Inr (ts, nonce, req_id, mac) \<longleftrightarrow>
    (\<exists>d. json_loads payload = Some (JObj d) \<and> obj_get d (py ''ts'') = JInt ts
       \<and> obj_get d (py ''nonce'') = JStr nonce \<and> obj_get d (py ''req_id'') = JStr req_id
       \<and> obj_get d (py ''mac'') = JStr mac)"
  by (auto simp: command_fields_def split: option.splits json.splits)

lemma expected_mac_Inr:
  "expected_mac key ts nonce req_id action = Inr m \<longleftrightarrow>
    (\<exists>b. utf8 (dec_int ts @ nonce @ req_id @ action) = Some b \<and> m = bytes_hex (hmac_sha256 key b))"
  by (auto simp: expected_mac_def v_encode_def res_simps split: option.splits)

lemma compare_expected:
  assumes "expected_mac key ts nonce req_id action = Inr m"
  shows "compare_digest m mac = Inr s \<longleftrightarrow> list_all (\<lambda>c. c < 128) mac \<and> s = (m = mac)"
  using assms by (auto simp: compare_digest_def expected_mac_Inr bytes_hex_ascii)

lemma verify_accepts_iff:
  "verify v base topic payload = (Inr action, v') \<longleftrightarrow>
    (\<exists>ts nonce req_id mac b.
       (action = py ''unlock'' \<and> topic = base @ py ''/command/unlock''
        \<or> action = py ''lock'' \<and> topic = base @ py ''/command/lock'')
     \<and> command_fields payload = Inr (ts, nonce, req_id, mac)
     \<and> utf8 (dec_int ts @ nonce @ req_id @ action) = Some b
     \<and> mac = bytes_hex (hmac_sha256 (fv_key v) b)
     \<and> \<not> outside_window (fv_now v) ts
     \<and> nonce \<notin> set (fv_seen v)
     \<and> v' = accept_nonce nonce v)" (is "?l \<longleftrightarrow> ?r")
proof
  assume ?l
  then obtain nonce where *: "bindE (action_for_topic base topic) (\<lambda>action.
          bindE (command_fields payload) (\<lambda>(ts, nonce, req_id, mac).
          bindE (expected_mac (fv_key v) ts nonce req_id action) (\<lambda>expected.
          bindE (compare_digest expected mac) (\<lambda>same.
            if \<not> same then Inl (FirmwareReject MacMismatch)
            else if outside_window (fv_now v) ts then Inl (FirmwareReject OutsideWindow)
            else if nonce \<in> set (fv_seen v) then Inl (FirmwareReject ReplayedNonce)
            else Inr (action, nonce))))) = Inr (action, nonce)" and v': "v' = accept_nonce nonce v"
    by (auto simp: verify_def split: sum.splits prod.splits)
  then obtain ts req_id mac m where
    a: "action_for_topic base topic = Inr action" and
    f: "command_fields payload = Inr (ts, nonce, req_id, mac)" and
    m: "expected_mac (fv_key v) ts nonce req_id action = Inr m" and
    c: "compare_digest m mac = Inr True" and
    w: "\<not> outside_window (fv_now v) ts" "nonce \<notin> set (fv_seen v)"
    by (auto simp: res_simps split: if_splits)
  from c compare_expected [OF m] have "m = mac" by simp
  with a f m w v' show ?r
    unfolding action_for_topic_Inr expected_mac_Inr by blast
next
  assume ?r
  then obtain ts nonce req_id mac b where
    a: "action_for_topic base topic = Inr action" and
    f: "command_fields payload = Inr (ts, nonce, req_id, mac)" and
    b: "utf8 (dec_int ts @ nonce @ req_id @ action) = Some b"
       "mac = bytes_hex (hmac_sha256 (fv_key v) b)" and
    w: "\<not> outside_window (fv_now v) ts" "nonce \<notin> set (fv_seen v)" "v' = accept_nonce nonce v"
    unfolding action_for_topic_Inr [symmetric] by blast
  have m: "expected_mac (fv_key v) ts nonce req_id action = Inr mac"
    using b by (auto simp: expected_mac_Inr)
  have "compare_digest mac mac = Inr True"
    using compare_expected [OF m] b(2) bytes_hex_ascii by auto
  with a f m w show ?l by (simp add: verify_def)
qed

lemma verify_reject_keeps: "verify v base topic payload = (Inl e, v') \<Longrightarrow> v' = v"
  by (auto simp: verify_def split: sum.splits prod.splits)

subsection \<open>The nonce window\<close>

lemma accept_nonce_fields [simp]:
  "fv_key (accept_nonce n v) = fv_key v" "fv_now (accept_nonce n v) = fv_now v"
  by (simp_all add: accept_nonce_def Let_def)

lemma accept_nonce_seen:
  "length (fv_seen v) \<le> REPLAY_WINDOW \<Longrightarrow>
     fv_seen (accept_nonce n v) = last_n REPLAY_WINDOW (fv_seen v @ [n])"
  by (cases "length (fv_seen v) = 32")
    (auto simp: accept_nonce_def Let_def REPLAY_WINDOW_def last_n_def)

lemma accept_nonce_bounded:
  "length (fv_seen v) \<le> REPLAY_WINDOW \<Longrightarrow> length (fv_seen (accept_nonce n v)) \<le> REPLAY_WINDOW"
  by (simp add: accept_nonce_seen)

text \<open>The window of a verifier that accepted \<open>accepted\<close>: its last 32 nonces.\<close>

definition window_of :: "firmware_verifier \<Rightarrow> pystr list \<Rightarrow> bool" where
  "window_of v accepted = (fv_seen v = last_n REPLAY_WINDOW accepted)"

lemma last_n_snoc_last_n:
  "0 < k \<Longrightarrow> last_n k (last_n k xs @ [x]) = last_n k (xs @ [x])"
  by (cases k; cases "k \<le> length xs") (auto simp: last_n_def Suc_diff_Suc Suc_le_eq)

lemma window_of_accept: "window_of v accepted \<Longrightarrow> window_of (accept_nonce n v) (accepted @ [n])"
  by (simp add: window_of_def accept_nonce_seen last_n_snoc_last_n REPLAY_WINDOW_def)

end
