(* ===== verification/Delivery.thy ===== *)
theory Delivery imports Mqtt Verifier begin

section \<open>Commands from the client to the node\<close>

text \<open>
  The client half (\<open>mqtt.py\<close>, \<open>command.py\<close>) against the node's half
  (\<open>firmware_verifier.py\<close>): a \<open>session\<close> publishes a list of commands, hands every
  publication to a verifier whose clock is the given one, and records both outcomes. The
  lemmas say that both sides agree on the topic, on the MAC and on which nonces are new.
\<close>

subsection \<open>One command\<close>

lemma action_of_command_topic:
  assumes "action \<in> {ACTION_LOCK, ACTION_UNLOCK}"
  shows "action_for_topic (node_base h n) (pub_topic (command_publication h n action c)) = Inr action"
  using assms
  by (auto simp: action_for_topic_def command_publication_def node_topic_def Let_def const_defs py_def)

lemma hex_str_ok: "list_all is_hex s \<Longrightarrow> str_ok s"
  unfolding str_ok_def
  by (erule list.pred_mono_strong) (auto simp: scalar_value_def dest: is_hex_ascii)

lemma mac_hex: "make_command_mac key ts nonce rid action = Inr mac \<Longrightarrow> list_all is_hex mac"
  by (auto simp: make_command_mac_def res_simps bytes_hex_is_hex split: if_splits)

lemma command_fields_dumps:
  assumes "int_ok (ac_ts c)" "str_ok (ac_nonce c)" "str_ok (ac_req_id c)" "str_ok (ac_mac c)"
  shows "command_fields (dumps_command c) = Inr (ac_ts c, ac_nonce c, ac_req_id c, ac_mac c)"
proof -
  have "json_ok (command_to_dict c)"
    using assms by (simp add: command_to_dict_def dict_ok_def const_defs)
  then show ?thesis
    by (simp add: command_fields_def json_get_command) (simp add: command_to_dict_def const_defs)
qed

lemma signed_accepted:
  assumes sf: "signed_fresh env key action t command"
    and ts: "int_ok (ac_ts command)"
    and v: "fv_key v = key" "\<not> outside_window (fv_now v) (ac_ts command)"
      "ac_nonce command \<notin> set (fv_seen v)"
  shows "verify v (node_base h n) (pub_topic (command_publication h n action command))
      (pub_payload (command_publication h n action command))
    = (Inr action, accept_nonce (ac_nonce command) v)"
proof -
  have act: "action \<in> {ACTION_LOCK, ACTION_UNLOCK}"
    and mac: "make_command_mac key (ac_ts command) (ac_nonce command) (ac_req_id command) action
        = Inr (ac_mac command)"
    using sf unfolding signed_fresh_def by blast+
  have "str_ok (ac_nonce command)" "str_ok (ac_req_id command)" "str_ok (ac_mac command)"
    using sf mac_hex [OF mac] new_request_id_hex [of "de_uuid env"]
    unfolding signed_fresh_def by (metis hex_str_ok)+
  then have f: "command_fields (dumps_command command)
      = Inr (ac_ts command, ac_nonce command, ac_req_id command, ac_mac command)"
    using ts by (simp add: command_fields_dumps)
  obtain b where b: "utf8 (dec_int (ac_ts command) @ ac_nonce command @ ac_req_id command @ action) = Some b"
    "ac_mac command = bytes_hex (hmac_sha256 key b)"
    using mac by (auto simp: make_command_mac_def canonical_input_def encode_utf8_def
        split: if_splits option.splits)
  have "action = py ''unlock'' \<and> pub_topic (command_publication h n action command) = node_base h n @ py ''/command/unlock''
     \<or> action = py ''lock'' \<and> pub_topic (command_publication h n action command) = node_base h n @ py ''/command/lock''"
    using action_of_command_topic [OF act, of h n command] action_for_topic_Inr by blast
  then show ?thesis
    unfolding verify_accepts_iff using f b v
    by (auto simp: command_publication_def)
qed

subsection \<open>A session of commands\<close>

record attempt =
  at_env :: draw_env
  at_action :: pystr
  at_ts :: json
  at_now :: int

fun verify_each :: "pystr \<Rightarrow> publication list \<Rightarrow> firmware_verifier
    \<Rightarrow> (verify_exc + pystr) list \<times> firmware_verifier" where
  "verify_each base [] v = ([], v)"
| "verify_each base (p # ps) v =
    (case verify v base (pub_topic p) (pub_payload p) of
       (r, v') \<Rightarrow> (case verify_each base ps v' of (rs, v'') \<Rightarrow> (r # rs, v'')))"

fun session :: "pystr \<Rightarrow> pystr \<Rightarrow> bytes \<Rightarrow> mqtt_client \<Rightarrow> firmware_verifier \<Rightarrow> attempt list
    \<Rightarrow> ((exc + authenticated_command) \<times> (verify_exc + pystr) list) list" where
  "session h n key c v [] = []"
| "session h n key c v (a # as) =
    (case publish_authenticated_command (\<lambda>p. None) (at_env a) c h n key (at_action a) (at_ts a) of
       (r, c', ps) \<Rightarrow>
         (case verify_each (node_base h n) ps (v\<lparr>fv_now := Some (at_now a)\<rparr>) of
            (outs, v') \<Rightarrow> (r, outs) # session h n key c' v' as))"

text \<open>The node's clock is within the window of the time stamp the client uses.\<close>

definition attempt_in_time :: "attempt \<Rightarrow> bool" where
  "attempt_in_time a = (sound_draws (at_env a) \<and>
    (case at_ts a of
       JInt t \<Rightarrow> int_ok t \<and> \<not> outside_window (Some (at_now a)) t
     | JNull \<Rightarrow> (case current_epoch_seconds (de_now (at_env a)) of
                   Inr t \<Rightarrow> int_ok t \<and> \<not> outside_window (Some (at_now a)) t | Inl e \<Rightarrow> True)
     | _ \<Rightarrow> True))"

lemma session_accepted:
  assumes "tracks (mc_nonces c) issued" "nt_window (mc_nonces c) = REPLAY_WINDOW"
    "window_of v issued" "fv_key v = key" "list_all attempt_in_time as"
  shows "list_all (\<lambda>(a, r, outs). outs = (if is_ok r then [Inr (at_action a)] else []))
    (zip as (session h n key c v as))"
  using assms
proof (induction as arbitrary: c v issued)
  case Nil
  then show ?case by simp
next
  case (Cons a as)
  obtain r c' ps where pub: "publish_authenticated_command (\<lambda>p. None) (at_env a) c h n key
      (at_action a) (at_ts a) = (r, c', ps)"
    by (cases "publish_authenticated_command (\<lambda>p. None) (at_env a) c h n key (at_action a) (at_ts a)")
  define v1 where "v1 = v\<lparr>fv_now := Some (at_now a)\<rparr>"
  have v1: "fv_seen v1 = fv_seen v" "fv_key v1 = key" "fv_now v1 = Some (at_now a)"
    using Cons.prems(4) by (simp_all add: v1_def)
  from pub show ?case
  proof (cases rule: publish_spec)
    case silent
    then have "c' = c" using Cons.prems(5) by (simp add: attempt_in_time_def)
    moreover have "list_all (\<lambda>(a, r, outs). outs = (if is_ok r then [Inr (at_action a)] else []))
        (zip as (session h n key c v1 as))"
      by (rule Cons.IH) (use Cons.prems v1 in \<open>auto simp: window_of_def\<close>)
    moreover have "ps = []" "\<not> is_ok r" by (fact silent)+
    ultimately show ?thesis by (simp add: pub v1_def [symmetric])
  next
    case (published command)
    then have r: "r = Inr command" by simp
    have ts: "int_ok (ac_ts command)" "\<not> outside_window (Some (at_now a)) (ac_ts command)"
      using published(2) Cons.prems(5) by (auto simp: attempt_in_time_def signed_at_def)
    have "set (fv_seen v) \<subseteq> set (last_n REPLAY_WINDOW issued)"
      using Cons.prems(3) by (simp add: window_of_def)
    moreover have "ac_nonce command \<notin> set (last_n REPLAY_WINDOW issued)"
      using tracks_recent [OF Cons.prems(1)] published(1) Cons.prems(2)
      by (simp add: signed_fresh_def)
    ultimately have new: "ac_nonce command \<notin> set (fv_seen v1)" using v1 by auto
    have ver: "verify v1 (node_base h n) (pub_topic (command_publication h n (at_action a) command))
        (pub_payload (command_publication h n (at_action a) command))
      = (Inr (at_action a), accept_nonce (ac_nonce command) v1)"
      using signed_accepted [OF published(1) ts(1) v1(2) _ new] ts(2) v1(3) by simp
    have IH: "list_all (\<lambda>(a, r, outs). outs = (if is_ok r then [Inr (at_action a)] else []))
      (zip as (session h n key c' (accept_nonce (ac_nonce command) v1) as))"
    proof (rule Cons.IH)
      show "tracks (mc_nonces c') (issued @ [ac_nonce command])"
        using tracks_remember [OF Cons.prems(1)] published(3) by simp
      show "window_of (accept_nonce (ac_nonce command) v1) (issued @ [ac_nonce command])"
        using Cons.prems(3) v1(1) by (intro window_of_accept) (simp add: window_of_def)
    qed (use Cons.prems published(3) v1 in auto)
    show ?thesis
      using IH by (simp add: pub published(4) ver r v1_def [symmetric])
  qed
qed

subsection \<open>Commands that must succeed\<close>

text \<open>With a sound random source and a nonce the tracker does not hold, publishing a lock or
  unlock command with a non-empty key over a working transport succeeds.\<close>

lemma publish_total:
  assumes "key \<noteq> []" "action \<in> {ACTION_LOCK, ACTION_UNLOCK}" "sound_draws env"
    "j < 8" "bytes_hex (de_draws env j) \<notin> set (nt_seen (mc_nonces c))"
  shows "\<exists>command c'. publish_authenticated_command (\<lambda>p. None) env c h n key action (JInt ts) =
      (Inr command, c', [command_publication h n action command])
    \<and> signed_fresh env key action (mc_nonces c) command \<and> ac_ts command = ts"
proof -
  obtain command tr where b: "build_command env key action (JInt ts) None JNull (Some (mc_nonces c)) = (Inr command, tr)"
    using build_command_total [OF assms(1-4), of "mc_nonces c" ts] assms(5) by blast
  obtain r c' ps where pub: "publish_authenticated_command (\<lambda>p. None) env c h n key action (JInt ts) = (r, c', ps)"
    by (cases "publish_authenticated_command (\<lambda>p. None) env c h n key action (JInt ts)")
  have "is_ok r"
    using pub publish_signed [of key action "JInt ts" env "JInt ts" c "Inr command" tr "\<lambda>p. None" h n]
      assms(1,2) b by (auto simp: Let_def)
  from pub show ?thesis
  proof (cases rule: publish_spec)
    case silent
    then show ?thesis using \<open>is_ok r\<close> by simp
  next
    case (published command')
    then show ?thesis using pub by (auto simp: signed_at_def)
  qed
qed

subsection \<open>Replays\<close>

lemma accept_nonce_mem: "n \<in> set (fv_seen (accept_nonce n v))"
  by (cases "fv_seen v") (auto simp: accept_nonce_def Let_def REPLAY_WINDOW_def)

lemma fold_accept_fields [simp]:
  "fv_key (fold accept_nonce ns v) = fv_key v" "fv_now (fold accept_nonce ns v) = fv_now v"
  by (induction ns arbitrary: v) simp_all

lemma fold_accept_window:
  "window_of v accepted \<Longrightarrow> window_of (fold accept_nonce ns v) (accepted @ ns)"
proof (induction ns arbitrary: v accepted)
  case (Cons n ns)
  then show ?case using Cons.IH [OF window_of_accept [OF Cons.prems, of n]] by simp
qed simp

lemma last_n_mem: "length ys < k \<Longrightarrow> x \<in> set (last_n k (xs @ x # ys))"
  by (auto simp: last_n_def)

lemma verify_replay:
  assumes "verify v base topic payload = (Inr action, v1)" "window_of v accepted"
    "length ns < REPLAY_WINDOW"
  shows "verify (fold accept_nonce ns v1) base topic payload
    = (Inl (FirmwareReject ReplayedNonce), fold accept_nonce ns v1)"
proof -
  from assms(1) obtain ts nonce req_id mac b where
    a: "action_for_topic base topic = Inr action" and
    f: "command_fields payload = Inr (ts, nonce, req_id, mac)" and
    b: "utf8 (dec_int ts @ nonce @ req_id @ action) = Some b"
       "mac = bytes_hex (hmac_sha256 (fv_key v) b)" and
    w: "\<not> outside_window (fv_now v) ts" "v1 = accept_nonce nonce v"
    unfolding verify_accepts_iff action_for_topic_Inr [symmetric] by blast
  define u where "u = fold accept_nonce ns v1"
  have u: "fv_key u = fv_key v" "fv_now u = fv_now v" by (simp_all add: u_def w(2))
  have "window_of u ((accepted @ [nonce]) @ ns)"
    unfolding u_def w(2) by (rule fold_accept_window [OF window_of_accept [OF assms(2)]])
  then have mem: "nonce \<in> set (fv_seen u)"
    using last_n_mem [OF assms(3)] by (simp add: window_of_def)
  have m: "expected_mac (fv_key u) ts nonce req_id action = Inr mac"
    using b u by (auto simp: expected_mac_Inr)
  have "compare_digest mac mac = Inr True"
    using compare_expected [OF m] b(2) bytes_hex_ascii by auto
  then show ?thesis
    using a f m w(1) u mem by (simp add: verify_def u_def [symmetric])
qed

end
