(* ===== verification/Reach.thy ===== *)
theory Reach imports Lifecycle Delivery begin

section \<open>From an entry to its nodes\<close>

text \<open>
  \<open>Lifecycle\<close> says what an entry over MQTT has published, \<open>Delivery\<close> what a node's verifier accepts.
  Here they meet: a publication of the entry at the node it names, at every other node, and at a node
  that has already had it.
\<close>

subsection \<open>One topic, one node\<close>

lemma action_for_other_node:
  assumes "base \<noteq> node_base h n" "action \<in> {ACTION_LOCK, ACTION_UNLOCK}"
  shows "action_for_topic base (pub_topic (command_publication h n action command))
    = Inl (FirmwareReject (UnknownTopic (pub_topic (command_publication h n action command))))"
proof -
  have "base @ py ''/command/lock'' \<noteq> b @ py ''/command/unlock''"
    "base @ py ''/command/unlock'' \<noteq> b @ py ''/command/lock''" for b
    using arg_cong [of _ _ "\<lambda>s. take 5 (rev s)"] by (auto simp: py_def)
  moreover have "pub_topic (command_publication h n action command) = node_base h n @ py ''/command/unlock''
     \<or> pub_topic (command_publication h n action command) = node_base h n @ py ''/command/lock''"
    using action_of_command_topic [OF assms(2), of h n command] action_for_topic_Inr by blast
  ultimately show ?thesis using assms(1) by (auto simp: action_for_topic_def)
qed

lemma verify_unknown_topic: "action_for_topic base topic = Inl e \<Longrightarrow> verify v base topic payload = (Inl e, v)"
  by (simp add: verify_def)

subsection \<open>A publication at the nodes\<close>

text \<open>QoS 1 may deliver a message twice.\<close>

lemma signed_reaches_once:
  assumes "signed_fresh env key action t command" "int_ok (ac_ts command)" "fv_key v = key"
    "\<not> outside_window (fv_now v) (ac_ts command)" "ac_nonce command \<notin> set (fv_seen v)" "window_of v accepted"
  shows "verify_each (node_base h n) [command_publication h n action command, command_publication h n action command] v
    = ([Inr action, Inl (FirmwareReject ReplayedNonce)], accept_nonce (ac_nonce command) v)"
proof -
  have first: "verify v (node_base h n) (pub_topic (command_publication h n action command))
      (pub_payload (command_publication h n action command)) = (Inr action, accept_nonce (ac_nonce command) v)"
    by (rule signed_accepted [OF assms(1-5)])
  from first verify_replay [OF first assms(6), of "[]"] show ?thesis by (simp add: REPLAY_WINDOW_def)
qed

lemma signed_elsewhere:
  assumes "signed_fresh env key action t command" "base \<noteq> node_base h n"
  shows "verify_each base [command_publication h n action command] v
    = ([Inl (FirmwareReject (UnknownTopic (pub_topic (command_publication h n action command))))], v)"
proof -
  have "action \<in> {ACTION_LOCK, ACTION_UNLOCK}" using assms(1) by (simp add: signed_fresh_def)
  from verify_unknown_topic [OF action_for_other_node [OF assms(2) this]] show ?thesis by simp
qed

subsection \<open>Which command a payload carries\<close>

text \<open>The time stamp is the first member of the payload.\<close>

lemma dumps_command_ts: "dumps_command c = dumps_command c' \<Longrightarrow> ac_ts c = ac_ts c'"
proof -
  have "list_all (\<lambda>d. d \<noteq> 44) (dec_nat n)" for n
    using dec_nat_digits [of n] by (rule list.pred_mono_strong) (simp add: is_digit_def)
  then have digits: "list_all (\<lambda>d. d \<noteq> 44) (dec_int i)" for i by (simp add: dec_int_def)
  have ts: "takeWhile (\<lambda>d. d \<noteq> 44) (drop 6 (dumps_command c)) = dec_int (ac_ts c)" for c :: authenticated_command
  proof -
    have "dump_str (py ''ts'') = [34, 116, 115, 34]" by (simp add: dump_str_def dump_char_def py_def)
    then obtain r where "dumps_command c = [123, 34, 116, 115, 34, 58] @ dec_int (ac_ts c) @ 44 # r"
      by (simp add: dumps_command_def command_to_dict_def const_defs py_def)
    then show ?thesis using digits [of "ac_ts c"] by (simp add: list_all_iff takeWhile_append2)
  qed
  assume "dumps_command c = dumps_command c'"
  then show ?thesis using ts [of c] ts [of c'] by simp
qed

lemma publish_now:
  assumes "current_epoch_seconds (de_now env) = Inr t"
  shows "publish_authenticated_command pub env c h n key action JNull
    = publish_authenticated_command pub env c h n key action (JInt t)"
  using assms by (simp add: publish_authenticated_command_def)

subsection \<open>Subscribing leaves the nonces alone\<close>

lemma subscribed_nonces:
  "fst (subscribe_each (\<lambda>t. None) ts k) = Inr ()"
  "mc_nonces (snd (subscribe_each (\<lambda>t. None) ts k)) = mc_nonces k"
  by (induction ts arbitrary: k) auto

end
