(* ===== verification/Entities.thy ===== *)
theory Entities imports Setup begin

section \<open>Entities\<close>

text \<open>
  \<open>entity.py\<close>, \<open>discovery.py\<close> and the platforms lock, binary sensor, switch, number and button. An
  entity is its coordinator and a node id: its properties are functions of the \<open>hub\<close> and the id.
  Attributes are dictionaries of JSON values; times are integers of milliseconds.
\<close>

subsection \<open>The base entity\<close>

definition entity_node :: "hub \<Rightarrow> pystr \<Rightarrow> node option" where
  "entity_node h node_id = get_node (hub_coord h) node_id"

definition guest_reported :: "hub \<Rightarrow> pystr \<Rightarrow> bool" where
  "guest_reported h node_id = (case entity_node h node_id of None \<Rightarrow> False | Some n \<Rightarrow> nd_guest n \<noteq> None)"

definition entity_available :: "hub \<Rightarrow> pystr \<Rightarrow> bool" where
  "entity_available h node_id = (case entity_node h node_id of None \<Rightarrow> False | Some n \<Rightarrow> node_available n)"

text \<open>The context an update is written with, if any.\<close>

definition update_context :: "hub \<Rightarrow> pystr \<Rightarrow> nat option" where
  "update_context h node_id = pending_context (hub_coord h) node_id"

record device_info =
  di_identifiers :: "(pystr \<times> pystr \<times> pystr) list"
  di_name :: pystr
  di_manufacturer :: pystr
  di_model :: pystr
  di_sw_version :: pystr

definition device_info_of :: "hub \<Rightarrow> pystr \<Rightarrow> device_info" where
  "device_info_of h node_id =
    (let node = entity_node h node_id
     in \<lparr>di_identifiers = device_identifiers (co_household_id (hub_coord h)) node_id,
         di_name = py ''HomeKey Household Node: '' @
           (case node of None \<Rightarrow> node_id | Some n \<Rightarrow> nd_node_name n),
         di_manufacturer = MANUFACTURER, di_model = MODEL,
         di_sw_version = (case node of
             None \<Rightarrow> TARGET_FIRMWARE_VERSION
           | Some n \<Rightarrow> if str_or (nd_firmware n) [] = [] then TARGET_FIRMWARE_VERSION else str_or (nd_firmware n) [])\<rparr>)"

definition json_str :: "pystr option \<Rightarrow> json" where
  "json_str v = (case v of None \<Rightarrow> JNull | Some s \<Rightarrow> JStr s)"

definition json_int :: "int option \<Rightarrow> json" where
  "json_int v = (case v of None \<Rightarrow> JNull | Some i \<Rightarrow> JInt i)"

definition json_bool :: "bool option \<Rightarrow> json" where
  "json_bool v = (case v of None \<Rightarrow> JNull | Some b \<Rightarrow> JBool b)"

definition base_attributes :: "hub \<Rightarrow> pystr \<Rightarrow> (pystr \<times> json) list" where
  "base_attributes h node_id = (case entity_node h node_id of
      None \<Rightarrow> []
    | Some n \<Rightarrow>
       [(py ''household_id'', JStr (nd_household_id n)), (py ''node_id'', JStr (nd_node_id n)),
        (py ''node_role'', JStr (nd_node_role n)), (py ''node_state'', JStr (nd_node_state n)),
        (py ''last_seen'', json_str (nd_last_seen n))])"

subsection \<open>Discovery\<close>

text \<open>A platform's listener: the ids it has seen, the calls of the factory in order, and what it has
  given to \<open>async_add_entities\<close>, call by call.\<close>

record 'e listener =
  li_seen :: "pystr set"
  li_factory_calls :: "pystr list"
  li_added :: "'e list list"

definition new_listener :: "'e listener" where
  "new_listener = \<lparr>li_seen = {}, li_factory_calls = [], li_added = []\<rparr>"

fun new_entities :: "(pystr \<Rightarrow> 'e list) \<Rightarrow> pystr list \<Rightarrow> 'e listener \<Rightarrow> 'e list \<times> 'e listener" where
  "new_entities factory [] l = ([], l)"
| "new_entities factory (n # ns) l =
    (if n \<in> li_seen l then new_entities factory ns l
     else (case new_entities factory ns
             (l\<lparr>li_seen := insert n (li_seen l), li_factory_calls := li_factory_calls l @ [n]\<rparr>) of
         (es, l') \<Rightarrow> (factory n @ es, l')))"

definition add_new_nodes :: "(pystr \<Rightarrow> 'e list) \<Rightarrow> coord \<Rightarrow> 'e listener \<Rightarrow> 'e listener" where
  "add_new_nodes factory c l =
    (case new_entities factory (dict_keys (co_nodes c)) l of
       (es, l') \<Rightarrow> if es = [] then l' else l'\<lparr>li_added := li_added l' @ [es]\<rparr>)"

text \<open>The initial pass; then the listener runs with every update the coordinator publishes.\<close>

definition add_entities_for_nodes :: "(pystr \<Rightarrow> 'e list) \<Rightarrow> coord \<Rightarrow> 'e listener" where
  "add_entities_for_nodes factory c = add_new_nodes factory c new_listener"

definition listen :: "(pystr \<Rightarrow> 'e list) \<Rightarrow> ingest_env \<times> message \<Rightarrow> coord \<times> 'e listener \<Rightarrow> coord \<times> 'e listener" where
  "listen factory em s = (case s of (c, l) \<Rightarrow>
     (let c' = handle_message (fst em) (snd em) c
      in (c', if length (co_delivered c) < length (co_delivered c') then add_new_nodes factory c' l else l)))"

subsection \<open>The lock\<close>

definition lock_unique_id :: "hub \<Rightarrow> pystr \<Rightarrow> pystr" where
  "lock_unique_id h node_id = unique_id (co_household_id (hub_coord h)) node_id ENTITY_LOCK"

definition lock_is_locked :: "hub \<Rightarrow> pystr \<Rightarrow> bool option" where
  "lock_is_locked h node_id = (case entity_node h node_id of
      None \<Rightarrow> None
    | Some n \<Rightarrow> if node_lock_state n = LS_UNKNOWN then None else Some (node_lock_state n = LS_LOCKED))"

definition lock_is :: "lock_state \<Rightarrow> hub \<Rightarrow> pystr \<Rightarrow> bool option" where
  "lock_is s h node_id = map_option (\<lambda>n. node_lock_state n = s) (entity_node h node_id)"

definition lock_is_jammed :: "hub \<Rightarrow> pystr \<Rightarrow> bool option" where
  "lock_is_jammed = lock_is LS_JAMMED"

definition lock_is_locking :: "hub \<Rightarrow> pystr \<Rightarrow> bool option" where
  "lock_is_locking = lock_is LS_LOCKING"

definition lock_is_unlocking :: "hub \<Rightarrow> pystr \<Rightarrow> bool option" where
  "lock_is_unlocking = lock_is LS_UNLOCKING"

definition lock_attributes :: "hub \<Rightarrow> pystr \<Rightarrow> (pystr \<times> json) list" where
  "lock_attributes h node_id =
    (let attributes = base_attributes h node_id in case entity_node h node_id of
       None \<Rightarrow> attributes
     | Some n \<Rightarrow>
        (let a1 = dict_set attributes (py ''lock_state'') (JStr (lock_state_str (node_lock_state n)));
             a2 = (case nd_health n of
                 None \<Rightarrow> a1
               | Some health \<Rightarrow> dict_set (dict_set a1 (py ''lock_current'') (json_int (nh_lock_current health)))
                   (py ''lock_target'') (json_int (nh_lock_target health)))
         in dict_set a2 (py ''authenticated_control'') (JBool (command_control_enabled h))))"

text \<open>Between two looks at the node the coordinator handles the messages that arrive.\<close>

primrec look :: "coord \<Rightarrow> (nat \<Rightarrow> (ingest_env \<times> message) list) \<Rightarrow> nat \<Rightarrow> coord" where
  "look c arriving 0 = c"
| "look c arriving (Suc i) = handle_messages (arriving i) (look c arriving i)"

definition reports_state :: "coord \<Rightarrow> pystr \<Rightarrow> lock_state \<Rightarrow> bool" where
  "reports_state c node_id target = (case get_node c node_id of
      None \<Rightarrow> False | Some n \<Rightarrow> node_lock_state n = target)"

text \<open>\<open>clock i\<close> is the time read after look \<open>i\<close>; the loop ends only if the clock gets there.\<close>

partial_function (option) wait_loop :: "(nat \<Rightarrow> coord) \<Rightarrow> (nat \<Rightarrow> int) \<Rightarrow> pystr \<Rightarrow> lock_state \<Rightarrow> int \<Rightarrow> nat
    \<Rightarrow> bool option" where
  "wait_loop looks clock node_id target deadline i =
    (if reports_state (looks i) node_id target then Some True
     else if deadline \<le> clock i then Some False
     else wait_loop looks clock node_id target deadline (Suc i))"

definition wait_for_state :: "(nat \<Rightarrow> coord) \<Rightarrow> int \<Rightarrow> (nat \<Rightarrow> int) \<Rightarrow> pystr \<Rightarrow> lock_state \<Rightarrow> bool option" where
  "wait_for_state looks now clock node_id target =
    wait_loop looks clock node_id target (now + COMMAND_CONFIRM_TIMEOUT_SECONDS_MS) 0"

text \<open>\<open>_async_send\<close>: what it ends with (\<open>None\<close>: it does not end), and the hub after the command.\<close>

definition lock_send :: "outside \<Rightarrow> (nat \<Rightarrow> (ingest_env \<times> message) list) \<Rightarrow> int \<Rightarrow> (nat \<Rightarrow> int) \<Rightarrow> pystr
    \<Rightarrow> pystr \<Rightarrow> hub \<Rightarrow> (exc + unit) option \<times> hub" where
  "lock_send w arriving now clock node_id action h =
    (let target = (if action = py ''lock'' then LS_LOCKED else LS_UNLOCKED) in
     case send_lock_command w node_id action h of
       (Inl e, h') \<Rightarrow> (Some (Inl HomeAssistantError), h')
     | (Inr d, h') \<Rightarrow>
        (case wait_for_state (look (hub_coord h') arriving) now clock node_id target of
           None \<Rightarrow> (None, h')
         | Some b \<Rightarrow> (Some (if b then Inr () else Inl ServiceValidationError), h')))"

definition async_lock where
  "async_lock w arriving now clock node_id = lock_send w arriving now clock node_id (py ''lock'')"

definition async_unlock where
  "async_unlock w arriving now clock node_id = lock_send w arriving now clock node_id (py ''unlock'')"

subsection \<open>The online sensor\<close>

definition online_is_on :: "hub \<Rightarrow> pystr \<Rightarrow> bool option" where
  "online_is_on h node_id = map_option nd_online (entity_node h node_id)"

definition online_available :: "hub \<Rightarrow> pystr \<Rightarrow> bool" where
  "online_available h node_id = (entity_node h node_id \<noteq> None)"

definition online_attributes :: "hub \<Rightarrow> pystr \<Rightarrow> (pystr \<times> json) list" where
  "online_attributes h node_id = (case entity_node h node_id of
      None \<Rightarrow> base_attributes h node_id
    | Some n \<Rightarrow> dict_set (base_attributes h node_id) (py ''lwt_online'') (json_bool (nd_lwt_online n)))"

definition online_unique_id :: "hub \<Rightarrow> pystr \<Rightarrow> pystr" where
  "online_unique_id h node_id = unique_id (co_household_id (hub_coord h)) node_id ENTITY_SENSOR_ONLINE"

subsection \<open>The guest controls\<close>

definition switch_available :: "hub \<Rightarrow> pystr \<Rightarrow> bool" where
  "switch_available h node_id = (entity_available h node_id \<and> guest_manageable h \<and> guest_reported h node_id)"

definition entity_guest :: "hub \<Rightarrow> pystr \<Rightarrow> guest_state option" where
  "entity_guest h node_id = (case entity_node h node_id of None \<Rightarrow> None | Some n \<Rightarrow> nd_guest n)"

definition switch_is_on :: "hub \<Rightarrow> pystr \<Rightarrow> bool option" where
  "switch_is_on h node_id = map_option gs_enabled (entity_guest h node_id)"

text \<open>Whatever an operation raises is reported as a \<open>HomeAssistantError\<close>.\<close>

definition reported_to_user :: "('s, exc, 'a) comp \<Rightarrow> ('s, exc, unit) comp" where
  "reported_to_user operation s = (case operation s of
      (Inl e, s') \<Rightarrow> (Inl HomeAssistantError, s') | (Inr v, s') \<Rightarrow> (Inr (), s'))"

definition switch_set :: "outside \<Rightarrow> bool \<Rightarrow> (hub, exc, unit) comp" where
  "switch_set w enabled = reported_to_user (set_guest_access w (Some enabled) None)"

definition turn_on :: "outside \<Rightarrow> (hub, exc, unit) comp" where "turn_on w = switch_set w True"
definition turn_off :: "outside \<Rightarrow> (hub, exc, unit) comp" where "turn_off w = switch_set w False"

definition switch_attributes :: "hub \<Rightarrow> pystr \<Rightarrow> exc + (pystr \<times> json) list" where
  "switch_attributes h node_id = (case entity_guest h node_id of
      None \<Rightarrow> Inr (base_attributes h node_id)
    | Some g \<Rightarrow> bindE (default_validity_days g) (\<lambda>days. Inr (dict_update (base_attributes h node_id)
        [(py ''tags'', JInt (gs_count g)), (py ''capacity'', JInt (gs_capacity g)),
         (py ''default_validity_days'', JFloat (float_round2 days)),
         (py ''node_has_wall_clock'', JBool (has_wall_clock g))])))"

definition number_available :: "hub \<Rightarrow> pystr \<Rightarrow> bool" where
  "number_available h node_id = (entity_available h node_id \<and> guest_manageable h \<and> guest_reported h node_id)"

definition number_value :: "hub \<Rightarrow> pystr \<Rightarrow> exc + pyfloat option" where
  "number_value h node_id = (case entity_guest h node_id of
      None \<Rightarrow> Inr None | Some g \<Rightarrow> map_sum id Some (default_validity_days g))"

definition number_set :: "outside \<Rightarrow> pyfloat \<Rightarrow> (hub, exc, unit) comp" where
  "number_set w days = reported_to_user (set_guest_access w None (Some days))"

definition teach_available :: "hub \<Rightarrow> pystr \<Rightarrow> bool" where
  "teach_available h node_id = (entity_available h node_id \<and> guest_manageable h \<and> guest_reported h node_id)"

definition press_teach :: "outside \<Rightarrow> (hub, exc, unit) comp" where
  "press_teach w = reported_to_user (teach_guest_tag w None None)"

definition cancel_available :: "hub \<Rightarrow> pystr \<Rightarrow> bool" where
  "cancel_available h node_id = (entity_available h node_id \<and> guest_manageable h \<and> guest_reported h node_id)"

definition press_cancel :: "outside \<Rightarrow> (hub, exc, unit) comp" where
  "press_cancel w = reported_to_user (cancel_guest_write w)"

text \<open>The store and the entry of the coordinator, either of which may be missing.\<close>

definition press_backup :: "(json \<Rightarrow> pystr) \<Rightarrow> network \<Rightarrow> (pystr \<Rightarrow> int \<Rightarrow> handshake) \<Rightarrow> int
    \<Rightarrow> (pystr, runtime) dict \<Rightarrow> pystr option \<Rightarrow> (backup_world option, exc, unit) comp" where
  "press_backup rp net hs now runtimes entry_id world =
    (case (world, entry_id) of
       (Some w, Some i) \<Rightarrow> (case back_up_entry rp net hs now runtimes i True None w of (r, w') \<Rightarrow> (r, Some w'))
     | _ \<Rightarrow> (Inl HomeAssistantError, world))"

subsection \<open>Every node gets its entities once\<close>

lemma new_entities_spec:
  "\<exists>ks. li_factory_calls (snd (new_entities factory ns l)) = li_factory_calls l @ ks
     \<and> set ks = set ns - li_seen l \<and> distinct ks
     \<and> li_seen (snd (new_entities factory ns l)) = li_seen l \<union> set ns
     \<and> li_added (snd (new_entities factory ns l)) = li_added l
     \<and> fst (new_entities factory ns l) = concat (map factory ks)"
proof (induction ns arbitrary: l)
  case (Cons n ns)
  show ?case
  proof (cases "n \<in> li_seen l")
    case True
    then show ?thesis using Cons.IH [of l] by auto
  next
    case False
    define l1 where "l1 = l\<lparr>li_seen := insert n (li_seen l), li_factory_calls := li_factory_calls l @ [n]\<rparr>"
    obtain ks where ks: "li_factory_calls (snd (new_entities factory ns l1)) = li_factory_calls l1 @ ks"
      "set ks = set ns - li_seen l1" "distinct ks"
      "li_seen (snd (new_entities factory ns l1)) = li_seen l1 \<union> set ns"
      "li_added (snd (new_entities factory ns l1)) = li_added l1"
      "fst (new_entities factory ns l1) = concat (map factory ks)"
      using Cons.IH [of l1] by blast
    have "new_entities factory (n # ns) l = (factory n @ fst (new_entities factory ns l1), snd (new_entities factory ns l1))"
      using False by (simp add: l1_def split: prod.splits)
    then show ?thesis using ks False
      by (intro exI [of _ "n # ks"]) (auto simp: l1_def)
  qed
qed simp

text \<open>\<open>listening c l\<close>: the factory was called once for each id it was called for, all of them ids of
  nodes of \<open>c\<close>, and what it returned is what was added, in that order.\<close>

definition listening :: "(pystr \<Rightarrow> 'e list) \<Rightarrow> coord \<Rightarrow> 'e listener \<Rightarrow> bool" where
  "listening factory c l = (distinct (li_factory_calls l) \<and> li_seen l = set (li_factory_calls l)
     \<and> (\<forall>k \<in> set (li_factory_calls l). get_node c k \<noteq> None)
     \<and> concat (li_added l) = concat (map factory (li_factory_calls l)))"

lemma add_new_nodes_listening:
  assumes "listening factory c l"
  shows "listening factory c (add_new_nodes factory c l)"
    "set (li_factory_calls (add_new_nodes factory c l)) = set (dict_keys (co_nodes c))"
proof -
  let ?p = "new_entities factory (dict_keys (co_nodes c)) l"
  obtain ks where ks: "li_factory_calls (snd ?p) = li_factory_calls l @ ks"
    "set ks = set (dict_keys (co_nodes c)) - li_seen l" "distinct ks"
    "li_seen (snd ?p) = li_seen l \<union> set (dict_keys (co_nodes c))"
    "li_added (snd ?p) = li_added l" "fst ?p = concat (map factory ks)"
    using new_entities_spec by blast
  have a: "add_new_nodes factory c l = (if fst ?p = [] then snd ?p else (snd ?p)\<lparr>li_added := li_added l @ [fst ?p]\<rparr>)"
    using ks(5) by (cases ?p) (simp add: add_new_nodes_def)
  have known: "set (li_factory_calls l) \<subseteq> set (dict_keys (co_nodes c))"
    using assms by (auto simp: listening_def get_node_def dict_get_None_iff)
  show "set (li_factory_calls (add_new_nodes factory c l)) = set (dict_keys (co_nodes c))"
    using a ks known assms by (auto simp: listening_def)
  show "listening factory c (add_new_nodes factory c l)"
    using assms ks unfolding a listening_def
    by (auto simp: get_node_def dict_get_None_iff)
qed

lemma add_entities_listening:
  "listening factory c (add_entities_for_nodes factory c)"
  "set (li_factory_calls (add_entities_for_nodes factory c)) = set (dict_keys (co_nodes c))"
  using add_new_nodes_listening [of factory c new_listener]
  by (simp_all add: add_entities_for_nodes_def listening_def new_listener_def)

lemma listening_message:
  "listening factory c l \<Longrightarrow> listening factory (handle_message env m c) l"
  using handle_message_keeps_nodes by (auto simp: listening_def)

lemma listen_listening:
  "listening factory (fst s) (snd s) \<Longrightarrow> listening factory (fst (listen factory em s)) (snd (listen factory em s))"
proof -
  assume l: "listening factory (fst s) (snd s)"
  obtain c k env m where s: "s = (c, k)" "em = (env, m)" by (cases s, cases em)
  have kept: "listening factory (handle_message env m c) k" using l listening_message by (simp add: s)
  show ?thesis using kept add_new_nodes_listening(1) [OF kept] by (simp add: s listen_def Let_def)
qed

lemma run_listening:
  "listening factory (fst s) (snd s) \<Longrightarrow>
   listening factory (fst (fold (listen factory) ms s)) (snd (fold (listen factory) ms s))
   \<and> fst (fold (listen factory) ms s) = handle_messages ms (fst s)"
proof (induction ms arbitrary: s)
  case (Cons em ms)
  obtain env m where em: "em = (env, m)" by (cases em)
  have "fst (listen factory em s) = handle_message env m (fst s)"
    by (simp add: em listen_def Let_def split: prod.splits)
  then show ?case
    using Cons.IH [OF listen_listening [OF Cons.prems, of em]] by (auto simp: em)
qed simp

lemma listen_caught_up:
  assumes "listening factory c l" "length (co_delivered c) < length (co_delivered (handle_message env m c))"
  shows "set (li_factory_calls (snd (listen factory (env, m) (c, l)))) = set (dict_keys (co_nodes (handle_message env m c)))"
  using add_new_nodes_listening(2) [OF listening_message [OF assms(1)]] assms(2)
  by (simp add: listen_def Let_def)

text \<open>A message delivers at most one update.\<close>

lemma handle_message_delivered:
  "co_delivered (handle_message env m c) = co_delivered c \<or>
   (\<exists>d. co_delivered (handle_message env m c) = co_delivered c @ [d])"
proof (cases "msg_household_id m = co_household_id c")
  case True
  obtain r c' where d: "dispatch env m c = (r, c')" by (cases "dispatch env m c")
  from d have "co_delivered c' = co_delivered c \<or> (\<exists>d. co_delivered c' = co_delivered c @ [d])"
  proof (cases rule: dispatch_cases)
    case (failed nid h e)
    then show ?thesis by (auto simp: handled_def)
  next
    case (finished nid h c1)
    then show ?thesis by (auto simp: handled_def)
  qed simp
  then show ?thesis using True d by (simp add: handle_message_def)
qed (simp add: handle_message_def)

subsection \<open>Waiting for the node ends\<close>

lemma wait_loop_to:
  assumes "i \<le> n" "reports_state (looks n) node_id target \<or> deadline \<le> clock n"
    "\<And>j. i \<le> j \<Longrightarrow> j < n \<Longrightarrow> \<not> reports_state (looks j) node_id target \<and> clock j < deadline"
  shows "wait_loop looks clock node_id target deadline i = Some (reports_state (looks n) node_id target)"
  using assms
proof (induction "n - i" arbitrary: i)
  case 0
  then show ?case by (subst wait_loop.simps) auto
next
  case (Suc d)
  then have "i < n" by simp
  then have step: "\<not> reports_state (looks i) node_id target" "clock i < deadline" using Suc.prems(3) by auto
  have "wait_loop looks clock node_id target deadline (Suc i) = Some (reports_state (looks n) node_id target)"
    using Suc by (intro Suc.hyps(1)) auto
  then show ?case using step by (subst wait_loop.simps) simp
qed

lemma clock_advances:
  fixes clock :: "nat \<Rightarrow> int"
  assumes "now \<le> clock 0" "\<And>i. clock i + COMMAND_CONFIRM_POLL_SECONDS_MS \<le> clock (Suc i)"
  shows "now + COMMAND_CONFIRM_POLL_SECONDS_MS * int i \<le> clock i"
proof (induction i)
  case (Suc i)
  then show ?case using assms(2) [of i] by (simp add: algebra_simps)
qed (use assms(1) in simp)

lemma wait_for_state_ends:
  assumes "now \<le> clock 0" "\<And>i. clock i + COMMAND_CONFIRM_POLL_SECONDS_MS \<le> clock (Suc i)"
  obtains n where "n \<le> 20"
    "wait_for_state looks now clock node_id target = Some (reports_state (looks n) node_id target)"
    "\<And>j. j < n \<Longrightarrow> \<not> reports_state (looks j) node_id target \<and> clock j < now + COMMAND_CONFIRM_TIMEOUT_SECONDS_MS"
proof -
  let ?stop = "\<lambda>n. reports_state (looks n) node_id target \<or> now + COMMAND_CONFIRM_TIMEOUT_SECONDS_MS \<le> clock n"
  have s20: "?stop 20" using clock_advances [of now clock 20, OF assms] by (simp add: const_defs)
  define n where "n = (LEAST n. ?stop n)"
  have n: "?stop n" unfolding n_def by (rule LeastI [of ?stop 20, OF s20])
  have le: "n \<le> 20" unfolding n_def by (rule Least_le [of ?stop 20, OF s20])
  have before: "\<not> ?stop j" if "j < n" for j using that not_less_Least unfolding n_def by blast
  have "wait_for_state looks now clock node_id target = Some (reports_state (looks n) node_id target)"
    unfolding wait_for_state_def by (rule wait_loop_to) (use n before in \<open>auto simp: not_le\<close>)
  then show thesis using le before by (intro that) (auto simp: not_le)
qed

lemma wait_for_state_True:
  assumes "now \<le> clock 0" "\<And>i. clock i + COMMAND_CONFIRM_POLL_SECONDS_MS \<le> clock (Suc i)"
  shows "wait_for_state looks now clock node_id target = Some True \<longleftrightarrow>
    (\<exists>n \<le> 20. reports_state (looks n) node_id target
       \<and> (\<forall>j < n. clock j < now + COMMAND_CONFIRM_TIMEOUT_SECONDS_MS))"
proof (rule wait_for_state_ends [OF assms])
  fix n
  assume n: "n \<le> 20" "wait_for_state looks now clock node_id target = Some (reports_state (looks n) node_id target)"
    "\<And>j. j < n \<Longrightarrow> \<not> reports_state (looks j) node_id target \<and> clock j < now + COMMAND_CONFIRM_TIMEOUT_SECONDS_MS"
  have "reports_state (looks n) node_id target"
    if "k \<le> 20" "reports_state (looks k) node_id target"
      "\<forall>j < k. clock j < now + COMMAND_CONFIRM_TIMEOUT_SECONDS_MS" for k
  proof (rule ccontr)
    assume no: "\<not> reports_state (looks n) node_id target"
    have "n \<noteq> k" using no that by auto
    moreover have "\<not> k < n" using n(3) that by blast
    ultimately have "n < k" by simp
    then have l: "clock n < now + COMMAND_CONFIRM_TIMEOUT_SECONDS_MS" using that by blast
    have "wait_loop looks clock node_id target (now + COMMAND_CONFIRM_TIMEOUT_SECONDS_MS) 0 = Some True"
    proof -
      define m where "m = (LEAST m. reports_state (looks m) node_id target)"
      have m: "reports_state (looks m) node_id target" unfolding m_def using that(2) by (rule LeastI)
      have mk: "m \<le> k" unfolding m_def by (rule Least_le, rule that(2))
      have "\<not> reports_state (looks j) node_id target" if "j < m" for j
        using that not_less_Least unfolding m_def by blast
      then show ?thesis using m mk that(3)
        by (subst wait_loop_to [of 0 m]) auto
    qed
    then show False using n(2) no by (simp add: wait_for_state_def)
  qed
  then show ?thesis using n by auto
qed

subsection \<open>Unique ids\<close>

definition entity_types :: "pystr list" where
  "entity_types = [ENTITY_LOCK, ENTITY_SENSOR_ONLINE, ENTITY_SENSOR_HEALTH, ENTITY_SENSOR_BACKUP,
     ENTITY_SENSOR_SECURITY, ENTITY_SENSOR_FIRMWARE, ENTITY_SENSOR_LAST_AUTH, ENTITY_BUTTON_BACKUP,
     ENTITY_SWITCH_GUEST_ACCESS, ENTITY_NUMBER_GUEST_VALIDITY, ENTITY_SENSOR_GUEST_TAGS,
     ENTITY_BUTTON_GUEST_TEACH, ENTITY_BUTTON_GUEST_CANCEL]"

text \<open>No entity type ends in \<open>_\<close> and another one.\<close>

lemma entity_types_no_suffix:
  "list_all (\<lambda>e. list_all (\<lambda>f. e = f \<or> take (length e + 1) (rev f @ [95]) \<noteq> rev (95 # e)) entity_types) entity_types"
  by (simp add: entity_types_def const_defs py_def)

lemma unique_id_inj:
  assumes "unique_id h n e = unique_id h n' e'" "e \<in> set entity_types" "e' \<in> set entity_types"
  shows "n = n' \<and> e = e'"
proof -
  have u: "py ''_'' = [95]" by (simp add: py_def)
  have eq: "n @ 95 # e = n' @ 95 # e'" using assms(1) by (simp add: unique_id_def u)
  have aux: "e = f" if "length e \<le> length f" "n @ 95 # e = n' @ 95 # f" "e \<in> set entity_types" "f \<in> set entity_types"
    for n n' e f :: pystr
  proof -
    have "rev e @ 95 # rev n = rev f @ 95 # rev n'" using arg_cong [OF that(2), of rev] by simp
    then have "take (length e + 1) (rev e @ 95 # rev n) = take (length e + 1) (rev f @ 95 # rev n')" by simp
    moreover have "take (length e + 1) (rev f @ 95 # rev n') = take (length e + 1) (rev f @ [95])"
      using that(1) by (cases "Suc (length e) - length f") auto
    ultimately have "take (length e + 1) (rev f @ [95]) = rev (95 # e)" by simp
    then show "e = f" using entity_types_no_suffix that(3,4) unfolding list_all_iff by blast
  qed
  have "e = e'" using aux [OF _ eq assms(2,3)] aux [OF _ eq [symmetric] assms(3,2)] by (cases "length e \<le> length e'") auto
  then show ?thesis using eq by simp
qed

text \<open>Household and node are not told apart where either contains an underscore.\<close>

lemma unique_ids_collide:
  "unique_id (py ''HOME_A'') (py ''GATE'') e = unique_id (py ''HOME'') (py ''A_GATE'') e"
  by (simp add: unique_id_def py_def)

end
