(* ===== verification/Sensors.thy ===== *)
theory Sensors imports Entities begin

section \<open>Sensors\<close>

text \<open>
  \<open>sensor.py\<close>: the value and the attributes of each sensor of a node. The clock, what
  \<open>datetime.fromisoformat\<close> makes of a text (\<open>None\<close>: it raises \<open>ValueError\<close>; microseconds of UTC
  otherwise) and what \<open>hass.data\<close> holds for the entry are the environment \<open>sensor_env\<close>.
\<close>

record sensor_env =
  se_now :: int
  se_fromisoformat :: "pystr \<Rightarrow> parsed_datetime option"
  se_store :: "backup_store option"
  se_runtime :: "runtime option"

definition HEALTH_OPTIONS :: "pystr list" where "HEALTH_OPTIONS = [py ''OK'', py ''ERROR'']"
definition SECURITY_OPTIONS :: "pystr list" where "SECURITY_OPTIONS = [py ''OK'', py ''WARNING'', py ''ERROR'']"
definition BACKUP_OPTIONS :: "pystr list" where "BACKUP_OPTIONS = [py ''completed'', py ''failed'']"
definition LAST_AUTH_OPTIONS :: "pystr list" where "LAST_AUTH_OPTIONS = [py ''SUCCESS'', py ''FAILURE'']"

subsection \<open>Times and findings\<close>

definition parse_dt :: "sensor_env \<Rightarrow> pystr option \<Rightarrow> int option" where
  "parse_dt env v = (if str_or v [] = [] then None
     else case se_fromisoformat env (str_or v []) of
       None \<Rightarrow> None | Some (Naive t) \<Rightarrow> Some t | Some (Aware t) \<Rightarrow> Some t)"

text \<open>\<open>total_seconds()\<close> is the quotient of the microseconds, rounded to a float.\<close>

definition age_seconds :: "sensor_env \<Rightarrow> int option \<Rightarrow> int option" where
  "age_seconds env t = (case t of
      None \<Rightarrow> None
    | Some u \<Rightarrow> (let d = se_now env - u in
        case current_epoch_seconds (float_of_ratio (d < 0) (nat \<bar>d\<bar>) 1000000) of
          Inl e \<Rightarrow> None | Inr s \<Rightarrow> Some (max 0 s)))"

definition is_line_break :: "nat \<Rightarrow> bool" where
  "is_line_break c \<longleftrightarrow> 10 \<le> c \<and> c \<le> 13 \<or> 28 \<le> c \<and> c \<le> 30 \<or> c = 133 \<or> c = 8232 \<or> c = 8233"

text \<open>\<open>str.splitlines\<close>\<close>

fun splitlines :: "pystr \<Rightarrow> pystr list" where
  "splitlines [] = []"
| "splitlines [c] = (if is_line_break c then [[]] else [[c]])"
| "splitlines (c # d # s) =
    (if c = 13 \<and> d = 10 then [] # splitlines s
     else if is_line_break c then [] # splitlines (d # s)
     else case splitlines (d # s) of [] \<Rightarrow> [[c]] | l # ls \<Rightarrow> (c # l) # ls)"

definition finding_lines :: "pystr option \<Rightarrow> pystr list" where
  "finding_lines warnings = (if str_or warnings [] = [] then []
     else map py_strip (filter (\<lambda>line. py_strip line \<noteq> []) (splitlines (str_or warnings []))))"

subsection \<open>The sensors\<close>

definition sensor_value :: "(node \<Rightarrow> pystr option) \<Rightarrow> hub \<Rightarrow> pystr \<Rightarrow> pystr option" where
  "sensor_value value_fn h node_id = (case entity_node h node_id of None \<Rightarrow> None | Some n \<Rightarrow> value_fn n)"

definition health_value :: "hub \<Rightarrow> pystr \<Rightarrow> pystr option" where
  "health_value = sensor_value (\<lambda>n. map_option nh_mqtt (nd_health n))"

definition health_attributes :: "hub \<Rightarrow> pystr \<Rightarrow> (pystr \<times> json) list" where
  "health_attributes h node_id = (case entity_node h node_id of
      None \<Rightarrow> base_attributes h node_id
    | Some n \<Rightarrow> (case nd_health n of
        None \<Rightarrow> base_attributes h node_id
      | Some health \<Rightarrow> dict_update (base_attributes h node_id)
         [(py ''network'', JStr (nh_network health)), (py ''nfc'', JStr (nh_nfc health)),
          (py ''lock_current'', json_int (nh_lock_current health)),
          (py ''lock_target'', json_int (nh_lock_target health)),
          (py ''backup'', json_str (nh_backup health)), (py ''certificate'', JStr (nh_certificate health)),
          (py ''firmware_version'', json_str (nh_firmware_version health)),
          (py ''uptime'', json_int (nh_uptime health)), (py ''free_heap'', json_int (nh_free_heap health)),
          (py ''reset_reason'', json_str (nh_reset_reason health)),
          (py ''mqtt_error'', json_int (nh_mqtt_error health)),
          (py ''security_all_ok'', json_bool (nh_security_all_ok health)),
          (py ''security_warnings'', json_str (nh_security_warnings health))]))"

definition backup_value :: "hub \<Rightarrow> pystr \<Rightarrow> pystr option" where
  "backup_value = sensor_value (\<lambda>n. case nd_backup n of Some b \<Rightarrow> Some (br_status b) | None \<Rightarrow> nd_backup_status n)"

definition stored_backups :: "sensor_env \<Rightarrow> pystr \<Rightarrow> stored_backup list" where
  "stored_backups env node_id = (case se_store env of None \<Rightarrow> [] | Some s \<Rightarrow> for_node s node_id)"

definition api_configured :: "sensor_env \<Rightarrow> bool" where
  "api_configured env = (case se_runtime env of
      None \<Rightarrow> False | Some r \<Rightarrow> backup_client_for (entry_backup_settings r))"

definition stored_detail :: "sensor_env \<Rightarrow> stored_backup \<Rightarrow> json" where
  "stored_detail env b = JObj
     [(py ''created'', JStr (sb_created b)),
      (py ''age_seconds'', json_int (age_seconds env (parse_dt env (Some (sb_created b))))),
      (py ''includes_credentials'', JBool (sb_includes_credentials b)),
      (py ''hex_bytes'', JInt (int (length (sb_blob b) div 2))),
      (py ''node_time'', sb_node_time b)]"

definition stored_attributes :: "sensor_env \<Rightarrow> stored_backup list \<Rightarrow> (pystr \<times> json) list" where
  "stored_attributes env stored = (if stored = [] then []
     else let latest = last stored in
       [(py ''stored_created'', JStr (sb_created latest)),
        (py ''stored_age_seconds'', json_int (age_seconds env (parse_dt env (Some (sb_created latest))))),
        (py ''stored_includes_credentials'', JBool (sb_includes_credentials latest))]
       @ (if sb_node_time latest \<noteq> JNull then [(py ''stored_node_time'', sb_node_time latest)] else [])
       @ [(py ''stored_backups_detail'', JList (map (stored_detail env) stored))])"

definition restore_attribute :: "stored_backup list \<Rightarrow> json" where
  "restore_attribute stored = JObj
     [(py ''available'', JBool (stored \<noteq> [])),
      (py ''from_credentials_backup'', if stored = [] then JNull else JBool (sb_includes_credentials (last stored))),
      (py ''recovery_secret_required'', JBool True),
      (py ''service'', JStr (py ''homekey_household.restore_backup''))]"

definition backup_attributes :: "sensor_env \<Rightarrow> hub \<Rightarrow> pystr \<Rightarrow> (pystr \<times> json) list" where
  "backup_attributes env h node_id = (case entity_node h node_id of
      None \<Rightarrow> base_attributes h node_id
    | Some n \<Rightarrow>
       (let stored = stored_backups env node_id
        in dict_update (base_attributes h node_id)
          ((case nd_backup n of
              None \<Rightarrow> []
            | Some b \<Rightarrow>
               [(py ''status'', JStr (br_status b)), (py ''backup_timestamp'', json_str (br_timestamp b)),
                (py ''backup_age_seconds'', json_int (age_seconds env (parse_dt env (br_timestamp b))))])
           @ (case nd_backup_status n of None \<Rightarrow> [] | Some s \<Rightarrow> [(py ''last_event'', JStr s)])
           @ [(py ''stored_backups'', JInt (int (length stored)))]
           @ stored_attributes env stored
           @ [(py ''restore'', restore_attribute stored),
              (py ''api_configured'', JBool (api_configured env))])))"

definition security_value :: "hub \<Rightarrow> pystr \<Rightarrow> pystr option" where
  "security_value = sensor_value nd_security"

definition security_attributes :: "hub \<Rightarrow> pystr \<Rightarrow> (pystr \<times> json) list" where
  "security_attributes h node_id =
    (case (case entity_node h node_id of None \<Rightarrow> None | Some n \<Rightarrow> nd_health n) of
       None \<Rightarrow> base_attributes h node_id
     | Some health \<Rightarrow>
        (let findings = finding_lines (nh_security_warnings health)
         in dict_update (base_attributes h node_id)
           [(py ''security_all_ok'', json_bool (nh_security_all_ok health)),
            (py ''security_warnings'', json_str (nh_security_warnings health)),
            (py ''security_findings'', JList (map JStr findings)),
            (py ''warning_count'', JInt (int (length findings)))]))"

definition firmware_value :: "hub \<Rightarrow> pystr \<Rightarrow> pystr option" where
  "firmware_value = sensor_value nd_firmware"

definition firmware_attributes :: "hub \<Rightarrow> pystr \<Rightarrow> (pystr \<times> json) list" where
  "firmware_attributes h node_id = (case entity_node h node_id of
      None \<Rightarrow> base_attributes h node_id
    | Some n \<Rightarrow> dict_set (base_attributes h node_id) (py ''generation'') (json_int (nd_generation n)))"

definition last_auth_value :: "hub \<Rightarrow> pystr \<Rightarrow> pystr option" where
  "last_auth_value = sensor_value (\<lambda>n. map_option la_result (nd_last_auth n))"

definition last_auth_attributes :: "sensor_env \<Rightarrow> hub \<Rightarrow> pystr \<Rightarrow> (pystr \<times> json) list" where
  "last_auth_attributes env h node_id =
    (case (case entity_node h node_id of None \<Rightarrow> None | Some n \<Rightarrow> nd_last_auth n) of
       None \<Rightarrow> base_attributes h node_id
     | Some auth \<Rightarrow> dict_update (base_attributes h node_id)
         ([(py ''auth_type'', JStr (la_auth_type auth)), (py ''auth_timestamp'', json_str (la_timestamp auth)),
           (py ''issuer'', json_str (la_issuer auth)),
           (py ''auth_age_seconds'', json_int (age_seconds env (parse_dt env (la_timestamp auth))))]
          @ (if la_result auth = auth_result_str AUTH_SUCCESS
             then [(py ''last_success_timestamp'', json_str (la_timestamp auth))] else [])))"

text \<open>The guest cards; a date out of range raises.\<close>

definition tag_attributes :: "guest_tag \<Rightarrow> exc + json" where
  "tag_attributes t = bindE (gt_expires t) (\<lambda>expires. Inr (JObj
     [(py ''tag_id'', JStr (gt_tag_id t)), (py ''label'', JStr (gt_label t)), (py ''uid'', JStr (gt_uid t)),
      (py ''enabled'', JBool (gt_enabled t)), (py ''expires'', json_str expires),
      (py ''last_used_at'', if gt_last_used_at t = 0 then JNull else JInt (gt_last_used_at t)),
      (py ''use_count'', JInt (gt_use_count t))]))"

definition guest_tags_value :: "hub \<Rightarrow> pystr \<Rightarrow> int option" where
  "guest_tags_value h node_id = map_option gs_count (entity_guest h node_id)"

definition guest_tags_attributes :: "hub \<Rightarrow> pystr \<Rightarrow> exc + (pystr \<times> json) list" where
  "guest_tags_attributes h node_id = (case entity_guest h node_id of
      None \<Rightarrow> Inr (base_attributes h node_id)
    | Some g \<Rightarrow>
       bindE (mapE tag_attributes (gs_tags g)) (\<lambda>tags.
       bindE (default_validity_days g) (\<lambda>days. Inr (dict_update (base_attributes h node_id)
         [(py ''tags'', JList tags), (py ''capacity'', JInt (gs_capacity g)),
          (py ''default_validity_days'', JFloat (float_round2 days)),
          (py ''write_armed'', JBool (gs_write_armed g)), (py ''write_supported'', json_bool (gs_can_write g)),
          (py ''last_write_result'', json_str (gs_last_write_result g)),
          (py ''last_write_message'', json_str (gs_last_write_message g)),
          (py ''node_has_wall_clock'', JBool (has_wall_clock g))]))))"

subsection \<open>The words of the findings\<close>

lemma line_break_space: "is_line_break c \<Longrightarrow> is_space c"
  by (auto simp: is_line_break_def is_space_def)

lemma splitlines_ne: "splitlines (c # s) \<noteq> []"
  by (cases s) (auto split: list.splits)

lemma splitlines_words:
  "filter (\<lambda>c. \<not> is_space c) (concat (splitlines s)) = filter (\<lambda>c. \<not> is_space c) s"
proof (induction s rule: splitlines.induct)
  case (3 c d s)
  have cr: "is_space 13" "is_space 10" by (simp_all add: is_space_def)
  show ?case
    using 3 cr line_break_space splitlines_ne [of d s] by (auto split: list.splits)
qed (auto dest: line_break_space)

lemma splitlines_no_break: "list_all (list_all (\<lambda>c. \<not> is_line_break c)) (splitlines s)"
  by (induction s rule: splitlines.induct) (auto split: list.splits simp: is_line_break_def)

lemma strip_words: "filter (\<lambda>c. \<not> is_space c) (py_strip s) = filter (\<lambda>c. \<not> is_space c) s"
proof -
  have drop: "filter (\<lambda>c. \<not> is_space c) (dropWhile is_space t) = filter (\<lambda>c. \<not> is_space c) t" for t
    by (induction t) auto
  show ?thesis by (simp add: py_strip_def py_lstrip_def drop rev_filter [symmetric])
qed

lemma dropWhile_head: "dropWhile P s = [] \<or> \<not> P (hd (dropWhile P s))"
  using hd_dropWhile [of P s] by blast

lemma py_strip_twice: "py_strip (py_strip s) = py_strip s"
proof (cases "py_strip s = []")
  case False
  define t where "t = dropWhile is_space s"
  define u where "u = dropWhile is_space (rev t)"
  have s: "py_strip s = rev u" by (simp add: py_strip_def py_lstrip_def t_def u_def)
  have u: "u \<noteq> []" using False s by simp
  obtain v where v: "rev t = v @ u" unfolding u_def by (metis takeWhile_dropWhile_id)
  then have t: "t = rev u @ rev v" by (metis rev_append rev_rev_ident)
  then have "hd t = hd (rev u)" "t \<noteq> []" using u by simp_all
  then have "\<not> is_space (hd (rev u))" using dropWhile_head [of is_space s] t_def by metis
  then have l: "py_lstrip (rev u) = rev u" using u by (cases "rev u") (auto simp: py_lstrip_def)
  have "\<not> is_space (hd u)" using dropWhile_head [of is_space "rev t"] u u_def by metis
  then have "dropWhile is_space u = u" by (cases u) auto
  then have "py_strip (rev u) = rev u" by (simp add: py_strip_def l)
  then show ?thesis unfolding s .
next
  case True
  then show ?thesis by (simp only: True) (simp add: py_strip_def py_lstrip_def)
qed

lemma set_py_strip: "set (py_strip s) \<subseteq> set s"
proof
  fix c
  assume "c \<in> set (py_strip s)"
  then have "c \<in> set (dropWhile is_space (rev (dropWhile is_space s)))" by (simp add: py_strip_def py_lstrip_def)
  then have "c \<in> set (rev (dropWhile is_space s))" by (rule set_dropWhileD)
  then show "c \<in> set s" using set_dropWhileD [of c is_space s] by simp
qed

lemma stripped_lines_words:
  "filter (\<lambda>c. \<not> is_space c) (concat (map py_strip (filter (\<lambda>line. py_strip line \<noteq> []) ls)))
     = filter (\<lambda>c. \<not> is_space c) (concat ls)"
proof (induction ls)
  case (Cons l ls)
  then show ?case using strip_words [of l] by (cases "py_strip l = []") (auto simp: strip_words)
qed simp

end
