(* ===== verification/Diagnostics.thy ===== *)
theory Diagnostics imports Sensors begin

section \<open>Diagnostics\<close>

text \<open>
  \<open>diagnostics.py\<close>: what a user attaches to a report, with secrets redacted. The entry is its title,
  data and options; \<open>None\<close> for the runtime means that it is not loaded.
\<close>

definition REDACT_KEYS :: "pystr list" where
  "REDACT_KEYS = map py
    [''password'', ''passwd'', ''mqtt_password'', ''web_password'', ''access_point_password'',
     ''private_key'', ''client_key'', ''recovery_key'', ''recovery_secret'', ''recovery_metadata'',
     ''command_key'', ''key'', ''mac'', ''token'', ''provisioning_token'', ''session_token'',
     ''backup'', ''data'']"

definition REDACTED :: pystr where "REDACTED = py ''[redacted]''"

definition secret_key :: "pystr \<Rightarrow> bool" where
  "secret_key k = (py_lower k \<in> set REDACT_KEYS)"

fun redact :: "pystr \<Rightarrow> json \<Rightarrow> json" where
  "redact key (JObj d) = (if secret_key key then JStr REDACTED else JObj (map (\<lambda>(k, v). (k, redact k v)) d))"
| "redact key (JList xs) = (if secret_key key then JStr REDACTED else JList (map (redact key) xs))"
| "redact key v = (if secret_key key then JStr REDACTED else v)"

subsection \<open>The report\<close>

definition backup_copy :: "stored_backup \<Rightarrow> json" where
  "backup_copy b = JObj
     [(py ''node_id'', JStr (sb_node_id b)), (py ''household_id'', JStr (sb_household_id b)),
      (py ''created'', JStr (sb_created b)), (py ''includes_credentials'', JBool (sb_includes_credentials b)),
      (py ''hex_bytes'', JInt (int (length (sb_blob b) div 2))), (py ''node_time'', sb_node_time b)]"

definition backup_store_summary :: "backup_store option \<Rightarrow> pystr \<Rightarrow> json" where
  "backup_store_summary store household_id = (case store of
      None \<Rightarrow> JObj [(py ''available'', JBool False)]
    | Some s \<Rightarrow>
       (let copies = filter (\<lambda>b. household_id = [] \<or> sb_household_id b = household_id) (bs_backups s)
        in JObj
          [(py ''available'', JBool True), (py ''count'', JInt (int (length copies))),
           (py ''newest_created'', if copies = [] then JNull else JStr (sb_created (last copies))),
           (py ''any_includes_credentials'', JBool (list_ex sb_includes_credentials copies)),
           (py ''copies'', JList (map backup_copy copies))]))"

definition opt_doc :: "'a option \<Rightarrow> ('a \<Rightarrow> json) \<Rightarrow> json" where
  "opt_doc v f = (case v of None \<Rightarrow> JNull | Some x \<Rightarrow> f x)"

definition guest_doc :: "guest_state \<Rightarrow> exc + json" where
  "guest_doc g =
    bindE (default_validity_days g) (\<lambda>days.
    bindE (mapE tag_attributes (gs_tags g)) (\<lambda>tags. Inr (JObj
      [(py ''enabled'', JBool (gs_enabled g)), (py ''count'', JInt (gs_count g)),
       (py ''capacity'', JInt (gs_capacity g)),
       (py ''default_validity_days'', JFloat (float_round2 days)),
       (py ''node_has_wall_clock'', JBool (has_wall_clock g)), (py ''tags'', JList tags),
       (py ''write'', JObj
          [(py ''armed'', JBool (gs_write_armed g)), (py ''supported'', json_bool (gs_can_write g)),
           (py ''last_result'', json_str (gs_last_write_result g)),
           (py ''last_message'', json_str (gs_last_write_message g))])])))"

definition health_doc :: "node_health \<Rightarrow> json" where
  "health_doc h = JObj
    [(py ''network'', JStr (nh_network h)), (py ''mqtt'', JStr (nh_mqtt h)),
     (py ''mqtt_error'', json_int (nh_mqtt_error h)), (py ''nfc'', JStr (nh_nfc h)),
     (py ''lock_current'', json_int (nh_lock_current h)), (py ''lock_target'', json_int (nh_lock_target h)),
     (py ''backup'', json_str (nh_backup h)), (py ''certificate'', JStr (nh_certificate h)),
     (py ''firmware_version'', json_str (nh_firmware_version h)), (py ''uptime'', json_int (nh_uptime h)),
     (py ''free_heap'', json_int (nh_free_heap h)), (py ''reset_reason'', json_str (nh_reset_reason h)),
     (py ''security_all_ok'', json_bool (nh_security_all_ok h)),
     (py ''security_warnings'', json_str (nh_security_warnings h))]"

definition node_doc :: "node \<Rightarrow> exc + json" where
  "node_doc n =
    bindE (case nd_guest n of None \<Rightarrow> Inr JNull | Some g \<Rightarrow> guest_doc g) (\<lambda>guest. Inr (JObj
     [(py ''node_id'', JStr (nd_node_id n)), (py ''node_name'', JStr (nd_node_name n)),
      (py ''node_role'', JStr (nd_node_role n)), (py ''node_state'', JStr (nd_node_state n)),
      (py ''generation'', json_int (nd_generation n)), (py ''firmware_version'', json_str (nd_firmware n)),
      (py ''online'', JBool (nd_online n)), (py ''lwt_online'', json_bool (nd_lwt_online n)),
      (py ''available'', JBool (node_available n)), (py ''last_seen'', json_str (nd_last_seen n)),
      (py ''security'', json_str (nd_security n)), (py ''backup_status'', json_str (nd_backup_status n)),
      (py ''backup'', opt_doc (nd_backup n) (\<lambda>b. JObj
         [(py ''status'', JStr (br_status b)), (py ''timestamp'', json_str (br_timestamp b))])),
      (py ''last_auth'', opt_doc (nd_last_auth n) (\<lambda>a. JObj
         [(py ''type'', JStr (la_auth_type a)), (py ''result'', JStr (la_result a)),
          (py ''timestamp'', json_str (la_timestamp a))])),
      (py ''guest'', guest), (py ''health'', opt_doc (nd_health n) health_doc)]))"

definition report :: "pystr \<Rightarrow> (pystr \<times> json) list \<Rightarrow> (pystr \<times> json) list \<Rightarrow> runtime \<Rightarrow> hub
    \<Rightarrow> credential option \<Rightarrow> backup_store option \<Rightarrow> json list \<Rightarrow> json" where
  "report title data options r h credential store nodes = JObj
    [(py ''entry'', JObj
       [(py ''title'', JStr title), (py ''data'', JObj data),
        (py ''options'', JObj
           [(CONF_COMMAND_CONTROL, obj_get options CONF_COMMAND_CONTROL),
            (CONF_BACKUP_INCLUDE_CREDENTIALS, obj_get options CONF_BACKUP_INCLUDE_CREDENTIALS)])]),
     (py ''household_id'', JStr (co_household_id (hub_coord h))),
     (py ''command_control_enabled'', JBool (command_control_enabled h)),
     (py ''command_key_present'', JBool (credential \<noteq> None)),
     (py ''command_key_fingerprint'', case credential of None \<Rightarrow> JNull | Some c \<Rightarrow> json_str (cr_fingerprint c)),
     (py ''backup_api_configured'', JBool (backup_client_for (entry_backup_settings r))),
     (py ''backup_store'', backup_store_summary store (co_household_id (hub_coord h))),
     (py ''node_count'', JInt (int (length nodes))), (py ''nodes'', JList nodes),
     (py ''subscriptions'', JObj
        [(py ''household'', JStr TOPIC_SUBSCRIBE_ALL),
         (py ''legacy_availability_prefix'', obj_get options CONF_LEGACY_CLIENT_ID_PREFIX)]),
     (py ''reserved_topics_consumed'', JList [])]"

definition config_entry_diagnostics :: "pystr \<Rightarrow> (pystr \<times> json) list \<Rightarrow> (pystr \<times> json) list
    \<Rightarrow> (runtime \<times> hub \<times> key_store) option \<Rightarrow> backup_store option \<Rightarrow> exc + json" where
  "config_entry_diagnostics title data options loaded store = (case loaded of
      None \<Rightarrow> Inr (JObj [(py ''configured'', JBool False), (py ''error'', JStr (py ''runtime not loaded''))])
    | Some (r, h, keys) \<Rightarrow>
       bindE (mapE node_doc (map snd (co_nodes (hub_coord h)))) (\<lambda>nodes.
         Inr (redact [] (report title data options r h (get_key keys (co_household_id (hub_coord h))) store nodes))))"

subsection \<open>What redaction hides\<close>

text \<open>\<open>agree k v w\<close>: under the key \<open>k\<close>, the two values differ only below secret keys.\<close>

inductive agree :: "pystr \<Rightarrow> json \<Rightarrow> json \<Rightarrow> bool" where
  secret: "secret_key k \<Longrightarrow> agree k v w"
| same: "agree k v v"
| obj: "list_all2 (\<lambda>p q. fst p = fst q \<and> agree (fst p) (snd p) (snd q)) d e \<Longrightarrow> agree k (JObj d) (JObj e)"
| items: "list_all2 (agree k) xs ys \<Longrightarrow> agree k (JList xs) (JList ys)"

lemma redact_secret: "secret_key k \<Longrightarrow> redact k v = JStr REDACTED"
  by (cases v) simp_all

lemma agree_redact: "agree k v w \<Longrightarrow> redact k v = redact k w"
proof (induction rule: agree.induct)
  case (secret k v w)
  then show ?case by (simp add: redact_secret)
next
  case (obj d e k)
  then have "map (\<lambda>(k, v). (k, redact k v)) d = map (\<lambda>(k, v). (k, redact k v)) e"
    by (induction rule: list_all2_induct) auto
  then show ?case by simp
next
  case (items k xs ys)
  then have "map (redact k) xs = map (redact k) ys"
    by (induction rule: list_all2_induct) auto
  then show ?case by simp
qed simp

text \<open>\<open>clean k v\<close>: every value below a secret key is the placeholder.\<close>

fun clean :: "pystr \<Rightarrow> json \<Rightarrow> bool" where
  "clean key (JObj d) = (\<not> secret_key key \<and> list_all (\<lambda>(k, v). clean k v) d)"
| "clean key (JList xs) = (\<not> secret_key key \<and> list_all (clean key) xs)"
| "clean key v = (secret_key key \<longrightarrow> v = JStr REDACTED)"

lemma redact_clean: "clean k (redact k v)"
  by (induction k v rule: redact.induct) (auto simp: list_all_iff)

lemma redact_id: "clean k v \<Longrightarrow> redact k v = v"
proof (induction k v rule: clean.induct)
  case (1 key d)
  then have "map (\<lambda>(k, v). (k, redact k v)) d = d"
    by (auto simp: list_all_iff intro!: map_idI split: prod.splits)
  then show ?case using 1 by simp
next
  case (2 key xs)
  then have "map (redact key) xs = xs" by (auto simp: list_all_iff intro!: map_idI)
  then show ?case using 2 by simp
qed simp_all

subsection \<open>What the report depends on\<close>

text \<open>Two stored backups that differ in their contents only.\<close>

definition same_but_blob :: "stored_backup \<Rightarrow> stored_backup \<Rightarrow> bool" where
  "same_but_blob b b' = (b' = b\<lparr>sb_blob := sb_blob b'\<rparr> \<and> length (sb_blob b') div 2 = length (sb_blob b) div 2)"

lemma same_but_blob_fields:
  assumes "same_but_blob b b'"
  shows "sb_node_id b' = sb_node_id b" "sb_household_id b' = sb_household_id b" "sb_created b' = sb_created b"
    "sb_includes_credentials b' = sb_includes_credentials b" "sb_node_time b' = sb_node_time b"
    "backup_copy b' = backup_copy b"
proof -
  have "b' = b\<lparr>sb_blob := sb_blob b'\<rparr>" and l: "length (sb_blob b') div 2 = length (sb_blob b) div 2"
    using assms by (simp_all add: same_but_blob_def)
  then obtain x where x: "b' = b\<lparr>sb_blob := x\<rparr>" by blast
  show "sb_node_id b' = sb_node_id b" "sb_household_id b' = sb_household_id b" "sb_created b' = sb_created b"
    "sb_includes_credentials b' = sb_includes_credentials b" "sb_node_time b' = sb_node_time b"
    by (simp_all add: x)
  then show "backup_copy b' = backup_copy b" using l by (simp add: backup_copy_def)
qed

lemma filter_same_but_blob:
  "list_all2 same_but_blob bs bs' \<Longrightarrow>
   list_all2 same_but_blob (filter (\<lambda>b. hid = [] \<or> sb_household_id b = hid) bs)
     (filter (\<lambda>b. hid = [] \<or> sb_household_id b = hid) bs')"
  by (induction rule: list_all2_induct) (auto simp: same_but_blob_fields(2))

lemma summary_hides_blobs:
  assumes "list_all2 same_but_blob (bs_backups s) (bs_backups s')"
  shows "backup_store_summary (Some s') hid = backup_store_summary (Some s) hid"
proof -
  have *: "map backup_copy ys = map backup_copy xs \<and> list_ex sb_includes_credentials ys = list_ex sb_includes_credentials xs
      \<and> map sb_created ys = map sb_created xs" if "list_all2 same_but_blob xs ys" for xs ys
    using that by (induction rule: list_all2_induct) (auto simp: same_but_blob_fields)
  have last: "sb_created (last ys) = sb_created (last xs)" if "map sb_created ys = map sb_created xs" "xs \<noteq> []" for xs ys
    using that by (metis last_map map_is_Nil_conv)
  let ?f = "filter (\<lambda>b. hid = [] \<or> sb_household_id b = hid)"
  note r = filter_same_but_blob [OF assms, of hid]
  have "length (?f (bs_backups s')) = length (?f (bs_backups s))" "(?f (bs_backups s') = []) = (?f (bs_backups s) = [])"
    using list_all2_lengthD [OF r] by (metis, metis length_0_conv)
  then show ?thesis
    using * [OF r] last [of "?f (bs_backups s')" "?f (bs_backups s)"]
    by (simp add: backup_store_summary_def Let_def)
qed

lemma data_key_secret: "secret_key (py ''data'')"
  by (simp add: secret_key_def REDACT_KEYS_def py_def py_lower_def lower_cp_def)

lemma report_agrees:
  assumes "backup_client_for (entry_backup_settings r') = backup_client_for (entry_backup_settings r)"
    "map_option cr_fingerprint k' = map_option cr_fingerprint k"
    "hub_coord h' = hub_coord h" "command_control_enabled h' = command_control_enabled h"
    "list_all2 same_but_blob (bs_backups s) (bs_backups s')"
  shows "agree [] (report title data options r h k (Some s) nodes) (report title data' options r' h' k' (Some s') nodes)"
proof -
  have key: "(k' \<noteq> None) = (k \<noteq> None)"
    "(case k' of None \<Rightarrow> JNull | Some c \<Rightarrow> json_str (cr_fingerprint c)) = (case k of None \<Rightarrow> JNull | Some c \<Rightarrow> json_str (cr_fingerprint c))"
    using assms(2) by (cases k; cases k'; simp)+
  have entry: "agree (py ''entry'') (JObj [(py ''title'', JStr title), (py ''data'', JObj data), os])
      (JObj [(py ''title'', JStr title), (py ''data'', JObj data'), os])" for os
    by (rule agree.obj) (simp add: agree.same agree.secret [OF data_key_secret])
  show ?thesis
    unfolding report_def assms(1,3,4) key summary_hides_blobs [OF assms(5)]
    by (rule agree.obj) (simp add: agree.same entry)
qed

end
