(* ===== verification/Flow.thy ===== *)
theory Flow imports Setup begin

section \<open>The config flow\<close>

text \<open>
  \<open>config_flow.py\<close>: the steps that create an entry, renew its credentials and set its options. A
  step takes what the user submitted (the fields of its form, at the types the form's schema
  gives them) and ends with a \<open>flow_result\<close>. \<open>flow_env\<close> is what Home Assistant answers: the node's
  network, the MQTT integration with its own config flow, the entries that exist, and \<open>fe_claim\<close>,
  which ends the flow when a unique id is configured or in progress. \<open>flow\<close> is the state: the
  flow object's attributes, the document of the key store, and the requests and the calls made.
\<close>

subsection \<open>State\<close>

datatype form_field = Field pystr bool "json option"

datatype flow_result =
    ShowForm pystr "form_field list" "(pystr \<times> pystr) list" "(pystr \<times> pystr) list"
  | ShowMenu pystr "pystr list"
  | Abort pystr "(pystr \<times> pystr) list"
  | CreateEntry pystr "(pystr \<times> json) list"
  | UpdateReloadAbort "(pystr \<times> json) list"

text \<open>A schema as \<open>_schema_defaults\<close> looks at it: a dictionary, or not; each value has a default, if
  it has the attribute, and a schema of its own, if it has that one.\<close>

datatype schema = SchemaDict "schema_field list" | SchemaOther
  and schema_field = SchemaField pystr "json option" "schema option"

datatype flow_call = InitFlow | Configure pystr "(pystr \<times> json) list"

record flow_answer =
  fa_type :: pystr
  fa_flow_id :: "pystr option"
  fa_schema :: "schema option"
  fa_errors :: "(pystr \<times> pystr) list"
  fa_menu_options :: "pystr list"
  fa_reason :: "pystr option"

datatype txt_value = TxtBytes bytes | TxtStr pystr | TxtNone

record discovery_info =
  dv_ip_addresses :: "pystr list"
  dv_host :: "pystr option"
  dv_hostname :: "pystr option"
  dv_port :: "int option"
  dv_properties :: "(pystr \<times> txt_value) list"

record flow_env =
  fe_str :: "json \<Rightarrow> pystr"
  fe_decode :: "bytes \<Rightarrow> pystr"
  fe_net :: network
  fe_handshake :: "pystr \<Rightarrow> int \<Rightarrow> handshake"
  fe_mqtt_ready :: "nat \<Rightarrow> bool"
  fe_mqtt_flow :: "flow_call list \<Rightarrow> flow_call \<Rightarrow> exc + flow_answer"
  fe_mqtt_entries :: "flow_call list \<Rightarrow> (pystr \<times> json) list list"
  fe_conf_broker :: pystr
  fe_hassio :: bool
  fe_claim :: "pystr \<Rightarrow> (pystr \<times> json) list \<Rightarrow> flow_result option"
  fe_entries :: "(pystr \<times> (pystr \<times> json) list) list"

record discovered =
  ds_host :: pystr
  ds_port :: int
  ds_fingerprint :: pystr
  ds_node_id :: pystr
  ds_node_name :: pystr
  ds_model :: pystr
  ds_version :: pystr

record flow =
  fl_express_error :: "pystr option"
  fl_addon_error :: "pystr option"
  fl_household_defaults :: "(pystr \<times> pystr) list"
  fl_discovery :: "discovered option"
  fl_title :: "pystr option"
  fl_key_document :: json
  fl_log :: "request list"
  fl_calls :: "flow_call list"
  fl_checks :: nat

type_synonym step = "(flow, exc, flow_result) comp"

definition DOCS_URL :: pystr where
  "DOCS_URL = py ''https://github.com/CsepregiArtur/homekey-household''"

definition ends_with :: "flow_result \<Rightarrow> step" where
  "ends_with r f = (Inr r, f)"

text \<open>\<open>a or b\<close> on strings\<close>

definition either :: "pystr \<Rightarrow> pystr \<Rightarrow> pystr" where
  "either a b = (if a = [] then b else a)"

subsection \<open>Helpers\<close>

definition direct_error_key :: "exc \<Rightarrow> pystr" where
  "direct_error_key e = (case e of
      DirectFingerprintMismatch a b \<Rightarrow> py ''fingerprint_mismatch''
    | DirectAuthError \<Rightarrow> py ''node_auth_failed''
    | DirectTlsUnavailableError \<Rightarrow> py ''tls_required''
    | DirectNoHouseholdError \<Rightarrow> py ''no_household''
    | DirectProtocolError \<Rightarrow> py ''unsupported_protocol''
    | DirectTransportError \<Rightarrow> py ''node_unreachable''
    | _ \<Rightarrow> py ''node_unreachable'')"

definition preferred_host :: "discovery_info \<Rightarrow> pystr option" where
  "preferred_host d =
    (case find (\<lambda>a. a \<noteq> [] \<and> 58 \<notin> set a) (dv_ip_addresses d) of
       Some a \<Rightarrow> Some a
     | None \<Rightarrow> if str_or (dv_host d) [] = [] then dv_hostname d else dv_host d)"

definition txt_properties :: "flow_env \<Rightarrow> discovery_info \<Rightarrow> (pystr, pystr) dict" where
  "txt_properties env d = fold (\<lambda>(k, v) p. dict_set p k (case v of
      TxtBytes b \<Rightarrow> fe_decode env b | TxtStr s \<Rightarrow> s | TxtNone \<Rightarrow> [])) (dv_properties d) []"

definition txt_get :: "(pystr, pystr) dict \<Rightarrow> pystr \<Rightarrow> pystr" where
  "txt_get p k = str_or (dict_get p k) []"

definition validate_mqtt :: "flow_env \<Rightarrow> (flow, exc, bool) comp" where
  "validate_mqtt env f = (Inr (fe_mqtt_ready env (fl_checks f)), f\<lparr>fl_checks := fl_checks f + 1\<rparr>)"

definition mqtt_entry_exists :: "flow_env \<Rightarrow> flow \<Rightarrow> bool" where
  "mqtt_entry_exists env f = (fe_mqtt_entries env (fl_calls f) \<noteq> [])"

definition mqtt_call :: "flow_env \<Rightarrow> flow_call \<Rightarrow> (flow, exc, flow_answer) comp" where
  "mqtt_call env c f = (fe_mqtt_flow env (fl_calls f) c, f\<lparr>fl_calls := fl_calls f @ [c]\<rparr>)"

fun schema_defaults :: "schema \<Rightarrow> (pystr \<times> json) list"
  and fields_defaults :: "schema_field list \<Rightarrow> (pystr \<times> json) list \<Rightarrow> (pystr \<times> json) list" where
  "schema_defaults (SchemaDict fs) = fields_defaults fs []"
| "schema_defaults SchemaOther = []"
| "fields_defaults [] acc = acc"
| "fields_defaults (SchemaField name (Some v) s # fs) acc =
    (if v \<noteq> JNull then fields_defaults fs (dict_set acc name v)
     else case s of
       None \<Rightarrow> fields_defaults fs acc
     | Some t \<Rightarrow> fields_defaults fs (dict_set acc name (JObj (schema_defaults t))))"
| "fields_defaults (SchemaField name None (Some t) # fs) acc =
    fields_defaults fs (dict_set acc name (JObj (schema_defaults t)))"
| "fields_defaults (SchemaField name None None # fs) acc = fields_defaults fs acc"

subsection \<open>The household step\<close>

record household_input =
  hi_household_id :: pystr
  hi_name :: "pystr option"
  hi_recovery_secret :: "pystr option"
  hi_salt :: "pystr option"
  hi_command_control :: "bool option"

definition mqtt_household_defaults :: "flow_env \<Rightarrow> flow \<Rightarrow> (pystr \<times> pystr) list" where
  "mqtt_household_defaults env f =
    (let broker = (\<lambda>d. json_or (obj_get d (fe_conf_broker env)) (obj_get d CONF_MQTT_BROKER)) in
     case find (\<lambda>d. truthy (broker d)) (fe_mqtt_entries env (fl_calls f)) of
       None \<Rightarrow> []
     | Some d \<Rightarrow> [(py ''name'', py ''HomeKey ('' @ py_str (fe_str env) (broker d) @ py '')'')])"

definition household_form :: "(pystr, pystr) dict \<Rightarrow> (pystr \<times> pystr) list \<Rightarrow> flow_result" where
  "household_form defaults errors =
    (let default = (\<lambda>k. let v = txt_get defaults k in if v = [] then None else Some (JStr v))
     in ShowForm (py ''household'')
       [Field CONF_HOUSEHOLD_ID True (default (py ''id'')),
        Field CONF_HOUSEHOLD_NAME False (default (py ''name'')),
        Field CONF_RECOVERY_SECRET False None,
        Field CONF_SALT False (default (py ''salt'')),
        Field CONF_COMMAND_CONTROL False (Some (JBool DEFAULT_COMMAND_CONTROL))]
       errors [(py ''docs'', DOCS_URL)])"

text \<open>A store of its own, loaded, then the key derived from the secret. The errors of the form, or
  the exception that is not a validation error.\<close>

definition store_secret :: "pystr \<Rightarrow> pystr \<Rightarrow> pystr option \<Rightarrow> (flow, exc, (pystr \<times> pystr) list) comp" where
  "store_secret household_id secret salt f =
    (case load_keys (new_key_store (fl_key_document f)) of
       (Inl e, s) \<Rightarrow> (Inl e, f)
     | (Inr u, s) \<Rightarrow>
        (case set_key_from_secret household_id secret (if str_or salt [] = [] then None else salt) s of
           (Inl e, s') \<Rightarrow>
             (if is_validation_error e then Inr [(CONF_RECOVERY_SECRET, py ''invalid_recovery_secret'')] else Inl e,
              f\<lparr>fl_key_document := ks_disk s'\<rparr>)
         | (Inr c, s') \<Rightarrow> (Inr [], f\<lparr>fl_key_document := ks_disk s'\<rparr>)))"

definition entry_data_of :: "pystr \<Rightarrow> pystr \<Rightarrow> bool \<Rightarrow> (pystr \<times> json) list" where
  "entry_data_of household_id name command_control =
    [(CONF_HOUSEHOLD_ID, JStr household_id), (CONF_HOUSEHOLD_NAME, JStr name),
     (CONF_COMMAND_CONTROL, JBool command_control)]"

definition submit_household :: "flow_env \<Rightarrow> household_input \<Rightarrow> step" where
  "submit_household env i f =
    (let household_id = py_strip (hi_household_id i);
         name = either (py_strip (str_or (hi_name i) [])) household_id;
         command_control = (case hi_command_control i of None \<Rightarrow> DEFAULT_COMMAND_CONTROL | Some b \<Rightarrow> b)
     in case validate_id household_id (py ''household_id'') 64 of
          Inl e \<Rightarrow> (Inr (household_form (fl_household_defaults f) [(CONF_HOUSEHOLD_ID, py ''invalid_household_id'')]), f)
        | Inr v \<Rightarrow>
           (case fe_claim env (DOMAIN @ py ''_'' @ household_id) [] of
              Some r \<Rightarrow> (Inr r, f)
            | None \<Rightarrow>
               bindS (if str_or (hi_recovery_secret i) [] = [] then liftE (Inr [])
                      else store_secret household_id (str_or (hi_recovery_secret i) []) (hi_salt i))
                (\<lambda>errors. ends_with
                   (if errors = [] then CreateEntry name (entry_data_of household_id name command_control)
                    else household_form (fl_household_defaults f) errors)) f))"

definition step_household :: "flow_env \<Rightarrow> household_input option \<Rightarrow> step" where
  "step_household env user_input f0 =
    (let f = f0\<lparr>fl_household_defaults :=
           dict_update (dict_update [] (mqtt_household_defaults env f0)) (fl_household_defaults f0)\<rparr>
     in case user_input of
          None \<Rightarrow> (Inr (household_form (fl_household_defaults f) []), f)
        | Some i \<Rightarrow> submit_household env i f)"

subsection \<open>Discovery and the direct transport\<close>

record login =
  lg_username :: "pystr option"
  lg_password :: "pystr option"

definition login_username :: "login \<Rightarrow> pystr" where
  "login_username i = py_strip (str_or (lg_username i) [])"

definition login_password :: "login \<Rightarrow> pystr" where
  "login_password i = str_or (lg_password i) []"

definition probe_direct :: "flow_env \<Rightarrow> pystr \<Rightarrow> int \<Rightarrow> pystr \<Rightarrow> pystr \<Rightarrow> pystr \<Rightarrow> (flow, exc, probe) comp" where
  "probe_direct env host port expected username password f =
    (case connect_node (fe_str env) (fe_net env) (fe_handshake env host port) host port expected username password
            (fl_log f) of
       (r, log) \<Rightarrow> (r, f\<lparr>fl_log := log\<rparr>))"

definition create_direct_entry :: "flow_env \<Rightarrow> probe \<Rightarrow> pystr \<Rightarrow> pystr \<Rightarrow> pystr \<Rightarrow> int \<Rightarrow> flow_result" where
  "create_direct_entry env p username password host port =
    (case find (\<lambda>(title, data). obj_get data CONF_HOUSEHOLD_ID = JStr (pr_household_id p)) (fe_entries env) of
       Some (title, data) \<Rightarrow> Abort (py ''household_already_configured'')
         [(py ''household_id'', pr_household_id p), (py ''title'', title)]
     | None \<Rightarrow> CreateEntry (either (pr_node_name p) (pr_node_id p))
         [(CONF_TRANSPORT, JStr TRANSPORT_DIRECT),
          (CONF_HOUSEHOLD_ID, JStr (pr_household_id p)),
          (CONF_HOUSEHOLD_NAME, JStr (pr_household_name p)),
          (CONF_NODE_ID, JStr (pr_node_id p)),
          (CONF_NODE_NAME, JStr (pr_node_name p)),
          (CONF_MODEL, JStr (pr_model p)),
          (CONF_HOST, JStr host),
          (CONF_PORT, JInt port),
          (CONF_FINGERPRINT, JStr (pr_fingerprint p)),
          (CONF_USERNAME, JStr username),
          (CONF_PASSWORD, JStr password)])"

definition direct_form :: "discovered \<Rightarrow> (pystr \<times> pystr) list \<Rightarrow> pystr \<Rightarrow> flow_result" where
  "direct_form d errors presented = ShowForm (py ''direct'')
     [Field CONF_USERNAME True (Some (JStr DEFAULT_WEB_USERNAME)), Field CONF_PASSWORD True None]
     errors
     [(py ''name'', either (either (ds_node_name d) (ds_node_id d)) (py ''HomeKey node'')),
      (py ''model'', either (ds_model d) (py ''HomeKey-ESP32'')),
      (py ''version'', either (ds_version d) (py ''unknown'')),
      (py ''host'', ds_host d), (py ''port'', dec_int (ds_port d)), (py ''expected'', ds_fingerprint d),
      (py ''presented'', either presented (py ''(not checked yet)'')), (py ''docs'', DOCS_URL)]"

text \<open>\<open>getattr(err, "actual", "")\<close>\<close>

definition presented_by :: "exc \<Rightarrow> pystr" where
  "presented_by e = (case e of DirectFingerprintMismatch expected actual \<Rightarrow> actual | _ \<Rightarrow> [])"

definition step_direct :: "flow_env \<Rightarrow> login option \<Rightarrow> step" where
  "step_direct env user_input f =
    (case fl_discovery f of
       None \<Rightarrow> (Inr (Abort (py ''node_address_unknown'') []), f)
     | Some d \<Rightarrow>
        (case user_input of
           None \<Rightarrow> (Inr (direct_form d [] []), f)
         | Some i \<Rightarrow>
            (let username = login_username i; password = login_password i in
             if username = [] \<or> password = []
             then (Inr (direct_form d [(py ''base'', py ''node_auth_failed'')] []), f)
             else (case probe_direct env (ds_host d) (ds_port d) (ds_fingerprint d) username password f of
                 (Inl e, f') \<Rightarrow>
                   (if is_transport_error e
                    then Inr (direct_form d [(py ''base'', direct_error_key e)] (presented_by e)) else Inl e, f')
               | (Inr p, f') \<Rightarrow>
                   (Inr (create_direct_entry env p username password (ds_host d) (ds_port d)), f')))))"

definition step_zeroconf :: "flow_env \<Rightarrow> discovery_info \<Rightarrow> step" where
  "step_zeroconf env info f =
    (let properties = txt_properties env info;
         protocol = txt_get properties ZEROCONF_KEY_PROTOCOL;
         fingerprint = txt_get properties ZEROCONF_KEY_FINGERPRINT;
         host = str_or (preferred_host info) [];
         port = int_or0 (dv_port info)
     in if protocol \<noteq> dec_int HA_API_PROTOCOL
        then (Inr (Abort (py ''unsupported_protocol'')
           [(py ''protocol'', either protocol (py ''unknown'')), (py ''supported'', dec_int HA_API_PROTOCOL)]), f)
        else if dict_get properties ZEROCONF_KEY_TLS \<noteq> Some (py ''1'') then (Inr (Abort (py ''tls_required'') []), f)
        else if fingerprint = [] then (Inr (Abort (py ''no_fingerprint'') []), f)
        else if host = [] \<or> port = 0 then (Inr (Abort (py ''node_address_unknown'') []), f)
        else (case fe_claim env (DOMAIN @ py ''_'' @ normalise_fingerprint fingerprint)
                     [(CONF_HOST, JStr host), (CONF_PORT, JInt port)] of
            Some r \<Rightarrow> (Inr r, f)
          | None \<Rightarrow>
             (let d = \<lparr>ds_host = host, ds_port = port, ds_fingerprint = fingerprint,
                       ds_node_id = txt_get properties ZEROCONF_KEY_ID,
                       ds_node_name = txt_get properties ZEROCONF_KEY_NAME,
                       ds_model = txt_get properties ZEROCONF_KEY_MODEL,
                       ds_version = txt_get properties ZEROCONF_KEY_VERSION\<rparr>
              in step_direct env None (f\<lparr>fl_discovery := Some d,
                   fl_title := Some (either (either (ds_node_name d) (ds_node_id d)) (py ''HomeKey node''))\<rparr>))))"

text \<open>An entry's data as Setup reads it.\<close>

definition data_str :: "(pystr \<times> json) list \<Rightarrow> pystr \<Rightarrow> pystr option" where
  "data_str d k = (case dict_get d k of Some (JStr s) \<Rightarrow> Some s | _ \<Rightarrow> None)"

definition data_bool :: "(pystr \<times> json) list \<Rightarrow> pystr \<Rightarrow> bool option" where
  "data_bool d k = (case dict_get d k of Some (JBool b) \<Rightarrow> Some b | _ \<Rightarrow> None)"

definition entry_of :: "(pystr \<times> json) list \<Rightarrow> (pystr \<times> json) list \<Rightarrow> config_entry" where
  "entry_of data options =
    \<lparr>ce_household_id = data_str data CONF_HOUSEHOLD_ID, ce_household_name = data_str data CONF_HOUSEHOLD_NAME,
     ce_transport = data_str data CONF_TRANSPORT, ce_command_control = data_bool data CONF_COMMAND_CONTROL,
     ce_host = data_str data CONF_HOST, ce_port = dict_get data CONF_PORT,
     ce_fingerprint = data_str data CONF_FINGERPRINT, ce_username = data_str data CONF_USERNAME,
     ce_password = data_str data CONF_PASSWORD,
     ce_opt_legacy_prefix = (case dict_get options CONF_LEGACY_CLIENT_ID_PREFIX of
         None \<Rightarrow> None | Some v \<Rightarrow> Some (data_str options CONF_LEGACY_CLIENT_ID_PREFIX)),
     ce_opt_command_control = data_bool options CONF_COMMAND_CONTROL, ce_raw = (data, options)\<rparr>"

subsection \<open>Reauthentication\<close>

definition step_reauth_confirm :: "flow_env \<Rightarrow> config_entry \<Rightarrow> login option \<Rightarrow> step" where
  "step_reauth_confirm env e user_input f =
    (let host = or_empty (ce_host e); expected = or_empty (ce_fingerprint e) in
     case (case ce_port e of None \<Rightarrow> Inr DEFAULT_HTTPS_PORT | Some v \<Rightarrow> py_int v) of
       Inl x \<Rightarrow> (Inl x, f)
     | Inr port \<Rightarrow>
        (let form = (\<lambda>errors. ShowForm (py ''reauth_confirm'')
               [Field CONF_USERNAME True (Some (JStr (either (or_empty (ce_username e)) DEFAULT_WEB_USERNAME))),
                Field CONF_PASSWORD True None]
               errors
               [(py ''host'', host), (py ''port'', dec_int port), (py ''expected'', expected), (py ''docs'', DOCS_URL)])
         in case user_input of
              None \<Rightarrow> (Inr (form []), f)
            | Some i \<Rightarrow>
               (let username = login_username i; password = login_password i in
                if username = [] \<or> password = []
                then (Inr (form [(py ''base'', py ''node_auth_failed'')]), f)
                else (case probe_direct env host port expected username password f of
                    (Inl x, f') \<Rightarrow>
                      (if is_transport_error x then Inr (form [(py ''base'', direct_error_key x)]) else Inl x, f')
                  | (Inr p, f') \<Rightarrow>
                      (Inr (UpdateReloadAbort [(CONF_USERNAME, JStr username), (CONF_PASSWORD, JStr password)]), f')))))"

definition step_reauth :: "flow_env \<Rightarrow> config_entry \<Rightarrow> step" where
  "step_reauth env e = step_reauth_confirm env e None"

subsection \<open>Setting up MQTT\<close>

definition then_household :: "flow_env \<Rightarrow> step" where
  "then_household env = step_household env None"

definition step_user :: "flow_env \<Rightarrow> step" where
  "step_user env = bindS (validate_mqtt env) (\<lambda>ready.
     if ready then then_household env
     else ends_with (ShowMenu (py ''user'')
       ([py ''mqtt_guide'', py ''mqtt_express''] @ (if fe_hassio env then [py ''mqtt_addon''] else []))))"

definition step_mqtt_guide :: "flow_env \<Rightarrow> bool \<Rightarrow> step" where
  "step_mqtt_guide env submitted =
    (if submitted
     then bindS (validate_mqtt env) (\<lambda>ready.
       if ready then then_household env
       else ends_with (ShowForm (py ''mqtt_guide'') [] [(py ''base'', py ''mqtt_not_configured'')] []))
     else ends_with (ShowForm (py ''mqtt_guide'') [] [] [(py ''docs'', DOCS_URL)]))"

record express_input =
  ei_broker :: pystr
  ei_port :: int
  ei_username :: "pystr option"
  ei_password :: "pystr option"

definition broker_data :: "express_input \<Rightarrow> (pystr \<times> json) list" where
  "broker_data i =
    [(CONF_MQTT_BROKER, JStr (ei_broker i)), (CONF_MQTT_PORT, JInt (ei_port i)),
     (CONF_MQTT_PROTOCOL, JStr DEFAULT_MQTT_PROTOCOL)]
    @ (if str_or (ei_username i) [] = [] then [] else [(CONF_MQTT_USERNAME, JStr (str_or (ei_username i) []))])
    @ (if str_or (ei_password i) [] = [] then [] else [(CONF_MQTT_PASSWORD, JStr (str_or (ei_password i) []))])"

text \<open>\<open>setdefault\<close>\<close>

definition set_default :: "('k, 'v) dict \<Rightarrow> 'k \<Rightarrow> 'v \<Rightarrow> ('k, 'v) dict" where
  "set_default d k v = (case dict_get d k of None \<Rightarrow> dict_set d k v | Some w \<Rightarrow> d)"

definition mqtt_payload :: "schema option \<Rightarrow> (pystr \<times> json) list \<Rightarrow> exc + (pystr \<times> json) list" where
  "mqtt_payload s data =
    (let payload = dict_update (case s of None \<Rightarrow> [] | Some t \<Rightarrow> schema_defaults t) data;
         other = obj_get payload (py ''other_settings'')
     in case (if truthy other then other else JObj []) of
          JObj d \<Rightarrow> Inr (dict_set payload (py ''other_settings'')
            (JObj (set_default (set_default (dict_update [] d) (py ''set_ca_cert'') (JStr (py ''off'')))
              (py ''set_client_cert'') (JBool False))))
        | JStr t \<Rightarrow> Inl ValueError
        | JList xs \<Rightarrow> Inl ValueError
        | v \<Rightarrow> Inl TypeError)"

definition error_key :: "flow_answer \<Rightarrow> pystr" where
  "error_key a = txt_get (fa_errors a) (py ''base'')"

definition some_text :: "pystr \<Rightarrow> pystr option" where
  "some_text s = (if s = [] then None else Some s)"

definition create_mqtt_entry :: "flow_env \<Rightarrow> (pystr \<times> json) list \<Rightarrow> (flow, exc, bool) comp" where
  "create_mqtt_entry env data = bindS (mqtt_call env InitFlow) (\<lambda>init.
     let flow_id = str_or (fa_flow_id init) [] in
     if fa_type init \<noteq> py ''form'' \<or> flow_id = [] then liftE (Inr False)
     else bindS (liftE (mqtt_payload (fa_schema init) data)) (\<lambda>payload f.
       case mqtt_call env (Configure flow_id payload) f of
         (Inl e, f') \<Rightarrow> (Inr False, f')
       | (Inr result, f') \<Rightarrow>
           if fa_type result \<noteq> py ''create_entry''
           then (Inr False, f'\<lparr>fl_express_error := some_text (error_key result)\<rparr>)
           else validate_mqtt env f'))"

definition express_form :: "(pystr \<times> pystr) list \<Rightarrow> flow_result" where
  "express_form errors = ShowForm (py ''mqtt_express'')
     [Field CONF_MQTT_BROKER True (Some (JStr DEFAULT_MQTT_BROKER)),
      Field CONF_MQTT_PORT True (Some (JInt DEFAULT_MQTT_PORT)),
      Field CONF_MQTT_USERNAME False None, Field CONF_MQTT_PASSWORD False None] errors []"

definition express_create :: "flow_env \<Rightarrow> express_input \<Rightarrow> step" where
  "express_create env i = bindS (create_mqtt_entry env (broker_data i)) (\<lambda>created f.
     if created
     then then_household env (f\<lparr>fl_household_defaults :=
       set_default (fl_household_defaults f) (py ''name'') (py ''HomeKey ('' @ ei_broker i @ py '')'')\<rparr>)
     else (Inr (express_form [(py ''base'', either (str_or (fl_express_error f) []) (py ''mqtt_setup_failed''))]), f))"

definition step_mqtt_express :: "flow_env \<Rightarrow> express_input option \<Rightarrow> step" where
  "step_mqtt_express env user_input f = (case user_input of
      None \<Rightarrow> (Inr (express_form []), f)
    | Some i \<Rightarrow>
       if mqtt_entry_exists env f
       then bindS (validate_mqtt env) (\<lambda>ready.
         if ready then then_household env
         else ends_with (express_form [(py ''base'', py ''mqtt_not_configured'')])) f
       else express_create env i f)"

text \<open>The progress loop, with the rounds left; the type it gives up with is the one it read last, and the
  answer the one it got last.\<close>

fun addon_rounds :: "flow_env \<Rightarrow> nat \<Rightarrow> pystr \<Rightarrow> flow_answer \<Rightarrow> (flow, exc, bool option \<times> pystr \<times> flow_answer) comp" where
  "addon_rounds env 0 rtype result f = (Inr (None, rtype, result), f)"
| "addon_rounds env (Suc n) rtype0 result f =
    (let rtype = fa_type result in
     if rtype = py ''create_entry''
     then bindS (validate_mqtt env) (\<lambda>b. liftE (Inr (Some b, rtype, result))) f
     else if rtype \<noteq> py ''progress'' then (Inr (None, rtype, result), f)
     else (case fa_flow_id result of
         None \<Rightarrow> (Inl KeyError, f)
       | Some i \<Rightarrow> bindS (mqtt_call env (Configure i [])) (\<lambda>next. addon_rounds env n rtype next) f))"

definition setup_mqtt_addon :: "flow_env \<Rightarrow> (flow, exc, bool) comp" where
  "setup_mqtt_addon env f0 =
    (let f = f0\<lparr>fl_addon_error := None\<rparr> in
     case mqtt_call env InitFlow f of
       (Inl e, f1) \<Rightarrow> (Inr False, f1)
     | (Inr init, f1) \<Rightarrow>
        if fa_type init \<noteq> py ''menu'' \<or> py ''addon'' \<notin> set (fa_menu_options init)
        then (Inr False, f1\<lparr>fl_addon_error := Some (py ''mqtt_addon_unavailable'')\<rparr>)
        else (case fa_flow_id init of
          None \<Rightarrow> (Inl KeyError, f1)
        | Some i \<Rightarrow>
           bindS (mqtt_call env (Configure i [(py ''next_step_id'', JStr (py ''addon''))])) (\<lambda>first.
           bindS (addon_rounds env 20 [] first) (\<lambda>(done, rtype, result) f2.
             case done of
               Some b \<Rightarrow> (Inr b, f2)
             | None \<Rightarrow>
                (let reason = (if rtype = py ''abort'' then str_or (fa_reason result) [] else [])
                 in (Inr False, f2\<lparr>fl_addon_error :=
                      Some (either (either (error_key result) reason) (py ''mqtt_addon_failed''))\<rparr>)))) f1))"

definition step_mqtt_addon :: "flow_env \<Rightarrow> bool \<Rightarrow> step" where
  "step_mqtt_addon env submitted =
    (if \<not> fe_hassio env then ends_with (Abort (py ''not_hassio'') [])
     else if submitted
     then bindS (setup_mqtt_addon env) (\<lambda>ok f.
       if ok then then_household env f
       else (Inr (ShowForm (py ''mqtt_addon'') []
         [(py ''base'', either (str_or (fl_addon_error f) []) (py ''mqtt_addon_failed''))] []), f))
     else ends_with (ShowForm (py ''mqtt_addon'') [] [] [(py ''docs'', DOCS_URL)]))"

subsection \<open>Options\<close>

definition supports_options_flow :: "(pystr \<times> json) list \<Rightarrow> bool" where
  "supports_options_flow data = (obj_get data CONF_TRANSPORT \<noteq> JStr TRANSPORT_DIRECT)"

record options_input =
  oi_recovery_secret :: "pystr option"
  oi_salt :: "pystr option"
  oi_command_control :: "bool option"
  oi_legacy_prefix :: "pystr option"
  oi_host :: "pystr option"
  oi_port :: "int option"
  oi_username :: "pystr option"
  oi_password :: "pystr option"
  oi_fingerprint :: "pystr option"
  oi_include_credentials :: "bool option"

definition new_options :: "json \<Rightarrow> options_input \<Rightarrow> (pystr \<times> json) list" where
  "new_options current_password i =
    [(CONF_LEGACY_CLIENT_ID_PREFIX, JStr (case oi_legacy_prefix i of None \<Rightarrow> DEFAULT_LEGACY_CLIENT_ID_PREFIX | Some p \<Rightarrow> p)),
     (CONF_COMMAND_CONTROL, JBool (case oi_command_control i of None \<Rightarrow> DEFAULT_COMMAND_CONTROL | Some b \<Rightarrow> b)),
     (CONF_HOST, JStr (py_strip (str_or (oi_host i) []))),
     (CONF_PORT, JInt (if int_or0 (oi_port i) = 0 then DEFAULT_HTTPS_PORT else int_or0 (oi_port i))),
     (CONF_USERNAME, JStr (str_or (oi_username i) [])),
     (CONF_PASSWORD, if str_or (oi_password i) [] = [] then current_password else JStr (str_or (oi_password i) [])),
     (CONF_FINGERPRINT, JStr (py_strip (str_or (oi_fingerprint i) []))),
     (CONF_BACKUP_INCLUDE_CREDENTIALS, JBool (case oi_include_credentials i of
        None \<Rightarrow> DEFAULT_BACKUP_INCLUDE_CREDENTIALS | Some b \<Rightarrow> b))]"

text \<open>\<open>options.get(k, data.get(k, default))\<close>\<close>

definition option_default :: "(pystr \<times> json) list \<Rightarrow> pystr \<Rightarrow> json \<Rightarrow> json" where
  "option_default d k v = (case dict_get d k of None \<Rightarrow> v | Some w \<Rightarrow> w)"

definition options_form :: "(pystr \<times> json) list \<Rightarrow> (pystr \<times> json) list \<Rightarrow> (pystr \<times> pystr) list \<Rightarrow> flow_result" where
  "options_form data options errors =
    (let own = (\<lambda>k v. Some (option_default options k v));
         both = (\<lambda>k v. Some (option_default options k (option_default data k v)))
     in ShowForm (py ''init'')
      [Field CONF_RECOVERY_SECRET False None, Field CONF_SALT False None,
       Field CONF_COMMAND_CONTROL False (own CONF_COMMAND_CONTROL (JBool DEFAULT_COMMAND_CONTROL)),
       Field CONF_LEGACY_CLIENT_ID_PREFIX False (own CONF_LEGACY_CLIENT_ID_PREFIX (JStr DEFAULT_LEGACY_CLIENT_ID_PREFIX)),
       Field CONF_HOST False (both CONF_HOST (JStr [])),
       Field CONF_PORT False (both CONF_PORT (JInt DEFAULT_HTTPS_PORT)),
       Field CONF_USERNAME False (both CONF_USERNAME (JStr DEFAULT_WEB_USERNAME)),
       Field CONF_PASSWORD False None,
       Field CONF_FINGERPRINT False (both CONF_FINGERPRINT (JStr [])),
       Field CONF_BACKUP_INCLUDE_CREDENTIALS False
         (own CONF_BACKUP_INCLUDE_CREDENTIALS (JBool DEFAULT_BACKUP_INCLUDE_CREDENTIALS))] errors [])"

definition step_options :: "(pystr \<times> json) list \<Rightarrow> (pystr \<times> json) list \<Rightarrow> options_input option \<Rightarrow> step" where
  "step_options data options user_input =
    bindS (liftE (required (data_str data CONF_HOUSEHOLD_ID))) (\<lambda>household_id.
      let current_password = json_or (obj_get data CONF_PASSWORD) (option_default options CONF_PASSWORD (JStr [])) in
      case user_input of
        None \<Rightarrow> ends_with (options_form data options [])
      | Some i \<Rightarrow>
         bindS (if str_or (oi_recovery_secret i) [] = [] then liftE (Inr [])
                else store_secret household_id (str_or (oi_recovery_secret i) []) (oi_salt i))
           (\<lambda>errors. ends_with
              (if errors = [] then CreateEntry [] (new_options current_password i)
               else options_form data options errors)))"

subsection \<open>An entry made by the direct flow\<close>

lemma fingerprints_match_refl: "fingerprints_match (certificate_fingerprint der) (certificate_fingerprint der)"
  by (simp add: fingerprints_match_def)

lemma make_probe_fingerprint: "pr_fingerprint (make_probe rp c actual info state ids) = actual"
  by (simp add: make_probe_def Let_def split: prod.splits)

text \<open>Connecting again with the fingerprint that was found is the same as connecting.\<close>

lemma connect_node_again:
  assumes "connect_node rp net hs host port expected user pw log = (Inr p, log')"
  shows "connect_node rp net hs host port (pr_fingerprint p) user pw log = (Inr p, log')"
    "fingerprints_match expected (pr_fingerprint p)"
proof -
  obtain der where der: "hs = Presented (Some der)" "der \<noteq> []" "basic_auth_accepts user" "fingerprints_match expected (certificate_fingerprint der)"
    and i: "identify_node rp net \<lparr>dc_host = host, dc_port = port, dc_pin = der, dc_username = user,
       dc_password = pw\<rparr> (certificate_fingerprint der) log = (Inr p, log')"
    using connect_node_Inr [OF assms] .
  have fp: "pr_fingerprint p = certificate_fingerprint der"
  proof (rule identify_node_Inr [OF i])
    fix info state
    assume "p = make_probe rp \<lparr>dc_host = host, dc_port = port, dc_pin = der, dc_username = user, dc_password = pw\<rparr>
      (certificate_fingerprint der) info state (pr_household_id p, pr_node_id p)"
    then show ?thesis by (metis (no_types, lifting) make_probe_fingerprint)
  qed
  show "fingerprints_match expected (pr_fingerprint p)" using der(4) fp by simp
  show "connect_node rp net hs host port (pr_fingerprint p) user pw log = (Inr p, log')"
    using der i fp by (simp add: connect_node_def fetch_peer_certificate_def fingerprints_match_refl new_client_def)
qed

text \<open>The entry's fields, read back.\<close>

lemma direct_entry_fields:
  assumes "create_direct_entry env p user pw host port = CreateEntry title data"
  shows "ce_host (entry_of data options) = Some host" "ce_port (entry_of data options) = Some (JInt port)"
    "ce_fingerprint (entry_of data options) = Some (pr_fingerprint p)"
    "ce_username (entry_of data options) = Some user" "ce_password (entry_of data options) = Some pw"
    "ce_household_id (entry_of data options) = Some (pr_household_id p)"
    "transport_kind (entry_of data options) = TRANSPORT_DIRECT"
    "\<forall>e \<in> set (fe_entries env). obj_get (snd e) CONF_HOUSEHOLD_ID \<noteq> JStr (pr_household_id p)"
proof -
  have none: "find (\<lambda>(title, data). obj_get data CONF_HOUSEHOLD_ID = JStr (pr_household_id p)) (fe_entries env) = None"
    using assms by (auto simp: create_direct_entry_def split: option.splits)
  then show "\<forall>e \<in> set (fe_entries env). obj_get (snd e) CONF_HOUSEHOLD_ID \<noteq> JStr (pr_household_id p)"
    by (auto simp: find_None_iff)
  have d: "data = [(CONF_TRANSPORT, JStr TRANSPORT_DIRECT), (CONF_HOUSEHOLD_ID, JStr (pr_household_id p)),
      (CONF_HOUSEHOLD_NAME, JStr (pr_household_name p)), (CONF_NODE_ID, JStr (pr_node_id p)),
      (CONF_NODE_NAME, JStr (pr_node_name p)), (CONF_MODEL, JStr (pr_model p)), (CONF_HOST, JStr host),
      (CONF_PORT, JInt port), (CONF_FINGERPRINT, JStr (pr_fingerprint p)), (CONF_USERNAME, JStr user),
      (CONF_PASSWORD, JStr pw)]"
    using assms none by (simp add: create_direct_entry_def)
  show "ce_host (entry_of data options) = Some host" "ce_port (entry_of data options) = Some (JInt port)"
    "ce_fingerprint (entry_of data options) = Some (pr_fingerprint p)"
    "ce_username (entry_of data options) = Some user" "ce_password (entry_of data options) = Some pw"
    "ce_household_id (entry_of data options) = Some (pr_household_id p)"
    "transport_kind (entry_of data options) = TRANSPORT_DIRECT"
    unfolding d entry_of_def data_str_def transport_kind_def
    by (simp_all add: dict_get_def const_defs)
qed

lemma step_direct_creates:
  assumes "step_direct env (Some i) f = (Inr (CreateEntry title data), f')"
  obtains d p where "fl_discovery f = Some d"
    "connect_node (fe_str env) (fe_net env) (fe_handshake env (ds_host d) (ds_port d)) (ds_host d) (ds_port d)
       (ds_fingerprint d) (login_username i) (login_password i) (fl_log f) = (Inr p, fl_log f')"
    "create_direct_entry env p (login_username i) (login_password i) (ds_host d) (ds_port d) = CreateEntry title data"
  using assms
  by (auto simp: step_direct_def probe_direct_def direct_form_def Let_def
      split: option.splits if_splits prod.splits sum.splits)

subsection \<open>The secret and the key\<close>

lemma load_entry_credential: "load_entry v = Inr (Some c) \<Longrightarrow> credential_ok c"
  by (auto simp: load_entry_def make_credential_def credential_ok_def split: json.splits if_splits option.splits)

lemma load_entries_ok: "load_entries es cache = (r, cache') \<Longrightarrow> cache_ok cache \<Longrightarrow> cache_ok cache'"
proof (induction es arbitrary: cache)
  case (Cons e es)
  obtain h v where e: "e = (h, v)" by (cases e)
  show ?case
    using Cons load_entry_credential [of v]
    by (auto simp: e intro: cache_ok_set split: sum.splits option.splits)
qed simp

lemma load_new_ok:
  assumes "load_keys (new_key_store d) = (Inr u, s)"
  shows "cache_ok (ks_cache s)"
  using assms load_entries_ok [of _ "[]"]
  by (auto simp: load_keys_def new_key_store_def cache_ok_def split: sum.splits prod.splits)

lemma store_secret_stores:
  assumes "store_secret h secret salt f = (Inr [], f')"
  obtains key s where "derive_command_key (KStr secret) (KStr (str_or salt [])) = Inr key"
    "load_keys (new_key_store (fl_key_document f')) = (Inr (), s)" "stored_key s h = Some key" "key \<noteq> []"
proof -
  obtain s0 c s1 where l: "load_keys (new_key_store (fl_key_document f)) = (Inr (), s0)"
    and set: "set_key_from_secret h secret (if str_or salt [] = [] then None else salt) s0 = (Inr c, s1)"
    and f': "fl_key_document f' = ks_disk s1"
    using assms by (auto simp: store_secret_def split: prod.splits sum.splits if_splits)
  have salt: "str_or (if str_or salt [] = [] then None else salt) [] = str_or salt []"
    by (simp add: str_or_def split: option.splits)
  obtain key where key: "derive_command_key (KStr secret) (KStr (str_or salt [])) = Inr key"
    and sk: "set_key h key (if str_or salt [] = [] then None else salt) s0 = (Inr c, s1)"
    using set by (auto simp: set_key_from_secret_def salt split: sum.splits)
  note ok = set_key_ok [OF load_new_ok [OF l] sk]
  have "load_keys (new_key_store (ks_disk s1)) = (Inr (), \<lparr>ks_disk = ks_disk s1, ks_cache = ks_cache s1, ks_loaded = True\<rparr>)"
    using load_after_save [OF ok(3)] ok(5) by simp
  moreover have "stored_key \<lparr>ks_disk = ks_disk s1, ks_cache = ks_cache s1, ks_loaded = True\<rparr> h = Some key"
    using ok(2,4) by (simp add: stored_key_def get_key_def)
  moreover have "key \<noteq> []" using ok(1,2) by (simp add: credential_ok_def)
  ultimately show thesis using that key f' by simp
qed

text \<open>What Home Assistant ends a flow with over its unique id is an abort.\<close>

definition claims_abort :: "flow_env \<Rightarrow> bool" where
  "claims_abort env = (\<forall>u d r. fe_claim env u d = Some r \<longrightarrow> (\<exists>a b. r = Abort a b))"

lemma step_household_creates:
  assumes "claims_abort env" "step_household env (Some i) f = (Inr (CreateEntry title data), f')"
  obtains hid control g where "data = entry_data_of hid title control" "hid = py_strip (hi_household_id i)"
    "fl_key_document g = fl_key_document f"
    "str_or (hi_recovery_secret i) [] \<noteq> [] \<Longrightarrow>
       store_secret hid (str_or (hi_recovery_secret i) []) (hi_salt i) g = (Inr [], f')"
proof -
  let ?hid = "py_strip (hi_household_id i)"
  let ?f = "f\<lparr>fl_household_defaults := dict_update (dict_update [] (mqtt_household_defaults env f)) (fl_household_defaults f)\<rparr>"
  have form: "household_form d e \<noteq> CreateEntry title data" for d e by (simp add: household_form_def Let_def)
  have claim: "fe_claim env u d \<noteq> Some (CreateEntry title data)" for u d
    using assms(1) by (force simp: claims_abort_def)
  have s: "submit_household env i ?f = (Inr (CreateEntry title data), f')"
    using assms(2) by (simp add: step_household_def Let_def)
  obtain errors control where e: "(if str_or (hi_recovery_secret i) [] = [] then liftE (Inr [])
        else store_secret ?hid (str_or (hi_recovery_secret i) []) (hi_salt i)) ?f = (Inr errors, f')"
    and r: "(if errors = [] then CreateEntry (either (py_strip (str_or (hi_name i) [])) ?hid)
        (entry_data_of ?hid (either (py_strip (str_or (hi_name i) [])) ?hid) control)
       else household_form (fl_household_defaults ?f) errors) = CreateEntry title data"
    using s form claim
    by (auto simp: submit_household_def Let_def ends_with_def res_simps split: sum.splits option.splits)
  then have "errors = []" "title = either (py_strip (str_or (hi_name i) [])) ?hid"
    "data = entry_data_of ?hid title control" using form by (auto split: if_splits)
  then show thesis using e by (intro that [of ?hid control ?f]) (auto split: if_splits)
qed

subsection \<open>Rounds of the add-on flow\<close>

lemma addon_rounds_calls:
  "addon_rounds env n rtype a f = (r, f') \<Longrightarrow>
   length (fl_calls f') \<le> length (fl_calls f) + n
   \<and> (\<forall>b t x. r = Inr (Some b, t, x) \<longrightarrow> 0 < fl_checks f' \<and> b = fe_mqtt_ready env (fl_checks f' - 1))"
proof (induction env n rtype a f arbitrary: r f' rule: addon_rounds.induct)
  case (2 env n rtype0 a f)
  show ?case
  proof (cases "fa_type a = py ''create_entry'' \<or> fa_type a \<noteq> py ''progress'' \<or> fa_flow_id a = None")
    case True
    then show ?thesis using 2(2)
      by (auto simp: Let_def validate_mqtt_def bindS_def split: if_splits option.splits)
  next
    case False
    then obtain i where i: "fa_flow_id a = Some i" "fa_type a = py ''progress''" "fa_type a \<noteq> py ''create_entry''"
      by auto
    let ?g = "f\<lparr>fl_calls := fl_calls f @ [Configure i []]\<rparr>"
    show ?thesis
    proof (cases "fe_mqtt_flow env (fl_calls f) (Configure i [])")
      case (Inl e)
      then show ?thesis using 2(2) i by (auto simp: Let_def bindS_def mqtt_call_def)
    next
      case (Inr b)
      then have "addon_rounds env n (fa_type a) b ?g = (r, f')"
        using 2(2) i by (simp add: Let_def bindS_def mqtt_call_def)
      then show ?thesis using 2(1) [of "fa_type a" i b ?g] i by auto
    qed
  qed
qed auto

subsection \<open>Rotating the key\<close>

text \<open>Resubmitting the options of an entry with another secret leaves the options as they are: Home
  Assistant, which reloads an entry when its options change, has no reason to reload it.\<close>

lemma rotation_keeps_options:
  assumes "options = new_options pw i" "obj_get data CONF_PASSWORD = JNull" "str_or (oi_password i) [] = []"
  shows "new_options (json_or (obj_get data CONF_PASSWORD) (option_default options CONF_PASSWORD (JStr [])))
    (i\<lparr>oi_recovery_secret := s, oi_salt := t\<rparr>) = options"
proof -
  have "dict_get options CONF_PASSWORD = Some pw"
    using assms(3) by (simp add: assms(1) new_options_def dict_get_def const_defs)
  then have "json_or (obj_get data CONF_PASSWORD) (option_default options CONF_PASSWORD (JStr [])) = pw"
    by (simp add: assms(2) option_default_def json_or_def)
  then show ?thesis unfolding assms(1) by (simp only:) (simp add: new_options_def)
qed

end
