(* ===== verification/Emulator.thy ===== *)
theory Emulator imports Poller begin

section \<open>The emulated node\<close>

text \<open>
  \<open>tools/integration/node_emulator.py\<close>: the documented payloads of firmware 0.10.0 and the node
  that publishes them. The transport is an argument: \<open>pub p\<close> is what \<open>client.publish\<close> raises for
  a publication, if anything. The lemmas follow each payload through the broker, the MQTT client
  and the coordinator to the node the coordinator keeps.
\<close>

subsection \<open>Payloads\<close>

definition compact_dumps :: "json \<Rightarrow> pystr" where
  "compact_dumps v = json_dumps [44] [58] v"

definition emulator_base :: "pystr \<Rightarrow> pystr \<Rightarrow> pystr" where
  "emulator_base household_id node_id = py ''homekey/household/'' @ household_id @ py ''/nodes/'' @ node_id"

definition state_payload :: "pystr \<Rightarrow> pystr \<Rightarrow> pystr \<Rightarrow> pystr \<Rightarrow> pystr \<Rightarrow> int \<Rightarrow> pystr \<Rightarrow> pystr" where
  "state_payload household_id node_id node_name node_role node_state generation firmware_version =
    compact_dumps (JObj [(py ''household_id'', JStr household_id), (py ''node_id'', JStr node_id),
      (py ''node_name'', JStr node_name), (py ''node_role'', JStr node_role),
      (py ''node_state'', JStr node_state), (py ''generation'', JInt generation),
      (py ''firmware_version'', JStr firmware_version)])"

text \<open>The keyword arguments of \<open>health_payload\<close>, and their defaults.\<close>

record health_report =
  hr_network :: pystr
  hr_mqtt :: pystr
  hr_mqtt_error :: int
  hr_nfc :: pystr
  hr_lock_current :: int
  hr_lock_target :: int
  hr_backup :: pystr
  hr_certificate :: pystr
  hr_firmware_version :: pystr
  hr_uptime :: int
  hr_free_heap :: int
  hr_reset_reason :: pystr
  hr_security_all_ok :: bool
  hr_security_warnings :: pystr

definition default_health :: health_report where
  "default_health = \<lparr>hr_network = py ''UNKNOWN'', hr_mqtt = py ''OK'', hr_mqtt_error = 0,
     hr_nfc = py ''OK'', hr_lock_current = 1, hr_lock_target = 1, hr_backup = py ''ok'',
     hr_certificate = py ''unknown'', hr_firmware_version = py ''0.10.0'', hr_uptime = 1234,
     hr_free_heap = 123456, hr_reset_reason = py ''1'', hr_security_all_ok = True,
     hr_security_warnings = []\<rparr>"

definition health_payload :: "health_report \<Rightarrow> pystr" where
  "health_payload r =
    compact_dumps (JObj [(py ''network'', JStr (hr_network r)), (py ''mqtt'', JStr (hr_mqtt r)),
      (py ''mqtt_error'', JInt (hr_mqtt_error r)), (py ''nfc'', JStr (hr_nfc r)),
      (py ''lock_current'', JInt (hr_lock_current r)), (py ''lock_target'', JInt (hr_lock_target r)),
      (py ''backup'', JStr (hr_backup r)), (py ''certificate'', JStr (hr_certificate r)),
      (py ''firmware_version'', JStr (hr_firmware_version r)), (py ''uptime'', JInt (hr_uptime r)),
      (py ''free_heap'', JInt (hr_free_heap r)), (py ''reset_reason'', JStr (hr_reset_reason r)),
      (py ''security'', JObj [(py ''all_ok'', JBool (hr_security_all_ok r)),
        (py ''warnings'', JStr (hr_security_warnings r))])])"

definition security_payload :: "pystr \<Rightarrow> pystr" where
  "security_payload state = state"

definition backup_last_payload :: "pystr \<Rightarrow> int \<Rightarrow> pystr" where
  "backup_last_payload status timestamp =
    compact_dumps (JObj [(py ''status'', JStr status), (py ''timestamp'', JInt timestamp)])"

definition last_auth_payload :: "pystr \<Rightarrow> pystr \<Rightarrow> int \<Rightarrow> pystr" where
  "last_auth_payload result auth_type timestamp =
    compact_dumps (JObj [(py ''type'', JStr auth_type), (py ''result'', JStr result),
      (py ''timestamp'', JInt timestamp)])"

subsection \<open>The node\<close>

record emulated_node =
  en_household_id :: pystr
  en_node_id :: pystr
  en_node_name :: pystr
  en_node_role :: pystr
  en_publish_log :: "publication list"

definition en_base :: "emulated_node \<Rightarrow> pystr" where
  "en_base e = emulator_base (en_household_id e) (en_node_id e)"

text \<open>The keyword arguments of \<open>publish_all\<close>, and their defaults.\<close>

record telemetry_args =
  ta_lock_current :: int
  ta_security :: pystr
  ta_status :: pystr
  ta_last_auth_result :: pystr
  ta_backup_status :: pystr

definition default_telemetry :: telemetry_args where
  "default_telemetry = \<lparr>ta_lock_current = 1, ta_security = py ''OK'', ta_status = py ''online'',
     ta_last_auth_result = py ''SUCCESS'', ta_backup_status = py ''completed''\<rparr>"

definition DEFAULT_EVENT_TIME :: int where [const_defs]: "DEFAULT_EVENT_TIME = 1760000000"

definition telemetry :: "emulated_node \<Rightarrow> telemetry_args \<Rightarrow> publication list" where
  "telemetry e a =
    [\<lparr>pub_topic = en_base e @ py ''/state'',
      pub_payload = state_payload (en_household_id e) (en_node_id e) (en_node_name e) (en_node_role e)
        (py ''ACTIVE'') 1 (py ''0.10.0''), pub_qos = 0, pub_retain = True\<rparr>,
     \<lparr>pub_topic = en_base e @ py ''/status'', pub_payload = ta_status a, pub_qos = 1, pub_retain = True\<rparr>,
     \<lparr>pub_topic = en_base e @ py ''/health'',
      pub_payload = health_payload (default_health\<lparr>hr_lock_current := ta_lock_current a\<rparr>),
      pub_qos = 0, pub_retain = False\<rparr>,
     \<lparr>pub_topic = en_base e @ py ''/security'', pub_payload = security_payload (ta_security a),
      pub_qos = 0, pub_retain = True\<rparr>,
     \<lparr>pub_topic = en_base e @ py ''/backup/status'', pub_payload = ta_backup_status a,
      pub_qos = 0, pub_retain = True\<rparr>,
     \<lparr>pub_topic = en_base e @ py ''/backup/last'',
      pub_payload = backup_last_payload (py ''completed'') DEFAULT_EVENT_TIME, pub_qos = 0, pub_retain = True\<rparr>,
     \<lparr>pub_topic = en_base e @ py ''/last_auth'',
      pub_payload = last_auth_payload (ta_last_auth_result a) (py ''HomeKey'') DEFAULT_EVENT_TIME,
      pub_qos = 0, pub_retain = True\<rparr>]"

text \<open>The publications in order; the first one that raises ends the run. The second component
  is what reached the transport.\<close>

fun publish_each :: "(publication \<Rightarrow> exc option) \<Rightarrow> publication list \<Rightarrow> exc option \<times> publication list" where
  "publish_each pub [] = (None, [])"
| "publish_each pub (p # ps) =
    (case pub p of
       Some e \<Rightarrow> (Some e, [])
     | None \<Rightarrow> (case publish_each pub ps of (r, sent) \<Rightarrow> (r, p # sent)))"

definition publish_all :: "(publication \<Rightarrow> exc option) \<Rightarrow> telemetry_args \<Rightarrow> emulated_node
    \<Rightarrow> (exc + publication list) \<times> publication list \<times> emulated_node" where
  "publish_all pub a e =
    (case publish_each pub (telemetry e a) of
       (Some x, sent) \<Rightarrow> (Inl x, sent, e)
     | (None, sent) \<Rightarrow> (Inr sent, sent, e\<lparr>en_publish_log := en_publish_log e @ sent\<rparr>))"

definition status_publication :: "emulated_node \<Rightarrow> pystr \<Rightarrow> bool \<Rightarrow> publication" where
  "status_publication e status retained =
    \<lparr>pub_topic = en_base e @ py ''/status'', pub_payload = status, pub_qos = 1, pub_retain = retained\<rparr>"

definition health_publication :: "emulated_node \<Rightarrow> int \<Rightarrow> publication" where
  "health_publication e lock_current =
    \<lparr>pub_topic = en_base e @ py ''/health'',
     pub_payload = health_payload (default_health\<lparr>hr_lock_current := lock_current\<rparr>),
     pub_qos = 0, pub_retain = False\<rparr>"

definition last_auth_publication :: "emulated_node \<Rightarrow> pystr \<Rightarrow> publication" where
  "last_auth_publication e result =
    \<lparr>pub_topic = en_base e @ py ''/last_auth'',
     pub_payload = last_auth_payload result (py ''HomeKey'') DEFAULT_EVENT_TIME,
     pub_qos = 0, pub_retain = True\<rparr>"

text \<open>\<open>connect_node\<close>: the will the broker publishes for a lost connection, what is published at
  once, and the node.\<close>

definition connect_emulated_node :: "pystr \<Rightarrow> pystr \<Rightarrow> pystr \<Rightarrow> pystr \<Rightarrow> pystr option
    \<Rightarrow> publication option \<times> publication list \<times> emulated_node" where
  "connect_emulated_node household_id node_id node_name node_role lwt_prefix =
    (let e = \<lparr>en_household_id = household_id, en_node_id = node_id, en_node_name = node_name,
              en_node_role = node_role, en_publish_log = []\<rparr>;
         legacy = (\<lambda>p payload. \<lparr>pub_topic = p @ node_id @ py ''/status'', pub_payload = payload,
                               pub_qos = 1, pub_retain = True\<rparr>)
     in case lwt_prefix of
          None \<Rightarrow> (None, [], e)
        | Some p \<Rightarrow> if p = [] then (None, [], e)
                    else (Some (legacy p (py ''offline'')), [legacy p (py ''online'')], e))"

subsection \<open>From a publication to the node\<close>

text \<open>The node a coordinator holds, or the one it would register.\<close>

definition held :: "coord \<Rightarrow> pystr \<Rightarrow> node" where
  "held c n = (case get_node c n of Some m \<Rightarrow> m | None \<Rightarrow> new_node n (co_household_id c))"

lemma held_Some: "get_node c n = Some m \<Longrightarrow> held c n = m"
  by (simp add: held_def)

lemma ensure_held: "ensure_node n c = (m, c1) \<Longrightarrow> m = held c n"
  using ensure_node_spec(3) by (simp add: held_def)

lemma emulator_topic:
  "s \<noteq> [] \<Longrightarrow> emulator_base h n @ 47 # s = node_topic h n (Some s)"
  by (simp add: emulator_base_def node_topic_def node_base_def Let_def const_defs py_def)

lemma emulator_topics:
  "en_base e @ py ''/state'' = node_topic (en_household_id e) (en_node_id e) (Some TOPIC_STATE)"
  "en_base e @ py ''/status'' = node_topic (en_household_id e) (en_node_id e) (Some TOPIC_STATUS)"
  "en_base e @ py ''/health'' = node_topic (en_household_id e) (en_node_id e) (Some TOPIC_HEALTH)"
  "en_base e @ py ''/security'' = node_topic (en_household_id e) (en_node_id e) (Some TOPIC_SECURITY)"
  "en_base e @ py ''/backup/status'' = node_topic (en_household_id e) (en_node_id e) (Some TOPIC_BACKUP_STATUS)"
  "en_base e @ py ''/backup/last'' = node_topic (en_household_id e) (en_node_id e) (Some TOPIC_BACKUP_LAST)"
  "en_base e @ py ''/last_auth'' = node_topic (en_household_id e) (en_node_id e) (Some TOPIC_LAST_AUTH)"
  by (simp_all add: en_base_def emulator_topic [symmetric] const_defs py_def)

lemma receive_dispatch:
  assumes "is_valid_id h" "is_valid_id n" "s \<in> set KNOWN_SUBTOPICS" "co_household_id c = h"
  shows "broker_receive envs client
      \<lparr>pub_topic = node_topic h n (Some s), pub_payload = p, pub_qos = q, pub_retain = r\<rparr> c
    = snd (dispatch (envs s) \<lparr>msg_household_id = h, msg_subtopic = s, msg_payload = p,
        msg_node_id = Some n, msg_qos = q, msg_retain = r, msg_legacy = False\<rparr> c)"
  using assms(4)
  by (simp add: broker_receive_def on_message_node [OF assms(1-3)] sink_def handle_message_dispatch)

lemma receive_hid [simp]: "co_household_id (broker_receive envs client p c) = co_household_id c"
  by (simp add: broker_receive_def sink_def split: option.splits)

lemma fold_receive_hid [simp]: "co_household_id (fold (broker_receive envs client) ps c) = co_household_id c"
  by (induction ps arbitrary: c) simp_all

lemma decode_compact: "json_ok v \<Longrightarrow> decode_json (compact_dumps v) = Inr v"
  by (simp add: decode_json_def compact_dumps_def json_loads_dumps seps_ok)

text \<open>The effect of each kind of message on the node.\<close>

lemma receive_handled:
  assumes "is_valid_id h" "is_valid_id n" "s \<in> set KNOWN_SUBTOPICS" "co_household_id c = h"
    "(if s \<in> set JSON_SUBTOPICS then decode_json p else Inr (JStr p)) = Inr v"
    "handler_for (envs s) c s n p v = Some f" "f c = (Inr u, c')"
  shows "get_node (broker_receive envs client
      \<lparr>pub_topic = node_topic h n (Some s), pub_payload = p, pub_qos = q, pub_retain = r\<rparr> c) n = get_node c' n"
proof -
  have "n \<noteq> []" using assms(2) by (simp add: is_valid_id_def split: if_splits)
  then show ?thesis
    using assms(5-7)
    by (cases "s \<in> set JSON_SUBTOPICS") (simp_all add: receive_dispatch [OF assms(1-4)] dispatch_def)
qed

lemma assign_held:
  "\<exists>c'. assign_parsed (Inr v) f n c = (Inr (), c') \<and> get_node c' n = Some (f v (held c n))"
  by (auto simp: assign_parsed_def dest: ensure_held split: prod.splits)

text \<open>Where a node and a coordinator agree on the identity: what the steps below share.\<close>

definition addressed :: "pystr \<Rightarrow> pystr \<Rightarrow> coord \<Rightarrow> bool" where
  "addressed h n c \<longleftrightarrow> is_valid_id h \<and> is_valid_id n \<and> co_household_id c = h"

lemma addressed_receive [simp]: "addressed h n (broker_receive envs client p c) = addressed h n c"
  by (simp add: addressed_def)

abbreviation on_topic :: "pystr \<Rightarrow> pystr \<Rightarrow> pystr \<Rightarrow> pystr \<Rightarrow> int \<Rightarrow> bool \<Rightarrow> publication" where
  "on_topic h n s p q r \<equiv>
    \<lparr>pub_topic = node_topic h n (Some s), pub_payload = p, pub_qos = q, pub_retain = r\<rparr>"

lemma status_held:
  assumes "addressed h n c" "py_lower (py_strip p) \<in> {ONLINE, OFFLINE}"
  shows "get_node (broker_receive envs client (on_topic h n TOPIC_STATUS p q r) c) n =
    Some ((held c n)\<lparr>nd_online := (py_lower (py_strip p) = ONLINE),
      nd_last_seen := Some (now_iso (envs TOPIC_STATUS))\<rparr>)"
proof -
  obtain m c1 where e: "ensure_node n c = (m, c1)" by (rule prod.exhaust)
  have h: "handler_for (envs TOPIC_STATUS) c TOPIC_STATUS n p (JStr p)
      = Some (handle_node_status (envs TOPIC_STATUS) n p)"
    by (simp add: handler_for_def const_defs)
  have "handle_node_status (envs TOPIC_STATUS) n p c = (Inr (), put_node n (m\<lparr>nd_online :=
      (py_lower (py_strip p) = ONLINE), nd_last_seen := Some (now_iso (envs TOPIC_STATUS))\<rparr>) c1)"
    using assms(2) e by (auto simp: handle_node_status_def Let_def)
  from receive_handled [where envs = envs and s = TOPIC_STATUS and f = "handle_node_status (envs TOPIC_STATUS) n p", OF _ _ _ _ _ h this] show ?thesis
    using assms(1) ensure_held [OF e] by (simp add: addressed_def known_topics json_subtopics const_defs)
qed

lemma security_held:
  assumes "addressed h n c" "is_security_state p" "py_strip p = p"
  shows "get_node (broker_receive envs client (on_topic h n TOPIC_SECURITY p q r) c) n =
    Some ((held c n)\<lparr>nd_security := Some p\<rparr>)"
proof -
  obtain m c1 where e: "ensure_node n c = (m, c1)" by (rule prod.exhaust)
  have h: "handler_for (envs TOPIC_SECURITY) c TOPIC_SECURITY n p (JStr p) = Some (handle_security n p)"
    by (simp add: handler_for_def const_defs)
  have "handle_security n p c = (Inr (), put_node n (m\<lparr>nd_security := Some p\<rparr>) c1)"
    using assms(2,3) e by (simp add: handle_security_def Let_def)
  from receive_handled [where envs = envs and s = TOPIC_SECURITY and f = "handle_security n p", OF _ _ _ _ _ h this] show ?thesis
    using assms(1) ensure_held [OF e] by (simp add: addressed_def known_topics json_subtopics const_defs)
qed

lemma backup_status_held:
  assumes "addressed h n c" "is_backup_outcome p" "py_lower (py_strip p) = p"
  shows "get_node (broker_receive envs client (on_topic h n TOPIC_BACKUP_STATUS p q r) c) n =
    Some ((held c n)\<lparr>nd_backup_status := Some p\<rparr>)"
proof -
  obtain m c1 where e: "ensure_node n c = (m, c1)" by (rule prod.exhaust)
  have h: "handler_for (envs TOPIC_BACKUP_STATUS) c TOPIC_BACKUP_STATUS n p (JStr p)
      = Some (handle_backup_status n p)"
    by (simp add: handler_for_def const_defs)
  have "handle_backup_status n p c = (Inr (), put_node n (m\<lparr>nd_backup_status := Some p\<rparr>) c1)"
    using assms(2,3) e by (simp add: handle_backup_status_def Let_def)
  from receive_handled [where envs = envs and s = TOPIC_BACKUP_STATUS and f = "handle_backup_status n p", OF _ _ _ _ _ h this] show ?thesis
    using assms(1) ensure_held [OF e] by (simp add: addressed_def known_topics json_subtopics const_defs)
qed

text \<open>The JSON payloads, as the validators read them.\<close>

lemma state_fields_read:
  assumes "n \<noteq> []" "h \<noteq> []"
  shows "node_state_from_dict (JObj [(py ''household_id'', JStr h), (py ''node_id'', JStr n),
      (py ''node_name'', JStr name), (py ''node_role'', JStr role), (py ''node_state'', JStr st),
      (py ''generation'', JInt g), (py ''firmware_version'', JStr fw)]) h n =
    Inr \<lparr>ns_household_id = h, ns_node_id = n, ns_node_name = str_or (Some name) n,
      ns_node_role = str_or (Some role) (node_role_str ROLE_OTHER),
      ns_node_state = str_or (Some st) (py ''UNKNOWN''), ns_generation = Some g,
      ns_firmware_version = Some fw\<rparr>"
  using assms
  by (simp add: node_state_from_dict_def require_dict_def require_identity_def require_str_def
      optional_str_def optional_int_def bindE_def const_defs)

lemma health_fields_read:
  "mqtt \<noteq> [] \<Longrightarrow> node_health_from_dict (JObj [(py ''network'', JStr net), (py ''mqtt'', JStr mqtt),
      (py ''mqtt_error'', JInt err), (py ''nfc'', JStr nfc), (py ''lock_current'', JInt cur),
      (py ''lock_target'', JInt tgt), (py ''backup'', JStr bk), (py ''certificate'', JStr cert),
      (py ''firmware_version'', JStr fw), (py ''uptime'', JInt up), (py ''free_heap'', JInt heap),
      (py ''reset_reason'', JStr rr),
      (py ''security'', JObj [(py ''all_ok'', JBool ok), (py ''warnings'', JStr warn)])]) h n =
    Inr \<lparr>nh_network = str_or (Some net) (py ''UNKNOWN''), nh_mqtt = mqtt,
      nh_nfc = str_or (Some nfc) (py ''unknown''), nh_certificate = str_or (Some cert) (py ''unknown''),
      nh_mqtt_error = Some err, nh_lock_current = Some cur, nh_lock_target = Some tgt,
      nh_backup = Some bk, nh_firmware_version = Some fw, nh_uptime = Some up, nh_free_heap = Some heap,
      nh_reset_reason = Some rr, nh_security_all_ok = Some ok, nh_security_warnings = Some warn\<rparr>"
  by (simp add: node_health_from_dict_def require_dict_def validate_identity_def health_security_def
      require_str_def optional_str_def optional_int_def optional_bool_def as_optional_str_def const_defs)

lemma enum_words_ok:
  "is_backup_outcome s \<Longrightarrow> str_ok s \<and> s \<noteq> []" "is_auth_result s \<Longrightarrow> str_ok s \<and> s \<noteq> []"
  by (auto simp: is_backup_outcome_def is_auth_result_def enum_backup_outcome_def enum_auth_result_def)

lemma backup_fields_read:
  "is_backup_outcome s \<Longrightarrow> int_timestamp t = Some ts \<Longrightarrow>
   backup_record_from_dict (JObj [(py ''status'', JStr s), (py ''timestamp'', JInt t)]) h n
    = Inr \<lparr>br_status = s, br_timestamp = Some ts\<rparr>"
  using enum_words_ok(1) [of s]
  by (simp add: backup_record_from_dict_def require_dict_def validate_identity_def require_str_def
      normalise_timestamp_def const_defs)

lemma auth_fields_read:
  "is_auth_result s \<Longrightarrow> ty \<noteq> [] \<Longrightarrow> int_timestamp t = Some ts \<Longrightarrow>
   last_auth_from_dict (JObj [(py ''type'', JStr ty), (py ''result'', JStr s), (py ''timestamp'', JInt t)]) h n
    = Inr \<lparr>la_auth_type = ty, la_result = s, la_timestamp = Some ts, la_issuer = None\<rparr>"
  using enum_words_ok(2) [of s]
  by (simp add: last_auth_from_dict_def require_dict_def validate_identity_def require_str_def
      optional_str_def normalise_timestamp_def str_or_def const_defs)

lemma nat_log2_halves:
  "nat_log2 1 = 0" "nat_log2 (Suc 0) = 0"
  "nat_log2 (numeral (num.Bit0 k)) = Suc (nat_log2 (numeral k))"
  "nat_log2 (numeral (num.Bit1 k)) = Suc (nat_log2 (numeral k))"
  by (simp_all add: nat_log2.simps [of "Suc 0"] nat_log2.simps [of "numeral (num.Bit0 k)"]
      nat_log2.simps [of "numeral (num.Bit1 k)"] numeral_eq_Suc [symmetric])

lemma event_time: "int_timestamp DEFAULT_EVENT_TIME = Some (py ''2025-10-09T08:53:20+00:00'')"
proof -
  have l: "nat_log2 1 = 0" "nat_log2 (Suc 0) = 0" "nat_log2 1760000000 = 30"
    by (simp_all add: nat_log2_halves)
  have f: "float_of_int 1760000000 = Some (FFin False 7381975040000000 (- 22))"
    by (simp add: float_of_int_def float_of_ratio_def l scale_num_def scale_den_def round_div_def Let_def)
  have n: "float_num (FFin False 7381975040000000 (- 22)) = 7381975040000000"
    "float_den (FFin False 7381975040000000 (- 22)) = 4194304"
    "float_num (FFin False 0 0) = 0" "float_den (FFin False 0 0) = 1"
    by (simp_all add: float_num_def float_den_def)
  have z: "float_of_ratio False 0 4194304 = FFin False 0 0" "round_div 0 (Suc 0) = 0"
    by (simp_all add: float_of_ratio_def round_div_def)
  have "float_timestamp (FFin False 7381975040000000 (- 22)) = utc_iso 1760000000 0"
    by (simp add: float_timestamp_def n z)
  moreover have "utc_iso 1760000000 0 = Some (py ''2025-10-09T08:53:20+00:00'')"
  proof -
    have c: "civil_of_days 20370 = (2025, 10, 9)" by code_simp
    have "dec_nat 2025 = [50, 48, 50, 53]" "dec_nat 10 = [49, 48]" "dec_nat 9 = [57]"
      "dec_nat 8 = [56]" "dec_nat 53 = [53, 51]" "dec_nat 20 = [50, 48]"
      by (simp_all add: dec_nat.simps)
    then show ?thesis
      by (simp add: utc_iso_def MIN_UTC_SECONDS_def MAX_UTC_SECONDS_def c pad_dec_def py_def)
  qed
  ultimately show ?thesis
    by (simp add: int_timestamp_def DEFAULT_EVENT_TIME_def f)
qed

lemma valid_id_str_ok: "is_valid_id v \<Longrightarrow> str_ok v \<and> v \<noteq> []"
proof -
  assume v: "is_valid_id v"
  have "list_all (\<lambda>c. scalar_value c) ID_SAFE_CHARS"
    using str_ok_py by (simp add: ID_SAFE_CHARS_def str_ok_def)
  then show ?thesis
    using v by (auto simp: is_valid_id_iff str_ok_def list_all_iff)
qed

lemma state_held:
  assumes "addressed h n c" "str_ok name" "str_ok role" "str_ok st" "int_ok g" "str_ok fw"
  shows "get_node (broker_receive envs client
      (on_topic h n TOPIC_STATE (state_payload h n name role st g fw) q r) c) n =
    Some ((held c n)\<lparr>nd_node_name := str_or (Some name) n,
      nd_node_role := str_or (Some role) (node_role_str ROLE_OTHER),
      nd_node_state := str_or (Some st) (py ''UNKNOWN''), nd_generation := Some g, nd_firmware := Some fw\<rparr>)"
proof -
  define v where "v = JObj [(py ''household_id'', JStr h), (py ''node_id'', JStr n),
      (py ''node_name'', JStr name), (py ''node_role'', JStr role), (py ''node_state'', JStr st),
      (py ''generation'', JInt g), (py ''firmware_version'', JStr fw)]"
  have id: "is_valid_id h" "is_valid_id n" "co_household_id c = h" "str_ok h" "str_ok n" "h \<noteq> []" "n \<noteq> []"
    using assms(1) valid_id_str_ok by (auto simp: addressed_def)
  have "json_ok v" using assms id by (simp add: v_def dict_ok_def)
  then have d: "decode_json (state_payload h n name role st g fw) = Inr v"
    by (simp add: state_payload_def v_def [symmetric] decode_compact)
  define incoming where "incoming = (new_node n h)\<lparr>nd_node_name := str_or (Some name) n,
      nd_node_role := str_or (Some role) (node_role_str ROLE_OTHER),
      nd_node_state := str_or (Some st) (py ''UNKNOWN''), nd_generation := Some g, nd_firmware := Some fw\<rparr>"
  have p: "node_from_state h n v = Inr incoming"
    using id state_fields_read [OF id(7,6), of name role st g fw]
    by (simp add: node_from_state_def v_def incoming_def)
  define f where "f = (\<lambda>c. case node_from_state (co_household_id c) n v of
      Inl e \<Rightarrow> (Inl e, c) | Inr m \<Rightarrow> (Inr () :: exc + unit, merge_node m c))"
  have h: "handler_for (envs TOPIC_STATE) c TOPIC_STATE n (state_payload h n name role st g fw) v = Some f"
    by (simp add: handler_for_def f_def const_defs)
  have "f c = (Inr (), merge_node incoming c)"
    using p id(3) by (simp add: f_def)
  from receive_handled [where envs = envs and s = TOPIC_STATE and f = f, OF id(1,2) known_topics(3) id(3) _ h this]
  have "get_node (broker_receive envs client
      (on_topic h n TOPIC_STATE (state_payload h n name role st g fw) q r) c) n = get_node (merge_node incoming c) n"
    using d by (simp add: json_subtopics)
  then show ?thesis
    using id(3) by (simp add: merge_node_def held_def incoming_def new_node_def split: option.splits)
qed

text \<open>What the coordinator makes of the emulator's health payload.\<close>

definition emulated_health :: "int \<Rightarrow> node_health" where
  "emulated_health i = \<lparr>nh_network = py ''UNKNOWN'', nh_mqtt = py ''OK'', nh_nfc = py ''OK'',
    nh_certificate = py ''unknown'', nh_mqtt_error = Some 0, nh_lock_current = Some i,
    nh_lock_target = Some 1, nh_backup = Some (py ''ok''), nh_firmware_version = Some (py ''0.10.0''),
    nh_uptime = Some 1234, nh_free_heap = Some 123456, nh_reset_reason = Some (py ''1''),
    nh_security_all_ok = Some True, nh_security_warnings = Some []\<rparr>"

lemma int_ok_payload: "int_ok 0" "int_ok 1" "int_ok 1234" "int_ok 123456" "int_ok 1760000000"
  by (simp_all add: int_ok_def dec_nat.simps)

lemma str_ok_Nil: "str_ok []"
  by (simp add: str_ok_def)

lemma health_held:
  assumes "addressed h n c" "int_ok i"
  shows "get_node (broker_receive envs client
      (on_topic h n TOPIC_HEALTH (health_payload (default_health\<lparr>hr_lock_current := i\<rparr>)) q r) c) n =
    Some ((held c n)\<lparr>nd_health := Some (emulated_health i), nd_lock_change_is_fresh := False\<rparr>)"
proof -
  define v where "v = JObj [(py ''network'', JStr (py ''UNKNOWN'')), (py ''mqtt'', JStr (py ''OK'')),
      (py ''mqtt_error'', JInt 0), (py ''nfc'', JStr (py ''OK'')), (py ''lock_current'', JInt i),
      (py ''lock_target'', JInt 1), (py ''backup'', JStr (py ''ok'')), (py ''certificate'', JStr (py ''unknown'')),
      (py ''firmware_version'', JStr (py ''0.10.0'')), (py ''uptime'', JInt 1234),
      (py ''free_heap'', JInt 123456), (py ''reset_reason'', JStr (py ''1'')),
      (py ''security'', JObj [(py ''all_ok'', JBool True), (py ''warnings'', JStr [])])]"
  define p where "p = health_payload (default_health\<lparr>hr_lock_current := i\<rparr>)"
  have id: "is_valid_id h" "is_valid_id n" "co_household_id c = h"
    using assms(1) by (simp_all add: addressed_def)
  have "json_ok v" using assms(2) int_ok_payload str_ok_Nil by (simp add: v_def dict_ok_def)
  then have d: "decode_json p = Inr v"
    by (simp add: p_def health_payload_def default_health_def v_def [symmetric] decode_compact)
  have x: "node_health_from_dict v h n = Inr (emulated_health i)"
    unfolding v_def by (subst health_fields_read) (simp_all add: emulated_health_def str_or_def)
  have hd: "handler_for (envs TOPIC_HEALTH) c TOPIC_HEALTH n p v = Some (handle_health (envs TOPIC_HEALTH) n v)"
    by (simp add: handler_for_def const_defs)
  obtain m c1 where e: "ensure_node n c = (m, c1)" by (rule prod.exhaust)
  define c2 where "c2 = put_node n (m\<lparr>nd_health := Some (emulated_health i), nd_lock_change_is_fresh := False\<rparr>) c1"
  obtain prev where "handle_health (envs TOPIC_HEALTH) n v c
      = (Inr (), snd (attribute_lock_change (envs TOPIC_HEALTH) n prev (emulated_health i) c2))"
    using x e id(3) by (simp add: handle_health_def c2_def)
  from receive_handled [where envs = envs and s = TOPIC_HEALTH and f = "handle_health (envs TOPIC_HEALTH) n v",
      OF id(1,2) known_topics(4) id(3) _ hd this] d
  show ?thesis
    unfolding p_def [symmetric] using ensure_held [OF e] by (simp add: json_subtopics c2_def)
qed

lemma backup_held:
  assumes "addressed h n c" "is_backup_outcome s"
  shows "get_node (broker_receive envs client
      (on_topic h n TOPIC_BACKUP_LAST (backup_last_payload s DEFAULT_EVENT_TIME) q r) c) n =
    Some ((held c n)\<lparr>nd_backup := Some \<lparr>br_status = s, br_timestamp = int_timestamp DEFAULT_EVENT_TIME\<rparr>\<rparr>)"
proof -
  define v where "v = JObj [(py ''status'', JStr s), (py ''timestamp'', JInt DEFAULT_EVENT_TIME)]"
  define p where "p = backup_last_payload s DEFAULT_EVENT_TIME"
  have id: "is_valid_id h" "is_valid_id n" "co_household_id c = h"
    using assms(1) by (simp_all add: addressed_def)
  have "json_ok v"
    using enum_words_ok(1) [OF assms(2)] int_ok_payload by (simp add: v_def dict_ok_def DEFAULT_EVENT_TIME_def)
  then have d: "decode_json p = Inr v"
    by (simp add: p_def backup_last_payload_def v_def [symmetric] decode_compact)
  define f where "f = assign_parsed (backup_record_from_dict v (co_household_id c) n) (\<lambda>v n. n\<lparr>nd_backup := Some v\<rparr>) n"
  have hd: "handler_for (envs TOPIC_BACKUP_LAST) c TOPIC_BACKUP_LAST n p v = Some f"
    by (simp add: handler_for_def f_def const_defs)
  obtain c' where c': "f c = (Inr (), c')" "get_node c' n = Some ((held c n)\<lparr>nd_backup :=
      Some \<lparr>br_status = s, br_timestamp = int_timestamp DEFAULT_EVENT_TIME\<rparr>\<rparr>)"
    using assign_held [of "\<lparr>br_status = s, br_timestamp = int_timestamp DEFAULT_EVENT_TIME\<rparr>"
        "\<lambda>v n. n\<lparr>nd_backup := Some v\<rparr>" n c]
    by (auto simp: f_def v_def backup_fields_read [OF assms(2) event_time] event_time)
  from receive_handled [where envs = envs and s = TOPIC_BACKUP_LAST and f = f,
      OF id(1,2) _ id(3) _ hd c'(1)] d c'(2)
  show ?thesis unfolding p_def [symmetric] by (simp add: json_subtopics KNOWN_SUBTOPICS_def)
qed

lemma auth_held:
  assumes "addressed h n c" "is_auth_result s"
  shows "get_node (broker_receive envs client
      (on_topic h n TOPIC_LAST_AUTH (last_auth_payload s (py ''HomeKey'') DEFAULT_EVENT_TIME) q r) c) n =
    Some ((held c n)\<lparr>nd_last_auth := Some \<lparr>la_auth_type = py ''HomeKey'', la_result = s,
      la_timestamp = int_timestamp DEFAULT_EVENT_TIME, la_issuer = None\<rparr>\<rparr>)"
proof -
  define v where "v = JObj [(py ''type'', JStr (py ''HomeKey'')), (py ''result'', JStr s),
      (py ''timestamp'', JInt DEFAULT_EVENT_TIME)]"
  define p where "p = last_auth_payload s (py ''HomeKey'') DEFAULT_EVENT_TIME"
  have id: "is_valid_id h" "is_valid_id n" "co_household_id c = h"
    using assms(1) by (simp_all add: addressed_def)
  have "json_ok v"
    using enum_words_ok(2) [OF assms(2)] int_ok_payload by (simp add: v_def dict_ok_def DEFAULT_EVENT_TIME_def)
  then have d: "decode_json p = Inr v"
    by (simp add: p_def last_auth_payload_def v_def [symmetric] decode_compact)
  define a where "a = \<lparr>la_auth_type = py ''HomeKey'', la_result = s,
      la_timestamp = int_timestamp DEFAULT_EVENT_TIME, la_issuer = None\<rparr>"
  define f where "f = assign_parsed (last_auth_from_dict v (co_household_id c) n) (\<lambda>v n. n\<lparr>nd_last_auth := Some v\<rparr>) n"
  have hd: "handler_for (envs TOPIC_LAST_AUTH) c TOPIC_LAST_AUTH n p v = Some f"
    by (simp add: handler_for_def f_def const_defs)
  have "last_auth_from_dict v (co_household_id c) n = Inr a"
    by (simp add: v_def a_def auth_fields_read [OF assms(2) _ event_time] event_time)
  then obtain c' where c': "f c = (Inr (), c')" "get_node c' n = Some ((held c n)\<lparr>nd_last_auth := Some a\<rparr>)"
    using assign_held [of a "\<lambda>v n. n\<lparr>nd_last_auth := Some v\<rparr>" n c] by (auto simp: f_def)
  from receive_handled [where envs = envs and s = TOPIC_LAST_AUTH and f = f,
      OF id(1,2) known_topics(7) id(3) _ hd c'(1)] d c'(2)
  show ?thesis unfolding p_def [symmetric] a_def by (simp add: json_subtopics)
qed

subsection \<open>The whole telemetry\<close>

lemma publish_each_working [simp]: "publish_each (\<lambda>p. None) ps = (None, ps)"
  by (induction ps) simp_all

text \<open>A run that raises has sent the publications before the one that failed.\<close>

lemma publish_each_prefix:
  "publish_each pub ps = (r, sent) \<Longrightarrow>
     (case r of None \<Rightarrow> sent = ps \<and> list_all (\<lambda>p. pub p = None) ps
      | Some x \<Rightarrow> \<exists>p rest. ps = sent @ p # rest \<and> pub p = Some x \<and> list_all (\<lambda>p. pub p = None) sent)"
proof (induction ps arbitrary: r sent)
  case (Cons p ps)
  obtain r' sent' where ps: "publish_each pub ps = (r', sent')" by (rule prod.exhaust)
  show ?case
  proof (cases "pub p")
    case None
    then have "sent = p # sent'" "r = r'" using Cons.prems ps by simp_all
    then show ?thesis
      using Cons.IH [OF ps] None by (cases r') (auto simp: Cons_eq_append_conv)
  next
    case (Some x)
    then have "r = Some x" "sent = []" using Cons.prems by simp_all
    then show ?thesis using Some by simp
  qed
qed simp

lemma plain_words:
  "is_security_state s \<Longrightarrow> py_strip s = s" "is_backup_outcome s \<Longrightarrow> py_lower (py_strip s) = s"
proof -
  have *: "py_strip (py ''OK'') = py ''OK''" "py_strip (py ''WARNING'') = py ''WARNING''"
    "py_strip (py ''ERROR'') = py ''ERROR''"
    "py_strip (py ''completed'') = py ''completed''" "py_strip (py ''failed'') = py ''failed''"
    by (rule py_strip_id, simp add: py_def is_space_def)+
  have "py_lower (py ''completed'') = py ''completed''" "py_lower (py ''failed'') = py ''failed''"
    by (simp_all add: py_def py_lower_def lower_cp_def)
  with * show "is_security_state s \<Longrightarrow> py_strip s = s" "is_backup_outcome s \<Longrightarrow> py_lower (py_strip s) = s"
    by (auto simp: is_security_state_def is_backup_outcome_def enum_security_state_def enum_backup_outcome_def)
qed

text \<open>The node after the seven messages.\<close>

definition reported :: "pystr \<Rightarrow> telemetry_args \<Rightarrow> emulated_node \<Rightarrow> node \<Rightarrow> node" where
  "reported seen a e m = m
    \<lparr>nd_node_name := str_or (Some (en_node_name e)) (en_node_id e),
     nd_node_role := str_or (Some (en_node_role e)) (node_role_str ROLE_OTHER),
     nd_node_state := py ''ACTIVE'', nd_generation := Some 1, nd_firmware := Some (py ''0.10.0''),
     nd_online := (py_lower (py_strip (ta_status a)) = ONLINE), nd_last_seen := Some seen,
     nd_health := Some (emulated_health (ta_lock_current a)), nd_lock_change_is_fresh := False,
     nd_security := Some (ta_security a), nd_backup_status := Some (ta_backup_status a),
     nd_backup := Some \<lparr>br_status = py ''completed'', br_timestamp = int_timestamp DEFAULT_EVENT_TIME\<rparr>,
     nd_last_auth := Some \<lparr>la_auth_type = py ''HomeKey'', la_result = ta_last_auth_result a,
       la_timestamp = int_timestamp DEFAULT_EVENT_TIME, la_issuer = None\<rparr>\<rparr>"

text \<open>Arguments whose values the contract knows.\<close>

definition documented :: "telemetry_args \<Rightarrow> bool" where
  "documented a \<longleftrightarrow> py_lower (py_strip (ta_status a)) \<in> {ONLINE, OFFLINE} \<and> int_ok (ta_lock_current a)
     \<and> is_security_state (ta_security a) \<and> is_backup_outcome (ta_backup_status a)
     \<and> is_auth_result (ta_last_auth_result a)"

lemma telemetry_held:
  assumes "addressed (en_household_id e) (en_node_id e) c" "str_ok (en_node_name e)" "str_ok (en_node_role e)"
    "documented a"
  shows "get_node (fold (broker_receive envs client) (telemetry e a) c) (en_node_id e)
    = Some (reported (now_iso (envs TOPIC_STATUS)) a e (held c (en_node_id e)))"
proof -
  have w: "is_backup_outcome (py ''completed'')"
    by (simp add: is_backup_outcome_def enum_backup_outcome_def)
  have v: "str_or (Some (py ''ACTIVE'')) (py ''UNKNOWN'') = py ''ACTIVE''" by (simp add: str_or_def)
  note a = assms(4) [unfolded documented_def]
  show ?thesis
    unfolding telemetry_def emulator_topics security_payload_def
    using assms(1-3) a w plain_words int_ok_payload
    by (simp add: held_Some state_held status_held health_held security_held backup_status_held backup_held
        auth_held v reported_def)
qed

subsection \<open>The last will\<close>

lemma legacy_topic:
  assumes "mc_legacy_prefix client = Some p" "p \<noteq> []" "47 \<notin> set p" "is_valid_id n" "p @ n \<noteq> TOPIC_ROOT"
  shows "on_message client (p @ n @ py ''/status'') payload q r =
    Some \<lparr>msg_household_id = mc_household_id client, msg_subtopic = KIND_LEGACY_STATUS,
      msg_payload = payload, msg_node_id = Some n, msg_qos = q, msg_retain = r, msg_legacy = True\<rparr>"
proof -
  have n: "n \<noteq> []" "47 \<notin> set n"
    using valid_id_no_slash [OF assms(4)] valid_id_str_ok [OF assms(4)] by simp_all
  have suffix: "py ''/status'' = 47 # LEGACY_STATUS_SUFFIX"
    by (simp add: const_defs py_def)
  have "py_split 47 (p @ n @ py ''/status'') ! 0 = p @ n"
    using py_split_append_sep [of 47 "p @ n" LEGACY_STATUS_SUFFIX] n assms(3) by (simp add: suffix)
  moreover have "parse_legacy_topic (p @ n @ py ''/status'') p =
      Some \<lparr>pt_household_id = None, pt_node_id = Some n, pt_subtopic = Some KIND_LEGACY_STATUS,
        pt_legacy = True, pt_reserved = False\<rparr>"
  proof -
    have "py_split_once 47 (n @ 47 # LEGACY_STATUS_SUFFIX) = Some (n, LEGACY_STATUS_SUFFIX)"
      using n by (simp add: py_split_once_Some_iff)
    then show ?thesis
      using n by (simp add: parse_legacy_topic_def py_startswith_iff suffix LEGACY_SUFFIX_KINDS_def)
  qed
  ultimately show ?thesis
    using assms(1,2,5) by (simp add: on_message_def parse_topic_def Let_def)
qed

lemma legacy_received:
  assumes "mc_legacy_prefix client = Some p" "p \<noteq> []" "47 \<notin> set p" "is_valid_id n" "p @ n \<noteq> TOPIC_ROOT"
    "mc_household_id client = co_household_id c" "payload = py ''online'' \<or> payload = py ''offline''"
    "get_node c n = Some m"
  shows "get_node (broker_receive envs client \<lparr>pub_topic = p @ n @ py ''/status'', pub_payload = payload,
      pub_qos = q, pub_retain = r\<rparr> c) n
    = Some (if payload = py ''online''
        then m\<lparr>nd_lwt_online := Some True, nd_last_seen := Some (now_iso (envs KIND_LEGACY_STATUS))\<rparr>
        else m\<lparr>nd_lwt_online := Some False\<rparr>)"
proof -
  have n: "n \<noteq> []" using valid_id_str_ok [OF assms(4)] by simp
  have w: "py_lower (py_strip payload) = (if payload = py ''online'' then ONLINE else OFFLINE)"
    using assms(7) status_words by auto
  show ?thesis
    using assms(6-8) w status_words(3,4)
    by (simp add: broker_receive_def legacy_topic [OF assms(1-5)] sink_def handle_message_dispatch
        dispatch_legacy [where nid = n] n handle_legacy_status_def Let_def)
qed

end
