(* ===== verification/Harness.thy ===== *)
theory Harness imports Delivery Backup begin

section \<open>The hardware test harness\<close>

text \<open>
  \<open>tests_hardware/helpers.py\<close> and the parts of \<open>tests_hardware/device.py\<close> that compute: the third
  implementation of the command MAC, the redaction of evidence, the environment, the topics. The
  environment, the clock, the random bytes, the file system and what the regular expressions of
  Python call alphanumeric beyond ASCII are arguments; the serial port and the broker connection
  are not modelled.
\<close>

datatype harness_exc = HardwareBlocked | HarnessRaises exc

subsection \<open>Commands\<close>

definition KDF_PERSONALISATION :: pystr where [const_defs]: "KDF_PERSONALISATION = py ''HK-HOUSEHOLD-CMD-v1''"

definition hw_derive_command_key :: "pystr \<Rightarrow> pystr option \<Rightarrow> exc + bytes" where
  "hw_derive_command_key recovery_secret salt =
    bindE (encode_utf8 recovery_secret) (\<lambda>material.
    bindE (case salt of None \<Rightarrow> Inr [] | Some s \<Rightarrow> if s = [] then Inr [] else encode_utf8 s) (\<lambda>more.
    bindE (encode_utf8 KDF_PERSONALISATION) (\<lambda>key. Inr (blake2b key 32 (material @ more)))))"

definition command_mac :: "bytes \<Rightarrow> int \<Rightarrow> pystr \<Rightarrow> pystr \<Rightarrow> pystr \<Rightarrow> exc + pystr" where
  "command_mac key ts nonce req_id action =
    bindE (encode_utf8 (dec_int ts @ nonce @ req_id @ action)) (\<lambda>message.
      Inr (bytes_hex (hmac_sha256 key message)))"

text \<open>The clock and the eight random bytes one call may use. \<open>or\<close> replaces an empty override.\<close>

record harness_env =
  he_time :: pyfloat
  he_random :: bytes

definition hw_request_id :: "pyfloat \<Rightarrow> exc + pystr" where
  "hw_request_id now = map_sum id (\<lambda>ms. py ''hw-'' @ dec_int (ms mod 100000))
     (current_epoch_seconds (float_times now 1000))"

definition build_command_payload :: "harness_env \<Rightarrow> bytes \<Rightarrow> pystr \<Rightarrow> int option \<Rightarrow> pystr option
    \<Rightarrow> pystr option \<Rightarrow> pystr option \<Rightarrow> exc + json" where
  "build_command_payload env key action ts nonce req_id mac =
    bindE (case ts of None \<Rightarrow> current_epoch_seconds (he_time env) | Some t \<Rightarrow> Inr t) (\<lambda>t.
    (let n = str_or nonce (bytes_hex (he_random env)) in
    bindE (case req_id of
        Some r \<Rightarrow> if r = [] then hw_request_id (he_time env) else Inr r
      | None \<Rightarrow> hw_request_id (he_time env)) (\<lambda>r.
    bindE (case mac of Some m \<Rightarrow> Inr m | None \<Rightarrow> command_mac key t n r action) (\<lambda>m.
      Inr (JObj [(py ''ts'', JInt t), (py ''nonce'', JStr n), (py ''req_id'', JStr r), (py ''mac'', JStr m)])))))"

subsection \<open>Redaction\<close>

definition SECRET_TOKENS :: "pystr list" where [const_defs]:
  "SECRET_TOKENS = map py
    [''mac'', ''key'', ''command_key'', ''recovery_secret'', ''secret'', ''salt'', ''password'',
     ''passwd'', ''token'', ''prov'', ''private_key'', ''client_key'', ''psk'']"

definition HW_REDACTED :: pystr where [const_defs]: "HW_REDACTED = py ''[REDACTED]''"

text \<open>\<open>\w\<close> of a \<open>str\<close> pattern: ASCII letters, digits and the underscore; beyond ASCII the argument
  says.\<close>

definition is_word :: "(nat \<Rightarrow> bool) \<Rightarrow> nat \<Rightarrow> bool" where
  "is_word uni c = (if c < 128 then 48 \<le> c \<and> c \<le> 57 \<or> 65 \<le> c \<and> c \<le> 90 \<or> c = 95 \<or> 97 \<le> c \<and> c \<le> 122
     else uni c)"

definition low_hex :: "nat \<Rightarrow> bool" where
  "low_hex c \<longleftrightarrow> 48 \<le> c \<and> c \<le> 57 \<or> 97 \<le> c \<and> c \<le> 102"

text \<open>Whether \<open>[0-9a-f]{64}\b\<close> matches here. The left \<open>\b\<close> holds when no word character stands before,
  as a digit of the token follows.\<close>

definition hex64_here :: "(nat \<Rightarrow> bool) \<Rightarrow> pystr \<Rightarrow> bool" where
  "hex64_here uni s \<longleftrightarrow> 64 \<le> length s \<and> list_all low_hex (take 64 s)
     \<and> (case drop 64 s of [] \<Rightarrow> True | c # r \<Rightarrow> \<not> is_word uni c)"

text \<open>\<open>findall\<close> and \<open>sub\<close> of \<open>\b[0-9a-f]{64}\b\<close>, from left to right; \<open>before\<close> tells whether a word
  character stands before the rest.\<close>

function hex_tokens :: "(nat \<Rightarrow> bool) \<Rightarrow> bool \<Rightarrow> pystr \<Rightarrow> pystr list" where
  "hex_tokens uni before [] = []"
| "hex_tokens uni before (c # s) =
    (if \<not> before \<and> hex64_here uni (c # s) then take 64 (c # s) # hex_tokens uni True (drop 63 s)
     else hex_tokens uni (is_word uni c) s)"
  by pat_completeness auto
termination by (relation "measure (\<lambda>(u, b, s). length s)") auto

function sub_tokens :: "(nat \<Rightarrow> bool) \<Rightarrow> bool \<Rightarrow> pystr \<Rightarrow> pystr" where
  "sub_tokens uni before [] = []"
| "sub_tokens uni before (c # s) =
    (if \<not> before \<and> hex64_here uni (c # s) then HW_REDACTED @ sub_tokens uni True (drop 63 s)
     else c # sub_tokens uni (is_word uni c) s)"
  by pat_completeness auto
termination by (relation "measure (\<lambda>(u, b, s). length s)") auto

definition redact_text :: "(nat \<Rightarrow> bool) \<Rightarrow> pystr \<Rightarrow> pystr" where
  "redact_text uni text = sub_tokens uni False text"

definition find_secret_leaks :: "(nat \<Rightarrow> bool) \<Rightarrow> pystr \<Rightarrow> pystr list" where
  "find_secret_leaks uni text = hex_tokens uni False text"

text \<open>\<open>token in lowered\<close>\<close>

fun occurs_in :: "pystr \<Rightarrow> pystr \<Rightarrow> bool" where
  "occurs_in t [] = (t = [])"
| "occurs_in t (c # s) = (py_startswith (c # s) t \<or> occurs_in t s)"

definition names_secret :: "pystr \<Rightarrow> bool" where
  "names_secret key = list_ex (\<lambda>t. occurs_in t (py_lower key)) SECRET_TOKENS"

text \<open>On JSON values, the payloads the tests record; anything else but a dictionary, a list or a string is
  returned as it is.\<close>

fun hw_redact :: "(nat \<Rightarrow> bool) \<Rightarrow> json \<Rightarrow> json" where
  "hw_redact uni (JObj d) = JObj (map (\<lambda>(k, v). (k, if names_secret k then JStr HW_REDACTED else hw_redact uni v)) d)"
| "hw_redact uni (JList xs) = JList (map (hw_redact uni) xs)"
| "hw_redact uni (JStr s) = JStr (redact_text uni s)"
| "hw_redact uni v = v"

subsection \<open>Evidence\<close>

record evidence_entry =
  ee_ts :: pystr
  ee_kind :: pystr
  ee_payload :: json

record evidence =
  ev_test_name :: pystr
  ev_firmware_version :: "pystr option"
  ev_esp32_model :: "pystr option"
  ev_node_id :: "pystr option"
  ev_household_id :: "pystr option"
  ev_entries :: "evidence_entry list"

definition new_evidence :: "pystr \<Rightarrow> evidence" where
  "new_evidence test_name = \<lparr>ev_test_name = test_name, ev_firmware_version = None,
     ev_esp32_model = None, ev_node_id = None, ev_household_id = None, ev_entries = []\<rparr>"

definition evidence_record :: "(nat \<Rightarrow> bool) \<Rightarrow> pystr \<Rightarrow> pystr \<Rightarrow> json \<Rightarrow> evidence \<Rightarrow> evidence" where
  "evidence_record uni now kind payload ev = ev\<lparr>ev_entries := ev_entries ev @
     [\<lparr>ee_ts = now, ee_kind = kind, ee_payload = hw_redact uni payload\<rparr>]\<rparr>"

definition evidence_mqtt where
  "evidence_mqtt uni now topic payload =
    evidence_record uni now (py ''mqtt'') (JObj [(py ''topic'', JStr topic), (py ''payload'', payload)])"

definition evidence_serial where
  "evidence_serial uni now text = evidence_record uni now (py ''serial'') (JStr (redact_text uni text))"

definition evidence_ha_state where
  "evidence_ha_state uni now entity_id st =
    evidence_record uni now (py ''ha_state'') (JObj [(py ''entity_id'', JStr entity_id), (py ''state'', st)])"

definition evidence_physical where
  "evidence_physical uni now description = evidence_record uni now (py ''physical'') (JStr description)"

text \<open>The document \<open>write\<close> stores.\<close>

definition evidence_document :: "pystr \<Rightarrow> evidence \<Rightarrow> json" where
  "evidence_document result ev = JObj
    [(py ''test'', JStr (ev_test_name ev)), (py ''result'', JStr result),
     (py ''firmware_version'', case ev_firmware_version ev of None \<Rightarrow> JNull | Some s \<Rightarrow> JStr s),
     (py ''esp32_model'', case ev_esp32_model ev of None \<Rightarrow> JNull | Some s \<Rightarrow> JStr s),
     (py ''node_id'', case ev_node_id ev of None \<Rightarrow> JNull | Some s \<Rightarrow> JStr s),
     (py ''household_id'', case ev_household_id ev of None \<Rightarrow> JNull | Some s \<Rightarrow> JStr s),
     (py ''entries'', JList (map (\<lambda>e. JObj [(py ''ts'', JStr (ee_ts e)), (py ''kind'', JStr (ee_kind e)),
        (py ''payload'', ee_payload e)]) (ev_entries ev)))]"

text \<open>The name of the file: \<open>re.sub(r"[^A-Za-z0-9_-]+", "_", name)\<close>.\<close>

definition safe_char :: "nat \<Rightarrow> bool" where
  "safe_char c \<longleftrightarrow> 65 \<le> c \<and> c \<le> 90 \<or> 97 \<le> c \<and> c \<le> 122 \<or> 48 \<le> c \<and> c \<le> 57 \<or> c = 95 \<or> c = 45"

fun safe_name :: "bool \<Rightarrow> pystr \<Rightarrow> pystr" where
  "safe_name replaced [] = []"
| "safe_name replaced (c # s) =
    (if safe_char c then c # safe_name False s
     else if replaced then safe_name True s else 95 # safe_name True s)"

definition evidence_file :: "pystr \<Rightarrow> evidence \<Rightarrow> pystr" where
  "evidence_file stamp ev = stamp @ py ''_'' @ safe_name False (ev_test_name ev) @ py ''.json''"

text \<open>\<open>write\<close>: the file and what it holds.\<close>

definition evidence_text :: "pystr \<Rightarrow> evidence \<Rightarrow> pystr" where
  "evidence_text result ev = dumps_indent 2 0 (evidence_document result ev) @ [10]"

definition evidence_write :: "pystr \<Rightarrow> pystr \<Rightarrow> evidence \<Rightarrow> pystr \<times> pystr" where
  "evidence_write stamp result ev = (evidence_file stamp ev, evidence_text result ev)"

subsection \<open>The device\<close>

text \<open>\<open>device.py\<close>: an unset variable and an empty one are the same.\<close>

type_synonym environ = "pystr \<Rightarrow> pystr option"

definition env_value :: "environ \<Rightarrow> pystr \<Rightarrow> pystr option \<Rightarrow> pystr option" where
  "env_value environ name fallback =
    (case environ name of None \<Rightarrow> fallback | Some v \<Rightarrow> if v = [] then fallback else Some v)"

definition expected_firmware_version :: "environ \<Rightarrow> pystr" where
  "expected_firmware_version environ =
    str_or (env_value environ (py ''HK_FIRMWARE_VERSION'') (Some (py ''0.10.0''))) (py ''0.10.0'')"

definition broker_host :: "environ \<Rightarrow> pystr" where
  "broker_host environ =
    str_or (env_value environ (py ''HK_MQTT_HOST'') (Some (py ''127.0.0.1''))) (py ''127.0.0.1'')"

definition broker_port :: "environ \<Rightarrow> exc + int" where
  "broker_port environ =
    py_int (JStr (str_or (env_value environ (py ''HK_MQTT_PORT'') (Some (py ''1883''))) (py ''1883'')))"

definition mqtt_credentials :: "environ \<Rightarrow> (pystr \<times> pystr) option" where
  "mqtt_credentials environ =
    (case env_value environ (py ''HK_MQTT_USERNAME'') None of
       None \<Rightarrow> None
     | Some username \<Rightarrow>
        if username = [] then None
        else Some (username, str_or (env_value environ (py ''HK_MQTT_PASSWORD'') (Some [])) []))"

text \<open>The first device file of the first pattern that has one; \<open>sorted_glob\<close> lists the matches of
  a pattern in order.\<close>

definition SERIAL_GLOBS :: "pystr list" where
  "SERIAL_GLOBS = map py [''/dev/cu.usbserial-*'', ''/dev/cu.SLAB_USBtoUART*'', ''/dev/cu.wchusbserial*'',
     ''/dev/ttyUSB*'', ''/dev/ttyACM*'']"

fun first_match :: "(pystr \<Rightarrow> pystr list) \<Rightarrow> pystr list \<Rightarrow> pystr option" where
  "first_match sorted_glob [] = None"
| "first_match sorted_glob (p # ps) =
    (case sorted_glob p of [] \<Rightarrow> first_match sorted_glob ps | m # ms \<Rightarrow> Some m)"

definition find_serial_port :: "environ \<Rightarrow> (pystr \<Rightarrow> pystr list) \<Rightarrow> pystr option" where
  "find_serial_port environ sorted_glob =
    (case env_value environ (py ''HK_SERIAL_PORT'') None of
       Some p \<Rightarrow> if p = [] then first_match sorted_glob SERIAL_GLOBS else Some p
     | None \<Rightarrow> first_match sorted_glob SERIAL_GLOBS)"

definition require_port :: "environ \<Rightarrow> (pystr \<Rightarrow> pystr list) \<Rightarrow> pystr option \<Rightarrow> harness_exc + pystr" where
  "require_port environ sorted_glob port =
    (case (case port of Some p \<Rightarrow> if p = [] then find_serial_port environ sorted_glob else Some p
           | None \<Rightarrow> find_serial_port environ sorted_glob) of
       None \<Rightarrow> Inl HardwareBlocked
     | Some p \<Rightarrow> if p = [] then Inl HardwareBlocked else Inr p)"

definition require_credentials :: "environ \<Rightarrow> harness_exc + pystr \<times> pystr" where
  "require_credentials environ =
    (case mqtt_credentials environ of None \<Rightarrow> Inl HardwareBlocked | Some c \<Rightarrow> Inr c)"

definition household_base :: "pystr \<Rightarrow> pystr \<Rightarrow> pystr" where
  "household_base household_id node_id = py ''homekey/household/'' @ household_id @ py ''/nodes/'' @ node_id"

definition observed_topic_filter :: "pystr \<Rightarrow> pystr" where
  "observed_topic_filter household_id = py ''homekey/household/'' @ household_id @ py ''/nodes/+/#''"

text \<open>What the observer keeps of a message, and what it publishes.\<close>

record observation =
  ob_topic :: pystr
  ob_payload :: pystr
  ob_retain :: bool
  ob_qos :: int

definition observe :: "publication \<Rightarrow> observation list \<Rightarrow> observation list" where
  "observe p seen = seen @ [\<lparr>ob_topic = pub_topic p, ob_payload = pub_payload p,
     ob_retain = pub_retain p, ob_qos = pub_qos p\<rparr>]"

definition observer_publication :: "pystr \<Rightarrow> pystr \<Rightarrow> int \<Rightarrow> publication" where
  "observer_publication topic payload qos =
    \<lparr>pub_topic = topic, pub_payload = payload, pub_qos = qos, pub_retain = False\<rparr>"

definition observer_publish :: "environ \<Rightarrow> pystr \<Rightarrow> pystr \<Rightarrow> int \<Rightarrow> harness_exc + publication" where
  "observer_publish environ topic payload qos =
    bindE (require_credentials environ) (\<lambda>c. Inr (observer_publication topic payload qos))"

text \<open>\<open>topic.rsplit("/", 1)[-1]\<close>\<close>

definition topic_suffix :: "pystr \<Rightarrow> pystr" where
  "topic_suffix topic = rev (takeWhile (\<lambda>c. c \<noteq> 47) (rev topic))"

definition RETAINED_SUFFIXES :: "pystr list" where
  "RETAINED_SUFFIXES = [py ''state'', py ''status'', py ''security'']"

definition NON_RETAINED_SUFFIXES :: "pystr list" where
  "NON_RETAINED_SUFFIXES = [py ''health'']"

definition COMMAND_TOPICS :: "pystr list" where
  "COMMAND_TOPICS = [py ''command/lock'', py ''command/unlock'']"

subsection \<open>No token survives redaction\<close>

lemma low_hex_word: "low_hex c \<Longrightarrow> is_word uni c"
  by (auto simp: low_hex_def is_word_def)

lemma sub_tokens_Nil [simp]: "sub_tokens uni b s = [] \<longleftrightarrow> s = []"
  by (cases s) (auto simp: HW_REDACTED_def py_def)

text \<open>Inside a word nothing is replaced: what the output shows of it is what the input had.\<close>

lemma sub_tokens_True_hd: "s \<noteq> [] \<Longrightarrow> hd (sub_tokens uni True s) = hd s"
  by (cases s) simp_all

lemma sub_tokens_run:
  "k \<le> length (sub_tokens uni True s) \<Longrightarrow> list_all low_hex (take k (sub_tokens uni True s)) \<Longrightarrow>
     k \<le> length s \<and> take k s = take k (sub_tokens uni True s)
     \<and> drop k (sub_tokens uni True s) = sub_tokens uni True (drop k s)"
proof (induction k arbitrary: s)
  case (Suc k)
  show ?case
  proof (cases s)
    case Nil
    then show ?thesis using Suc.prems by simp
  next
    case (Cons c r)
    then have c: "low_hex c" using Suc.prems by simp
    then have w: "is_word uni c" by (rule low_hex_word)
    show ?thesis using Suc.IH [of r] Suc.prems by (simp add: Cons w)
  qed
qed simp

lemma hex64_sub:
  assumes "hex64_here uni (c # sub_tokens uni True r)"
  shows "hex64_here uni (c # r)"
proof -
  have l: "63 \<le> length (sub_tokens uni True r)" "low_hex c" "list_all low_hex (take 63 (sub_tokens uni True r))"
    and b: "case drop 63 (sub_tokens uni True r) of [] \<Rightarrow> True | d # t \<Rightarrow> \<not> is_word uni d"
    using assms by (simp_all add: hex64_here_def)
  from sub_tokens_run [OF l(1,3)] have r: "63 \<le> length r" "take 63 r = take 63 (sub_tokens uni True r)"
    "drop 63 (sub_tokens uni True r) = sub_tokens uni True (drop 63 r)" by simp_all
  have "case drop 63 r of [] \<Rightarrow> True | d # t \<Rightarrow> \<not> is_word uni d"
    using b sub_tokens_True_hd [of "drop 63 r" uni] unfolding r(3) by (auto split: list.splits)
  then show ?thesis using l r by (simp add: hex64_here_def)
qed

lemma hex64_sub': "hex64_here uni (c # sub_tokens uni (is_word uni c) r) \<Longrightarrow> hex64_here uni (c # r)"
proof -
  assume h: "hex64_here uni (c # sub_tokens uni (is_word uni c) r)"
  then have "is_word uni c" by (auto simp: hex64_here_def dest: low_hex_word)
  then show ?thesis using h hex64_sub by simp
qed

lemma hex_tokens_skip:
  "\<not> low_hex c \<Longrightarrow> hex_tokens uni b (c # s) = hex_tokens uni (is_word uni c) s"
  by (simp add: hex64_here_def)

lemma hex_tokens_redacted: "hex_tokens uni b (HW_REDACTED @ s) = hex_tokens uni False s"
  by (simp add: HW_REDACTED_def py_def hex_tokens_skip low_hex_def is_word_def del: hex_tokens.simps)

lemma no_tokens_left: "hex_tokens uni b (sub_tokens uni b s) = []"
proof (induction uni b s rule: sub_tokens.induct)
  case (2 uni b c s)
  show ?case
  proof (cases "\<not> b \<and> hex64_here uni (c # s)")
    case True
    then have b: "drop 63 s = [] \<or> is_word uni (hd (drop 63 s)) = False"
      by (auto simp: hex64_here_def split: list.splits)
    have "hex_tokens uni False (sub_tokens uni True (drop 63 s)) = hex_tokens uni True (sub_tokens uni True (drop 63 s))"
      using b low_hex_word [of "hd (drop 63 s)" uni] by (cases "drop 63 s") (auto simp: hex64_here_def)
    then have "hex_tokens uni False (sub_tokens uni True (drop 63 s)) = []"
      using 2(1) True by simp
    then show ?thesis using True by (simp add: hex_tokens_redacted)
  next
    case False
    then have "\<not> (\<not> b \<and> hex64_here uni (c # sub_tokens uni (is_word uni c) s))"
      using hex64_sub' by blast
    then show ?thesis
      using 2(2) [OF False] by (simp only: sub_tokens.simps hex_tokens.simps if_not_P [OF False] if_not_P if_False)
  qed
qed simp

lemma redacted_text_clean: "find_secret_leaks uni (redact_text uni s) = []"
  by (simp add: find_secret_leaks_def redact_text_def no_tokens_left)

text \<open>The strings among the values of a document.\<close>

fun json_strings :: "json \<Rightarrow> pystr list" where
  "json_strings (JStr s) = [s]"
| "json_strings (JList xs) = concat (map json_strings xs)"
| "json_strings (JObj d) = concat (map (\<lambda>(k, v). json_strings v) d)"
| "json_strings v = []"

lemma placeholder_clean: "find_secret_leaks uni HW_REDACTED = []"
  using hex_tokens_redacted [of uni False "[]"] by (simp add: find_secret_leaks_def)

lemma hw_redact_clean: "s \<in> set (json_strings (hw_redact uni v)) \<Longrightarrow> find_secret_leaks uni s = []"
proof (induction v rule: json_strings.induct)
  case (3 d)
  then show ?case by (force simp: placeholder_clean split: if_splits)
qed (auto simp: redacted_text_clean)

text \<open>Redaction keeps a document one that can be written and read back.\<close>

lemma sub_tokens_ok: "str_ok s \<Longrightarrow> str_ok (sub_tokens uni b s)"
proof (induction uni b s rule: sub_tokens.induct)
  case (2 uni b c s)
  have drop: "str_ok (drop 63 s)" using 2(3) in_set_dropD [of _ 63 s] by (auto simp: str_ok_def list_all_iff)
  have "str_ok HW_REDACTED" by (simp add: HW_REDACTED_def)
  then show ?case
    using 2 drop by (auto simp: str_ok_def)
qed (simp add: str_ok_def)

lemma hw_redact_ok: "json_ok v \<Longrightarrow> json_ok (hw_redact uni v)"
proof (induction v rule: json_ok.induct)
  case (7 d)
  have "map fst (map (\<lambda>(k, v). (k, if names_secret k then JStr HW_REDACTED else hw_redact uni v)) d) = map fst d"
    by (simp add: case_prod_beta comp_def)
  then have "dict_ok (map (\<lambda>(k, v). (k, if names_secret k then JStr HW_REDACTED else hw_redact uni v)) d)"
    using 7(2) unfolding dict_ok_def json_ok.simps by (simp only:)
  moreover have "str_ok HW_REDACTED" by (simp add: HW_REDACTED_def)
  moreover have "str_ok k \<and> json_ok v \<and> json_ok (hw_redact uni v)" if "(k, v) \<in> set d" for k v
    using that 7 by (auto simp: list_all_iff)
  ultimately show ?case by (auto simp: list_all_iff)
qed (auto simp: redact_text_def sub_tokens_ok list_all_iff)

lemma evidence_document_ok:
  assumes "str_ok (ev_test_name ev)" "str_ok result"
    "list_all (\<lambda>v. case v of None \<Rightarrow> True | Some s \<Rightarrow> str_ok s)
      [ev_firmware_version ev, ev_esp32_model ev, ev_node_id ev, ev_household_id ev]"
    "list_all (\<lambda>e. str_ok (ee_ts e) \<and> str_ok (ee_kind e) \<and> json_ok (ee_payload e)) (ev_entries ev)"
  shows "json_ok (evidence_document result ev)"
  using assms
  by (auto simp: evidence_document_def dict_ok_def py_def list_all_iff str_ok_def scalar_value_def split: option.splits)

text \<open>What stands under a key that names a secret does not reach the evidence.\<close>

lemma redact_hides:
  "names_secret k \<Longrightarrow> hw_redact uni (JObj (d @ (k, v) # e)) = hw_redact uni (JObj (d @ (k, w) # e))"
  by simp

subsection \<open>The third implementation of the MAC\<close>

lemma harness_mac:
  "action = ACTION_LOCK \<or> action = ACTION_UNLOCK \<Longrightarrow>
     command_mac key ts nonce req_id action = make_command_mac key ts nonce req_id action"
  by (auto simp: command_mac_def make_command_mac_def canonical_input_def)

lemma harness_key:
  assumes "secret \<noteq> []" "utf8 (secret @ salt) \<noteq> None"
  shows "map_sum Escapes id (hw_derive_command_key secret (Some salt)) = v_derive_command_key secret salt"
proof -
  obtain a b where ab: "utf8 secret = Some a" "utf8 salt = Some b" "utf8 (secret @ salt) = Some (a @ b)"
    using assms(2) by (auto simp: utf8_append split: option.splits)
  have "a \<noteq> []" using ab(1) assms(1) utf8_Some_Nil_iff by auto
  moreover have "utf8 [] = Some []" by simp
  moreover have "utf8 KDF_PERSONALISATION = utf8 V_COMMAND_KEY_LABEL"
    by (simp add: KDF_PERSONALISATION_def V_COMMAND_KEY_LABEL_def)
  moreover have "utf8 V_COMMAND_KEY_LABEL \<noteq> None"
    using label_utf8 by (auto simp: V_COMMAND_KEY_LABEL_def COMMAND_KEY_LABEL_def encode_utf8_def split: option.splits)
  ultimately show ?thesis
    using ab by (auto simp: hw_derive_command_key_def v_derive_command_key_def encode_utf8_def v_encode_def)
qed

lemma ascii_str_ok: "list_all (\<lambda>c. c < 128) s \<Longrightarrow> str_ok s"
  unfolding str_ok_def by (erule list.pred_mono_strong) (simp add: scalar_value_def)

lemma harness_command_read:
  assumes "int_ok t" "str_ok n" "str_ok r" "str_ok m"
  shows "command_fields (dumps_default (JObj [(py ''ts'', JInt t), (py ''nonce'', JStr n),
      (py ''req_id'', JStr r), (py ''mac'', JStr m)])) = Inr (t, n, r, m)"
  using assms by (simp add: command_fields_Inr loads_dumps_default dict_ok_def)

text \<open>What a payload without overrides but of the MAC looks like.\<close>

lemma harness_payload:
  assumes "build_command_payload env key action None None None mac = Inr v"
  obtains t r m where "current_epoch_seconds (he_time env) = Inr t" "list_all (\<lambda>c. c < 128) r"
    "v = JObj [(py ''ts'', JInt t), (py ''nonce'', JStr (bytes_hex (he_random env))),
       (py ''req_id'', JStr r), (py ''mac'', JStr m)]"
    "case mac of None \<Rightarrow> command_mac key t (bytes_hex (he_random env)) r action = Inr m | Some m' \<Rightarrow> m = m'"
proof -
  have n: "str_or None (bytes_hex (he_random env)) = bytes_hex (he_random env)"
    by (simp add: str_or_def)
  from assms obtain t r m where *: "current_epoch_seconds (he_time env) = Inr t"
    "hw_request_id (he_time env) = Inr r"
    "v = JObj [(py ''ts'', JInt t), (py ''nonce'', JStr (bytes_hex (he_random env))),
       (py ''req_id'', JStr r), (py ''mac'', JStr m)]"
    "case mac of None \<Rightarrow> command_mac key t (bytes_hex (he_random env)) r action = Inr m | Some m' \<Rightarrow> m = m'"
    by (auto simp: build_command_payload_def bindE_Inr_iff Let_def n split: option.splits)
  moreover have "list_all (\<lambda>c. c < 128) r"
    using *(2) dec_int_ascii
    by (cases "current_epoch_seconds (float_times (he_time env) 1000)") (auto simp: hw_request_id_def py_def)
  ultimately show thesis using that by blast
qed

lemma harness_command_verified:
  assumes "build_command_payload env key action None None None mac = Inr v"
    "action = py ''lock'' \<or> action = py ''unlock''" "fv_key node = key"
    "current_epoch_seconds (he_time env) = Inr t" "int_ok t" "\<not> outside_window (fv_now node) t"
    "bytes_hex (he_random env) \<notin> set (fv_seen node)"
    "case mac of None \<Rightarrow> True | Some m \<Rightarrow> list_all (\<lambda>c. c < 128) m"
  shows "verify node base (base @ py ''/command/'' @ action) (dumps_default v) =
    (if mac = None \<or> build_command_payload env key action None None None None = Inr v
     then (Inr action, accept_nonce (bytes_hex (he_random env)) node)
     else (Inl (FirmwareReject MacMismatch), node))"
proof -
  define n where "n = bytes_hex (he_random env)"
  from assms(1) obtain r m where p: "list_all (\<lambda>c. c < 128) r"
    "v = JObj [(py ''ts'', JInt t), (py ''nonce'', JStr n), (py ''req_id'', JStr r), (py ''mac'', JStr m)]"
    "case mac of None \<Rightarrow> command_mac key t n r action = Inr m | Some m' \<Rightarrow> m = m'"
    using harness_payload [OF assms(1)] assms(4) unfolding n_def by (metis sum.inject(2))
  have req: "hw_request_id (he_time env) = Inr r"
    using assms(1) p(2) by (auto simp: build_command_payload_def bindE_Inr_iff Let_def split: option.splits)
  have ascii: "list_all (\<lambda>c. c < 128) n" unfolding n_def by (rule bytes_hex_ascii)
  have a: "action_for_topic base (base @ py ''/command/'' @ action) = Inr action"
    using assms(2) by (auto simp: action_for_topic_def py_def)
  obtain b where b: "utf8 (dec_int t @ n @ r @ action) = Some b"
  proof -
    have "list_all (\<lambda>c. c < 128) (dec_int t @ n @ r @ action)"
      using dec_int_ascii ascii p(1) assms(2) by (auto simp: py_def)
    then show thesis using that utf8_ascii by blast
  qed
  define e where "e = bytes_hex (hmac_sha256 key b)"
  have mac: "command_mac key t n r action = Inr e" "expected_mac key t n r action = Inr e"
    using b by (simp_all add: command_mac_def expected_mac_def encode_utf8_def v_encode_def e_def)
  have m: "list_all (\<lambda>c. c < 128) m"
    using p(3) assms(8) mac(1) bytes_hex_ascii by (auto simp: e_def split: option.splits)
  have "str_ok n" "str_ok r" "str_ok m" using ascii p(1) m by (simp_all add: ascii_str_ok)
  then have f: "command_fields (dumps_default v) = Inr (t, n, r, m)"
    using assms(5) p(2) harness_command_read by simp
  have d: "compare_digest e m = Inr (e = m)"
    using compare_expected [OF mac(2)] m by blast
  have right: "mac = None \<or> build_command_payload env key action None None None None = Inr v \<longleftrightarrow> m = e"
    using p(2,3) mac(1) req assms(4)
    by (auto simp: build_command_payload_def str_or_def n_def split: option.splits)
  show ?thesis
    unfolding right using a f mac(2) d assms(3,6,7) by (simp add: verify_def n_def [symmetric])
qed

end
