(* ===== verification/LogScan.thy ===== *)
theory LogScan imports Harness Sensors begin

section \<open>The log scanner\<close>

text \<open>
  \<open>tools/integration/scan_logs_for_secrets.py\<close>: which logger wrote a line, who wrote a secret, and the
  verdict. The text of the log, which the tool gets by running the integration tests, and whether
  their directory exists are arguments; \<open>str.splitlines\<close> is the one of
  \<open>Sensors\<close>; what the tool prints beside its verdict is left out.
\<close>

subsection \<open>Lines and loggers\<close>

definition TEST_SECRET :: pystr where "TEST_SECRET = py ''integration-test-recovery-secret''"
definition TEST_SALT :: pystr where "TEST_SALT = py ''integration-test-salt''"
definition KDF_LABEL :: pystr where "KDF_LABEL = py ''HK-HOUSEHOLD-CMD-v1''"
definition INTEGRATION_PREFIX :: pystr where "INTEGRATION_PREFIX = py ''custom_components.''"
definition CONTINUATION :: pystr where "CONTINUATION = py ''<continuation>''"

definition derive_expected_key_hex :: "pystr \<Rightarrow> pystr \<Rightarrow> exc + pystr" where
  "derive_expected_key_hex secret salt =
    bindE (encode_utf8 (secret @ salt)) (\<lambda>material.
    bindE (encode_utf8 KDF_LABEL) (\<lambda>key. Inr (bytes_hex (blake2b key 32 material))))"

text \<open>The logger of \<open>LEVEL logger:file:line message\<close>; the classes of the pattern exclude each
  other, so that it matches in one way at most.\<close>

definition logger_of :: "(nat \<Rightarrow> bool) \<Rightarrow> pystr \<Rightarrow> pystr" where
  "logger_of uni line =
    (let level = takeWhile (is_word uni) line;
         r1 = dropWhile (is_word uni) line;
         space = takeWhile is_space r1;
         r2 = dropWhile is_space r1;
         name = takeWhile (\<lambda>c. is_word uni c \<or> c = 46) r2;
         r3 = dropWhile (\<lambda>c. is_word uni c \<or> c = 46) r2
     in if level \<noteq> [] \<and> space \<noteq> [] \<and> name \<noteq> [] \<and> take 1 r3 = [58] then name else CONTINUATION)"

subsection \<open>Who wrote what\<close>

definition counter :: "pystr list \<Rightarrow> (pystr, nat) dict" where
  "counter ks = foldl (\<lambda>d k. dict_set d k (Suc (case dict_get d k of None \<Rightarrow> 0 | Some n \<Rightarrow> n))) [] ks"

definition attribute :: "(nat \<Rightarrow> bool) \<Rightarrow> pystr list \<Rightarrow> pystr \<Rightarrow> (pystr, nat) dict" where
  "attribute uni lines needle = counter (map (logger_of uni) (filter (occurs_in needle) lines))"

text \<open>\<open>"mac"\s*:\s*"([0-9a-f]{64})"\<close> here, and from left to right.\<close>

definition mac_here :: "pystr \<Rightarrow> (pystr \<times> pystr) option" where
  "mac_here s =
    (if \<not> py_startswith s (34 # py ''mac'' @ [34]) then None
     else case dropWhile is_space (drop 5 s) of
       [] \<Rightarrow> None
     | c # r1 \<Rightarrow>
        if c \<noteq> 58 then None
        else case dropWhile is_space r1 of
          [] \<Rightarrow> None
        | q # r2 \<Rightarrow>
           if q = 34 \<and> 65 \<le> length r2 \<and> list_all low_hex (take 64 r2) \<and> r2 ! 64 = 34
           then Some (take 64 r2, drop 65 r2) else None)"

lemma mac_here_shorter: "mac_here s = Some (t, r) \<Longrightarrow> length r < length s"
proof -
  assume m: "mac_here s = Some (t, r)"
  have drop: "length (dropWhile P (xs :: pystr)) \<le> length xs" for P xs by (rule length_dropWhile_le)
  from m obtain c r1 q r2 where *: "dropWhile is_space (drop 5 s) = c # r1" "dropWhile is_space r1 = q # r2"
    "r = drop 65 r2"
    by (auto simp: mac_here_def split: if_splits list.splits)
  then have "length r \<le> length r2" "Suc (length r2) \<le> length r1" "Suc (length r1) \<le> length s"
    using drop [of is_space "drop 5 s"] drop [of is_space r1] by simp_all
  then show ?thesis by simp
qed

function find_macs :: "pystr \<Rightarrow> pystr list" where
  "find_macs [] = []"
| "find_macs (c # s) =
    (case mac_here (c # s) of
       Some (token, r) \<Rightarrow> token # find_macs r
     | None \<Rightarrow> find_macs s)"
  by pat_completeness auto
termination by (relation "measure length") (auto dest: mac_here_shorter)

definition mac_counts :: "(nat \<Rightarrow> bool) \<Rightarrow> pystr \<Rightarrow> pystr list \<Rightarrow> (pystr, nat) dict" where
  "mac_counts uni key_hex lines =
    counter (concat (map (\<lambda>line. map (\<lambda>t. logger_of uni line) (filter (\<lambda>t. t \<noteq> key_hex) (find_macs line))) lines))"

subsection \<open>The verdict\<close>

datatype verdict = TestsMissing | Leaked | CoreMacs | HarnessOnly | Clean

definition by_integration :: "pystr \<Rightarrow> bool" where
  "by_integration logger = py_startswith logger INTEGRATION_PREFIX"

text \<open>The leaks of one needle: label, count and logger of the lines of the lists.\<close>

definition needle_leaks :: "(nat \<Rightarrow> bool) \<Rightarrow> pystr list \<Rightarrow> pystr \<times> pystr
    \<Rightarrow> (pystr \<times> nat \<times> pystr) list \<times> (pystr \<times> nat \<times> pystr) list" where
  "needle_leaks uni lines ln =
    (let found = map (\<lambda>(logger, count). (fst ln, count, logger)) (attribute uni lines (snd ln))
     in (filter (\<lambda>(l, n, logger). by_integration logger) found,
         filter (\<lambda>(l, n, logger). \<not> by_integration logger \<and> logger \<noteq> CONTINUATION) found))"

definition scan_text :: "(nat \<Rightarrow> bool) \<Rightarrow> pystr \<Rightarrow> pystr \<Rightarrow> verdict" where
  "scan_text uni key_hex log_text =
    (let lines = splitlines log_text;
         leaks = map (needle_leaks uni lines) [(py ''recovery secret'', TEST_SECRET),
           (py ''salt value'', TEST_SALT), (py ''derived key hex'', key_hex)];
         product_leaks = concat (map fst leaks);
         harness_leaks = concat (map snd leaks);
         macs = mac_counts uni key_hex lines;
         product_macs = filter (\<lambda>(k, n). by_integration k) macs;
         core_macs = filter (\<lambda>(k, n). py_startswith k (py ''homeassistant.'')) macs
     in if product_leaks \<noteq> [] \<or> product_macs \<noteq> [] then Leaked
        else if core_macs \<noteq> [] then CoreMacs
        else if harness_leaks \<noteq> [] then HarnessOnly
        else Clean)"

definition scan_main :: "(nat \<Rightarrow> bool) \<Rightarrow> bool \<Rightarrow> pystr \<Rightarrow> exc + verdict" where
  "scan_main uni tests_exist log_text =
    (if \<not> tests_exist then Inr TestsMissing
     else bindE (derive_expected_key_hex TEST_SECRET TEST_SALT) (\<lambda>key_hex. Inr (scan_text uni key_hex log_text)))"

fun exit_code :: "verdict \<Rightarrow> int" where
  "exit_code TestsMissing = 2"
| "exit_code Leaked = 1"
| "exit_code CoreMacs = 0"
| "exit_code HarnessOnly = 0"
| "exit_code Clean = 0"

subsection \<open>What the verdict means\<close>

lemma counter_keys: "set (dict_keys (counter ks)) = set ks"
proof -
  have "set (dict_keys (foldl (\<lambda>d k. dict_set d k (Suc (case dict_get d k of None \<Rightarrow> 0 | Some n \<Rightarrow> n))) d ks))
      = set (dict_keys d) \<union> set ks" for d :: "(pystr, nat) dict"
    by (induction ks arbitrary: d) auto
  then show ?thesis by (simp add: counter_def dict_keys_def)
qed

lemma counter_mem: "(\<exists>n. (k, n) \<in> set (counter ks)) \<longleftrightarrow> k \<in> set ks"
  using counter_keys [of ks] by (force simp: dict_keys_def)

lemma attribute_mem:
  "(\<exists>n. (k, n) \<in> set (attribute uni lines needle)) \<longleftrightarrow>
     (\<exists>line\<in>set lines. occurs_in needle line \<and> logger_of uni line = k)"
  unfolding attribute_def counter_mem by auto

lemma mac_counts_mem:
  "(\<exists>n. (k, n) \<in> set (mac_counts uni key lines)) \<longleftrightarrow>
     (\<exists>line\<in>set lines. logger_of uni line = k \<and> (\<exists>t\<in>set (find_macs line). t \<noteq> key))"
  unfolding mac_counts_def counter_mem by auto

lemma filter_dict_Nil:
  "filter (\<lambda>(k, n). P k) d \<noteq> [] \<longleftrightarrow> (\<exists>k. P k \<and> (\<exists>n. (k, n) \<in> set d))"
  by (auto simp: filter_empty_conv)

lemma needle_leaks_product:
  "fst (needle_leaks uni lines ln) \<noteq> [] \<longleftrightarrow>
     (\<exists>line\<in>set lines. occurs_in (snd ln) line \<and> by_integration (logger_of uni line))"
proof -
  have "fst (needle_leaks uni lines ln) \<noteq> [] \<longleftrightarrow> (\<exists>k. by_integration k \<and> (\<exists>n. (k, n) \<in> set (attribute uni lines (snd ln))))"
    by (force simp: needle_leaks_def Let_def filter_empty_conv)
  then show ?thesis unfolding attribute_mem by auto
qed

text \<open>A line of the integration that shows a secret, or a MAC other than the key's text.\<close>

definition leaking_line :: "(nat \<Rightarrow> bool) \<Rightarrow> pystr \<Rightarrow> pystr \<Rightarrow> bool" where
  "leaking_line uni key line \<longleftrightarrow> by_integration (logger_of uni line)
     \<and> (occurs_in TEST_SECRET line \<or> occurs_in TEST_SALT line \<or> occurs_in key line
        \<or> (\<exists>t\<in>set (find_macs line). t \<noteq> key))"

lemma scan_text_leaked:
  "scan_text uni key log = Leaked \<longleftrightarrow> (\<exists>line\<in>set (splitlines log). leaking_line uni key line)"
proof -
  define lines where "lines = splitlines log"
  have "scan_text uni key log = Leaked \<longleftrightarrow>
      fst (needle_leaks uni lines (py ''recovery secret'', TEST_SECRET)) \<noteq> []
    \<or> fst (needle_leaks uni lines (py ''salt value'', TEST_SALT)) \<noteq> []
    \<or> fst (needle_leaks uni lines (py ''derived key hex'', key)) \<noteq> []
    \<or> filter (\<lambda>(k, n). by_integration k) (mac_counts uni key lines) \<noteq> []"
    by (simp add: scan_text_def Let_def lines_def)
  also have "\<dots> \<longleftrightarrow> (\<exists>line\<in>set lines. leaking_line uni key line)"
    unfolding needle_leaks_product filter_dict_Nil mac_counts_mem by (auto simp: leaking_line_def)
  finally show ?thesis by (simp add: lines_def)
qed

text \<open>The blind spot: what stands on lines without a logger is never counted.\<close>

lemma continuation_only_is_clean:
  assumes "\<forall>line\<in>set (splitlines log). logger_of uni line = CONTINUATION"
  shows "scan_text uni key log = Clean"
proof -
  have c: "\<not> by_integration CONTINUATION" "\<not> py_startswith CONTINUATION (py ''homeassistant.'')"
    by (simp_all add: by_integration_def CONTINUATION_def INTEGRATION_PREFIX_def py_startswith_def py_def)
  define lines where "lines = splitlines log"
  have k: "fst p = CONTINUATION" if "p \<in> set (attribute uni lines n)" for p n
    proof -
    have "\<exists>i. (fst p, i) \<in> set (attribute uni lines n)" using that by (intro exI [of _ "snd p"]) simp
    then show ?thesis using assms by (auto simp: attribute_mem lines_def)
  qed
  have m: "fst p = CONTINUATION" if "p \<in> set (mac_counts uni key lines)" for p
    proof -
    have "\<exists>i. (fst p, i) \<in> set (mac_counts uni key lines)" using that by (intro exI [of _ "snd p"]) simp
    then show ?thesis using assms by (auto simp: mac_counts_mem lines_def)
  qed
  have "needle_leaks uni lines ln = ([], [])" for ln
    using k c(1) by (fastforce simp: needle_leaks_def Let_def filter_empty_conv)
  moreover have "filter (\<lambda>(k, n). by_integration k) (mac_counts uni key lines) = []"
    "filter (\<lambda>(k, n). py_startswith k (py ''homeassistant.'')) (mac_counts uni key lines) = []"
    using m c by (fastforce simp: filter_empty_conv)+
  ultimately show ?thesis by (simp add: scan_text_def Let_def lines_def [symmetric])
qed

end
