(* ===== verification/Platforms.thy ===== *)
theory Platforms imports Sensors Lifecycle begin

section \<open>The platforms\<close>

text \<open>
  \<open>async_setup_entry\<close> of the six platforms, with the factories they hand to discovery and the
  constructors of the entities. An entity is its class with what its constructor sets. All platforms
  of an entry listen to the same coordinator.
\<close>

subsection \<open>Entities\<close>

datatype entity_class =
    HomeKeyLock | HomeKeyNodeOnline
  | HomeKeyHealthSensor | HomeKeyBackupSensor | HomeKeySecuritySensor | HomeKeyFirmwareSensor
  | HomeKeyLastAuthSensor | HomeKeyGuestTagsSensor
  | HomeKeyBackupButton | HomeKeyGuestTeachButton | HomeKeyGuestCancelButton
  | HomeKeyGuestAccessSwitch | HomeKeyGuestValidityNumber

text \<open>\<open>ey_options\<close>: the declared options; with them goes the device class of an enumeration.\<close>

record entity =
  ey_class :: entity_class
  ey_node_id :: pystr
  ey_unique_id :: pystr
  ey_options :: "pystr list option"
  ey_enum :: bool

definition base_entity :: "coord \<Rightarrow> pystr \<Rightarrow> entity_class \<Rightarrow> pystr \<Rightarrow> entity" where
  "base_entity c node_id cls entity_type =
    \<lparr>ey_class = cls, ey_node_id = node_id, ey_unique_id = unique_id (co_household_id c) node_id entity_type,
     ey_options = None, ey_enum = False\<rparr>"

definition base_sensor :: "coord \<Rightarrow> pystr \<Rightarrow> entity_class \<Rightarrow> pystr \<Rightarrow> pystr list option \<Rightarrow> entity" where
  "base_sensor c node_id cls entity_type options = (case options of
      None \<Rightarrow> base_entity c node_id cls entity_type
    | Some os \<Rightarrow> (base_entity c node_id cls entity_type)\<lparr>ey_options := Some os, ey_enum := True\<rparr>)"

definition make_lock :: "coord \<Rightarrow> pystr \<Rightarrow> entity" where
  "make_lock c node_id = base_entity c node_id HomeKeyLock ENTITY_LOCK"

definition make_online :: "coord \<Rightarrow> pystr \<Rightarrow> entity" where
  "make_online c node_id = base_entity c node_id HomeKeyNodeOnline ENTITY_SENSOR_ONLINE"

definition make_health :: "coord \<Rightarrow> pystr \<Rightarrow> entity" where
  "make_health c node_id = base_sensor c node_id HomeKeyHealthSensor ENTITY_SENSOR_HEALTH (Some HEALTH_OPTIONS)"

definition make_backup :: "coord \<Rightarrow> pystr \<Rightarrow> entity" where
  "make_backup c node_id = base_sensor c node_id HomeKeyBackupSensor ENTITY_SENSOR_BACKUP (Some BACKUP_OPTIONS)"

definition make_security :: "coord \<Rightarrow> pystr \<Rightarrow> entity" where
  "make_security c node_id =
    base_sensor c node_id HomeKeySecuritySensor ENTITY_SENSOR_SECURITY (Some SECURITY_OPTIONS)"

definition make_firmware :: "coord \<Rightarrow> pystr \<Rightarrow> entity" where
  "make_firmware c node_id = base_sensor c node_id HomeKeyFirmwareSensor ENTITY_SENSOR_FIRMWARE None"

definition make_last_auth :: "coord \<Rightarrow> pystr \<Rightarrow> entity" where
  "make_last_auth c node_id =
    base_sensor c node_id HomeKeyLastAuthSensor ENTITY_SENSOR_LAST_AUTH (Some LAST_AUTH_OPTIONS)"

definition make_guest_tags :: "coord \<Rightarrow> pystr \<Rightarrow> entity" where
  "make_guest_tags c node_id = base_sensor c node_id HomeKeyGuestTagsSensor ENTITY_SENSOR_GUEST_TAGS None"

definition make_backup_button :: "coord \<Rightarrow> pystr \<Rightarrow> entity" where
  "make_backup_button c node_id = base_entity c node_id HomeKeyBackupButton ENTITY_BUTTON_BACKUP"

definition make_teach_button :: "coord \<Rightarrow> pystr \<Rightarrow> entity" where
  "make_teach_button c node_id = base_entity c node_id HomeKeyGuestTeachButton ENTITY_BUTTON_GUEST_TEACH"

definition make_cancel_button :: "coord \<Rightarrow> pystr \<Rightarrow> entity" where
  "make_cancel_button c node_id = base_entity c node_id HomeKeyGuestCancelButton ENTITY_BUTTON_GUEST_CANCEL"

definition make_switch :: "coord \<Rightarrow> pystr \<Rightarrow> entity" where
  "make_switch c node_id = base_entity c node_id HomeKeyGuestAccessSwitch ENTITY_SWITCH_GUEST_ACCESS"

definition make_number :: "coord \<Rightarrow> pystr \<Rightarrow> entity" where
  "make_number c node_id = base_entity c node_id HomeKeyGuestValidityNumber ENTITY_NUMBER_GUEST_VALIDITY"

subsection \<open>Set-up\<close>

definition sensors_for_node :: "coord \<Rightarrow> pystr \<Rightarrow> entity list" where
  "sensors_for_node c node_id = [make_health c node_id, make_backup c node_id, make_security c node_id,
     make_firmware c node_id, make_last_auth c node_id, make_guest_tags c node_id]"

definition buttons_for_node :: "coord \<Rightarrow> pystr \<Rightarrow> entity list" where
  "buttons_for_node c node_id =
    [make_backup_button c node_id, make_teach_button c node_id, make_cancel_button c node_id]"

text \<open>\<open>hass.data[domain][entry_id].coordinator\<close>, then discovery with the platform's factory.\<close>

definition setup_platform :: "(coord \<Rightarrow> pystr \<Rightarrow> entity list) \<Rightarrow> (pystr, homekey_runtime) dict \<Rightarrow> pystr
    \<Rightarrow> exc + entity listener" where
  "setup_platform factory data entry_id = (case dict_get data entry_id of
      None \<Rightarrow> Inl KeyError
    | Some r \<Rightarrow> (let c = hub_coord (hr_hub r) in Inr (add_entities_for_nodes (factory c) c)))"

definition setup_locks where "setup_locks = setup_platform (\<lambda>c node_id. [make_lock c node_id])"
definition setup_binary_sensors where
  "setup_binary_sensors = setup_platform (\<lambda>c node_id. [make_online c node_id])"
definition setup_sensors where "setup_sensors = setup_platform sensors_for_node"
definition setup_buttons where "setup_buttons = setup_platform buttons_for_node"
definition setup_switches where "setup_switches = setup_platform (\<lambda>c node_id. [make_switch c node_id])"
definition setup_numbers where "setup_numbers = setup_platform (\<lambda>c node_id. [make_number c node_id])"

text \<open>\<open>PLATFORMS\<close>, as the factory of each.\<close>

definition PLATFORMS :: "(coord \<Rightarrow> pystr \<Rightarrow> entity list) list" where
  "PLATFORMS = [\<lambda>c node_id. [make_lock c node_id], \<lambda>c node_id. [make_online c node_id], sensors_for_node,
     buttons_for_node, \<lambda>c node_id. [make_switch c node_id], \<lambda>c node_id. [make_number c node_id]]"

text \<open>All platforms of an entry; then every update reaches each of their listeners.\<close>

definition setup_platforms :: "coord \<Rightarrow> entity listener list" where
  "setup_platforms c = map (\<lambda>factory. add_entities_for_nodes (factory c) c) PLATFORMS"

definition platforms_listen :: "ingest_env \<times> message \<Rightarrow> coord \<times> entity listener list
    \<Rightarrow> coord \<times> entity listener list" where
  "platforms_listen em s = (handle_message (fst em) (snd em) (fst s),
     map2 (\<lambda>factory l. snd (listen (factory (fst s)) em (fst s, l))) PLATFORMS (snd s))"

definition added_entities :: "entity listener list \<Rightarrow> entity list" where
  "added_entities ls = concat (map (\<lambda>l. concat (li_added l)) ls)"

lemma setup_platforms_entry:
  assumes "dict_get data i = Some r"
  shows "[setup_locks data i, setup_binary_sensors data i, setup_sensors data i, setup_buttons data i,
      setup_switches data i, setup_numbers data i]
    = map Inr (setup_platforms (hub_coord (hr_hub r)))"
  using assms
  by (simp add: setup_platforms_def PLATFORMS_def setup_platform_def setup_locks_def setup_binary_sensors_def
      setup_sensors_def setup_buttons_def setup_switches_def setup_numbers_def Let_def)

subsection \<open>The values of the enumeration sensors\<close>

text \<open>\<open>native_value\<close> of the sensors that are texts.\<close>

definition text_value :: "hub \<Rightarrow> entity \<Rightarrow> pystr option" where
  "text_value h e = (case ey_class e of
      HomeKeyHealthSensor \<Rightarrow> health_value h (ey_node_id e)
    | HomeKeyBackupSensor \<Rightarrow> backup_value h (ey_node_id e)
    | HomeKeySecuritySensor \<Rightarrow> security_value h (ey_node_id e)
    | HomeKeyFirmwareSensor \<Rightarrow> firmware_value h (ey_node_id e)
    | HomeKeyLastAuthSensor \<Rightarrow> last_auth_value h (ey_node_id e)
    | _ \<Rightarrow> None)"

lemma vocabularies:
  "is_security_state s \<longleftrightarrow> s \<in> set SECURITY_OPTIONS" "is_backup_outcome s \<longleftrightarrow> s \<in> set BACKUP_OPTIONS"
  "is_auth_result s \<longleftrightarrow> s \<in> set LAST_AUTH_OPTIONS"
  by (simp_all add: is_security_state_def enum_security_state_def SECURITY_OPTIONS_def
      is_backup_outcome_def enum_backup_outcome_def BACKUP_OPTIONS_def
      is_auth_result_def enum_auth_result_def LAST_AUTH_OPTIONS_def)

lemma text_value_declared:
  assumes "coord_inv (hub_coord h)" "e \<in> set (sensors_for_node c n)" "ey_options e = Some options"
    "ey_class e \<noteq> HomeKeyHealthSensor" "text_value h e = Some v"
  shows "v \<in> set options"
proof -
  obtain node where node: "get_node (hub_coord h) n = Some node"
    using assms(2,5)
    by (auto simp: sensors_for_node_def text_value_def make_health_def make_backup_def make_security_def
        make_firmware_def make_last_auth_def make_guest_tags_def base_sensor_def base_entity_def
        health_value_def backup_value_def security_value_def firmware_value_def last_auth_value_def
        sensor_value_def entity_node_def split: option.splits)
  then have "node_ok (co_household_id (hub_coord h)) n node"
    using assms(1) by (auto simp: coord_inv_def nodes_ok_def get_node_def)
  then show ?thesis
    using assms(2-) node
    by (auto simp: sensors_for_node_def text_value_def make_health_def make_backup_def make_security_def
        make_firmware_def make_last_auth_def make_guest_tags_def base_sensor_def base_entity_def
        backup_value_def security_value_def last_auth_value_def
        sensor_value_def entity_node_def node_ok_def vocabularies split: option.splits)
qed

subsection \<open>The listeners stay in step\<close>

lemma new_entities_step:
  "li_seen l = li_seen l' \<Longrightarrow> li_factory_calls l = li_factory_calls l' \<Longrightarrow>
   li_factory_calls (snd (new_entities f ns l)) = li_factory_calls (snd (new_entities g ns l'))"
proof (induction ns arbitrary: l l')
  case (Cons n ns)
  let ?add = "\<lambda>k. k\<lparr>li_seen := insert n (li_seen k), li_factory_calls := li_factory_calls k @ [n]\<rparr>"
  have "li_factory_calls (snd (new_entities f ns (?add l))) = li_factory_calls (snd (new_entities g ns (?add l')))"
    by (rule Cons.IH) (use Cons.prems in simp_all)
  moreover have "li_factory_calls (snd (new_entities f ns l)) = li_factory_calls (snd (new_entities g ns l'))"
    by (rule Cons.IH) (use Cons.prems in simp_all)
  ultimately show ?case using Cons.prems by (simp split: prod.splits) (metis snd_conv)
qed simp

lemma add_new_nodes_calls:
  "li_factory_calls (add_new_nodes f c l) = li_factory_calls (snd (new_entities f (dict_keys (co_nodes c)) l))"
  by (auto simp: add_new_nodes_def split: prod.splits)

text \<open>The ids the factories have been called for, the same for all platforms.\<close>

definition in_step :: "coord \<Rightarrow> entity listener list \<Rightarrow> pystr list \<Rightarrow> bool" where
  "in_step c ls ks = list_all2 (\<lambda>f l. listening (f c) c l \<and> li_factory_calls l = ks) PLATFORMS ls"

lemma factory_household:
  assumes "f \<in> set PLATFORMS" "co_household_id c = co_household_id c'"
  shows "f c = f c'"
  using assms
  by (auto simp: PLATFORMS_def sensors_for_node_def buttons_for_node_def make_lock_def make_online_def
      make_health_def make_backup_def make_security_def make_firmware_def make_last_auth_def
      make_guest_tags_def make_backup_button_def make_teach_button_def make_cancel_button_def
      make_switch_def make_number_def base_sensor_def base_entity_def fun_eq_iff)

lemma in_step_setup: "\<exists>ks. in_step c (setup_platforms c) ks \<and> set ks = set (dict_keys (co_nodes c))"
proof -
  define ks where "ks = li_factory_calls (add_entities_for_nodes (\<lambda>n. [] :: entity list) c)"
  have calls: "li_factory_calls (add_entities_for_nodes (f c) c) = ks" for f :: "coord \<Rightarrow> pystr \<Rightarrow> entity list"
    unfolding ks_def add_entities_for_nodes_def add_new_nodes_calls by (rule new_entities_step) simp_all
  have "in_step c (setup_platforms c) ks"
    unfolding in_step_def setup_platforms_def list.rel_map
    by (rule list.rel_refl) (simp add: add_entities_listening(1) calls)
  then show ?thesis using add_entities_listening(2) [of _ c] ks_def by blast
qed

lemma list_all2_map2:
  assumes "list_all2 P xs ys" "\<And>x y. x \<in> set xs \<Longrightarrow> P x y \<Longrightarrow> Q x (g x y)"
  shows "list_all2 Q xs (map2 g xs ys)"
  using assms by (induction rule: list_all2_induct) auto

lemma listen_calls:
  assumes "li_seen l = li_seen l'" "li_factory_calls l = li_factory_calls l'"
  shows "li_factory_calls (snd (listen f em (c, l))) = li_factory_calls (snd (listen g em (c, l')))"
  using assms new_entities_step [of l l' f _ g] by (simp add: listen_def Let_def add_new_nodes_calls)

lemma in_step_listen:
  assumes "in_step c ls ks"
  shows "\<exists>ks'. in_step (fst (platforms_listen em (c, ls))) (snd (platforms_listen em (c, ls))) ks'
    \<and> (co_delivered (handle_message (fst em) (snd em) c) \<noteq> co_delivered c
        \<longrightarrow> set ks' = set (dict_keys (co_nodes (handle_message (fst em) (snd em) c))))"
proof -
  define c' where "c' = handle_message (fst em) (snd em) c"
  define l0 :: "entity listener" where "l0 = \<lparr>li_seen = set ks, li_factory_calls = ks, li_added = []\<rparr>"
  define ks' where "ks' = li_factory_calls (snd (listen (\<lambda>n. []) em (c, l0)))"
  have one: "listening (f c') c' (snd (listen (f c) em (c, l))) \<and> li_factory_calls (snd (listen (f c) em (c, l))) = ks'"
    if f: "f \<in> set PLATFORMS" and l: "listening (f c) c l \<and> li_factory_calls l = ks" for f l
  proof -
    have "f c' = f c" using factory_household [OF f, of c' c] by (simp add: c'_def)
    moreover have "listening (f c) c' (snd (listen (f c) em (c, l)))"
      using listen_listening [of "f c" "(c, l)" em] l by (simp add: c'_def listen_def Let_def)
    moreover have "li_factory_calls (snd (listen (f c) em (c, l))) = ks'"
      unfolding ks'_def by (rule listen_calls) (use l in \<open>auto simp: l0_def listening_def\<close>)
    ultimately show ?thesis by simp
  qed
  have step: "in_step c' (snd (platforms_listen em (c, ls))) ks'"
    using assms unfolding in_step_def platforms_listen_def snd_conv fst_conv
    by (rule list_all2_map2) (rule one)
  have "set ks' = set (dict_keys (co_nodes c'))" if "co_delivered c' \<noteq> co_delivered c"
  proof -
    obtain l where l: "listening (make_lock' c) c l" "li_factory_calls l = ks"
      if "make_lock' = (\<lambda>c node_id. [make_lock c node_id])" for make_lock'
      using assms by (auto simp: in_step_def PLATFORMS_def list_all2_Cons1)
    define f where "f = (\<lambda>node_id. [make_lock c node_id])"
    have lf: "listening f c l" using l(1) [OF refl] by (simp add: f_def)
    obtain env m where em: "em = (env, m)" by (cases em)
    have "length (co_delivered c) < length (co_delivered (handle_message env m c))"
      using that handle_message_delivered [of env m c] by (auto simp: c'_def em)
    from listen_caught_up [OF lf this]
    have "set (li_factory_calls (snd (listen f em (c, l)))) = set (dict_keys (co_nodes c'))"
      by (simp add: em c'_def)
    moreover have "li_factory_calls (snd (listen f em (c, l))) = ks'"
      unfolding ks'_def by (rule listen_calls) (use lf l(2) [OF refl] in \<open>auto simp: l0_def listening_def\<close>)
    ultimately show ?thesis by simp
  qed
  then show ?thesis using step by (auto simp: platforms_listen_def c'_def)
qed

subsection \<open>Every node has its thirteen entities\<close>

definition entity_classes :: "entity_class list" where
  "entity_classes = [HomeKeyLock, HomeKeyNodeOnline, HomeKeyHealthSensor, HomeKeyBackupSensor,
     HomeKeySecuritySensor, HomeKeyFirmwareSensor, HomeKeyLastAuthSensor, HomeKeyGuestTagsSensor,
     HomeKeyBackupButton, HomeKeyGuestTeachButton, HomeKeyGuestCancelButton, HomeKeyGuestAccessSwitch,
     HomeKeyGuestValidityNumber]"

fun class_type :: "entity_class \<Rightarrow> pystr" where
  "class_type HomeKeyLock = ENTITY_LOCK"
| "class_type HomeKeyNodeOnline = ENTITY_SENSOR_ONLINE"
| "class_type HomeKeyHealthSensor = ENTITY_SENSOR_HEALTH"
| "class_type HomeKeyBackupSensor = ENTITY_SENSOR_BACKUP"
| "class_type HomeKeySecuritySensor = ENTITY_SENSOR_SECURITY"
| "class_type HomeKeyFirmwareSensor = ENTITY_SENSOR_FIRMWARE"
| "class_type HomeKeyLastAuthSensor = ENTITY_SENSOR_LAST_AUTH"
| "class_type HomeKeyGuestTagsSensor = ENTITY_SENSOR_GUEST_TAGS"
| "class_type HomeKeyBackupButton = ENTITY_BUTTON_BACKUP"
| "class_type HomeKeyGuestTeachButton = ENTITY_BUTTON_GUEST_TEACH"
| "class_type HomeKeyGuestCancelButton = ENTITY_BUTTON_GUEST_CANCEL"
| "class_type HomeKeyGuestAccessSwitch = ENTITY_SWITCH_GUEST_ACCESS"
| "class_type HomeKeyGuestValidityNumber = ENTITY_NUMBER_GUEST_VALIDITY"

lemma class_type_types: "class_type k \<in> set entity_types"
  by (cases k) (simp_all add: entity_types_def)

lemma class_type_inj: "class_type k = class_type j \<longleftrightarrow> k = j"
  by (cases k; cases j) (simp_all add: const_defs)

lemmas factories = sensors_for_node_def buttons_for_node_def make_lock_def make_online_def
  make_health_def make_backup_def make_security_def make_firmware_def make_last_auth_def
  make_guest_tags_def make_backup_button_def make_teach_button_def make_cancel_button_def
  make_switch_def make_number_def base_sensor_def base_entity_def

lemma made_entity:
  assumes "f \<in> set PLATFORMS" "e \<in> set (f c n)"
  shows "ey_node_id e = n" "ey_unique_id e = unique_id (co_household_id c) n (class_type (ey_class e))"
  using assms by (auto simp: PLATFORMS_def factories)

lemma filter_concat_map:
  assumes "distinct ks" "\<And>k e. e \<in> set (g k) \<Longrightarrow> node e = k"
  shows "filter (\<lambda>e. node e = n) (concat (map g ks)) = (if n \<in> set ks then g n else [])"
  using assms(1)
proof (induction ks)
  case (Cons k ks)
  have "filter (\<lambda>e. node e = n) (g k) = (if k = n then g k else [])"
    using assms(2) by (auto simp: filter_id_conv filter_empty_conv)
  then show ?case using Cons by auto
qed simp

lemma distinct_by_node:
  "(\<And>n. distinct (map cls (filter (\<lambda>e. node e = n) es))) \<Longrightarrow> distinct (map (\<lambda>e. (node e, cls e)) es)"
proof (induction es)
  case (Cons e es)
  have "distinct (map cls (filter (\<lambda>e. node e = n) es))" for n
    using Cons.prems [of n] by (simp split: if_splits)
  moreover have "cls e \<notin> cls ` {x \<in> set es. node x = node e}" using Cons.prems [of "node e"] by simp
  ultimately show ?case using Cons.IH by (auto simp: image_iff)
qed simp

lemma in_step_entities:
  assumes "in_step c ls ks"
  shows "added_entities ls = concat (map (\<lambda>f. concat (map (f c) ks)) PLATFORMS)" "distinct ks"
    "\<forall>k \<in> set ks. get_node c k \<noteq> None"
proof -
  have "list_all2 (\<lambda>f l. concat (li_added l) = concat (map (f c) ks)) PLATFORMS ls"
    using assms unfolding in_step_def by (rule list_all2_mono) (auto simp: listening_def)
  then have "map (\<lambda>l. concat (li_added l)) ls = map (\<lambda>f. concat (map (f c) ks)) PLATFORMS"
    by (induction rule: list_all2_induct) simp_all
  then show "added_entities ls = concat (map (\<lambda>f. concat (map (f c) ks)) PLATFORMS)"
    by (simp add: added_entities_def)
  obtain l where "listening (\<lambda>node_id. [make_lock c node_id]) c l" "li_factory_calls l = ks"
    using assms by (auto simp: in_step_def PLATFORMS_def list_all2_Cons1)
  then show "distinct ks" "\<forall>k \<in> set ks. get_node c k \<noteq> None" by (auto simp: listening_def)
qed

lemma entities_of_node:
  assumes "in_step c ls ks"
  shows "map ey_class (filter (\<lambda>e. ey_node_id e = n) (added_entities ls)) = (if n \<in> set ks then entity_classes else [])"
proof -
  have one: "filter (\<lambda>e. ey_node_id e = n) (concat (map (f c) ks)) = (if n \<in> set ks then f c n else [])"
    if "f \<in> set PLATFORMS" for f
    by (rule filter_concat_map [OF in_step_entities(2) [OF assms]]) (rule made_entity [OF that])
  have "filter (\<lambda>e. ey_node_id e = n) (added_entities ls)
      = concat (map (\<lambda>f. if n \<in> set ks then f c n else []) PLATFORMS)"
    unfolding in_step_entities(1) [OF assms] filter_concat map_map
    by (intro arg_cong [of _ _ concat] map_cong refl) (simp only: comp_apply one)
  then show ?thesis by (simp add: PLATFORMS_def entity_classes_def factories)
qed

lemma unique_ids_of_entities:
  assumes "in_step c ls ks"
  shows "distinct (map ey_unique_id (added_entities ls))"
proof -
  let ?pair = "\<lambda>e. (ey_node_id e, ey_class e)" and ?id = "\<lambda>(n, k). unique_id (co_household_id c) n (class_type k)"
  have pairs: "distinct (map ?pair (added_entities ls))"
    by (rule distinct_by_node) (simp add: entities_of_node [OF assms] entity_classes_def)
  have "inj ?id"
    by (rule injI) (auto dest!: unique_id_inj simp: class_type_types class_type_inj)
  then have "distinct (map ?id (map ?pair (added_entities ls)))"
    by (subst distinct_map) (blast intro: pairs inj_on_subset)
  moreover have "map ey_unique_id (added_entities ls) = map ?id (map ?pair (added_entities ls))"
    unfolding in_step_entities(1) [OF assms] by (auto dest: made_entity)
  ultimately show ?thesis by (simp only:)
qed

lemma handle_messages_append: "handle_messages (xs @ ys) c = handle_messages ys (handle_messages xs c)"
  by (induction xs c rule: handle_messages.induct) simp_all

lemma run_in_step:
  assumes "fold platforms_listen ms (c0, setup_platforms c0) = (c, ls)"
  shows "c = handle_messages ms c0 \<and> (\<exists>ks. in_step c ls ks
    \<and> (ms = [] \<or> co_delivered c \<noteq> co_delivered (handle_messages (butlast ms) c0)
        \<longrightarrow> set ks = set (dict_keys (co_nodes c))))"
  using assms
proof (induction ms arbitrary: c ls rule: rev_induct)
  case Nil
  then show ?case using in_step_setup [of c0] by auto
next
  case (snoc em ms)
  obtain c1 ls1 where s1: "fold platforms_listen ms (c0, setup_platforms c0) = (c1, ls1)" by (rule prod.exhaust)
  then obtain ks where c1: "c1 = handle_messages ms c0" and ks: "in_step c1 ls1 ks" using snoc.IH by blast
  have e: "platforms_listen em (c1, ls1) = (c, ls)" using snoc.prems s1 by simp
  obtain env m where em: "em = (env, m)" by (cases em)
  have c: "c = handle_message env m c1" using e by (simp add: platforms_listen_def em)
  then have "c = handle_messages (ms @ [em]) c0" by (simp add: c1 em handle_messages_append)
  then show ?case using in_step_listen [OF ks, of em] c c1 e by (auto simp: em)
qed

lemma added_nodes_known:
  assumes "in_step c ls ks" "e \<in> set (added_entities ls)"
  shows "get_node c (ey_node_id e) \<noteq> None"
proof -
  have "e \<in> set (filter (\<lambda>x. ey_node_id x = ey_node_id e) (added_entities ls))" using assms(2) by simp
  then have "map ey_class (filter (\<lambda>x. ey_node_id x = ey_node_id e) (added_entities ls)) \<noteq> []"
    by (auto simp: filter_empty_conv)
  then show ?thesis
    unfolding entities_of_node [OF assms(1)] using in_step_entities(3) [OF assms(1)] by (auto split: if_splits)
qed

end
