(* ===== verification/Clocked.thy ===== *)
theory Clocked imports Prelude begin

section \<open>Loops against a deadline\<close>

text \<open>
  The tools wait in loops of one shape: read the clock, give up at the deadline, look, pause, look
  again. \<open>repeat_until step i\<close> is the result of the first turn from \<open>i\<close> on that ends the loop, and
  \<open>None\<close> when none does; what a turn does is the argument, as a function of its number.
\<close>

partial_function (option) repeat_until :: "(nat \<Rightarrow> 'r option) \<Rightarrow> nat \<Rightarrow> 'r option" where
  "repeat_until step i = (case step i of Some r \<Rightarrow> Some r | None \<Rightarrow> repeat_until step (Suc i))"

lemma repeat_until_from:
  assumes "step n = Some r" "i \<le> n" "\<And>j. i \<le> j \<Longrightarrow> j < n \<Longrightarrow> step j = None"
  shows "repeat_until step i = Some r"
  using assms(2,3)
proof (induction "n - i" arbitrary: i)
  case 0
  then show ?case using assms(1) by (subst repeat_until.simps) simp
next
  case (Suc d)
  then have "repeat_until step (Suc i) = Some r" by (intro Suc.hyps(1)) auto
  then show ?case using Suc.prems(2) [of i] Suc.hyps(2) by (subst repeat_until.simps) simp
qed

lemma repeat_until_Some:
  "repeat_until step i = Some r \<longleftrightarrow> (\<exists>n \<ge> i. step n = Some r \<and> (\<forall>j. i \<le> j \<and> j < n \<longrightarrow> step j = None))"
proof
  assume "repeat_until step i = Some r"
  then show "\<exists>n \<ge> i. step n = Some r \<and> (\<forall>j. i \<le> j \<and> j < n \<longrightarrow> step j = None)"
  proof (rule repeat_until.raw_induct [rotated])
    fix loop :: "(nat \<Rightarrow> 'r option) \<Rightarrow> nat \<Rightarrow> 'r option" and step i r
    assume IH: "\<And>step i r. loop step i = Some r \<Longrightarrow> \<exists>n \<ge> i. step n = Some r \<and> (\<forall>j. i \<le> j \<and> j < n \<longrightarrow> step j = None)"
      and body: "(case step i of None \<Rightarrow> loop step (Suc i) | Some r \<Rightarrow> Some r) = Some r"
    show "\<exists>n \<ge> i. step n = Some r \<and> (\<forall>j. i \<le> j \<and> j < n \<longrightarrow> step j = None)"
    proof (cases "step i")
      case None
      then obtain n where n: "Suc i \<le> n" "step n = Some r" "\<forall>j. Suc i \<le> j \<and> j < n \<longrightarrow> step j = None"
        using IH [of step "Suc i" r] body by auto
      then have "\<forall>j. i \<le> j \<and> j < n \<longrightarrow> step j = None" using None by (metis Suc_leI le_neq_implies_less)
      then show ?thesis using n by (intro exI [of _ n]) simp
    next
      case (Some q)
      then show ?thesis using body by (intro exI [of _ i]) auto
    qed
  qed
next
  assume "\<exists>n \<ge> i. step n = Some r \<and> (\<forall>j. i \<le> j \<and> j < n \<longrightarrow> step j = None)"
  then obtain n where "i \<le> n" "step n = Some r" "\<forall>j. i \<le> j \<and> j < n \<longrightarrow> step j = None" by blast
  then show "repeat_until step i = Some r" by (intro repeat_until_from [where n = n]) auto
qed

text \<open>A turn that ends the loop is enough for it to end.\<close>

lemma repeat_until_ends:
  assumes "step n \<noteq> None"
  obtains k r where "k \<le> n" "step k = Some r" "\<forall>j < k. step j = None" "repeat_until step 0 = Some r"
proof -
  define k where "k = (LEAST k. step k \<noteq> None)"
  have k: "step k \<noteq> None" "k \<le> n"
    unfolding k_def using assms by (rule LeastI, intro Least_le)
  then obtain r where r: "step k = Some r" by auto
  have before: "\<forall>j < k. step j = None" using not_less_Least unfolding k_def by blast
  have "repeat_until step 0 = Some r" unfolding repeat_until_Some using r before by auto
  then show thesis using that k r before by blast
qed

lemma repeat_until_total: "step n \<noteq> None \<Longrightarrow> repeat_until step 0 \<noteq> None"
  by (rule repeat_until_ends) auto

text \<open>A clock that advances by at least \<open>pause > 0\<close> between turns passes every deadline.\<close>

lemma clock_passes:
  fixes clock :: "nat \<Rightarrow> int"
  assumes "now \<le> clock 0" "\<And>i. clock i + pause \<le> clock (Suc i)"
  shows "now + pause * int i \<le> clock i"
proof (induction i)
  case (Suc i)
  then show ?case using assms(2) [of i] by (simp add: algebra_simps)
qed (use assms(1) in simp)

end
