(* ===== verification/Broker.thy ===== *)
theory Broker imports Transport Clocked begin

section \<open>The broker checks\<close>

text \<open>
  \<open>verify_broker_semantics.py\<close>: the checks that decide whether a running broker can be trusted with
  the firmware's retained topics. The broker and the client library are a parameter, the record
  \<open>broker\<close> of the operations the checks use over a broker state of any type; so are the random
  tags of the topics. A check yields the results it records; an exception that it does not catch
  ends the run. What is printed is left out, and so are the pauses: how long messages are waited
  for is handed to the operation.
\<close>

subsection \<open>Clients of the broker\<close>

record will =
  wl_topic :: pystr
  wl_payload :: pystr
  wl_qos :: int
  wl_retain :: bool

record 'b broker =
  bo_connect :: "will option \<Rightarrow> ('b, exc, nat) comp"
  bo_disconnect :: "nat \<Rightarrow> ('b, exc, unit) comp"
  bo_drop :: "nat \<Rightarrow> ('b, exc, unit) comp"
  bo_subscribe :: "nat \<Rightarrow> pystr \<Rightarrow> int \<Rightarrow> ('b, exc, unit) comp"
  bo_publish :: "nat \<Rightarrow> pystr \<Rightarrow> bytes \<Rightarrow> int \<Rightarrow> bool \<Rightarrow> ('b, exc, unit) comp"
  bo_read :: "nat \<Rightarrow> int \<Rightarrow> ('b, exc, (pystr \<times> bytes) list) comp"
  bo_uuid :: "('b, exc, pystr) comp"

type_synonym results = "(pystr \<times> bool) list"

definition finallyS :: "('s, 'e, 'a) comp \<Rightarrow> ('s, 'e, unit) comp \<Rightarrow> ('s, 'e, 'a) comp" where
  "finallyS m f s = (case m s of (r, t) \<Rightarrow> (case f t of (Inl e, u) \<Rightarrow> (Inl e, u) | (Inr x, u) \<Rightarrow> (r, u)))"

text \<open>\<open>except Exception\<close>, and \<open>contextlib.suppress(Exception)\<close>.\<close>

definition catchS :: "('s, 'e, 'a) comp \<Rightarrow> 'a \<Rightarrow> ('s, 'e, 'a) comp" where
  "catchS m handler s = (case m s of (Inl e, t) \<Rightarrow> (Inr handler, t) | (Inr a, t) \<Rightarrow> (Inr a, t))"

text \<open>\<open>async with aiomqtt.Client(HOST, PORT, will=...)\<close>\<close>

definition with_client :: "'b broker \<Rightarrow> will option \<Rightarrow> (nat \<Rightarrow> ('b, exc, 'a) comp) \<Rightarrow> ('b, exc, 'a) comp" where
  "with_client b w body = bindS (bo_connect b w) (\<lambda>k. finallyS (body k) (bo_disconnect b k))"

definition publish_text :: "'b broker \<Rightarrow> nat \<Rightarrow> pystr \<Rightarrow> pystr \<Rightarrow> int \<Rightarrow> bool \<Rightarrow> ('b, exc, unit) comp" where
  "publish_text b k topic payload qos retain = (case utf8 payload of
      None \<Rightarrow> liftE (Inl UnicodeEncodeError) | Some bs \<Rightarrow> bo_publish b k topic bs qos retain)"

text \<open>\<open>bytes.decode()\<close>; the error is a \<open>ValueError\<close>.\<close>

definition decode_strict :: "bytes \<Rightarrow> exc + pystr" where
  "decode_strict bs = (if utf8 (decode_utf8 bs) = Some bs then Inr (decode_utf8 bs) else Inl ValueError)"

text \<open>Times are in milliseconds.\<close>

definition read_all :: "'b broker \<Rightarrow> nat \<Rightarrow> int \<Rightarrow> ('b, exc, (pystr \<times> pystr) list) comp" where
  "read_all b k timeout = bindS (bo_read b k timeout) (\<lambda>ms.
     liftE (mapE (\<lambda>(topic, bs). map_sum id (Pair topic) (decode_strict bs)) ms))"

definition unique :: "'b broker \<Rightarrow> pystr \<Rightarrow> ('b, exc, pystr) comp" where
  "unique b prefix = bindS (bo_uuid b) (\<lambda>u. liftE (Inr (py ''validate/'' @ prefix @ py ''/'' @ take 10 u)))"

subsection \<open>The checks\<close>

definition check_connection_and_qos :: "'b broker \<Rightarrow> ('b, exc, results) comp" where
  "check_connection_and_qos b =
    bindS (catchS (with_client b None (\<lambda>k. liftE (Inr True))) False) (\<lambda>connected.
    if \<not> connected then liftE (Inr [(py ''connection over TCP'', False)])
    else bindS (unique b (py ''qos'')) (\<lambda>topic.
      bindS (with_client b None (\<lambda>sub.
          bindS (bo_subscribe b sub topic 1) (\<lambda>_.
          bindS (with_client b None (\<lambda>pub.
              bindS (publish_text b pub topic (py ''q0'') 0 False) (\<lambda>_.
                publish_text b pub topic (py ''q1'') 1 False))) (\<lambda>_.
            read_all b sub 1200)))) (\<lambda>msgs.
        liftE (Inr [(py ''connection over TCP'', True),
          (py ''QoS 0 + QoS 1 publish/subscribe'', {py ''q0'', py ''q1''} \<subseteq> set (map snd msgs))]))))"

definition publish_retained :: "'b broker \<Rightarrow> (pystr \<times> pystr) list \<Rightarrow> ('b, exc, unit) comp" where
  "publish_retained b ps = with_client b None (\<lambda>pub.
     foldr (\<lambda>(topic, payload) rest. bindS (publish_text b pub topic payload 1 True) (\<lambda>_. rest))
       ps (liftE (Inr ())))"

definition read_topic :: "'b broker \<Rightarrow> pystr \<Rightarrow> int \<Rightarrow> ('b, exc, (pystr \<times> pystr) list) comp" where
  "read_topic b topic timeout = with_client b None (\<lambda>sub.
     bindS (bo_subscribe b sub topic 1) (\<lambda>_. read_all b sub timeout))"

definition check_retained_late_subscriber :: "'b broker \<Rightarrow> ('b, exc, results) comp" where
  "check_retained_late_subscriber b =
    bindS (unique b (py ''retained'')) (\<lambda>topic.
    bindS (publish_retained b [(topic, py ''retained-value'')]) (\<lambda>_.
    bindS (read_topic b topic 2000) (\<lambda>msgs.
      liftE (Inr [(py ''retained delivered to late subscriber'', msgs = [(topic, py ''retained-value'')])]))))"

definition check_retained_survives_reconnect :: "'b broker \<Rightarrow> ('b, exc, results) comp" where
  "check_retained_survives_reconnect b =
    bindS (unique b (py ''persist'')) (\<lambda>topic.
    bindS (publish_retained b [(topic, py ''persisted'')]) (\<lambda>_.
    bindS (read_topic b topic 2000) (\<lambda>first.
    bindS (read_topic b topic 2000) (\<lambda>second.
      liftE (Inr [(py ''retained survives subscriber reconnect'',
        first = [(topic, py ''persisted'')] \<and> second = [(topic, py ''persisted'')])])))))"

definition check_retained_filter_isolation :: "'b broker \<Rightarrow> ('b, exc, results) comp" where
  "check_retained_filter_isolation b =
    bindS (unique b (py ''iso-a'')) (\<lambda>t1.
    bindS (unique b (py ''iso-b'')) (\<lambda>t2.
    bindS (unique b (py ''iso-c'')) (\<lambda>t3.
    bindS (publish_retained b [(t1, py ''PAYLOAD-A''), (t2, py ''PAYLOAD-B'')]) (\<lambda>_.
    bindS (read_topic b t2 2000) (\<lambda>got_b.
    bindS (read_topic b t1 2000) (\<lambda>got_a.
    bindS (read_topic b t3 2000) (\<lambda>got_c.
      liftE (Inr [(py ''retained delivery respects subscription filter'',
        got_b = [(t2, py ''PAYLOAD-B'')] \<and> got_a = [(t1, py ''PAYLOAD-A'')] \<and> got_c = [])]))))))))"

text \<open>\<open>sorted(got) == sorted([(a, "A"), (b, "B")])\<close>: the same pairs in some order.\<close>

definition check_retained_wildcard_matches :: "'b broker \<Rightarrow> ('b, exc, results) comp" where
  "check_retained_wildcard_matches b =
    bindS (bo_uuid b) (\<lambda>u.
    let tag = take 10 u;
        t1 = py ''validate/wild/'' @ tag @ py ''/GATE-001/state'';
        t2 = py ''validate/wild/'' @ tag @ py ''/HOUSE-001/state''
    in bindS (publish_retained b [(t1, py ''A''), (t2, py ''B'')]) (\<lambda>_.
       bindS (read_topic b (py ''validate/wild/'' @ tag @ py ''/+/state'') 2000) (\<lambda>got.
         liftE (Inr [(py ''retained respects '' @ [39, 43, 39] @ py '' wildcard'',
           got \<in> {[(t1, py ''A''), (t2, py ''B'')], [(t2, py ''B''), (t1, py ''A'')]})]))))"

definition check_lwt :: "'b broker \<Rightarrow> ('b, exc, results) comp" where
  "check_lwt b =
    bindS (unique b (py ''lwt'')) (\<lambda>topic.
    catchS (bindS (with_client b None (\<lambda>watcher.
        bindS (bo_subscribe b watcher topic 1) (\<lambda>_.
        bindS (bo_connect b (Some \<lparr>wl_topic = topic, wl_payload = py ''offline'', wl_qos = 1, wl_retain = True\<rparr>))
          (\<lambda>victim. finallyS
            (bindS (publish_text b victim topic (py ''online'') 1 False) (\<lambda>_.
             bindS (bo_drop b victim) (\<lambda>_. read_all b watcher 5000)))
            (catchS (bo_disconnect b victim) ())))))
      (\<lambda>msgs. liftE (Inr [(py ''LWT fires on unclean disconnect'', py ''offline'' \<in> set (map snd msgs))])))
      [(py ''LWT fires on unclean disconnect'', False)])"

definition check_retained_cleared :: "'b broker \<Rightarrow> ('b, exc, results) comp" where
  "check_retained_cleared b =
    bindS (unique b (py ''clear'')) (\<lambda>topic.
    bindS (publish_retained b [(topic, py ''temp'')]) (\<lambda>_.
    bindS (publish_retained b [(topic, [])]) (\<lambda>_.
    bindS (read_topic b topic 1500) (\<lambda>got.
      liftE (Inr [(py ''empty retained payload clears the topic'', got = [])])))))"

definition run_checks :: "'b broker \<Rightarrow> ('b, exc, results) comp" where
  "run_checks b = foldr (\<lambda>check rest. bindS (check b) (\<lambda>rs. bindS rest (\<lambda>rs'. liftE (Inr (rs @ rs')))))
     [check_connection_and_qos, check_retained_late_subscriber, check_retained_survives_reconnect,
      check_retained_filter_isolation, check_retained_wildcard_matches, check_retained_cleared, check_lwt]
     (liftE (Inr []))"

subsection \<open>The run\<close>

definition binary_candidates :: "pystr list" where
  "binary_candidates = [py ''mosquitto'', py ''/opt/homebrew/opt/mosquitto/bin/mosquitto'',
     py ''/opt/homebrew/sbin/mosquitto'', py ''/usr/local/opt/mosquitto/bin/mosquitto'', py ''/usr/sbin/mosquitto'']"

fun find_binary :: "(pystr \<Rightarrow> pystr option) \<Rightarrow> (pystr \<Rightarrow> bool) \<Rightarrow> pystr list \<Rightarrow> pystr option" where
  "find_binary which exists [] = None"
| "find_binary which exists (c # cs) =
    (if py_startswith c (py ''/'') then (if exists c then Some c else find_binary which exists cs)
     else case which c of
       Some found \<Rightarrow> if found = [] then find_binary which exists cs else Some found
     | None \<Rightarrow> find_binary which exists cs)"

definition mosquitto_binary :: "(pystr \<Rightarrow> pystr option) \<Rightarrow> (pystr \<Rightarrow> bool) \<Rightarrow> pystr option" where
  "mosquitto_binary which exists = find_binary which exists binary_candidates"

text \<open>\<open>opens i\<close>: whether attempt \<open>i\<close> connects; \<open>clock i\<close>: the time read before it.\<close>

definition port_turn :: "(nat \<Rightarrow> bool) \<Rightarrow> (nat \<Rightarrow> int) \<Rightarrow> int \<Rightarrow> nat \<Rightarrow> bool option" where
  "port_turn opens clock deadline i =
    (if \<not> clock i < deadline then Some False else if opens i then Some True else None)"

definition wait_for_port :: "(nat \<Rightarrow> bool) \<Rightarrow> (nat \<Rightarrow> int) \<Rightarrow> int \<Rightarrow> bool option" where
  "wait_for_port opens clock now = repeat_until (port_turn opens clock (now + 15000)) 0"

text \<open>The exit code; \<open>None\<close>: the port is waited for without end.\<close>

definition broker_main :: "'b broker \<Rightarrow> pystr option \<Rightarrow> bool option \<Rightarrow> 'b \<Rightarrow> (exc + int) option" where
  "broker_main b binary port s = (case binary of
      None \<Rightarrow> Some (Inr 2)
    | Some path \<Rightarrow> map_option (\<lambda>open. if \<not> open then Inr 2
        else (case fst (run_checks b s) of
            Inl e \<Rightarrow> Inl e
          | Inr results \<Rightarrow> Inr (if list_all snd results then 0 else 1))) port)"

end
