(* ===== verification/Broker_Facts.thy ===== *)
theory Broker_Facts imports Broker begin

section \<open>A broker that behaves as documented\<close>

text \<open>
  What MQTT documents of the operations the checks use: a message goes to the sessions with a matching
  filter; a retained one is kept for its topic, replaced by the next and deleted by an empty one, and
  is sent to whoever subscribes with a matching filter later; the will is published when the
  connection is lost without a \<open>DISCONNECT\<close>. A broker \<open>behaves_like\<close> it when a relation between the
  states is kept by every operation, with the same outcomes.
\<close>

subsection \<open>Filters\<close>

fun level_match :: "pystr list \<Rightarrow> pystr list \<Rightarrow> bool" where
  "level_match [] [] = True"
| "level_match [] (t # ts) = False"
| "level_match (f # fs) [] = (f = py ''#'' \<and> fs = [])"
| "level_match (f # fs) (t # ts) =
    (f = py ''#'' \<and> fs = [] \<or> (f = py ''+'' \<or> f = t) \<and> level_match fs ts)"

definition topic_match :: "pystr \<Rightarrow> pystr \<Rightarrow> bool" where
  "topic_match f t = level_match (py_split 47 f) (py_split 47 t)"

subsection \<open>The documented broker\<close>

record session =
  ss_id :: nat
  ss_filters :: "pystr list"
  ss_inbox :: "(pystr \<times> bytes) list"
  ss_will :: "will option"

record mqtt_state =
  ms_retained :: "(pystr, bytes) dict"
  ms_sessions :: "session list"
  ms_ids :: nat
  ms_uuids :: "nat \<Rightarrow> pystr"
  ms_drawn :: nat

definition fresh_broker :: "(nat \<Rightarrow> pystr) \<Rightarrow> mqtt_state" where
  "fresh_broker uuids = \<lparr>ms_retained = [], ms_sessions = [], ms_ids = 0, ms_uuids = uuids, ms_drawn = 0\<rparr>"

definition deliver :: "pystr \<Rightarrow> bytes \<Rightarrow> session \<Rightarrow> session" where
  "deliver topic payload ss = (if list_ex (\<lambda>f. topic_match f topic) (ss_filters ss)
     then ss\<lparr>ss_inbox := ss_inbox ss @ [(topic, payload)]\<rparr> else ss)"

definition retain_message :: "pystr \<Rightarrow> bytes \<Rightarrow> (pystr, bytes) dict \<Rightarrow> (pystr, bytes) dict" where
  "retain_message topic payload d = (if payload = [] then dict_del d topic else dict_set d topic payload)"

definition broker_publish :: "pystr \<Rightarrow> bytes \<Rightarrow> bool \<Rightarrow> mqtt_state \<Rightarrow> mqtt_state" where
  "broker_publish topic payload retain s =
    s\<lparr>ms_sessions := map (deliver topic payload) (ms_sessions s),
      ms_retained := (if retain then retain_message topic payload (ms_retained s) else ms_retained s)\<rparr>"

definition change_session :: "nat \<Rightarrow> (session \<Rightarrow> session) \<Rightarrow> mqtt_state \<Rightarrow> mqtt_state" where
  "change_session k f s = s\<lparr>ms_sessions := map (\<lambda>ss. if ss_id ss = k then f ss else ss) (ms_sessions s)\<rparr>"

definition end_session :: "nat \<Rightarrow> mqtt_state \<Rightarrow> mqtt_state" where
  "end_session k s = s\<lparr>ms_sessions := filter (\<lambda>ss. ss_id ss \<noteq> k) (ms_sessions s)\<rparr>"

definition find_session :: "nat \<Rightarrow> mqtt_state \<Rightarrow> session option" where
  "find_session k s = find (\<lambda>ss. ss_id ss = k) (ms_sessions s)"

definition broker_subscribe :: "nat \<Rightarrow> pystr \<Rightarrow> mqtt_state \<Rightarrow> mqtt_state" where
  "broker_subscribe k f s = change_session k (\<lambda>ss. ss\<lparr>ss_filters := ss_filters ss @ [f],
     ss_inbox := ss_inbox ss @ filter (\<lambda>(t, p). topic_match f t) (ms_retained s)\<rparr>) s"

definition broker_drop :: "nat \<Rightarrow> mqtt_state \<Rightarrow> mqtt_state" where
  "broker_drop k s = (case (case find_session k s of None \<Rightarrow> None | Some ss \<Rightarrow> ss_will ss) of
      None \<Rightarrow> end_session k s
    | Some w \<Rightarrow> (case utf8 (wl_payload w) of
        None \<Rightarrow> end_session k s
      | Some bs \<Rightarrow> broker_publish (wl_topic w) bs (wl_retain w) (end_session k s)))"

definition mqtt_broker :: "mqtt_state broker" where
  "mqtt_broker = \<lparr>
     bo_connect = (\<lambda>w s. (Inr (ms_ids s), s\<lparr>ms_ids := ms_ids s + 1, ms_sessions := ms_sessions s @
        [\<lparr>ss_id = ms_ids s, ss_filters = [], ss_inbox = [], ss_will = w\<rparr>]\<rparr>)),
     bo_disconnect = (\<lambda>k s. (Inr (), end_session k s)),
     bo_drop = (\<lambda>k s. (Inr (), broker_drop k s)),
     bo_subscribe = (\<lambda>k f qos s. (Inr (), broker_subscribe k f s)),
     bo_publish = (\<lambda>k t p qos retain s. (Inr (), broker_publish t p retain s)),
     bo_read = (\<lambda>k timeout s. (Inr (case find_session k s of None \<Rightarrow> [] | Some ss \<Rightarrow> ss_inbox ss),
        change_session k (\<lambda>ss. ss\<lparr>ss_inbox := []\<rparr>) s)),
     bo_uuid = (\<lambda>s. (Inr (ms_uuids s (ms_drawn s)), s\<lparr>ms_drawn := ms_drawn s + 1\<rparr>))\<rparr>"

subsection \<open>Brokers that behave like another\<close>

definition same_runs :: "('b \<Rightarrow> 'c \<Rightarrow> bool) \<Rightarrow> ('b, exc, 'a) comp \<Rightarrow> ('c, exc, 'a) comp \<Rightarrow> bool" where
  "same_runs R m n = (\<forall>s t. R s t \<longrightarrow> fst (m s) = fst (n t) \<and> R (snd (m s)) (snd (n t)))"

definition behaves_like :: "('b \<Rightarrow> 'c \<Rightarrow> bool) \<Rightarrow> 'b broker \<Rightarrow> 'c broker \<Rightarrow> bool" where
  "behaves_like R b c = ((\<forall>w. same_runs R (bo_connect b w) (bo_connect c w))
     \<and> (\<forall>k. same_runs R (bo_disconnect b k) (bo_disconnect c k))
     \<and> (\<forall>k. same_runs R (bo_drop b k) (bo_drop c k))
     \<and> (\<forall>k f q. same_runs R (bo_subscribe b k f q) (bo_subscribe c k f q))
     \<and> (\<forall>k t p q r. same_runs R (bo_publish b k t p q r) (bo_publish c k t p q r))
     \<and> (\<forall>k i. same_runs R (bo_read b k i) (bo_read c k i))
     \<and> same_runs R (bo_uuid b) (bo_uuid c))"

named_theorems same_intros \<open>parts that run the same over two brokers\<close>

lemma same_liftE [same_intros]: "same_runs R (liftE r) (liftE r)" "same_runs R (Pair r) (Pair r)"
  by (simp_all add: same_runs_def)

lemma same_bindS [same_intros]:
  assumes "same_runs R m n" "\<And>a. same_runs R (f a) (g a)"
  shows "same_runs R (bindS m f) (bindS n g)"
  unfolding same_runs_def
proof (intro allI impI)
  fix s t
  assume r: "R s t"
  obtain x s' y t' where e: "m s = (x, s')" "n t = (y, t')" by (metis surj_pair)
  then have "x = y" "R s' t'" using assms(1) r unfolding same_runs_def by (metis fst_conv snd_conv)+
  then show "fst (bindS m f s) = fst (bindS n g t) \<and> R (snd (bindS m f s)) (snd (bindS n g t))"
    using e assms(2) unfolding same_runs_def bindS_def by (cases y) auto
qed

lemma same_finallyS [same_intros]:
  assumes "same_runs R m n" "same_runs R f g"
  shows "same_runs R (finallyS m f) (finallyS n g)"
  unfolding same_runs_def
proof (intro allI impI)
  fix s t
  assume r: "R s t"
  obtain x s' y t' where e: "m s = (x, s')" "n t = (y, t')" by (metis surj_pair)
  then have xy: "x = y" "R s' t'" using assms(1) r unfolding same_runs_def by (metis fst_conv snd_conv)+
  obtain u s2 v t2 where e2: "f s' = (u, s2)" "g t' = (v, t2)" by (metis surj_pair)
  then have "u = v" "R s2 t2" using assms(2) xy(2) unfolding same_runs_def by (metis fst_conv snd_conv)+
  then show "fst (finallyS m f s) = fst (finallyS n g t) \<and> R (snd (finallyS m f s)) (snd (finallyS n g t))"
    using e e2 xy by (auto simp: finallyS_def split: sum.splits)
qed

lemma same_catchS [same_intros]:
  assumes "same_runs R m n"
  shows "same_runs R (catchS m h) (catchS n h)"
  unfolding same_runs_def
proof (intro allI impI)
  fix s t
  assume r: "R s t"
  obtain x s' y t' where e: "m s = (x, s')" "n t = (y, t')" by (metis surj_pair)
  then have "x = y" "R s' t'" using assms r unfolding same_runs_def by (metis fst_conv snd_conv)+
  then show "fst (catchS m h s) = fst (catchS n h t) \<and> R (snd (catchS m h s)) (snd (catchS n h t))"
    using e by (auto simp: catchS_def split: sum.splits)
qed

lemma same_operations [same_intros]:
  assumes "behaves_like R b c"
  shows "same_runs R (bo_connect b w) (bo_connect c w)" "same_runs R (bo_disconnect b k) (bo_disconnect c k)"
    "same_runs R (bo_drop b k) (bo_drop c k)" "same_runs R (bo_subscribe b k f q) (bo_subscribe c k f q)"
    "same_runs R (bo_publish b k t p q r) (bo_publish c k t p q r)" "same_runs R (bo_read b k i) (bo_read c k i)"
    "same_runs R (bo_uuid b) (bo_uuid c)"
  using assms unfolding behaves_like_def by blast+

lemma same_parts [same_intros]:
  assumes "behaves_like R b c"
  shows "(\<And>k. same_runs R (f k) (g k)) \<Longrightarrow> same_runs R (with_client b w f) (with_client c w g)"
    "same_runs R (publish_text b k t x q r) (publish_text c k t x q r)"
    "same_runs R (read_all b k i) (read_all c k i)" "same_runs R (unique b x) (unique c x)"
  unfolding with_client_def publish_text_def read_all_def unique_def
  by (auto intro!: same_intros assms split: option.splits)

lemma same_publish_retained [same_intros]:
  assumes "behaves_like R b c"
  shows "same_runs R (publish_retained b ps) (publish_retained c ps)"
proof -
  have "same_runs R
      (foldr (\<lambda>(topic, payload) rest. bindS (publish_text b k topic payload 1 True) (\<lambda>_. rest)) ps (liftE (Inr ())))
      (foldr (\<lambda>(topic, payload) rest. bindS (publish_text c k topic payload 1 True) (\<lambda>_. rest)) ps (liftE (Inr ())))" for k
    by (induction ps) (auto intro!: same_intros assms)
  then show ?thesis unfolding publish_retained_def by (intro same_intros assms)
qed

lemma same_read_topic [same_intros]:
  "behaves_like R b c \<Longrightarrow> same_runs R (read_topic b t i) (read_topic c t i)"
  unfolding read_topic_def by (intro same_intros)

lemma same_checks [same_intros]:
  assumes "behaves_like R b c"
  shows "same_runs R (check_connection_and_qos b) (check_connection_and_qos c)"
    "same_runs R (check_retained_late_subscriber b) (check_retained_late_subscriber c)"
    "same_runs R (check_retained_survives_reconnect b) (check_retained_survives_reconnect c)"
    "same_runs R (check_retained_filter_isolation b) (check_retained_filter_isolation c)"
    "same_runs R (check_retained_wildcard_matches b) (check_retained_wildcard_matches c)"
    "same_runs R (check_retained_cleared b) (check_retained_cleared c)"
    "same_runs R (check_lwt b) (check_lwt c)"
  unfolding check_connection_and_qos_def check_retained_late_subscriber_def
    check_retained_survives_reconnect_def check_retained_filter_isolation_def
    check_retained_wildcard_matches_def check_retained_cleared_def check_lwt_def Let_def
  by (auto intro!: same_intros assms)

lemma same_run_checks: "behaves_like R b c \<Longrightarrow> same_runs R (run_checks b) (run_checks c)"
  unfolding run_checks_def foldr.simps comp_def id_def by (intro same_intros)

subsection \<open>The checks over the documented broker\<close>

text \<open>A topic of the checks: its levels are no wildcards.\<close>

definition plain_topic :: "pystr \<Rightarrow> bool" where
  "plain_topic t = list_all (\<lambda>l. l \<noteq> py ''+'' \<and> l \<noteq> py ''#'') (py_split 47 t)"

lemma level_match_plain:
  "list_all (\<lambda>l. l \<noteq> py ''+'' \<and> l \<noteq> py ''#'') fs \<Longrightarrow> level_match fs ts \<longleftrightarrow> fs = ts"
  by (induction fs ts rule: level_match.induct) auto

lemma topic_match_plain: "plain_topic f \<Longrightarrow> topic_match f t \<longleftrightarrow> f = t"
  unfolding topic_match_def plain_topic_def by (metis level_match_plain py_join_split)

definition check_topic :: "pystr \<Rightarrow> pystr \<Rightarrow> pystr" where
  "check_topic prefix tag = py ''validate/'' @ prefix @ py ''/'' @ tag"

lemma hex_no_slash: "list_all is_hex t \<Longrightarrow> 47 \<notin> set t"
  by (auto simp: list_all_iff is_hex_def hex_val_def split: if_splits)

lemma hex_no_wildcard: "list_all is_hex t \<Longrightarrow> t \<noteq> py ''+'' \<and> t \<noteq> py ''#''"
  by (auto simp: py_def is_hex_def hex_val_def)

lemma split_check_topic:
  assumes "47 \<notin> set prefix" "list_all is_hex tag"
  shows "py_split 47 (check_topic prefix tag) = [py ''validate'', prefix, tag]"
proof -
  have e: "check_topic prefix tag = py ''validate'' @ 47 # prefix @ 47 # tag"
    by (simp add: check_topic_def py_def)
  have "47 \<notin> set (py ''validate'')" by (simp add: py_def)
  then show ?thesis
    unfolding e using assms hex_no_slash by (simp add: py_split_append_sep py_split_no_sep)
qed

lemma plain_check_topic:
  assumes "47 \<notin> set prefix" "prefix \<noteq> py ''+''" "prefix \<noteq> py ''#''" "list_all is_hex tag"
  shows "plain_topic (check_topic prefix tag)"
  using assms hex_no_wildcard by (simp add: plain_topic_def split_check_topic)

lemma filter_key:
  "dict_ok d \<Longrightarrow> filter (\<lambda>(t, p). f = t) d = (case dict_get d f of None \<Rightarrow> [] | Some v \<Rightarrow> [(f, v)])"
  by (induction d) (auto simp: dict_ok_def dict_get_def filter_empty_conv image_iff split: option.splits)

text \<open>A broker with no session open, after \<open>i\<close> connections and \<open>d\<close> draws.\<close>

definition idle_broker :: "(nat \<Rightarrow> pystr) \<Rightarrow> (pystr, bytes) dict \<Rightarrow> nat \<Rightarrow> nat \<Rightarrow> mqtt_state" where
  "idle_broker uuids retained i d = \<lparr>ms_retained = retained, ms_sessions = [], ms_ids = i,
     ms_uuids = uuids, ms_drawn = d\<rparr>"

lemma documented_operations:
  "bo_connect mqtt_broker w s = (Inr (ms_ids s), s\<lparr>ms_ids := ms_ids s + 1, ms_sessions := ms_sessions s @
     [\<lparr>ss_id = ms_ids s, ss_filters = [], ss_inbox = [], ss_will = w\<rparr>]\<rparr>)"
  "bo_disconnect mqtt_broker k s = (Inr (), end_session k s)"
  "bo_drop mqtt_broker k s = (Inr (), broker_drop k s)"
  "bo_subscribe mqtt_broker k f qos s = (Inr (), broker_subscribe k f s)"
  "bo_publish mqtt_broker k t p qos retain s = (Inr (), broker_publish t p retain s)"
  "bo_read mqtt_broker k timeout s = (Inr (case find_session k s of None \<Rightarrow> [] | Some ss \<Rightarrow> ss_inbox ss),
     change_session k (\<lambda>ss. ss\<lparr>ss_inbox := []\<rparr>) s)"
  "bo_uuid mqtt_broker s = (Inr (ms_uuids s (ms_drawn s)), s\<lparr>ms_drawn := ms_drawn s + 1\<rparr>)"
  by (simp_all add: mqtt_broker_def)

lemmas broker_run = with_client_def finallyS_def catchS_def bindS_def publish_text_def read_all_def
  documented_operations idle_broker_def broker_publish_def broker_subscribe_def change_session_def
  end_session_def find_session_def deliver_def retain_message_def

lemma documented_unique:
  "unique mqtt_broker x (idle_broker u r i d) = (Inr (check_topic x (take 10 (u d))), idle_broker u r i (Suc d))"
  by (simp add: unique_def documented_operations idle_broker_def bindS_def check_topic_def)

lemma documented_read_topic:
  assumes "mapE (\<lambda>(topic, bs). map_sum id (Pair topic) (decode_strict bs)) (filter (\<lambda>(t, p). topic_match f t) r) = Inr ms"
  shows "read_topic mqtt_broker f time (idle_broker u r i d) = (Inr ms, idle_broker u r (Suc i) d)"
  using assms by (simp add: read_topic_def broker_run)

fun retain_all :: "(pystr \<times> pystr) list \<Rightarrow> (pystr, bytes) dict \<Rightarrow> (pystr, bytes) dict" where
  "retain_all [] r = r"
| "retain_all ((t, p) # ps) r = retain_all ps (retain_message t (map word_of_nat p) r)"

lemma documented_publish_retained:
  assumes "list_all (\<lambda>(t, p). list_all (\<lambda>c. c < 128) p) ps"
  shows "publish_retained mqtt_broker ps (idle_broker u r i d) = (Inr (), idle_broker u (retain_all ps r) (Suc i) d)"
proof -
  have "foldr (\<lambda>(topic, payload) rest. bindS (publish_text mqtt_broker k topic payload 1 True) (\<lambda>_. rest)) ps
      (liftE (Inr ())) \<lparr>ms_retained = r, ms_sessions = [\<lparr>ss_id = i, ss_filters = [], ss_inbox = [], ss_will = None\<rparr>],
        ms_ids = Suc i, ms_uuids = u, ms_drawn = d\<rparr>
    = (Inr (), \<lparr>ms_retained = retain_all ps r, ms_sessions = [\<lparr>ss_id = i, ss_filters = [], ss_inbox = [], ss_will = None\<rparr>],
        ms_ids = Suc i, ms_uuids = u, ms_drawn = d\<rparr>)" for k
    using assms
  proof (induction ps arbitrary: r)
    case (Cons x ps)
    obtain t p where x: "x = (t, p)" by (cases x)
    have "utf8 p = Some (map word_of_nat p)" using Cons.prems x by (simp add: utf8_ascii)
    then show ?case using Cons by (simp add: x broker_run)
  qed simp
  then show ?thesis by (simp add: publish_retained_def with_client_def documented_operations idle_broker_def
        bindS_def finallyS_def end_session_def)
qed

lemma decode_ascii: "list_all (\<lambda>c. c < 128) s \<Longrightarrow> decode_strict (map word_of_nat s) = Inr s"
proof -
  assume a: "list_all (\<lambda>c. c < 128) s"
  have "list_all (\<lambda>c. c < 1114112) s" using a by (auto simp: list_all_iff)
  then have "decode_utf8 (map word_of_nat s) = s" using utf8_ascii [OF a] decode_encode by blast
  then show ?thesis using utf8_ascii [OF a] by (simp add: decode_strict_def)
qed

lemma documented_read_plain:
  assumes "plain_topic f" "dict_ok r"
  shows "dict_get r f = None \<Longrightarrow> read_topic mqtt_broker f time (idle_broker u r i d) = (Inr [], idle_broker u r (Suc i) d)"
    "dict_get r f = Some (map word_of_nat s) \<Longrightarrow> list_all (\<lambda>c. c < 128) s \<Longrightarrow>
      read_topic mqtt_broker f time (idle_broker u r i d) = (Inr [(f, s)], idle_broker u r (Suc i) d)"
  by (rule documented_read_topic, simp add: topic_match_plain [OF assms(1)] filter_key [OF assms(2)] decode_ascii)+

lemma dict_set_new: "dict_get d k = None \<Longrightarrow> dict_set d k v = d @ [(k, v)]"
  by (induction d) (auto simp: dict_set_def dict_get_def split: if_splits)

text \<open>The topic of a check, from the draw it makes.\<close>

abbreviation drawn :: "(nat \<Rightarrow> pystr) \<Rightarrow> string \<Rightarrow> nat \<Rightarrow> pystr" where
  "drawn u x d \<equiv> check_topic (py x) (take 10 (u d))"

lemma plain_drawn:
  assumes "\<forall>i. list_all is_hex (u i)" "47 \<notin> set (py x)" "x \<noteq> ''+''" "x \<noteq> ''#''"
  shows "plain_topic (drawn u x d)"
  using assms by (intro plain_check_topic) (auto simp: list_all_iff dest: in_set_takeD)

lemma run_connection:
  assumes "\<forall>i. list_all is_hex (u i)"
  shows "check_connection_and_qos mqtt_broker (idle_broker u [] i d)
    = (Inr [(py ''connection over TCP'', True), (py ''QoS 0 + QoS 1 publish/subscribe'', True)],
       idle_broker u [] (Suc (Suc (Suc i))) (Suc d))"
proof -
  define f where "f = drawn u ''qos'' d"
  have m: "topic_match f f" unfolding f_def
    by (subst topic_match_plain, rule plain_drawn [OF assms]) (simp_all add: py_def)
  have a: "list_all (\<lambda>c. c < 128) (py ''q0'')" "list_all (\<lambda>c. c < 128) (py ''q1'')" by (simp_all add: py_def)
  note e = utf8_ascii [OF a(1)] utf8_ascii [OF a(2)] decode_ascii [OF a(1)] decode_ascii [OF a(2)]
  have connect: "catchS (with_client mqtt_broker None (\<lambda>k. liftE (Inr True))) False (idle_broker u [] i d)
      = (Inr True, idle_broker u [] (Suc i) d)"
    by (simp add: broker_run)
  define open_at where "open_at filters inbox n = \<lparr>ms_retained = [],
     ms_sessions = [\<lparr>ss_id = Suc i, ss_filters = filters, ss_inbox = inbox, ss_will = None\<rparr>],
     ms_ids = n, ms_uuids = u, ms_drawn = Suc d\<rparr>" for filters inbox n
  let ?pub = "with_client mqtt_broker None (\<lambda>pub.
      bindS (publish_text mqtt_broker pub f (py ''q0'') 0 False) (\<lambda>_. publish_text mqtt_broker pub f (py ''q1'') 1 False))"
  have pub: "?pub (open_at [f] [] (Suc (Suc i)))
      = (Inr (), open_at [f] [(f, map word_of_nat (py ''q0'')), (f, map word_of_nat (py ''q1''))] (Suc (Suc (Suc i))))"
    by (simp add: broker_run m e open_at_def)
  have subscribe: "bo_subscribe mqtt_broker (Suc i) f 1 (open_at [] [] n) = (Inr (), open_at [f] [] n)" for n
    by (simp add: broker_run open_at_def)
  have read: "read_all mqtt_broker (Suc i) 1200 (open_at [f] [(f, map word_of_nat (py ''q0'')), (f, map word_of_nat (py ''q1''))] n)
      = (Inr [(f, py ''q0''), (f, py ''q1'')], open_at [f] [] n)" for n
    by (simp add: broker_run open_at_def e)
  have connect2: "bo_connect mqtt_broker None (idle_broker u [] (Suc i) (Suc d)) = (Inr (Suc i), open_at [] [] (Suc (Suc i)))"
    by (simp add: broker_run open_at_def)
  have close: "bo_disconnect mqtt_broker (Suc i) (open_at [f] [] n) = (Inr (), idle_broker u [] n (Suc d))" for n
    by (simp add: broker_run open_at_def)
  have body: "with_client mqtt_broker None (\<lambda>sub.
          bindS (bo_subscribe mqtt_broker sub f 1) (\<lambda>_. bindS ?pub (\<lambda>_. read_all mqtt_broker sub 1200)))
        (idle_broker u [] (Suc i) (Suc d))
      = (Inr [(f, py ''q0''), (f, py ''q1'')], idle_broker u [] (Suc (Suc (Suc i))) (Suc d))"
    unfolding with_client_def [of mqtt_broker None "\<lambda>sub. bindS (bo_subscribe mqtt_broker sub f 1) (\<lambda>_. bindS ?pub (\<lambda>_. read_all mqtt_broker sub 1200))"]
      bindS_def
    by (simp add: connect2 subscribe pub [unfolded bindS_def] read close finallyS_def)
  show ?thesis
    unfolding check_connection_and_qos_def bindS_def [of "catchS _ _"] prod.case sum.case connect
    by (simp add: bindS_def [of "unique _ _"] documented_unique f_def [symmetric]
        bindS_def [of "with_client _ _ _"] body)
qed

lemma run_late:
  assumes "\<forall>i. list_all is_hex (u i)" "dict_ok r"
  shows "check_retained_late_subscriber mqtt_broker (idle_broker u r i d)
    = (Inr [(py ''retained delivered to late subscriber'', True)],
       idle_broker u (dict_set r (drawn u ''retained'' d) (map word_of_nat (py ''retained-value''))) (Suc (Suc i)) (Suc d))"
proof -
  have p: "plain_topic (drawn u ''retained'' d)" by (rule plain_drawn [OF assms(1)]) (simp_all add: py_def)
  have a: "list_all (\<lambda>c. c < 128) (py ''retained-value'')" by (simp add: py_def)
  show ?thesis
    using documented_read_plain(2) [OF p dict_ok_set [OF assms(2)]] a
    by (simp add: check_retained_late_subscriber_def bindS_def documented_unique
        documented_publish_retained retain_message_def)
qed

lemma run_reconnect:
  assumes "\<forall>i. list_all is_hex (u i)" "dict_ok r"
  shows "check_retained_survives_reconnect mqtt_broker (idle_broker u r i d)
    = (Inr [(py ''retained survives subscriber reconnect'', True)],
       idle_broker u (dict_set r (drawn u ''persist'' d) (map word_of_nat (py ''persisted''))) (Suc (Suc (Suc i))) (Suc d))"
proof -
  have p: "plain_topic (drawn u ''persist'' d)" by (rule plain_drawn [OF assms(1)]) (simp_all add: py_def)
  have a: "list_all (\<lambda>c. c < 128) (py ''persisted'')" by (simp add: py_def)
  show ?thesis
    using documented_read_plain(2) [OF p dict_ok_set [OF assms(2)]] a
    by (simp add: check_retained_survives_reconnect_def bindS_def documented_unique
        documented_publish_retained retain_message_def)
qed

lemma check_topic_eq: "check_topic p s = check_topic q t \<longleftrightarrow> p @ py ''/'' @ s = q @ py ''/'' @ t"
  by (simp add: check_topic_def)

lemma run_isolation:
  assumes "\<forall>i. list_all is_hex (u i)" "dict_ok r" "dict_get r (drawn u ''iso-c'' (Suc (Suc d))) = None"
  shows "\<exists>r'. check_retained_filter_isolation mqtt_broker (idle_broker u r i d)
      = (Inr [(py ''retained delivery respects subscription filter'', True)],
         idle_broker u r' (Suc (Suc (Suc (Suc i)))) (Suc (Suc (Suc d))))
    \<and> r' = dict_set (dict_set r (drawn u ''iso-a'' d) (map word_of_nat (py ''PAYLOAD-A'')))
        (drawn u ''iso-b'' (Suc d)) (map word_of_nat (py ''PAYLOAD-B''))"
proof -
  have p: "plain_topic (drawn u ''iso-a'' d)" "plain_topic (drawn u ''iso-b'' d)" "plain_topic (drawn u ''iso-c'' d)" for d
    by (rule plain_drawn [OF assms(1)]; simp add: py_def)+
  have a: "list_all (\<lambda>c. c < 128) (py ''PAYLOAD-A'')" "list_all (\<lambda>c. c < 128) (py ''PAYLOAD-B'')"
    by (simp_all add: py_def)
  have ne: "drawn u ''iso-a'' j = drawn u ''iso-b'' k \<longleftrightarrow> False" "drawn u ''iso-b'' k = drawn u ''iso-a'' j \<longleftrightarrow> False"
    "drawn u ''iso-a'' j = drawn u ''iso-c'' k \<longleftrightarrow> False" "drawn u ''iso-c'' k = drawn u ''iso-a'' j \<longleftrightarrow> False"
    "drawn u ''iso-c'' k = drawn u ''iso-b'' j \<longleftrightarrow> False"
    "drawn u ''iso-b'' j = drawn u ''iso-c'' k \<longleftrightarrow> False" for j k
    by (simp_all add: check_topic_eq py_def)
  define r' where "r' = dict_set (dict_set r (drawn u ''iso-a'' d) (map word_of_nat (py ''PAYLOAD-A'')))
        (drawn u ''iso-b'' (Suc d)) (map word_of_nat (py ''PAYLOAD-B''))"
  have ok: "dict_ok r'" unfolding r'_def by (intro dict_ok_set assms(2))
  have g: "dict_get r' (drawn u ''iso-b'' (Suc d)) = Some (map word_of_nat (py ''PAYLOAD-B''))"
    "dict_get r' (drawn u ''iso-a'' d) = Some (map word_of_nat (py ''PAYLOAD-A''))"
    "dict_get r' (drawn u ''iso-c'' (Suc (Suc d))) = None"
    using assms(3) by (simp_all add: r'_def ne)
  have publish: "publish_retained mqtt_broker
      [(drawn u ''iso-a'' d, py ''PAYLOAD-A''), (drawn u ''iso-b'' (Suc d), py ''PAYLOAD-B'')] (idle_broker u r i k)
    = (Inr (), idle_broker u r' (Suc i) k)" for k
    using a by (simp add: documented_publish_retained retain_message_def r'_def)
  show ?thesis
    unfolding r'_def [symmetric] check_retained_filter_isolation_def bindS_def
    by (simp add: documented_unique publish documented_read_plain(2) [OF p(2) ok g(1) a(2)]
        documented_read_plain(2) [OF p(1) ok g(2) a(1)] documented_read_plain(1) [OF p(3) ok g(3)])
qed

lemma run_cleared:
  assumes "\<forall>i. list_all is_hex (u i)" "dict_ok r"
  shows "check_retained_cleared mqtt_broker (idle_broker u r i d)
    = (Inr [(py ''empty retained payload clears the topic'', True)],
       idle_broker u (dict_del (dict_set r (drawn u ''clear'' d) (map word_of_nat (py ''temp''))) (drawn u ''clear'' d))
         (Suc (Suc (Suc i))) (Suc d))"
proof -
  have p: "plain_topic (drawn u ''clear'' d)" by (rule plain_drawn [OF assms(1)]) (simp_all add: py_def)
  have a: "list_all (\<lambda>c. c < 128) (py ''temp'')" by (simp add: py_def)
  have ok: "dict_ok (dict_del (dict_set r (drawn u ''clear'' d) (map word_of_nat (py ''temp''))) (drawn u ''clear'' d))"
    by (intro dict_ok_del dict_ok_set assms(2))
  show ?thesis
    using documented_read_plain(1) [OF p ok] a
    by (simp add: check_retained_cleared_def bindS_def documented_unique documented_publish_retained retain_message_def)
qed

text \<open>The topics of the wildcard check, by the node they name.\<close>

definition wild_topic :: "pystr \<Rightarrow> pystr \<Rightarrow> pystr" where
  "wild_topic tag x = py ''validate/wild/'' @ tag @ py ''/'' @ x @ py ''/state''"

lemma wild_topic_split:
  assumes "47 \<notin> set tag" "47 \<notin> set x"
  shows "py_split 47 (wild_topic tag x) = [py ''validate'', py ''wild'', tag, x, py ''state'']"
proof -
  have e: "wild_topic tag x = py ''validate'' @ 47 # py ''wild'' @ 47 # tag @ 47 # x @ 47 # py ''state''"
    by (simp add: wild_topic_def py_def)
  have w: "47 \<notin> set (py ''validate'')" "47 \<notin> set (py ''wild'')" "47 \<notin> set (py ''state'')"
    by (simp_all add: py_def)
  show ?thesis unfolding e using w assms by (simp add: py_split_append_sep py_split_no_sep)
qed

lemma wild_topics:
  "py ''validate/wild/'' @ tag @ py ''/GATE-001/state'' = wild_topic tag (py ''GATE-001'')"
  "py ''validate/wild/'' @ tag @ py ''/HOUSE-001/state'' = wild_topic tag (py ''HOUSE-001'')"
  "py ''validate/wild/'' @ tag @ py ''/+/state'' = wild_topic tag (py ''+'')"
  by (simp_all add: wild_topic_def py_def)

lemma no_slash: "47 \<notin> set (py ''GATE-001'')" "47 \<notin> set (py ''HOUSE-001'')" "47 \<notin> set (py ''+'')"
  by (simp_all add: py_def)

lemma wild_topic_match:
  assumes "47 \<notin> set tag"
  shows "topic_match (wild_topic tag (py ''+'')) (wild_topic tag (py ''GATE-001''))"
    "topic_match (wild_topic tag (py ''+'')) (wild_topic tag (py ''HOUSE-001''))"
    "length (py_split 47 t) = 3 \<Longrightarrow> \<not> topic_match (wild_topic tag (py ''+'')) t"
  by (auto simp: topic_match_def wild_topic_split assms no_slash length_Suc_conv numeral_3_eq_3)

lemma run_wildcard:
  assumes "\<forall>i. list_all is_hex (u i)" "list_all (\<lambda>(t, p). length (py_split 47 t) = 3) r"
  shows "\<exists>r'. check_retained_wildcard_matches mqtt_broker (idle_broker u r i d)
      = (Inr [(py ''retained respects '' @ [39, 43, 39] @ py '' wildcard'', True)], idle_broker u r' (Suc (Suc i)) (Suc d))
    \<and> r' = dict_set (dict_set r (py ''validate/wild/'' @ take 10 (u d) @ py ''/GATE-001/state'') (map word_of_nat (py ''A'')))
         (py ''validate/wild/'' @ take 10 (u d) @ py ''/HOUSE-001/state'') (map word_of_nat (py ''B''))"
proof -
  define tag where "tag = take 10 (u d)"
  have tag: "47 \<notin> set tag"
    using assms(1) hex_no_slash [of "u d"] by (auto simp: tag_def dest: in_set_takeD)
  define wild where "wild = wild_topic tag"
  note topics = wild_topics [of tag, folded wild_def] and match = wild_topic_match [OF tag, folded wild_def]
  have new: "dict_get r (wild x) = None" if "47 \<notin> set x" for x
    using assms(2) wild_topic_split [OF tag that, folded wild_def] by (force simp: dict_get_None_iff dict_keys_def list_all_iff)
  have ne: "wild (py ''GATE-001'') \<noteq> wild (py ''HOUSE-001'')" by (simp add: wild_def wild_topic_def py_def)
  define r' where "r' = r @ [(wild (py ''GATE-001''), map word_of_nat (py ''A'')), (wild (py ''HOUSE-001''), map word_of_nat (py ''B''))]"
  have a: "list_all (\<lambda>c. c < 128) (py ''A'')" "list_all (\<lambda>c. c < 128) (py ''B'')" by (simp_all add: py_def)
  have "dict_get (r @ [(wild (py ''GATE-001''), v)]) (wild (py ''HOUSE-001'')) = None" for v
    using ne new [OF no_slash(2)] by (simp add: dict_get_def map_add_def)
  then have sets: "dict_set (dict_set r (wild (py ''GATE-001'')) (map word_of_nat (py ''A'')))
      (wild (py ''HOUSE-001'')) (map word_of_nat (py ''B'')) = r'"
    using new [OF no_slash(1)] by (simp add: r'_def dict_set_new)
  have publish: "publish_retained mqtt_broker
      [(wild (py ''GATE-001''), py ''A''), (wild (py ''HOUSE-001''), py ''B'')] (idle_broker u r i k)
    = (Inr (), idle_broker u r' (Suc i) k)" for k
    using a by (simp add: documented_publish_retained retain_message_def sets)
  have "filter (\<lambda>(t, p). topic_match (wild (py ''+'')) t) r = []"
    using assms(2) match(3) by (auto simp: filter_empty_conv list_all_iff)
  then have "filter (\<lambda>(t, p). topic_match (wild (py ''+'')) t) r'
      = [(wild (py ''GATE-001''), map word_of_nat (py ''A'')), (wild (py ''HOUSE-001''), map word_of_nat (py ''B''))]"
    by (simp add: r'_def match(1,2))
  then have read: "read_topic mqtt_broker (wild (py ''+'')) time (idle_broker u r' i k)
      = (Inr [(wild (py ''GATE-001''), py ''A''), (wild (py ''HOUSE-001''), py ''B'')], idle_broker u r' (Suc i) k)" for time i k
    by (intro documented_read_topic) (simp add: decode_ascii a)
  have draw: "bo_uuid mqtt_broker (idle_broker u r i d) = (Inr (u d), idle_broker u r i (Suc d))"
    by (simp add: documented_operations idle_broker_def)
  show ?thesis
    unfolding check_retained_wildcard_matches_def bindS_def draw Let_def tag_def [symmetric] topics sets
    by (simp add: tag_def [symmetric] topics publish read draw)
qed

lemma run_lwt:
  assumes "\<forall>i. list_all is_hex (u i)" "dict_ok r" "dict_get r (drawn u ''lwt'' d) = None"
  shows "\<exists>s. check_lwt mqtt_broker (idle_broker u r i d) = (Inr [(py ''LWT fires on unclean disconnect'', True)], s)"
proof -
  define f where "f = drawn u ''lwt'' d"
  have p: "plain_topic f" unfolding f_def by (rule plain_drawn [OF assms(1)]) (simp_all add: py_def)
  then have m: "topic_match f t \<longleftrightarrow> f = t" for t by (rule topic_match_plain)
  have none: "filter (\<lambda>(t, p). f = t) r = []" using filter_key [OF assms(2), of f] assms(3) by (simp add: f_def)
  have a: "list_all (\<lambda>c. c < 128) (py ''online'')" "list_all (\<lambda>c. c < 128) (py ''offline'')" by (simp_all add: py_def)
  note e = utf8_ascii [OF a(1)] utf8_ascii [OF a(2)] decode_ascii [OF a(1)] decode_ascii [OF a(2)]
  let ?will = "Some \<lparr>wl_topic = f, wl_payload = py ''offline'', wl_qos = 1, wl_retain = True\<rparr>"
  define at where "at r filters inbox others n = \<lparr>ms_retained = r,
     ms_sessions = \<lparr>ss_id = i, ss_filters = filters, ss_inbox = inbox, ss_will = None\<rparr> # others,
     ms_ids = n, ms_uuids = u, ms_drawn = Suc d\<rparr>" for r filters inbox others n
  define victim where "victim = [\<lparr>ss_id = Suc i, ss_filters = [], ss_inbox = [], ss_will = ?will\<rparr>]"
  have s1: "bo_connect mqtt_broker None (idle_broker u r i (Suc d)) = (Inr i, at r [] [] [] (Suc i))"
    by (simp add: broker_run at_def)
  have s2: "bo_subscribe mqtt_broker i f 1 (at r [] [] [] (Suc i)) = (Inr (), at r [f] [] [] (Suc i))"
    by (simp add: broker_run at_def m none)
  have s3: "bo_connect mqtt_broker ?will (at r [f] [] [] (Suc i)) = (Inr (Suc i), at r [f] [] victim (Suc (Suc i)))"
    by (simp add: broker_run at_def victim_def)
  have s4: "publish_text mqtt_broker (Suc i) f (py ''online'') 1 False (at r [f] [] victim n)
      = (Inr (), at r [f] [(f, map word_of_nat (py ''online''))] victim n)" for n
    by (simp add: broker_run at_def victim_def e m)
  have s5: "\<exists>r'. bo_drop mqtt_broker (Suc i) (at r [f] [(f, map word_of_nat (py ''online''))] victim n)
      = (Inr (), at r' [f] [(f, map word_of_nat (py ''online'')), (f, map word_of_nat (py ''offline''))] [] n)" for n
    by (simp add: broker_run broker_drop_def at_def victim_def e m)
  obtain r' where s5: "bo_drop mqtt_broker (Suc i) (at r [f] [(f, map word_of_nat (py ''online''))] victim (Suc (Suc i)))
      = (Inr (), at r' [f] [(f, map word_of_nat (py ''online'')), (f, map word_of_nat (py ''offline''))] [] (Suc (Suc i)))"
    using s5 by blast
  have s6: "read_all mqtt_broker i 5000 (at r' [f] [(f, map word_of_nat (py ''online'')), (f, map word_of_nat (py ''offline''))] [] n)
      = (Inr [(f, py ''online''), (f, py ''offline'')], at r' [f] [] [] n)" for n
    by (simp add: broker_run at_def e)
  have s7: "bo_disconnect mqtt_broker (Suc i) (at r' [f] [] [] n) = (Inr (), at r' [f] [] [] n)" for n
    by (simp add: broker_run at_def)
  have s8: "\<exists>s. bo_disconnect mqtt_broker i (at r' [f] [] [] n) = (Inr (), s)" for n
    by (simp add: broker_run at_def)
  then obtain s8 where s8: "bo_disconnect mqtt_broker i (at r' [f] [] [] (Suc (Suc i))) = (Inr (), s8)" by blast
  show ?thesis
    unfolding check_lwt_def bindS_def [of "unique _ _"] documented_unique f_def [symmetric] prod.case sum.case
    by (simp add: catchS_def bindS_def with_client_def finallyS_def s1 s2 s3 s4 s5 s6 s7 s8)
qed

subsection \<open>The whole run\<close>

lemma drawn_levels: "\<forall>i. list_all is_hex (u i) \<Longrightarrow> 47 \<notin> set (py x) \<Longrightarrow> length (py_split 47 (drawn u x d)) = 3"
  by (subst split_check_topic) (auto simp: list_all_iff dest: in_set_takeD)

lemma documented_passes:
  assumes "\<forall>i. list_all is_hex (u i)"
  shows "\<exists>results. fst (run_checks mqtt_broker (fresh_broker u)) = Inr results \<and> length results = 8 \<and> list_all snd results"
proof -
  define levels where "levels r = list_all (\<lambda>(t :: pystr, p :: bytes). length (py_split 47 t) = 3) r" for r
  have set: "levels r \<Longrightarrow> 47 \<notin> set (py x) \<Longrightarrow> levels (dict_set r (drawn u x d) v)" for r x d v
    unfolding levels_def by (rule list_all_dict_set) (simp_all add: drawn_levels [OF assms])
  have n: "47 \<notin> set (py ''retained'')" "47 \<notin> set (py ''persist'')" "47 \<notin> set (py ''iso-a'')" "47 \<notin> set (py ''iso-b'')"
    by (simp_all add: py_def)
  have start: "fresh_broker u = idle_broker u [] 0 0" by (simp add: fresh_broker_def idle_broker_def)
  define r2 where "r2 = dict_set [] (drawn u ''retained'' 1) (map word_of_nat (py ''retained-value'') :: bytes)"
  define r3 where "r3 = dict_set r2 (drawn u ''persist'' 2) (map word_of_nat (py ''persisted''))"
  define r4 where "r4 = dict_set (dict_set r3 (drawn u ''iso-a'' 3) (map word_of_nat (py ''PAYLOAD-A'')))
        (drawn u ''iso-b'' (Suc 3)) (map word_of_nat (py ''PAYLOAD-B''))"
  have ok: "dict_ok r2" "dict_ok r3" "dict_ok r4" unfolding r2_def r3_def r4_def by (intro dict_ok_set dict_ok_Nil)+
  have lv: "levels r4" unfolding r4_def r3_def r2_def by (intro set n) (simp add: levels_def)
  have iso: "dict_get r3 (drawn u ''iso-c'' (Suc (Suc 3))) = None"
    by (simp add: r3_def r2_def check_topic_eq py_def)
  define r5 where "r5 = dict_set (dict_set r4 (py ''validate/wild/'' @ take 10 (u 6) @ py ''/GATE-001/state'') (map word_of_nat (py ''A'')))
         (py ''validate/wild/'' @ take 10 (u 6) @ py ''/HOUSE-001/state'') (map word_of_nat (py ''B''))"
  define r6 where "r6 = dict_del (dict_set r5 (drawn u ''clear'' 7) (map word_of_nat (py ''temp''))) (drawn u ''clear'' 7)"
  have ok': "dict_ok r5" "dict_ok r6" unfolding r5_def r6_def by (intro dict_ok_set dict_ok_del ok(3))+
  have lwt: "dict_get r6 (drawn u ''lwt'' 8) = None"
    by (simp add: r6_def r5_def r4_def r3_def r2_def check_topic_eq) (simp add: check_topic_def py_def)
  have c2: "check_retained_late_subscriber mqtt_broker (idle_broker u [] i (Suc 0))
      = (Inr [(py ''retained delivered to late subscriber'', True)], idle_broker u r2 (Suc (Suc i)) 2)" for i
    using run_late [OF assms dict_ok_Nil, of i "Suc 0"] by (simp add: r2_def numeral_2_eq_2)
  have c3: "check_retained_survives_reconnect mqtt_broker (idle_broker u r2 i 2)
      = (Inr [(py ''retained survives subscriber reconnect'', True)], idle_broker u r3 (Suc (Suc (Suc i))) 3)" for i
    using run_reconnect [OF assms ok(1), of i 2] by (simp add: r3_def)
  have c4: "check_retained_filter_isolation mqtt_broker (idle_broker u r3 i 3)
      = (Inr [(py ''retained delivery respects subscription filter'', True)], idle_broker u r4 (Suc (Suc (Suc (Suc i)))) 6)" for i
    using run_isolation [OF assms ok(2) iso, of i] by (simp add: r4_def)
  have c5: "check_retained_wildcard_matches mqtt_broker (idle_broker u r4 i 6)
      = (Inr [(py ''retained respects '' @ [39, 43, 39] @ py '' wildcard'', True)], idle_broker u r5 (Suc (Suc i)) 7)" for i
    using run_wildcard [OF assms lv [unfolded levels_def], of i 6] by (simp add: r5_def)
  have c6: "check_retained_cleared mqtt_broker (idle_broker u r5 i 7)
      = (Inr [(py ''empty retained payload clears the topic'', True)], idle_broker u r6 (Suc (Suc (Suc i))) 8)" for i
    using run_cleared [OF assms ok'(1), of i 7] by (simp add: r6_def)
  obtain last where c7: "check_lwt mqtt_broker (idle_broker u r6 i 8)
      = (Inr [(py ''LWT fires on unclean disconnect'', True)], last i)" for i
    using run_lwt [OF assms ok'(2) lwt] by metis
  have c1: "check_connection_and_qos mqtt_broker (idle_broker u [] 0 0)
    = (Inr [(py ''connection over TCP'', True), (py ''QoS 0 + QoS 1 publish/subscribe'', True)], idle_broker u [] 3 1)"
    using run_connection [OF assms, of 0 0] by (simp add: numeral_3_eq_3)
  show ?thesis
    unfolding run_checks_def start
    by (simp add: bindS_def c1 c2 c3 c4 c5 c6 c7)
qed

lemma documented_broker_passes:
  assumes "behaves_like R b mqtt_broker" "R s (fresh_broker u)" "\<forall>i. list_all is_hex (u i)"
  shows "broker_main b (Some path) (Some True) s = Some (Inr 0)"
proof -
  obtain results where "fst (run_checks mqtt_broker (fresh_broker u)) = Inr results" "list_all snd results"
    using documented_passes [OF assms(3)] by blast
  moreover have "fst (run_checks b s) = fst (run_checks mqtt_broker (fresh_broker u))"
    using same_run_checks [OF assms(1)] assms(2) unfolding same_runs_def by blast
  ultimately show ?thesis by (simp add: broker_main_def)
qed

subsection \<open>Waiting for the broker\<close>

lemma port_opens:
  assumes "opens n" "\<forall>j \<le> n. clock j < now + 15000"
  shows "wait_for_port opens clock now = Some True"
proof -
  have "port_turn opens clock (now + 15000) n \<noteq> None" using assms by (simp add: port_turn_def)
  then obtain k r where "k \<le> n" "port_turn opens clock (now + 15000) k = Some r"
    "repeat_until (port_turn opens clock (now + 15000)) 0 = Some r"
    by (rule repeat_until_ends)
  then show ?thesis using assms(2) by (auto simp: wait_for_port_def port_turn_def split: if_splits)
qed

lemma port_wait_ends:
  assumes "now + 15000 \<le> clock n"
  shows "wait_for_port opens clock now \<noteq> None"
proof -
  have "port_turn opens clock (now + 15000) n \<noteq> None" using assms by (simp add: port_turn_def)
  then show ?thesis unfolding wait_for_port_def by (rule repeat_until_total)
qed

lemma find_binary_first:
  assumes "which (py ''mosquitto'') = Some path" "path \<noteq> []"
  shows "mosquitto_binary which exists = Some path"
proof -
  have "\<not> py_startswith (py ''mosquitto'') (py ''/'')" by (simp add: py_startswith_def py_def)
  then show ?thesis using assms by (simp add: mosquitto_binary_def binary_candidates_def)
qed

end
