(* ===== verification/Suite.thy ===== *)
theory Suite imports Emulator Clocked begin

section \<open>The helpers of the integration suite\<close>

text \<open>
  \<open>tests_integration/helpers.py\<close>: a second copy of the documented payloads, written out once more so
  that no encoder of the integration is reused, what the suite publishes for a node, and its waits.
  The transport is an argument as in \<open>Emulator\<close>; the states Home Assistant holds at each look and
  the clock are arguments of the waits.
\<close>

subsection \<open>Payloads\<close>

definition SUITE_HOST :: pystr where "SUITE_HOST = py ''127.0.0.1''"
definition SUITE_PORT :: int where "SUITE_PORT = 18830"
definition SUITE_HOUSEHOLD :: pystr where "SUITE_HOUSEHOLD = py ''HOME-TEST''"
definition NODE_GATE :: pystr where "NODE_GATE = py ''GATE-TEST-001''"
definition NODE_HOUSE :: pystr where "NODE_HOUSE = py ''HOUSE-TEST-001''"
definition NODE_SMALL :: pystr where "NODE_SMALL = py ''SMALL-TEST-001''"
definition HOUSEHOLD_OTHER :: pystr where "HOUSEHOLD_OTHER = py ''HOME-OTHER''"
definition SUITE_SECRET :: pystr where "SUITE_SECRET = py ''integration-test-recovery-secret''"
definition SUITE_SALT :: pystr where "SUITE_SALT = py ''integration-test-salt''"

definition suite_node_base :: "pystr \<Rightarrow> pystr \<Rightarrow> pystr" where
  "suite_node_base household_id node_id = py ''homekey/household/'' @ household_id @ py ''/nodes/'' @ node_id"

text \<open>\<open>hex\<close>: \<open>uuid.uuid4().hex\<close>.\<close>

definition suite_unique :: "pystr \<Rightarrow> pystr \<Rightarrow> pystr" where
  "suite_unique hex prefix = prefix @ take 10 hex"

definition suite_state_payload :: "pystr \<Rightarrow> pystr \<Rightarrow> pystr \<Rightarrow> pystr \<Rightarrow> pystr \<Rightarrow> int \<Rightarrow> pystr \<Rightarrow> pystr" where
  "suite_state_payload household_id node_id node_name node_role node_state generation firmware_version =
    json_dumps [44] [58] (JObj [(py ''household_id'', JStr household_id), (py ''node_id'', JStr node_id),
      (py ''node_name'', JStr node_name), (py ''node_role'', JStr node_role),
      (py ''node_state'', JStr node_state), (py ''generation'', JInt generation),
      (py ''firmware_version'', JStr firmware_version)])"

text \<open>The keyword arguments are those of the emulator's function.\<close>

definition suite_health_payload :: "health_report \<Rightarrow> pystr" where
  "suite_health_payload r =
    json_dumps [44] [58] (JObj [(py ''network'', JStr (hr_network r)), (py ''mqtt'', JStr (hr_mqtt r)),
      (py ''mqtt_error'', JInt (hr_mqtt_error r)), (py ''nfc'', JStr (hr_nfc r)),
      (py ''lock_current'', JInt (hr_lock_current r)), (py ''lock_target'', JInt (hr_lock_target r)),
      (py ''backup'', JStr (hr_backup r)), (py ''certificate'', JStr (hr_certificate r)),
      (py ''firmware_version'', JStr (hr_firmware_version r)), (py ''uptime'', JInt (hr_uptime r)),
      (py ''free_heap'', JInt (hr_free_heap r)), (py ''reset_reason'', JStr (hr_reset_reason r)),
      (py ''security'', JObj [(py ''all_ok'', JBool (hr_security_all_ok r)),
        (py ''warnings'', JStr (hr_security_warnings r))])])"

definition suite_default_health :: health_report where
  "suite_default_health = \<lparr>hr_network = py ''UNKNOWN'', hr_mqtt = py ''OK'', hr_mqtt_error = 0,
     hr_nfc = py ''OK'', hr_lock_current = 1, hr_lock_target = 1, hr_backup = py ''ok'',
     hr_certificate = py ''unknown'', hr_firmware_version = py ''0.10.0'', hr_uptime = 1234,
     hr_free_heap = 123456, hr_reset_reason = py ''1'', hr_security_all_ok = True,
     hr_security_warnings = []\<rparr>"

definition suite_backup_last :: "pystr \<Rightarrow> int \<Rightarrow> pystr" where
  "suite_backup_last status timestamp =
    json_dumps [44] [58] (JObj [(py ''status'', JStr status), (py ''timestamp'', JInt timestamp)])"

definition suite_last_auth :: "pystr \<Rightarrow> int \<Rightarrow> pystr" where
  "suite_last_auth result timestamp =
    json_dumps [44] [58] (JObj [(py ''type'', JStr (py ''HomeKey'')), (py ''result'', JStr result),
      (py ''timestamp'', JInt timestamp)])"

subsection \<open>Publishing\<close>

definition suite_telemetry :: "pystr \<Rightarrow> pystr \<Rightarrow> pystr \<Rightarrow> pystr \<Rightarrow> telemetry_args \<Rightarrow> publication list" where
  "suite_telemetry household_id node_id node_name node_role a =
    (let base = suite_node_base household_id node_id;
         pub = (\<lambda>suffix payload qos retain. \<lparr>pub_topic = base @ suffix, pub_payload = payload,
           pub_qos = qos, pub_retain = retain\<rparr>)
     in [pub (py ''/state'') (suite_state_payload household_id node_id node_name node_role (py ''ACTIVE'') 1
           (py ''0.10.0'')) 0 True,
         pub (py ''/status'') (ta_status a) 1 True,
         pub (py ''/health'') (suite_health_payload (suite_default_health\<lparr>hr_lock_current := ta_lock_current a\<rparr>)) 0 False,
         pub (py ''/security'') (ta_security a) 0 True,
         pub (py ''/backup/status'') (ta_backup_status a) 0 True,
         pub (py ''/backup/last'') (suite_backup_last (py ''completed'') 1760000000) 0 True,
         pub (py ''/last_auth'') (suite_last_auth (ta_last_auth_result a) 1760000000) 0 True])"

text \<open>What \<open>publish_telemetry\<close> returns or raises, and what reached the transport.\<close>

definition publish_telemetry :: "(publication \<Rightarrow> exc option) \<Rightarrow> pystr \<Rightarrow> pystr \<Rightarrow> pystr \<Rightarrow> pystr
    \<Rightarrow> telemetry_args \<Rightarrow> (exc + publication list) \<times> publication list" where
  "publish_telemetry pub household_id node_id node_name node_role a =
    (case publish_each pub (suite_telemetry household_id node_id node_name node_role a) of
       (Some x, sent) \<Rightarrow> (Inl x, sent) | (None, sent) \<Rightarrow> (Inr sent, sent))"

subsection \<open>Waiting\<close>

text \<open>\<open>states i\<close>: the state of the entity at look \<open>i\<close>, \<open>clock i\<close>: the time read before it, both in
  milliseconds. When the time is up the last state seen is returned, whether or not it satisfies the
  condition.\<close>

definition entity_turn :: "(nat \<Rightarrow> 's option) \<Rightarrow> ('s \<Rightarrow> bool) \<Rightarrow> (nat \<Rightarrow> int) \<Rightarrow> int \<Rightarrow> nat
    \<Rightarrow> 's option option" where
  "entity_turn states condition clock deadline i =
    (if \<not> clock i < deadline then Some (case i of 0 \<Rightarrow> None | Suc j \<Rightarrow> states j)
     else case states i of
       Some s \<Rightarrow> if condition s then Some (Some s) else None
     | None \<Rightarrow> None)"

definition wait_for_entity :: "(nat \<Rightarrow> 's option) \<Rightarrow> ('s \<Rightarrow> bool) option \<Rightarrow> (nat \<Rightarrow> int) \<Rightarrow> int \<Rightarrow> int
    \<Rightarrow> 's option option" where
  "wait_for_entity states condition clock now timeout =
    repeat_until (entity_turn states (case condition of None \<Rightarrow> (\<lambda>s. True) | Some c \<Rightarrow> c) clock (now + timeout)) 0"

definition looked_up :: "(pystr \<Rightarrow> 's option) \<Rightarrow> pystr list \<Rightarrow> (pystr, 's option) dict" where
  "looked_up states entity_ids = dict_update [] (map (\<lambda>e. (e, states e)) entity_ids)"

definition entities_turn :: "(nat \<Rightarrow> pystr \<Rightarrow> 's option) \<Rightarrow> pystr list \<Rightarrow> (nat \<Rightarrow> int) \<Rightarrow> int \<Rightarrow> nat
    \<Rightarrow> (pystr, 's option) dict option" where
  "entities_turn states entity_ids clock deadline i =
    (if \<not> clock i < deadline then Some (case i of 0 \<Rightarrow> [] | Suc j \<Rightarrow> looked_up (states j) entity_ids)
     else let found = looked_up (states i) entity_ids
       in if list_all (\<lambda>(e, s). s \<noteq> None) found then Some found else None)"

definition wait_for_entities :: "(nat \<Rightarrow> pystr \<Rightarrow> 's option) \<Rightarrow> pystr list \<Rightarrow> (nat \<Rightarrow> int) \<Rightarrow> int \<Rightarrow> int
    \<Rightarrow> (pystr, 's option) dict option" where
  "wait_for_entities states entity_ids clock now timeout =
    repeat_until (entities_turn states entity_ids clock (now + timeout)) 0"

subsection \<open>The two copies of the contract agree\<close>

lemma suite_payloads:
  "suite_node_base = emulator_base" "suite_state_payload = state_payload"
  "suite_health_payload = health_payload" "suite_default_health = default_health"
  "suite_backup_last = backup_last_payload" "suite_last_auth result time = last_auth_payload result (py ''HomeKey'') time"
  by (simp_all add: fun_eq_iff suite_node_base_def emulator_base_def suite_state_payload_def state_payload_def
      suite_health_payload_def health_payload_def suite_default_health_def default_health_def
      suite_backup_last_def backup_last_payload_def suite_last_auth_def last_auth_payload_def compact_dumps_def)

lemma suite_telemetry_eq:
  "suite_telemetry h n name role a
    = telemetry \<lparr>en_household_id = h, en_node_id = n, en_node_name = name, en_node_role = role, en_publish_log = log\<rparr> a"
  by (simp add: suite_telemetry_def telemetry_def suite_payloads en_base_def security_payload_def
      DEFAULT_EVENT_TIME_def Let_def)

subsection \<open>The waits end\<close>

lemma wait_for_entity_result:
  assumes "wait_for_entity states condition clock now timeout = Some r"
  shows "\<exists>n. (\<forall>j < n. clock j < now + timeout \<and> \<not> (case states j of None \<Rightarrow> False
        | Some s \<Rightarrow> (case condition of None \<Rightarrow> True | Some c \<Rightarrow> c s)))
    \<and> (if clock n < now + timeout
        then r = states n \<and> (\<exists>s. states n = Some s \<and> (case condition of None \<Rightarrow> True | Some c \<Rightarrow> c s))
        else r = (case n of 0 \<Rightarrow> None | Suc j \<Rightarrow> states j))"
proof -
  let ?turn = "entity_turn states (case condition of None \<Rightarrow> (\<lambda>s. True) | Some c \<Rightarrow> c) clock (now + timeout)"
  obtain n where n: "?turn n = Some r" "\<forall>j < n. ?turn j = None"
    using assms unfolding wait_for_entity_def repeat_until_Some by auto
  have "clock j < now + timeout \<and> \<not> (case states j of None \<Rightarrow> False
        | Some s \<Rightarrow> (case condition of None \<Rightarrow> True | Some c \<Rightarrow> c s))" if "?turn j = None" for j
    using that by (auto simp: entity_turn_def split: if_splits option.splits)
  moreover have "if clock n < now + timeout
        then r = states n \<and> (\<exists>s. states n = Some s \<and> (case condition of None \<Rightarrow> True | Some c \<Rightarrow> c s))
        else r = (case n of 0 \<Rightarrow> None | Suc j \<Rightarrow> states j)"
    using n(1) by (auto simp: entity_turn_def split: if_splits option.splits)
  ultimately show ?thesis using n(2) by blast
qed

lemma wait_for_entity_ends:
  assumes "now + timeout \<le> clock n"
  shows "wait_for_entity states condition clock now timeout \<noteq> None"
proof -
  have "entity_turn states (case condition of None \<Rightarrow> (\<lambda>s. True) | Some c \<Rightarrow> c) clock (now + timeout) n \<noteq> None"
    using assms by (simp add: entity_turn_def)
  then show ?thesis unfolding wait_for_entity_def by (rule repeat_until_total)
qed

lemma wait_for_entities_ends:
  assumes "now + timeout \<le> clock n"
  shows "wait_for_entities states entity_ids clock now timeout \<noteq> None"
proof -
  have "entities_turn states entity_ids clock (now + timeout) n \<noteq> None"
    using assms by (simp add: entities_turn_def)
  then show ?thesis unfolding wait_for_entities_def by (rule repeat_until_total)
qed

end
