(* ===== verification/Device.thy ===== *)
theory Device imports Harness Transport Clocked "HOL-Library.List_Lexorder" begin

section \<open>The device of the hardware harness\<close>

text \<open>
  \<open>tests_hardware/device.py\<close>: the serial console and the observer of the broker. Whether a package
  can be imported, whether a port or a broker can be opened, what each read returns, what the
  broker delivers while the observer listens and the regular expression engine are arguments.
\<close>

subsection \<open>The serial console\<close>

definition BAUD :: int where "BAUD = 115200"

record serial_capture =
  sc_text :: pystr
  sc_seconds :: int

text \<open>\<open>SerialCapture.find\<close>: \<open>findall p\<close> are the matches of a pattern, in the order of the text, and
  \<open>sorted_set\<close> is \<open>sorted(set(...))\<close>; strings are ordered by their code points.\<close>

definition sorted_set :: "pystr list \<Rightarrow> pystr list" where
  "sorted_set xs = sort (remdups xs)"

definition capture_find :: "(pystr \<Rightarrow> pystr \<Rightarrow> pystr list) \<Rightarrow> (pystr, pystr) dict \<Rightarrow> serial_capture
    \<Rightarrow> (pystr, pystr list) dict" where
  "capture_find findall patterns c =
    map (\<lambda>(label, pattern). (label, sorted_set (findall pattern (sc_text c))))
      (filter (\<lambda>(label, pattern). findall pattern (sc_text c) \<noteq> []) patterns)"

definition capture_has_error :: "(pystr \<Rightarrow> pystr \<Rightarrow> bool) \<Rightarrow> pystr \<Rightarrow> serial_capture \<Rightarrow> bool" where
  "capture_has_error search pattern c = search pattern (sc_text c)"

definition capture_redacted :: "(nat \<Rightarrow> bool) \<Rightarrow> serial_capture \<Rightarrow> pystr" where
  "capture_redacted uni c = redact_text uni (sc_text c)"

text \<open>What is done to the lines of the port; the boot reset pulses EN with GPIO0 high.\<close>

datatype line_action = SetDtr bool | SetRts bool | Hold int | ResetInput

definition boot_reset :: "line_action list" where
  "boot_reset = [SetDtr False, SetRts True, Hold 150, SetRts False, ResetInput]"

text \<open>\<open>answers i\<close>: the bytes of read \<open>i\<close>, before which the clock shows \<open>clock i\<close>; times are in
  milliseconds. The second component is what was done to the port, if it was opened.\<close>

definition capture_turn :: "(nat \<Rightarrow> bytes) \<Rightarrow> (nat \<Rightarrow> int) \<Rightarrow> int \<Rightarrow> nat \<Rightarrow> bytes option" where
  "capture_turn answers clock deadline i =
    (if \<not> clock i < deadline then Some (concat (map answers [0..<i])) else None)"

definition serial_capture_run :: "bool \<Rightarrow> environ \<Rightarrow> (pystr \<Rightarrow> pystr list) \<Rightarrow> pystr option \<Rightarrow> (pystr \<Rightarrow> int \<Rightarrow> bool)
    \<Rightarrow> (nat \<Rightarrow> bytes) \<Rightarrow> (nat \<Rightarrow> int) \<Rightarrow> int \<Rightarrow> int \<Rightarrow> bool
    \<Rightarrow> ((harness_exc + serial_capture) \<times> line_action list) option" where
  "serial_capture_run importable environ sorted_glob port opens answers clock now seconds reset =
    (if \<not> importable then Some (Inl HardwareBlocked, [])
     else case require_port environ sorted_glob port of
       Inl e \<Rightarrow> Some (Inl e, [])
     | Inr path \<Rightarrow>
        if \<not> opens path BAUD then Some (Inl HardwareBlocked, [])
        else map_option (\<lambda>bs. (Inr \<lparr>sc_text = decode_utf8 bs, sc_seconds = seconds\<rparr>,
               if reset then boot_reset else []))
             (repeat_until (capture_turn answers clock (now + seconds)) 0))"

subsection \<open>The observer\<close>

record observer =
  ov_household_id :: pystr
  ov_host :: pystr
  ov_port :: int
  ov_messages :: "observation list"

text \<open>The address of the broker; \<open>int\<close> raises on a port that is no number.\<close>

definition new_observer :: "environ \<Rightarrow> pystr \<Rightarrow> pystr option \<Rightarrow> int option \<Rightarrow> exc + observer" where
  "new_observer environ household_id host port =
    bindE (case port of Some p \<Rightarrow> if p = 0 then broker_port environ else Inr p | None \<Rightarrow> broker_port environ)
      (\<lambda>p. Inr \<lparr>ov_household_id = household_id,
         ov_host = (if str_or host [] = [] then broker_host environ else str_or host []),
         ov_port = p, ov_messages = []\<rparr>)"

definition observed :: "receive_message \<Rightarrow> observation" where
  "observed m = \<lparr>ob_topic = rm_topic m, ob_payload = payload_text (rm_payload m),
     ob_retain = rm_retain m, ob_qos = rm_qos m\<rparr>"

text \<open>\<open>delivered f\<close>: what the broker delivers for a subscription to \<open>f\<close> while the observer waits.\<close>

definition collect :: "bool \<Rightarrow> environ \<Rightarrow> (pystr \<Rightarrow> int \<Rightarrow> bool) \<Rightarrow> (pystr \<Rightarrow> receive_message list)
    \<Rightarrow> (observer, harness_exc, observation list) comp" where
  "collect importable environ connects delivered ob =
    (if \<not> importable then (Inl HardwareBlocked, ob)
     else case require_credentials environ of
       Inl e \<Rightarrow> (Inl e, ob)
     | Inr c \<Rightarrow>
        if \<not> connects (ov_host ob) (ov_port ob) then (Inl HardwareBlocked, ob)
        else let ob' = ob\<lparr>ov_messages := ov_messages ob
                   @ map observed (delivered (observed_topic_filter (ov_household_id ob)))\<rparr>
          in (Inr (ov_messages ob'), ob'))"

definition observer_send :: "bool \<Rightarrow> environ \<Rightarrow> (pystr \<Rightarrow> int \<Rightarrow> bool) \<Rightarrow> observer \<Rightarrow> pystr \<Rightarrow> pystr \<Rightarrow> int
    \<Rightarrow> harness_exc + publication" where
  "observer_send importable environ connects ob topic payload qos =
    (if \<not> importable then Inl HardwareBlocked
     else bindE (observer_publish environ topic payload qos) (\<lambda>p.
       if \<not> connects (ov_host ob) (ov_port ob) then Inl HardwareBlocked else Inr p))"

subsection \<open>What a capture is\<close>

text \<open>A label is found with its matches, each once and in order, if there are any.\<close>

lemma capture_find_spec:
  assumes "dict_ok patterns"
  shows "dict_get (capture_find findall patterns c) label = (case dict_get patterns label of
      None \<Rightarrow> None
    | Some p \<Rightarrow> if findall p (sc_text c) = [] then None else Some (sorted_list_of_set (set (findall p (sc_text c)))))"
  using assms
proof (induction patterns)
  case (Cons a patterns)
  obtain l p where a: "a = (l, p)" by (cases a)
  have "l = label \<Longrightarrow> dict_get patterns label = None"
    using Cons.prems unfolding a dict_get_None_iff by (simp add: dict_ok_def dict_keys_def)
  then show ?case
    using Cons unfolding a
    by (cases "l = label") (simp_all add: capture_find_def sorted_set_def sorted_list_of_set_sort_remdups dict_ok_def)
qed (simp add: capture_find_def)

lemma capture_turn_Some:
  "repeat_until (capture_turn answers clock deadline) 0 = Some bs \<longleftrightarrow>
    (\<exists>n. deadline \<le> clock n \<and> (\<forall>j < n. clock j < deadline) \<and> bs = concat (map answers [0..<n]))"
proof -
  have turn: "capture_turn answers clock deadline n = Some bs \<longleftrightarrow> deadline \<le> clock n \<and> bs = concat (map answers [0..<n])"
    "capture_turn answers clock deadline n = None \<longleftrightarrow> clock n < deadline" for n
    by (auto simp: capture_turn_def)
  show ?thesis unfolding repeat_until_Some turn by auto
qed

lemma capture_ends:
  "deadline \<le> clock n \<Longrightarrow> repeat_until (capture_turn answers clock deadline) 0 \<noteq> None"
  by (rule repeat_until_total [where n = n]) (simp add: capture_turn_def)

text \<open>A capture that is not blocked is the text of exactly the bytes read before the deadline, in their
  order; what is kept of it for the evidence shows no token of a key or a MAC.\<close>

theorem capture_is_what_was_read:
  assumes "serial_capture_run importable environ sorted_glob port opens answers clock now seconds reset = Some (r, actions)"
  shows "case r of
      Inl e \<Rightarrow> e = HardwareBlocked \<and> actions = []
    | Inr c \<Rightarrow> (\<exists>n. now + seconds \<le> clock n \<and> (\<forall>j < n. clock j < now + seconds)
          \<and> sc_text c = decode_utf8 (concat (map answers [0..<n])))
        \<and> str_ok (sc_text c) \<and> find_secret_leaks uni (capture_redacted uni c) = []
        \<and> actions = (if reset then boot_reset else [])"
proof (cases r)
  case (Inl e)
  then show ?thesis
    using assms by (auto simp: serial_capture_run_def require_port_def split: if_splits sum.splits option.splits)
next
  case (Inr c)
  then obtain bs where bs: "repeat_until (capture_turn answers clock (now + seconds)) 0 = Some bs"
    "c = \<lparr>sc_text = decode_utf8 bs, sc_seconds = seconds\<rparr>" "actions = (if reset then boot_reset else [])"
    using assms by (auto simp: serial_capture_run_def split: if_splits sum.splits)
  then show ?thesis
    using Inr by (auto simp: capture_turn_Some decode_utf8_text capture_redacted_def redacted_text_clean)
qed

theorem capture_is_what_was_read_witness:
  "case serial_capture_run True (\<lambda>n. None) (\<lambda>p. [py ''/dev/ttyUSB0'']) None (\<lambda>p b. True) (\<lambda>i. [79, 75])
      (\<lambda>i. 250 * int i) 0 500 True of
    Some (Inr c, actions) \<Rightarrow> actions = boot_reset \<and> str_ok (sc_text c) | _ \<Rightarrow> False"
proof -
  have path: "require_port (\<lambda>n. None) (\<lambda>p. [py ''/dev/ttyUSB0'']) None = Inr (py ''/dev/ttyUSB0'')"
    by (simp add: require_port_def find_serial_port_def env_value_def SERIAL_GLOBS_def)
  obtain bs where "repeat_until (capture_turn (\<lambda>i. [79, 75]) (\<lambda>i. 250 * int i) 500) 0 = Some bs"
    using capture_ends [of 500 "\<lambda>i. 250 * int i" 2] by auto
  then have e: "serial_capture_run True (\<lambda>n. None) (\<lambda>p. [py ''/dev/ttyUSB0'']) None (\<lambda>p b. True) (\<lambda>i. [79, 75])
      (\<lambda>i. 250 * int i) 0 500 True = Some (Inr \<lparr>sc_text = decode_utf8 bs, sc_seconds = 500\<rparr>, boot_reset)"
    by (simp add: serial_capture_run_def path)
  from capture_is_what_was_read [OF e] show ?thesis unfolding e by simp
qed

text \<open>The observer keeps what was delivered, in order, and never publishes a retained message.\<close>

lemma observer_never_retains:
  "observer_send importable environ connects ob topic payload qos = Inr p \<Longrightarrow>
    \<not> pub_retain p \<and> pub_topic p = topic \<and> pub_payload p = payload \<and> pub_qos p = qos"
  by (auto simp: observer_send_def observer_publish_def observer_publication_def res_simps split: if_splits)

lemma collect_appends:
  "collect importable environ connects delivered ob = (r, ob') \<Longrightarrow>
    (\<exists>new. ov_messages ob' = ov_messages ob @ new \<and> (r = Inl HardwareBlocked \<and> new = [] \<or> r = Inr (ov_messages ob')))"
  by (auto simp: collect_def Let_def require_credentials_def split: if_splits sum.splits option.splits)

end
