(* ===== verification/LwtNode.thy ===== *)
theory LwtNode imports Suite Broker_Facts Entities begin

section \<open>The node that dies\<close>

text \<open>
  \<open>tests_integration/lwt_node_helper.py\<close>: the process that registers a will, reports online and
  is then killed. The broker is the record of operations of \<open>Broker\<close>; the answer of the broker to
  the connection, as the process sees it at each look, and the clock in milliseconds are arguments.
  The second half follows the process and a subscribed Home Assistant over the documented broker.
\<close>

subsection \<open>The process\<close>

text \<open>How \<open>main\<close> ends: with an exit code, with an exception, or parked with its connection open.\<close>

datatype helper_end = Exits int | Crashes exc | Parks nat

record helper_run =
  lw_end :: helper_end
  lw_said :: "pystr list"

definition say :: "pystr \<Rightarrow> pystr" where
  "say event = dumps_default (JObj [(py ''event'', JStr event)])"

definition lwt_will :: "pystr \<Rightarrow> will" where
  "lwt_will status_topic = \<lparr>wl_topic = status_topic, wl_payload = py ''offline'', wl_qos = 1, wl_retain = True\<rparr>"

text \<open>A look at \<open>connected["done"]\<close> and, when it is not set, at the clock; once the time is up it is
  looked at once more.\<close>

definition connack_turn :: "(nat \<Rightarrow> bool) \<Rightarrow> (nat \<Rightarrow> int) \<Rightarrow> int \<Rightarrow> nat \<Rightarrow> bool option" where
  "connack_turn done_at clock deadline i =
    (if done_at i then Some True else if clock i < deadline then None else Some (done_at (Suc i)))"

definition lwt_main :: "'b broker \<Rightarrow> (nat \<Rightarrow> bool) \<Rightarrow> (nat \<Rightarrow> int) \<Rightarrow> int \<Rightarrow> pystr list \<Rightarrow> 'b
    \<Rightarrow> (helper_run \<times> 'b) option" where
  "lwt_main b done_at clock now argv s =
    (if length argv \<noteq> 5 then Some (\<lparr>lw_end = Exits 2, lw_said = []\<rparr>, s)
     else let status_topic = argv ! 4 in
     case py_int (JStr (argv ! 2)) of
       Inl x \<Rightarrow> Some (\<lparr>lw_end = Crashes x, lw_said = []\<rparr>, s)
     | Inr port \<Rightarrow>
        (case bo_connect b (Some (lwt_will status_topic)) s of
           (Inl x, t) \<Rightarrow> Some (\<lparr>lw_end = Crashes x, lw_said = []\<rparr>, t)
         | (Inr k, t) \<Rightarrow> map_option (\<lambda>answered.
             if \<not> answered
             then (\<lparr>lw_end = Exits 1, lw_said = [dumps_default (JObj [(py ''event'', JStr (py ''error'')),
                     (py ''detail'', JStr (py ''no CONNACK''))])]\<rparr>, t)
             else case publish_text b k status_topic (py ''online'') 1 True t of
               (Inl x, u) \<Rightarrow> (\<lparr>lw_end = Crashes x, lw_said = [say (py ''connected'')]\<rparr>, u)
             | (Inr v, u) \<Rightarrow> (\<lparr>lw_end = Parks k,
                 lw_said = [say (py ''connected''), say (py ''online_sent'')]\<rparr>, u))
             (repeat_until (connack_turn done_at clock (now + 10000)) 0)))"

subsection \<open>The wait for the broker's answer\<close>

lemma connack_answered:
  assumes "done_at i" "\<forall>j < i. clock j < deadline"
  shows "repeat_until (connack_turn done_at clock deadline) 0 = Some True"
proof -
  have "connack_turn done_at clock deadline i \<noteq> None" using assms(1) by (simp add: connack_turn_def)
  then obtain k r where k: "k \<le> i" "connack_turn done_at clock deadline k = Some r"
    "repeat_until (connack_turn done_at clock deadline) 0 = Some r" by (rule repeat_until_ends) blast
  have "r = True"
    using k(1,2) assms by (cases "k = i") (auto simp: connack_turn_def split: if_splits)
  then show ?thesis using k(3) by simp
qed

lemma connack_ends:
  "deadline \<le> clock n \<Longrightarrow> repeat_until (connack_turn done_at clock deadline) 0 \<noteq> None"
  by (rule repeat_until_total [where n = n]) (auto simp: connack_turn_def)

lemma connack_missed:
  assumes "deadline \<le> clock n" "\<forall>i. \<not> done_at i"
  shows "repeat_until (connack_turn done_at clock deadline) 0 = Some False"
proof -
  obtain r where r: "repeat_until (connack_turn done_at clock deadline) 0 = Some r"
    using connack_ends [where clock = clock and n = n, OF assms(1)] by fastforce
  then have "r = False"
    unfolding repeat_until_Some using assms(2) by (auto simp: connack_turn_def split: if_splits)
  then show ?thesis using r by simp
qed

subsection \<open>Beside a subscriber of the documented broker\<close>

definition sessions_known :: "mqtt_state \<Rightarrow> bool" where
  "sessions_known s = list_all (\<lambda>ss. ss_id ss < ms_ids s) (ms_sessions s)"

text \<open>What the session of a subscriber has received goes to the integration as bytes.\<close>

definition inbox_receive :: "(pystr \<Rightarrow> ingest_env) \<Rightarrow> mqtt_client \<Rightarrow> pystr \<times> bytes \<Rightarrow> coord \<Rightarrow> coord" where
  "inbox_receive envs client m = ha_receive envs client \<lparr>rm_topic = fst m, rm_payload = BinaryPayload (snd m),
     rm_qos = 1, rm_retain = False\<rparr>"

definition inbox_of :: "nat \<Rightarrow> mqtt_state \<Rightarrow> (pystr \<times> bytes) list" where
  "inbox_of l s = (case find_session l s of None \<Rightarrow> [] | Some ss \<Rightarrow> ss_inbox ss)"

text \<open>The online sensor of node \<open>n\<close> once the messages \<open>ms\<close> have reached the coordinator \<open>c\<close>.\<close>

definition sensor_after :: "(pystr \<Rightarrow> ingest_env) \<Rightarrow> mqtt_client \<Rightarrow> (pystr \<times> bytes) list \<Rightarrow> coord \<Rightarrow> pystr \<Rightarrow> bool option" where
  "sensor_after envs client ms c n =
    online_is_on \<lparr>hb_transport = OverMqtt (Some client) (fold (inbox_receive envs client) ms c) [], hb_key = None\<rparr> n"

lemma find_map_session:
  "(\<And>ss. ss_id (f ss) = ss_id ss) \<Longrightarrow> find (\<lambda>ss. ss_id ss = k) (map f l) = map_option f (find (\<lambda>ss. ss_id ss = k) l)"
  by (induction l) auto

lemma deliver_id [simp]: "ss_id (deliver t p ss) = ss_id ss"
  by (simp add: deliver_def)

lemma find_session_publish [simp]:
  "find_session k (broker_publish t p r s) = map_option (deliver t p) (find_session k s)"
  by (simp add: find_session_def broker_publish_def find_map_session)

lemma find_after: "find P (xs @ ys) = (case find P xs of None \<Rightarrow> find P ys | Some x \<Rightarrow> Some x)"
  by (induction xs) auto

lemma find_filter_other: "k \<noteq> l \<Longrightarrow> find (\<lambda>ss. ss_id ss = l) (filter (\<lambda>ss. ss_id ss \<noteq> k) ds) = find (\<lambda>ss. ss_id ss = l) ds"
  by (induction ds) auto

lemma find_session_end: "k \<noteq> l \<Longrightarrow> find_session l (end_session k s) = find_session l s"
  by (simp add: find_session_def end_session_def find_filter_other)

lemma find_known: "find_session l s = Some ss \<Longrightarrow> sessions_known s \<Longrightarrow> l < ms_ids s"
  by (auto simp: find_session_def find_Some_iff sessions_known_def list_all_iff)

lemma find_unknown: "sessions_known s \<Longrightarrow> find_session (ms_ids s) s = None"
  by (auto simp: find_session_def find_None_iff sessions_known_def list_all_iff)

text \<open>The broker once the process has parked.\<close>

lemma lwt_main_parks:
  assumes "py_int (JStr port) = Inr p" "done_at i" "\<forall>j < i. clock j < now + 10000"
  shows "lwt_main mqtt_broker done_at clock now [script, host, port, client_id, topic] s =
    Some (\<lparr>lw_end = Parks (ms_ids s), lw_said = [say (py ''connected''), say (py ''online_sent'')]\<rparr>,
      broker_publish topic [111, 110, 108, 105, 110, 101] True
        (s\<lparr>ms_ids := ms_ids s + 1, ms_sessions := ms_sessions s @
          [\<lparr>ss_id = ms_ids s, ss_filters = [], ss_inbox = [], ss_will = Some (lwt_will topic)\<rparr>]\<rparr>))"
proof -
  have "utf8 (py ''online'') = Some [111, 110, 108, 105, 110, 101]" by (simp add: py_def utf8_cp_def)
  then show ?thesis
    using connack_answered [where done_at = done_at and clock = clock, OF assms(2,3)] assms(1)
    by (simp add: lwt_main_def publish_text_def mqtt_broker_def Let_def)
qed

lemma subscribed_topic:
  assumes "is_valid_id h" "is_valid_id n" "s \<noteq> []"
  shows "topic_match TOPIC_SUBSCRIBE_ALL (node_topic h n (Some s))"
proof -
  have "py_split 47 TOPIC_SUBSCRIBE_ALL = [TOPIC_ROOT, TOPIC_HOUSEHOLD, py ''#'']"
    by (simp add: const_defs py_def)
  moreover have "py_split 47 (node_topic h n (Some s)) = TOPIC_ROOT # TOPIC_HOUSEHOLD # h # TOPIC_NODES # n # py_split 47 s"
    unfolding node_topic_parts [OF assms(3)]
    by (intro split_node_topic valid_id_no_slash assms(1,2))
  ultimately show ?thesis by (simp add: topic_match_def)
qed

lemma status_topic: "suite_node_base h n @ py ''/status'' = node_topic h n (Some TOPIC_STATUS)"
  using emulator_topic [of "py ''status''" h n] by (simp add: suite_payloads const_defs py_def)

lemma status_received:
  assumes "addressed h n c" "p \<in> {ONLINE, OFFLINE}" "utf8 p = Some bs"
  shows "get_node (inbox_receive envs client (node_topic h n (Some TOPIC_STATUS), bs) c) n =
    Some ((held c n)\<lparr>nd_online := (p = ONLINE), nd_last_seen := Some (now_iso (envs TOPIC_STATUS))\<rparr>)"
    "addressed h n (inbox_receive envs client (node_topic h n (Some TOPIC_STATUS), bs) c)"
proof -
  have w: "py_lower (py_strip p) = p" "decode_utf8 bs = p"
    using assms(2) decode_encode [OF assms(3)] by (auto simp: const_defs py_def py_lower_def py_strip_def py_lstrip_def is_space_def lower_cp_def)
  have i: "inbox_receive envs client (node_topic h n (Some TOPIC_STATUS), bs) c
      = broker_receive envs client (on_topic h n TOPIC_STATUS p 1 False) c"
    using ha_receive_text [of "BinaryPayload bs" "on_topic h n TOPIC_STATUS p 1 False" envs client] w
    by (simp add: inbox_receive_def received_def payload_text_def)
  show "get_node (inbox_receive envs client (node_topic h n (Some TOPIC_STATUS), bs) c) n =
    Some ((held c n)\<lparr>nd_online := (p = ONLINE), nd_last_seen := Some (now_iso (envs TOPIC_STATUS))\<rparr>)"
    unfolding i using status_held [OF assms(1), of p envs client 1 False] assms(2) by (simp add: w)
  show "addressed h n (inbox_receive envs client (node_topic h n (Some TOPIC_STATUS), bs) c)"
    unfolding i using assms(1) by simp
qed

text \<open>What the subscriber's session holds and what is retained: while the process runs, once it is
  killed, and had it disconnected.\<close>

lemma parked_broker:
  fixes topic :: pystr and s :: mqtt_state
  defines "t \<equiv> broker_publish topic [111, 110, 108, 105, 110, 101] True
        (s\<lparr>ms_ids := ms_ids s + 1, ms_sessions := ms_sessions s @
          [\<lparr>ss_id = ms_ids s, ss_filters = [], ss_inbox = [], ss_will = Some (lwt_will topic)\<rparr>]\<rparr>)"
  assumes "sessions_known s" "find_session l s = Some ss" "list_ex (\<lambda>f. topic_match f topic) (ss_filters ss)"
  shows "find_session l t = Some (ss\<lparr>ss_inbox := ss_inbox ss @ [(topic, [111, 110, 108, 105, 110, 101])]\<rparr>)"
    "find_session l (broker_drop (ms_ids s) t) = Some (ss\<lparr>ss_inbox := ss_inbox ss
      @ [(topic, [111, 110, 108, 105, 110, 101]), (topic, [111, 102, 102, 108, 105, 110, 101])]\<rparr>)"
    "dict_get (ms_retained (broker_drop (ms_ids s) t)) topic = Some [111, 102, 102, 108, 105, 110, 101]"
    "find_session l (end_session (ms_ids s) t) = Some (ss\<lparr>ss_inbox := ss_inbox ss
      @ [(topic, [111, 110, 108, 105, 110, 101])]\<rparr>)"
    "dict_get (ms_retained (end_session (ms_ids s) t)) topic = Some [111, 110, 108, 105, 110, 101]"
proof -
  have ne: "ms_ids s \<noteq> l" using find_known [OF assms(3,2)] by simp
  have u: "utf8 (py ''offline'') = Some [111, 102, 102, 108, 105, 110, 101]" by (simp add: py_def utf8_cp_def)
  define c where "c = s\<lparr>ms_ids := ms_ids s + 1, ms_sessions := ms_sessions s @
          [\<lparr>ss_id = ms_ids s, ss_filters = [], ss_inbox = [], ss_will = Some (lwt_will topic)\<rparr>]\<rparr>"
  have c: "find_session l c = Some ss" "find_session (ms_ids s) c =
      Some \<lparr>ss_id = ms_ids s, ss_filters = [], ss_inbox = [], ss_will = Some (lwt_will topic)\<rparr>"
    using assms(3) find_unknown [OF assms(2)] by (simp_all add: c_def find_session_def find_after)
  show "find_session l t = Some (ss\<lparr>ss_inbox := ss_inbox ss @ [(topic, [111, 110, 108, 105, 110, 101])]\<rparr>)"
    unfolding t_def c_def [symmetric] by (simp add: c deliver_def assms(4))
  have drop: "broker_drop (ms_ids s) t = broker_publish topic [111, 102, 102, 108, 105, 110, 101] True (end_session (ms_ids s) t)"
    unfolding broker_drop_def t_def c_def [symmetric] by (simp add: c deliver_def lwt_will_def u)
  show "find_session l (end_session (ms_ids s) t) = Some (ss\<lparr>ss_inbox := ss_inbox ss
      @ [(topic, [111, 110, 108, 105, 110, 101])]\<rparr>)"
    unfolding find_session_end [OF ne] t_def c_def [symmetric] by (simp add: c deliver_def assms(4))
  then show "find_session l (broker_drop (ms_ids s) t) = Some (ss\<lparr>ss_inbox := ss_inbox ss
      @ [(topic, [111, 110, 108, 105, 110, 101]), (topic, [111, 102, 102, 108, 105, 110, 101])]\<rparr>)"
    unfolding drop by (simp add: deliver_def assms(4))
  show "dict_get (ms_retained (broker_drop (ms_ids s) t)) topic = Some [111, 102, 102, 108, 105, 110, 101]"
    unfolding drop by (simp add: broker_publish_def retain_message_def)
  show "dict_get (ms_retained (end_session (ms_ids s) t)) topic = Some [111, 110, 108, 105, 110, 101]"
    by (simp add: t_def end_session_def broker_publish_def retain_message_def)
qed

lemma sensor_after_status:
  assumes "addressed h n c"
  shows "sensor_after envs client [(node_topic h n (Some TOPIC_STATUS), [111, 110, 108, 105, 110, 101])] c n = Some True"
    "sensor_after envs client [(node_topic h n (Some TOPIC_STATUS), [111, 110, 108, 105, 110, 101]),
       (node_topic h n (Some TOPIC_STATUS), [111, 102, 102, 108, 105, 110, 101])] c n = Some False"
proof -
  have u: "utf8 ONLINE = Some [111, 110, 108, 105, 110, 101]" "utf8 OFFLINE = Some [111, 102, 102, 108, 105, 110, 101]"
    by (simp_all add: const_defs py_def utf8_cp_def)
  note up = status_received [OF assms _ u(1), of envs client]
  show "sensor_after envs client [(node_topic h n (Some TOPIC_STATUS), [111, 110, 108, 105, 110, 101])] c n = Some True"
    using up(1) by (simp add: sensor_after_def online_is_on_def entity_node_def hub_coord_def)
  show "sensor_after envs client [(node_topic h n (Some TOPIC_STATUS), [111, 110, 108, 105, 110, 101]),
       (node_topic h n (Some TOPIC_STATUS), [111, 102, 102, 108, 105, 110, 101])] c n = Some False"
    using status_received(1) [OF up(2) _ u(2), of envs client] status_words(4)
    by (simp add: sensor_after_def online_is_on_def entity_node_def hub_coord_def)
qed

end
