(* ===== verification/Reload.thy ===== *)
theory Reload imports Lifecycle Backup begin

section \<open>The integration and its reloads\<close>

text \<open>
  \<open>__init__.py\<close>: the set-up of the integration, which is done once and outlives the entries, and the
  reload of an entry, which Home Assistant runs as it documents: the entry is unloaded and, unless
  that was refused, set up again. The document of the backup store, the pool that stands in
  \<open>hass.data\<close> when no runtime does and whether the platforms unload are arguments.
\<close>

subsection \<open>Setting the integration up\<close>

text \<open>What \<open>async_setup\<close> leaves with Home Assistant.\<close>

record integration =
  ig_store :: "backup_store option"
  ig_services :: "pystr list"
  ig_scheduled :: bool

definition not_set_up :: integration where
  "not_set_up = \<lparr>ig_store = None, ig_services = [], ig_scheduled = False\<rparr>"

definition register_service :: "pystr \<Rightarrow> integration \<Rightarrow> integration" where
  "register_service name g = g\<lparr>ig_services := (if name \<in> set (ig_services g) then ig_services g else ig_services g @ [name])\<rparr>"

definition async_setup_backups :: "(json \<Rightarrow> pystr) \<Rightarrow> json \<Rightarrow> integration \<Rightarrow> integration" where
  "async_setup_backups rp disk g =
    (register_service SERVICE_RESTORE_BACKUP (register_service SERVICE_CREATE_BACKUP
      (g\<lparr>ig_store := Some (setup_backups rp disk)\<rparr>)))\<lparr>ig_scheduled := True\<rparr>"

definition async_setup_guest_services :: "integration \<Rightarrow> integration" where
  "async_setup_guest_services g =
    register_service SERVICE_GUEST_CANCEL (register_service SERVICE_GUEST_REVOKE (register_service SERVICE_GUEST_TEACH g))"

definition async_setup :: "(json \<Rightarrow> pystr) \<Rightarrow> json \<Rightarrow> integration \<Rightarrow> bool \<times> integration" where
  "async_setup rp disk g = (True, async_setup_guest_services (async_setup_backups rp disk g))"

subsection \<open>Reloading an entry\<close>

text \<open>\<open>leftover\<close>: the pool when the entry has no runtime. The answer is whether the reload succeeded;
  the runtimes are those of \<open>hass.data\<close>.\<close>

definition pool_after :: "(pystr, node) dict option \<Rightarrow> homekey_runtime option \<Rightarrow> (pystr, node) dict option" where
  "pool_after leftover stopped = (case stopped of None \<Rightarrow> leftover | Some r \<Rightarrow> co_pool (hub_coord (hr_hub r)))"

definition reload_entry :: "outside \<Rightarrow> (pystr \<Rightarrow> int \<Rightarrow> handshake) \<Rightarrow> (pystr \<Rightarrow> exc option)
    \<Rightarrow> publication list \<Rightarrow> json \<Rightarrow> (pystr, node) dict option \<Rightarrow> bool \<Rightarrow> config_entry \<Rightarrow> pystr
    \<Rightarrow> (pystr, homekey_runtime) dict \<Rightarrow> request list
    \<Rightarrow> (exc + bool) \<times> (pystr, homekey_runtime) dict \<times> request list" where
  "reload_entry w hs subscribe arriving keys leftover platforms_unload e i runtimes log =
    (case unload_entry platforms_unload i runtimes of
       (unloaded, stopped, rest) \<Rightarrow>
         if \<not> unloaded then (Inr False, rest, log)
         else case setup_entry w hs subscribe arriving keys (pool_after leftover stopped) e log of
           (Inl x, log') \<Rightarrow> (Inl x, rest, log')
         | (Inr r, log') \<Rightarrow> (Inr True, dict_set rest i r, log'))"

subsection \<open>What a reload does\<close>

lemma pool_dropped: "pool_after leftover (Some (stop_runtime r)) = None"
  using stop_transport_pool [of "hb_transport (hr_hub r)"]
  by (auto simp: pool_after_def stop_runtime_def hub_coord_def split: hub_transport.splits)

lemma reload_running:
  "reload_entry w hs subscribe arriving keys leftover True e i [(i, r)] log =
    (case setup_entry w hs subscribe arriving keys None e log of
       (Inl x, log') \<Rightarrow> (Inl x, [], log') | (Inr r', log') \<Rightarrow> (Inr True, [(i, r')], log'))"
  by (simp add: reload_entry_def unload_entry_one pool_dropped dict_set_def split: prod.splits sum.splits)

text \<open>A reload is two steps of the entry's life: it is unloaded, then set up or not.\<close>

lemma reload_is_life:
  assumes "es_runtime s = Some r"
    "reload_entry w hs subscribe arriving keys leftover True e i [(i, r)] (requests_after (es_requests s) (stop_runtime r))
      = (q, runtimes, log)"
  shows "(entry_step e)\<^sup>*\<^sup>* s \<lparr>es_runtime = dict_get runtimes i, es_requests = log,
      es_stopped = es_stopped s @ [stop_runtime r], es_backups = es_backups s\<rparr>"
proof -
  define t where "t = \<lparr>es_runtime = None, es_requests = requests_after (es_requests s) (stop_runtime r),
      es_stopped = es_stopped s @ [stop_runtime r], es_backups = es_backups s\<rparr>"
  have unload: "entry_step e s t"
    using entry_step.unloaded [where s = s, OF assms(1) unload_entry_one] unfolding t_def by (cases s) simp
  have fits: "pool_fits e None" by (simp add: pool_fits_def)
  obtain a log' where a: "setup_entry w hs subscribe arriving keys None e (es_requests t) = (a, log')" by (rule prod.exhaust)
  have "entry_step e t \<lparr>es_runtime = dict_get runtimes i, es_requests = log, es_stopped = es_stopped s @ [stop_runtime r], es_backups = es_backups s\<rparr>"
  proof (cases a)
    case (Inl x)
    have "entry_step e t (t\<lparr>es_requests := log'\<rparr>)"
      using fits a [unfolded Inl] by (intro entry_step.failed) (simp_all add: t_def)
    moreover have "runtimes = []" "log = log'"
      using assms(2) a Inl by (simp_all add: reload_running t_def)
    ultimately show ?thesis by (simp add: t_def dict_get_def)
  next
    case (Inr r')
    have "entry_step e t (t\<lparr>es_runtime := Some r', es_requests := log'\<rparr>)"
      using fits a [unfolded Inr] by (intro entry_step.started) (simp_all add: t_def)
    moreover have "runtimes = [(i, r')]" "log = log'"
      using assms(2) a Inr by (simp_all add: reload_running t_def)
    ultimately show ?thesis by (simp add: t_def dict_get_def)
  qed
  then show ?thesis using unload by (meson converse_rtranclp_into_rtranclp r_into_rtranclp)
qed

text \<open>Setting the integration up again changes nothing but the store, which is what is on disk.\<close>

lemma setup_services:
  "ig_services (snd (async_setup rp disk not_set_up)) =
    [SERVICE_CREATE_BACKUP, SERVICE_RESTORE_BACKUP, SERVICE_GUEST_TEACH, SERVICE_GUEST_REVOKE, SERVICE_GUEST_CANCEL]"
  by (simp add: async_setup_def async_setup_guest_services_def async_setup_backups_def register_service_def
      not_set_up_def const_defs py_def)

lemma setup_twice:
  "snd (async_setup rp disk (snd (async_setup rp disk not_set_up))) = snd (async_setup rp disk not_set_up)"
  by (simp add: async_setup_def async_setup_guest_services_def async_setup_backups_def register_service_def
      not_set_up_def const_defs py_def)

text \<open>A reload carries nothing over from the runtime it replaces: what the node reported before,
  over topics that are not retained too, is gone until it is reported again.\<close>

theorem reload_forgets:
  "reload_entry w hs subscribe arriving keys leftover platforms_unload e i [(i, r)] log
    = reload_entry w hs subscribe arriving keys leftover' platforms_unload e i [(i, r')] log"
  by (cases platforms_unload) (simp_all add: reload_running, simp add: reload_entry_def unload_entry_one)

text \<open>Platforms that refuse to unload keep their entities, but the entry has lost its runtime:
  it was stopped before they were asked.\<close>

theorem refused_unload_stops:
  "reload_entry w hs subscribe arriving keys leftover False e i [(i, r)] log = (Inr False, [], log)
    \<and> (\<exists>r'. unload_entry False i [(i, r)] = (False, Some r', []) \<and> quiet (hb_transport (hr_hub r')))"
proof -
  have "quiet (hb_transport (hr_hub (stop_runtime r)))"
    by (auto simp: quiet_def stop_runtime_def stop_transport_def poller_stop_def client_stop_def
        drop_pooled_state_def split: hub_transport.splits)
  then show ?thesis by (simp add: reload_entry_def unload_entry_one)
qed

end
