(* ===== verification/Spec2Isabelle.thy ===== *)
theory Spec2Isabelle imports Reach Diagnostics Flow Emulator LogScan Platforms Broker_Facts Suite Device LwtNode Reload begin

text \<open>
  HomeKey Household is a Home Assistant integration for door lock nodes. A node is reached over MQTT,
  through the topics of its household, or directly, over an HTTPS interface whose certificate is
  pinned; both feed one coordinator, which holds what the nodes report and which the entities show.
  Commands over MQTT are signed with a key derived from the household's recovery secret. This library
  models the Python code of \<open>src/custom_components/homekey_household\<close>, the tools of
  \<open>src/tools/integration\<close> (the firmware's command verifier, the emulated node, the broker checks and the
  log scanner), the harness of \<open>src/tests_hardware\<close> and the helpers of \<open>src/tests_integration\<close>, and proves
  what makes them correct.

  The theories, from the bottom up, with the files they model.

  \<^item> \<open>Prelude\<close>, \<open>PyStr\<close>, \<open>PyNum\<close>, \<open>Hashes\<close>, \<open>Json\<close>: the Python the code uses. Strings are lists of code
    points, dictionaries are association lists in insertion order, floats are IEEE doubles kept as a
    sign, a mantissa and an exponent, fallible code returns a sum (\<open>bindE\<close>) and stateful fallible code
    also the state it reached (\<open>comp\<close>, \<open>bindS\<close>); SHA-256, HMAC and BLAKE2b, and \<open>json.loads\<close> and
    \<open>json.dumps\<close>, on one line or indented, with their round trips. \<open>Clocked\<close>: loops that wait for something
    until a deadline, as \<open>repeat_until\<close>. \<open>Persistence\<close>: the locale \<open>persistent_store\<close>, the contract of a
    store that is read back after a restart, under which no history of operations and restarts can be
    told from the operations alone; interpreted by the key store and by the backup store.
  \<^item> \<open>Const\<close> (\<open>const.py\<close>), \<open>Errors\<close> (every exception as a value), \<open>Models\<close> (\<open>models.py\<close>: the parsers
    of every payload, the node and its derived state).
  \<^item> \<open>Command\<close> (\<open>command.py\<close>), \<open>Verifier\<close> (\<open>firmware_verifier.py\<close>), \<open>Mqtt\<close> (\<open>mqtt.py\<close>: topics, the
    inbound filter, publishing), \<open>Delivery\<close>: a client and the verifier put together, step by step.
    \<open>Transport\<close>: the rest of \<open>mqtt.py\<close>, the transport over Home Assistant with its decoding of bytes.
  \<^item> \<open>Coordinator\<close> (\<open>coordinator.py\<close>: the handlers of all topics, attribution of lock changes, the pool)
    and \<open>Coordinator_Facts\<close>: its invariant, its isolation of nodes, and the locale \<open>node_field\<close>, the
    contract of a node's field that only one topic writes, interpreted for ten fields.
  \<^item> \<open>Credential\<close> (\<open>credential.py\<close>): the store of command keys.
  \<^item> \<open>Direct\<close>, \<open>Client\<close>, \<open>Poller\<close> (\<open>direct.py\<close>): the translation of a node's state into messages, the
    pinned client with the log of its requests, and the poller. What the poller relies on is the
    locale \<open>message_sink\<close> and its extension \<open>household_sink\<close>, interpreted on the coordinator.
  \<^item> \<open>Backup\<close> (\<open>backup.py\<close>): records, the rolling store with its abstract specification \<open>newest\<close>,
    taking and restoring backups.
  \<^item> \<open>Control\<close> (the command and guest operations of \<open>coordinator.py\<close>, and \<open>guest.py\<close>) and \<open>Setup\<close>
    (\<open>__init__.py\<close>): a \<open>hub\<close> is the coordinator with the transport it was given. \<open>Lifecycle\<close> puts them
    together: an entry that is set up, fed, operated, backed up, restored and unloaded, as the step relation \<open>entry_step\<close>, with
    the locale \<open>pinned_operation\<close> interpreted for the five operations of a direct entry; \<open>Reload\<close> adds the
    set-up of the integration and the reload of an entry, and \<open>Reach\<close> joins \<open>Lifecycle\<close> to \<open>Delivery\<close>: what
    an entry has published, at the nodes of its household.
  \<^item> \<open>Entities\<close> (\<open>entity.py\<close>, \<open>discovery.py\<close>, \<open>lock.py\<close>, \<open>binary_sensor.py\<close>, \<open>switch.py\<close>, \<open>number.py\<close>,
    \<open>button.py\<close>), \<open>Sensors\<close> (\<open>sensor.py\<close>), \<open>Diagnostics\<close> (\<open>diagnostics.py\<close>); \<open>Platforms\<close>: the entities
    each platform makes of a node, and their set-up.
  \<^item> \<open>Flow\<close> (\<open>config_flow.py\<close>): the steps that create and change entries.
  \<^item> \<open>Emulator\<close> (\<open>node_emulator.py\<close>): the payloads the firmware documents and the node that publishes
    them, followed through the MQTT client to the node the coordinator holds.
  \<^item> \<open>Harness\<close> and \<open>Device\<close> (\<open>helpers.py\<close> and \<open>device.py\<close> of \<open>tests_hardware\<close>): the third implementation of
    key and MAC, the redaction and writing of evidence, the serial console and the observer;
    \<open>LogScan\<close> (\<open>scan_logs_for_secrets.py\<close>): the verdict on a log.
  \<^item> \<open>Broker\<close> (\<open>verify_broker_semantics.py\<close>): the checks, over any broker; \<open>Broker_Facts\<close>: the broker MQTT
    documents, and that every broker which behaves like it passes. \<open>Suite\<close> (\<open>tests_integration/helpers.py\<close>) and
    \<open>LwtNode\<close> (\<open>lwt_node_helper.py\<close>): the second copy of the documented payloads, the waits, and the
    process that dies, run beside a subscriber of that broker.

  The properties stand in this theory, in groups: commands (what is published is signed, accepted by a
  verifier with the same key, never replayed); topics and payloads; the coordinator (its invariant,
  rejected payloads, isolation, attribution of lock changes); the direct transport (every request is
  pinned, polling, its equivalence with MQTT); keys and backups (what a history with
  restarts leaves, the rolling window); commands and entities; an entry from end to end (whom it asks and
  what it signs, that it is well formed at every step and silent once unloaded, that the node a command
  names obeys it once, its entities and their values); the config flow; the
  firmware's telemetry and its last will; the harness, the log scan and the broker checks; and, at
  the end, where the code and its documentation part.

  Loops and bounds. The search for a fresh nonce makes at most eight draws, as in the code, and is a
  recursion on that number; the JSON parser is total by the length of its input; the rounds of the
  add-on set-up are the code's 20. The lock's wait for the node is a \<open>partial_function\<close> that ends
  only if the clock advances: that it does, after at most 21 looks, is a property. The waits of the tools
  are \<open>repeat_until\<close>, with the lemmas that they end once the clock has passed the deadline. Rounding and
  wrap-around follow Python: integers are unbounded, and floats are rounded half to even.

  Parameters. Of \<open>aiohttp\<close> the model has the failures \<open>_request\<close> catches, any other exception a request
  may raise, and the user names \<open>BasicAuth\<close> documents that it refuses. The network answers a request given the requests made before; the broker (a record of
  the operations its clients use, where more than one message matters), the clock and what a wait sees
  at each look, the random bytes, the certificate shown by a host, the serial port, Home Assistant's
  registries, its MQTT integration with that integration's flow, and its rule of unique ids are
  arguments. \<open>str\<close> of a list or a dictionary, \<open>datetime\<close>'s parsers of ISO text, the regular expressions
  a test supplies, which characters beyond ASCII count as word characters, the environment of the process
  and the files that match a pattern are arguments too. The documents of Home Assistant's \<open>Store\<close> are
  the values saved, and what is saved is what is loaded.

  Not modelled. The timers of asyncio and Home Assistant (a poll, a tick or a reload is a step the
  model takes); interleaving inside one handler at its awaits; logging and what the tools print beside
  their verdicts; Python's recursion limit and, where a command's time stamp is written as text, its limit of
  4300 digits (reading JSON has it); payloads of a hardware test that are no JSON values, such as tuples,
  which \<open>redact\<close> leaves as they are and no test records; case mapping other than to and from ASCII letters; strings
  that \<open>int\<close> or \<open>float\<close> accept with underscores or non-ASCII digits; class attributes that only Home
  Assistant reads; the TLS context itself, of which the model keeps the one certificate it trusts; the
  subprocess that runs the tests for the log scanner; pauses that only wait.
\<close>

section \<open>Commands\<close>

text \<open>C1: every command a client publishes in a session, to a node that shares its key and
  whose clock is within 300 seconds of the time stamp, is accepted by the node with the
  action that was asked for; an attempt that fails publishes nothing the node accepts.\<close>

theorem session_commands_accepted:
  assumes "list_all attempt_in_time as" "fv_key v = key" "fv_seen v = []"
  shows "list_all (\<lambda>(a, r, outs). outs = (if is_ok r then [Inr (at_action a)] else []))
    (zip as (session h n key (new_mqtt_client h lp) v as))"
proof (rule session_accepted)
  show "tracks (mc_nonces (new_mqtt_client h lp)) []"
    by (simp add: new_mqtt_client_def tracks_new)
  show "nt_window (mc_nonces (new_mqtt_client h lp)) = REPLAY_WINDOW"
    by (simp add: new_mqtt_client_def new_nonce_tracker_def COMMAND_REPLAY_WINDOW_def REPLAY_WINDOW_def)
qed (use assms in \<open>simp_all add: window_of_def last_n_def\<close>)

definition sample_env :: "nat \<Rightarrow> draw_env" where
  "sample_env i = \<lparr>de_now = FFin False 1700000000 0,
     de_draws = (\<lambda>j. replicate 16 (word_of_nat (i + j))), de_uuid = replicate 16 7\<rparr>"

definition sample_attempt :: "nat \<Rightarrow> pystr \<Rightarrow> attempt" where
  "sample_attempt i action = \<lparr>at_env = sample_env i, at_action = action, at_ts = JInt 1700000000,
     at_now = 1700000100\<rparr>"

lemma sample_attempt_in_time: "attempt_in_time (sample_attempt i action)"
  by (simp add: attempt_in_time_def sample_attempt_def sound_draws_def sample_env_def int_ok_def
      dec_nat.simps outside_window_def MAX_SKEW_SECONDS_def)

theorem session_commands_accepted_witness:
  "list_all (\<lambda>(a, r, outs). outs = (if is_ok r then [Inr (at_action a)] else []))
    (zip [sample_attempt 1 (py ''lock''), sample_attempt 2 (py ''unlock'')]
      (session (py ''HOME001'') (py ''GATE-001'') [1, 2, 3]
        (new_mqtt_client (py ''HOME001'') None) \<lparr>fv_key = [1, 2, 3], fv_now = None, fv_seen = []\<rparr>
        [sample_attempt 1 (py ''lock''), sample_attempt 2 (py ''unlock'')]))"
  by (rule session_commands_accepted) (simp_all add: sample_attempt_in_time)

text \<open>C2: what \<open>async_publish_authenticated_command\<close> hands to the broker is nothing, or exactly
  one message for the command topic of the action, QoS 1 and not retained, whose payload is a
  command signed with the given non-empty key under a nonce the client has not used; then the
  tracker remembers that nonce.\<close>

theorem publish_is_signed_or_silent:
  assumes "publish_authenticated_command pub env c h n key action ts = (r, c', ps)"
  shows "(ps = [] \<and> is_ok r = False) \<or>
    (\<exists>command. signed_fresh env key action (mc_nonces c) command
       \<and> signed_at env ts (ac_ts command)
       \<and> ps = [command_publication h n action command]
       \<and> c' = c\<lparr>mc_nonces := remember (ac_nonce command) (mc_nonces c)\<rparr>)"
  using assms by (cases rule: publish_spec) auto

theorem publish_is_signed_or_silent_witness:
  "case publish_authenticated_command (\<lambda>p. None) (sample_env 1)
      (new_mqtt_client (py ''HOME001'') None) (py ''HOME001'') (py ''GATE-001'') [1, 2, 3]
      (py ''lock'') (JInt 1700000000) of
    (r, c', ps) \<Rightarrow> (ps = [] \<and> is_ok r = False) \<or>
      (\<exists>command. signed_fresh (sample_env 1) [1, 2, 3] (py ''lock'')
           (mc_nonces (new_mqtt_client (py ''HOME001'') None)) command
       \<and> signed_at (sample_env 1) (JInt 1700000000) (ac_ts command)
       \<and> ps = [command_publication (py ''HOME001'') (py ''GATE-001'') (py ''lock'') command]
       \<and> c' = (new_mqtt_client (py ''HOME001'') None)\<lparr>mc_nonces := remember (ac_nonce command)
            (mc_nonces (new_mqtt_client (py ''HOME001'') None))\<rparr>)"
proof -
  obtain r c' ps where e: "publish_authenticated_command (\<lambda>p. None) (sample_env 1)
      (new_mqtt_client (py ''HOME001'') None) (py ''HOME001'') (py ''GATE-001'') [1, 2, 3]
      (py ''lock'') (JInt 1700000000) = (r, c', ps)"
    by (rule prod_cases3)
  show ?thesis unfolding e prod.case by (rule publish_is_signed_or_silent [OF e])
qed

text \<open>C3: publishing a lock or unlock command with a non-empty key over a working transport
  succeeds whenever one of the eight random draws is a nonce the tracker does not hold, and
  hands over exactly that one command.\<close>

theorem publish_succeeds:
  assumes "key \<noteq> []" "action \<in> {ACTION_LOCK, ACTION_UNLOCK}" "sound_draws env"
    "j < 8" "bytes_hex (de_draws env j) \<notin> set (nt_seen (mc_nonces c))"
  shows "\<exists>command c'. publish_authenticated_command (\<lambda>p. None) env c h n key action (JInt ts) =
      (Inr command, c', [command_publication h n action command]) \<and> ac_ts command = ts"
  using publish_total [OF assms, of h n ts] by blast

theorem publish_succeeds_witness:
  "\<exists>command c'. publish_authenticated_command (\<lambda>p. None) (sample_env 1)
      (new_mqtt_client (py ''HOME001'') None) (py ''HOME001'') (py ''GATE-001'') [1, 2, 3] (py ''unlock'')
      (JInt 1700000000) =
    (Inr command, c', [command_publication (py ''HOME001'') (py ''GATE-001'') (py ''unlock'') command])
    \<and> ac_ts command = 1700000000"
  by (rule publish_succeeds [where j = 0])
    (simp_all add: ACTION_LOCK_def ACTION_UNLOCK_def sound_draws_def sample_env_def new_mqtt_client_def
      new_nonce_tracker_def)

text \<open>C4: the verifier accepts a command exactly when its topic is one of the node's two command topics
  (which fixes the action), the payload is a JSON object whose \<open>ts\<close> is an integer (not a boolean, not a
  float) and whose \<open>nonce\<close>, \<open>req_id\<close> and \<open>mac\<close> are strings, the \<open>mac\<close> is the HMAC-SHA256 of time stamp, nonce,
  request id and action under the key, the time stamp is at most 300 seconds from the clock, where the
  verifier has one, and the nonce is not among the remembered ones. Acceptance appends the nonce to the
  remembered ones, dropping the oldest when there were 32, and changes nothing else.\<close>

theorem verify_accepts_exactly:
  "verify v base topic payload = (Inr action, v') \<longleftrightarrow>
    (\<exists>data ts nonce req_id b.
       (action = py ''unlock'' \<and> topic = base @ py ''/command/unlock''
        \<or> action = py ''lock'' \<and> topic = base @ py ''/command/lock'')
     \<and> json_loads payload = Some (JObj data)
     \<and> obj_get data (py ''ts'') = JInt ts \<and> obj_get data (py ''nonce'') = JStr nonce
     \<and> obj_get data (py ''req_id'') = JStr req_id
     \<and> utf8 (dec_int ts @ nonce @ req_id @ action) = Some b
     \<and> obj_get data (py ''mac'') = JStr (bytes_hex (hmac_sha256 (fv_key v) b))
     \<and> (case fv_now v of None \<Rightarrow> True | Some now \<Rightarrow> now - 300 \<le> ts \<and> ts \<le> now + 300)
     \<and> nonce \<notin> set (fv_seen v)
     \<and> v' = v\<lparr>fv_seen := (if length (fv_seen v) < 32 then fv_seen v else tl (fv_seen v)) @ [nonce]\<rparr>)"
proof -
  have window: "\<not> outside_window now ts \<longleftrightarrow> (case now of None \<Rightarrow> True | Some n \<Rightarrow> n - 300 \<le> ts \<and> ts \<le> n + 300)" for now ts
    by (auto simp: outside_window_def MAX_SKEW_SECONDS_def split: option.splits)
  have memory: "accept_nonce n v = v\<lparr>fv_seen := (if length (fv_seen v) < 32 then fv_seen v else tl (fv_seen v)) @ [n]\<rparr>" for n
    by (cases "fv_seen v") (auto simp: accept_nonce_def REPLAY_WINDOW_def Let_def)
  show ?thesis unfolding verify_accepts_iff command_fields_Inr window memory by blast
qed

text \<open>C5: a command the verifier accepted is rejected as a replay when it is delivered again,
  at once or after up to 31 further accepted commands.\<close>

theorem replay_rejected:
  assumes "verify v base topic payload = (Inr action, v')" "fv_seen v = last_n REPLAY_WINDOW accepted"
    "length ns < REPLAY_WINDOW"
  shows "verify (fold accept_nonce ns v') base topic payload
    = (Inl (FirmwareReject ReplayedNonce), fold accept_nonce ns v')"
  using verify_replay [OF assms(1) _ assms(3)] assms(2) by (simp add: window_of_def)

theorem replay_rejected_witness:
  "\<exists>topic payload v'. verify \<lparr>fv_key = [1, 2, 3], fv_now = None, fv_seen = []\<rparr>
       (node_base (py ''HOME001'') (py ''GATE-001'')) topic payload = (Inr (py ''unlock''), v')
     \<and> verify (fold accept_nonce [py ''aa'', py ''bb''] v') (node_base (py ''HOME001'') (py ''GATE-001'')) topic payload
       = (Inl (FirmwareReject ReplayedNonce), fold accept_nonce [py ''aa'', py ''bb''] v')"
proof -
  define v where "v = \<lparr>fv_key = [1, 2, 3], fv_now = None, fv_seen = []\<rparr>"
  have "ACTION_UNLOCK \<in> {ACTION_LOCK, ACTION_UNLOCK}" by simp
  then obtain command where c: "signed_fresh (sample_env 1) [1, 2, 3] ACTION_UNLOCK
      (mc_nonces (new_mqtt_client (py ''HOME001'') None)) command" "ac_ts command = 5"
    using publish_total [of "[1, 2, 3]" ACTION_UNLOCK "sample_env 1" 0 "new_mqtt_client (py ''HOME001'') None"
        "py ''HOME001''" "py ''GATE-001''" 5]
    by (auto simp: sound_draws_def sample_env_def new_mqtt_client_def new_nonce_tracker_def)
  define p where "p = command_publication (py ''HOME001'') (py ''GATE-001'') ACTION_UNLOCK command"
  have "verify v (node_base (py ''HOME001'') (py ''GATE-001'')) (pub_topic p) (pub_payload p)
      = (Inr ACTION_UNLOCK, accept_nonce (ac_nonce command) v)"
    unfolding p_def by (rule signed_accepted [OF c(1)])
      (simp_all add: v_def c(2) outside_window_def int_ok_def dec_nat.simps)
  moreover from replay_rejected [OF this, of "[]" "[py ''aa'', py ''bb'']"]
  have "verify (fold accept_nonce [py ''aa'', py ''bb''] (accept_nonce (ac_nonce command) v))
      (node_base (py ''HOME001'') (py ''GATE-001'')) (pub_topic p) (pub_payload p)
    = (Inl (FirmwareReject ReplayedNonce),
       fold accept_nonce [py ''aa'', py ''bb''] (accept_nonce (ac_nonce command) v))"
    by (simp add: v_def last_n_def REPLAY_WINDOW_def)
  ultimately show ?thesis unfolding v_def ACTION_UNLOCK_def by blast
qed

text \<open>C6: nonces handed out by one tracker never repeat one of the \<open>window + 1\<close> nonces handed out
  before it, and the tracker never holds more than two windows of them.\<close>

theorem nonces_not_reused:
  "case issue_nonces ds (new_nonce_tracker w) of
     (ns, t) \<Rightarrow> spaced (max 1 w + 1) [] ns \<and> length (nt_seen t) \<le> 2 * max 1 w"
proof -
  obtain ns t where i: "issue_nonces ds (new_nonce_tracker w) = (ns, t)"
    by (cases "issue_nonces ds (new_nonce_tracker w)")
  have "nt_window (new_nonce_tracker w) = max 1 w" by (simp add: new_nonce_tracker_def)
  then show ?thesis
    unfolding i using issue_nonces_spaced [OF tracks_new i] tracks_bounded [of t ns] by simp
qed

text \<open>A recovery secret and a salt in the hexadecimal form the node exports derive the same
  32-byte key as the bytes themselves, which is the keyed BLAKE2b of secret and salt.\<close>

theorem hex_material_is_bytes:
  assumes "8 \<le> length secret" "8 \<le> length salt"
  shows "derive_command_key (KStr (bytes_hex secret)) (KStr (bytes_hex salt))
       = derive_command_key (KBytes secret) (KBytes salt)
    \<and> derive_command_key (KBytes secret) (KBytes salt)
       = Inr (blake2b (map word_of_nat COMMAND_KEY_LABEL) 32 (secret @ salt))"
  using derive_hex [OF assms] derive_bytes [of secret salt] assms(1) by (cases secret) auto

theorem hex_material_is_bytes_witness:
  "derive_command_key (KStr (bytes_hex (replicate 32 171))) (KStr (bytes_hex (replicate 16 205)))
     = derive_command_key (KBytes (replicate 32 171)) (KBytes (replicate 16 205))"
  using hex_material_is_bytes [of "replicate 32 171" "replicate 16 205"] by simp

section \<open>Topics and payloads\<close>

text \<open>C7: the household topics the parser recognises are exactly the topics \<open>B/<subtopic>\<close> of
  nodes with valid ids, and the parts it returns are those the topic was built from.\<close>

theorem parse_topic_exactly:
  "(parse_topic topic lp = Some p \<and> pt_legacy p = False) \<longleftrightarrow>
    (\<exists>h n s. is_valid_id h \<and> is_valid_id n \<and> topic = node_base h n @ 47 # s
       \<and> p = \<lparr>pt_household_id = Some h, pt_node_id = Some n, pt_subtopic = Some s,
               pt_legacy = False, pt_reserved = (s \<in> set RESERVED_TOPICS)\<rparr>)" (is "?l \<longleftrightarrow> ?r")
proof
  have eq: "node_base h n @ 47 # s
      = TOPIC_ROOT @ 47 # TOPIC_HOUSEHOLD @ 47 # h @ 47 # TOPIC_NODES @ 47 # n @ 47 # s" for h n s
    by (simp add: node_base_def slash)
  show "?l \<Longrightarrow> ?r" unfolding eq using parse_topic_household [of topic lp p] by blast
  show "?r \<Longrightarrow> ?l" unfolding eq using parse_topic_node by auto
qed

text \<open>C8: whatever the broker delivers, a message reaches the coordinator only for a known,
  non-reserved subtopic of a node with valid ids, unchanged, or as the availability signal of
  the client's own legacy prefix, which is given the client's household.\<close>

theorem only_known_messages_delivered:
  assumes "on_message c topic payload qos retain = Some m"
  shows "msg_payload m = payload \<and> msg_subtopic m \<notin> set RESERVED_TOPICS \<and>
    (if msg_legacy m then msg_subtopic m = KIND_LEGACY_STATUS \<and> msg_household_id m = mc_household_id c
       \<and> (\<exists>p i. mc_legacy_prefix c = Some p \<and> msg_node_id m = Some i \<and> topic = p @ i @ 47 # LEGACY_STATUS_SUFFIX)
     else msg_subtopic m \<in> set KNOWN_SUBTOPICS
       \<and> (\<exists>n. msg_node_id m = Some n \<and> is_valid_id n \<and> is_valid_id (msg_household_id m)
            \<and> topic = node_topic (msg_household_id m) n (Some (msg_subtopic m))))"
  using on_message_Some [OF assms]
  by (auto dest: known_not_reserved simp: KIND_LEGACY_STATUS_def RESERVED_TOPICS_def)

theorem only_known_messages_delivered_witness:
  "\<exists>m. on_message (new_mqtt_client (py ''HOME001'') None)
      (py ''homekey/household/HOME002/nodes/GATE-001/backup/last'') (py ''{}'') 1 True = Some m
    \<and> msg_payload m = py ''{}'' \<and> msg_subtopic m \<in> set KNOWN_SUBTOPICS"
proof -
  have v: "is_valid_id (py ''HOME002'')" "is_valid_id (py ''GATE-001'')"
    by (simp_all add: is_valid_id_def py_def)
  have t: "py ''homekey/household/HOME002/nodes/GATE-001/backup/last''
      = TOPIC_ROOT @ 47 # TOPIC_HOUSEHOLD @ 47 # py ''HOME002'' @ 47 # TOPIC_NODES @ 47 #
        py ''GATE-001'' @ 47 # TOPIC_BACKUP_LAST"
    by (simp add: const_defs py_def)
  have "\<exists>m. on_message (new_mqtt_client (py ''HOME001'') None)
      (py ''homekey/household/HOME002/nodes/GATE-001/backup/last'') (py ''{}'') 1 True = Some m
      \<and> msg_legacy m = False"
    unfolding on_message_def t parse_topic_node [OF v] by (simp add: const_defs)
  then show ?thesis using only_known_messages_delivered by fastforce
qed

text \<open>Decoding a printed JSON document (strings of Unicode scalar values, no floats, distinct
  keys) gives it back, with the compact separators of commands and with the default ones of
  the direct transport.\<close>

theorem json_round_trip:
  assumes "json_ok v"
  shows "json_loads (json_dumps [44] [58] v) = Some v \<and> json_loads (dumps_default v) = Some v"
  using assms by (simp add: json_loads_dumps loads_dumps_default seps_ok)

theorem json_round_trip_witness:
  "json_loads (json_dumps [44] [58] (JObj [(KEY_TS, JInt (- 5)), (KEY_MAC, JList [JStr [34, 92, 233, 128512], JNull])]))
    = Some (JObj [(KEY_TS, JInt (- 5)), (KEY_MAC, JList [JStr [34, 92, 233, 128512], JNull])])"
  using json_round_trip [of "JObj [(KEY_TS, JInt (- 5)), (KEY_MAC, JList [JStr [34, 92, 233, 128512], JNull])]"]
  by (simp add: dict_ok_def int_ok_def dec_nat.simps KEY_TS_def KEY_MAC_def)
    (simp add: str_ok_def scalar_value_def)

text \<open>A validated id is a non-empty string of at most the given length over the safe
  characters, and the check of the MQTT layer accepts the same ids as the validator of the
  models with its default length.\<close>

theorem ids_validated:
  "(validate_id v field m = Inr u \<longleftrightarrow>
      u = v \<and> 1 \<le> length v \<and> length v \<le> m \<and> list_all (\<lambda>ch. ch \<in> set ID_SAFE_CHARS) v)
   \<and> is_valid_id v = is_ok (validate_id v field 64)"
proof
  show "validate_id v field m = Inr u \<longleftrightarrow>
      u = v \<and> 1 \<le> length v \<and> length v \<le> m \<and> list_all (\<lambda>ch. ch \<in> set ID_SAFE_CHARS) v"
    by (cases v) (auto simp: validate_id_Inr)
  have "is_ok (validate_id v field 64) \<longleftrightarrow> (\<exists>u. validate_id v field 64 = Inr u)"
    by (cases "validate_id v field 64") simp_all
  then show "is_valid_id v = is_ok (validate_id v field 64)"
    by (simp add: is_valid_id_iff validate_id_Inr)
qed

section \<open>The coordinator\<close>

text \<open>C9: in every reachable coordinator, through any messages, reloads and dropped pools, the nodes are
  registered under their own ids for its household; a security state, a backup outcome, the result of
  an authentication and the source of a lock change, where a node has one, is a word of the contract's
  vocabulary for it, while its name, role and state and the states in its health document, which the
  parsers do not hold to a vocabulary, are only known not to be empty; the known ids are those of the
  nodes, the pool holds no node but as the coordinator does, and no cause is left pending.\<close>

theorem reachable_coordinators_well_formed:
  assumes "reachable hid c"
  shows "co_household_id c = hid \<and> coord_inv c
    \<and> co_known c = fst ` set (co_nodes c) \<and> co_pending c = []
    \<and> (\<forall>k n. dict_get (case co_pool c of None \<Rightarrow> [] | Some d \<Rightarrow> d) k = Some n \<longrightarrow> get_node c k = Some n)
    \<and> (\<forall>k n. get_node c k = Some n \<longrightarrow> k \<noteq> [] \<and> nd_node_id n = k \<and> nd_household_id n = hid
       \<and> nd_node_name n \<noteq> [] \<and> nd_node_role n \<noteq> [] \<and> nd_node_state n \<noteq> []
       \<and> set_option (nd_security n) \<subseteq> {py ''OK'', py ''WARNING'', py ''ERROR''}
       \<and> set_option (nd_backup_status n) \<subseteq> {py ''completed'', py ''failed''}
       \<and> br_status ` set_option (nd_backup n) \<subseteq> {py ''completed'', py ''failed''}
       \<and> la_result ` set_option (nd_last_auth n) \<subseteq> {py ''SUCCESS'', py ''FAILURE''}
       \<and> lc_source ` set_option (nd_lock_change n) \<subseteq> {py ''homekit'', py ''homekey'', py ''mqtt'', py ''api'', py ''device'', py ''unknown''}
       \<and> (\<forall>h \<in> set_option (nd_health n). nh_mqtt h \<noteq> [] \<and> nh_network h \<noteq> [] \<and> nh_certificate h \<noteq> []))"
proof -
  have inv: "coord_inv c" "co_household_id c = hid" using reachable_inv [OF assms] by simp_all
  have node: "node_ok hid k n" if "get_node c k = Some n" for k n
    using inv that by (auto simp: coord_inv_def nodes_ok_def get_node_def)
  have fields: "node_ok hid k n \<Longrightarrow> k \<noteq> [] \<and> nd_node_id n = k \<and> nd_household_id n = hid
       \<and> nd_node_name n \<noteq> [] \<and> nd_node_role n \<noteq> [] \<and> nd_node_state n \<noteq> []
       \<and> set_option (nd_security n) \<subseteq> {py ''OK'', py ''WARNING'', py ''ERROR''}
       \<and> set_option (nd_backup_status n) \<subseteq> {py ''completed'', py ''failed''}
       \<and> br_status ` set_option (nd_backup n) \<subseteq> {py ''completed'', py ''failed''}
       \<and> la_result ` set_option (nd_last_auth n) \<subseteq> {py ''SUCCESS'', py ''FAILURE''}
       \<and> lc_source ` set_option (nd_lock_change n) \<subseteq> {py ''homekit'', py ''homekey'', py ''mqtt'', py ''api'', py ''device'', py ''unknown''}
       \<and> (\<forall>h \<in> set_option (nd_health n). nh_mqtt h \<noteq> [] \<and> nh_network h \<noteq> [] \<and> nh_certificate h \<noteq> [])" for k n
    by (auto simp: node_ok_def report_words opt_all_def split: option.splits)
  have pool: "dict_get (case co_pool c of None \<Rightarrow> [] | Some d \<Rightarrow> d) k = Some n \<Longrightarrow> get_node c k = Some n" for k n
    using inv(1) by (auto simp: coord_inv_def pool_agrees_def opt_all_def dict_get_def split: option.splits)
  have rest: "co_known c = fst ` set (co_nodes c)" "co_pending c = []"
    using inv(1) by (simp_all add: coord_inv_def dict_keys_def)
  show ?thesis
    by (intro conjI allI impI inv rest) (erule pool, (drule node, drule fields, elim conjE, assumption)+)
qed

theorem reachable_coordinators_well_formed_witness:
  "\<forall>env m. coord_inv (handle_message env m (new_coord (py ''HOME001'') None))"
proof (intro allI)
  fix env m
  have "reachable (py ''HOME001'') (handle_message env m (new_coord (py ''HOME001'') None))"
    by (rule reachable.ingest [OF reachable.start])
  from reachable_coordinators_well_formed [OF this] show "coord_inv (handle_message env m (new_coord (py ''HOME001'') None))"
    by blast
qed

text \<open>C10: when a message is rejected, the exception is a \<open>ValidationError\<close>, every node keeps its
  state, nothing is delivered, logged or pooled; the only possible effect is that the
  addressed node, unknown before, is registered with default values.\<close>

theorem rejected_message_preserves_state:
  assumes "dispatch env m c = (Inl e, c')"
  shows "is_validation_error e
    \<and> (c' = c \<or> (\<exists>nid. msg_node_id m = Some nid \<and> get_node c nid = None \<and> c' = registered nid c))
    \<and> (\<forall>k. get_node c k = None \<or> get_node c' k = get_node c k)
    \<and> co_delivered c' = co_delivered c \<and> co_logbook c' = co_logbook c \<and> co_pool c' = co_pool c"
  using dispatch_rejects [OF assms] by (auto simp: registered_def split: if_splits)

theorem rejected_message_preserves_state_witness:
  "\<forall>env. co_delivered (snd (dispatch env
      \<lparr>msg_household_id = py ''HOME001'', msg_subtopic = TOPIC_SECURITY, msg_payload = py ''7'',
       msg_node_id = Some (py ''GATE-001''), msg_qos = 0, msg_retain = True, msg_legacy = False\<rparr>
      (new_coord (py ''HOME001'') None))) = []"
proof
  fix env
  define m where "m = \<lparr>msg_household_id = py ''HOME001'', msg_subtopic = TOPIC_SECURITY, msg_payload = py ''7'',
       msg_node_id = Some (py ''GATE-001''), msg_qos = 0, msg_retain = True, msg_legacy = False\<rparr>"
  have d: "dispatch env m (new_coord (py ''HOME001'') None) = (invalid (UnknownValue TOPIC_SECURITY (py ''7'')),
      new_coord (py ''HOME001'') None)"
  proof -
    have "py_strip (py ''7'') = py ''7''" by (simp add: py_strip_def py_lstrip_def py_def is_space_def)
    moreover have "\<not> is_security_state (py ''7'')"
    proof
      assume "is_security_state (py ''7'')"
      then obtain x where "py ''7'' = security_state_str x" by (auto simp: is_security_state_iff)
      then show False by (cases x) simp_all
    qed
    ultimately show ?thesis
      using dispatch_security [of m "py ''GATE-001''"] by (simp add: m_def handle_security_def)
  qed
  from rejected_message_preserves_state [OF d]
  show "co_delivered (snd (dispatch env m (new_coord (py ''HOME001'') None))) = []"
    unfolding d by (simp add: new_coord_def restore_pooled_state_def)
qed

text \<open>A message changes no node but the one it is addressed to, and none at all when it is
  for another household.\<close>

theorem messages_are_isolated:
  "(\<forall>k. msg_node_id m = Some k \<or> get_node (handle_message env m c) k = get_node c k)
   \<and> (msg_household_id m = co_household_id c \<or> handle_message env m c = c)"
proof
  show "\<forall>k. msg_node_id m = Some k \<or> get_node (handle_message env m c) k = get_node c k"
    using handle_message_other_nodes [of m _ env c] by blast
qed (simp add: handle_message_def)

text \<open>The shared availability topic of the legacy namespace never registers a node and
  changes nothing of a node but its LWT flag and the time it was last seen.\<close>

theorem legacy_status_only_marks_availability:
  assumes "msg_subtopic m = KIND_LEGACY_STATUS" "msg_node_id m = Some nid" "nid \<noteq> []"
  shows "map_option (\<lambda>n. n\<lparr>nd_lwt_online := None, nd_last_seen := None\<rparr>)
      (get_node (handle_message env m c) nid)
    = map_option (\<lambda>n. n\<lparr>nd_lwt_online := None, nd_last_seen := None\<rparr>) (get_node c nid)"
  unfolding handle_message_def dispatch_legacy [OF assms] handle_legacy_status_def Let_def
  by (auto split: option.splits)

theorem legacy_status_only_marks_availability_witness:
  "\<forall>env. get_node (handle_message env
      \<lparr>msg_household_id = py ''HOME001'', msg_subtopic = KIND_LEGACY_STATUS, msg_payload = py ''offline'',
       msg_node_id = Some (py ''A1B2''), msg_qos = 0, msg_retain = True, msg_legacy = True\<rparr>
      (new_coord (py ''HOME001'') None)) (py ''A1B2'') = None"
  using legacy_status_only_marks_availability [of "\<lparr>msg_household_id = py ''HOME001'',
      msg_subtopic = KIND_LEGACY_STATUS, msg_payload = py ''offline'',
      msg_node_id = Some (py ''A1B2''), msg_qos = 0, msg_retain = True, msg_legacy = True\<rparr>" "py ''A1B2''"
      _ "new_coord (py ''HOME001'') None"]
  by (simp add: new_coord_def restore_pooled_state_def get_node_def)

text \<open>C11: after an accepted \<open>lock/last\<close> the lock is in the state the event reports, and after an
  accepted \<open>health\<close> in the state the snapshot reports (unknown when it reports none): the
  freshest report wins.\<close>

theorem freshest_report_wins:
  assumes "msg_household_id m = co_household_id c" "msg_node_id m = Some nid" "nid \<noteq> []"
    "decode_json (msg_payload m) = Inr v"
  shows "(msg_subtopic m = TOPIC_LOCK_LAST \<longrightarrow> lock_change_from_dict v (co_household_id c) nid = Inr l \<longrightarrow>
      map_option node_lock_state (get_node (handle_message env m c) nid) = Some (lock_state_of (lc_current l)))
    \<and> (msg_subtopic m = TOPIC_HEALTH \<longrightarrow> node_health_from_dict v (co_household_id c) nid = Inr h \<longrightarrow>
      map_option node_lock_state (get_node (handle_message env m c) nid)
        = Some (case nh_lock_current h of None \<Rightarrow> LS_UNKNOWN | Some i \<Rightarrow> lock_state_of i))"
proof (intro conjI impI)
  assume s: "msg_subtopic m = TOPIC_LOCK_LAST" and l: "lock_change_from_dict v (co_household_id c) nid = Inr l"
  show "map_option node_lock_state (get_node (handle_message env m c) nid) = Some (lock_state_of (lc_current l))"
    using handle_lock_last_state [OF l, of env]
    by (auto simp: handle_message_dispatch [OF assms(1)] dispatch_lock_last [OF s assms(2,3)] assms(4))
next
  assume s: "msg_subtopic m = TOPIC_HEALTH" and h: "node_health_from_dict v (co_household_id c) nid = Inr h"
  show "map_option node_lock_state (get_node (handle_message env m c) nid)
      = Some (case nh_lock_current h of None \<Rightarrow> LS_UNKNOWN | Some i \<Rightarrow> lock_state_of i)"
    using handle_health_state [OF h, of env]
    by (auto simp: handle_message_dispatch [OF assms(1)] dispatch_health [OF s assms(2,3)] assms(4))
qed

definition sample_event :: json where
  "sample_event = JObj [(KEY_LOCK_CHANGE_CURRENT, JInt 0), (KEY_LOCK_SOURCE, JStr (py ''homekey'')),
     (KEY_TIMESTAMP, JStr (py ''t1''))]"

definition sample_change :: lock_change where
  "sample_change = \<lparr>lc_current = 0, lc_source = py ''homekey'', lc_target = None,
     lc_timestamp = Some (py ''t1'')\<rparr>"

definition sample_message :: message where
  "sample_message = \<lparr>msg_household_id = py ''HOME001'', msg_subtopic = TOPIC_LOCK_LAST,
     msg_payload = dumps_default sample_event, msg_node_id = Some (py ''GATE-001''), msg_qos = 0,
     msg_retain = True, msg_legacy = False\<rparr>"

lemma sample_event_decodes: "decode_json (dumps_default sample_event) = Inr sample_event"
proof -
  have "json_ok sample_event"
    by (simp add: sample_event_def const_defs dict_ok_def int_ok_def)
  then show ?thesis by (simp add: decode_json_def loads_dumps_default)
qed

lemma homekey_source: "lock_source_str SRC_HOMEKEY = py ''homekey''"
  by simp

lemma sample_event_parses: "lock_change_from_dict sample_event hid nid = Inr sample_change"
proof -
  have "is_lock_source (py ''homekey'')" unfolding is_lock_source_iff using homekey_source by metis
  then show ?thesis
    by (simp add: lock_change_from_dict_def sample_event_def require_dict_def validate_identity_def
        const_defs optional_int_def optional_str_def normalise_timestamp_def sample_change_def)
qed

theorem freshest_report_wins_witness:
  "\<forall>env. map_option node_lock_state (get_node (handle_message env sample_message
      (new_coord (py ''HOME001'') None)) (py ''GATE-001'')) = Some LS_UNLOCKED"
proof
  fix env
  have "msg_household_id sample_message = co_household_id (new_coord (py ''HOME001'') None)"
    "msg_node_id sample_message = Some (py ''GATE-001'')" "py ''GATE-001'' \<noteq> []"
    "decode_json (msg_payload sample_message) = Inr sample_event"
    by (simp_all add: sample_message_def sample_event_decodes)
  from freshest_report_wins [OF this, of sample_change env]
  show "map_option node_lock_state (get_node (handle_message env sample_message
      (new_coord (py ''HOME001'') None)) (py ''GATE-001'')) = Some LS_UNLOCKED"
    by (simp add: sample_event_parses) (simp add: sample_message_def sample_change_def lock_state_of_range)
qed

text \<open>C12: a lock event is announced in the logbook once: whatever other messages arrive in
  between, delivering the event announced last again adds no entry and attaches no cause.\<close>

theorem event_announced_once:
  assumes "is_lock_event_for nid m" "nid \<noteq> []" "msg_household_id m = co_household_id c"
    "decode_json (msg_payload m) = Inr v" "lock_change_from_dict v (co_household_id c) nid = Inr l"
    "announces env (fst (ensure_node nid c)) l"
    "list_all (\<lambda>(e, m'). \<not> is_lock_event_for nid m') ms"
    "c1 = handle_messages ms (handle_message env m c)"
  shows "co_logbook (handle_message env' m c1) = co_logbook c1
    \<and> co_delivered (handle_message env' m c1) = co_delivered c1 @ [co_pending c1]"
proof -
  obtain n d where e: "ensure_node nid c = (n, d)" by (cases "ensure_node nid c")
  obtain c2 where c2: "handle_message env m c = publish_update c2" "event_effect env n l nid c c2"
    using lock_event_message [OF assms(1-5) e] by blast
  then have "\<exists>n1. get_node (handle_message env m c) nid = Some n1
      \<and> nd_attributed_lock_change n1 = Some (change_key l)"
    using assms(6) e by (simp add: event_effect_def)
  then obtain n1 where n1: "get_node c1 nid = Some n1" "nd_attributed_lock_change n1 = Some (change_key l)"
    using event_field.keeps_messages [of nid ms "handle_message env m c"] assms(7,8)
    by (auto simp: keeps_field_def is_lock_event_for_def)
  then have e1: "ensure_node nid c1 = (n1, c1)" by (simp add: ensure_node_def)
  obtain c3 where c3: "handle_message env' m c1 = publish_update c3" "event_effect env' n1 l nid c1 c3"
    using lock_event_message [OF assms(1,2) _ assms(4) _ e1, of l env'] assms(3,5,8) by auto
  have "\<not> announces env' n1 l" using n1(2) by (simp add: announces_def)
  then show ?thesis using c3 by (simp add: event_effect_def)
qed

definition quiet_env :: ingest_env where
  "quiet_env = \<lparr>ie_now = 1700000000000000, ie_parse_datetime = (\<lambda>s. Inr None),
     ie_entity_id = (\<lambda>u. Inr None), ie_logbook = None\<rparr>"

lemma sample_announces: "announces quiet_env (fst (ensure_node nid (new_coord hid None))) sample_change"
  by (simp add: announces_def ensure_node_def get_node_def new_coord_def restore_pooled_state_def
      Let_def new_node_def sample_change_def device_initiated_def DEVICE_INITIATED_SOURCES_def
      is_recent_def quiet_env_def)

theorem event_announced_once_witness:
  "co_logbook (handle_message quiet_env sample_message (handle_messages []
      (handle_message quiet_env sample_message (new_coord (py ''HOME001'') None))))
   = co_logbook (handle_message quiet_env sample_message (new_coord (py ''HOME001'') None))"
  using event_announced_once [of "py ''GATE-001''" sample_message "new_coord (py ''HOME001'') None"
      sample_event sample_change quiet_env "[]" _ quiet_env]
  by (simp add: is_lock_event_for_def sample_event_decodes sample_event_parses sample_announces)
    (simp add: sample_message_def sample_event_decodes)

text \<open>An accepted lock event writes exactly one logbook entry when it is news, under the
  context handed to the entities with the update, and none otherwise; a name other than the
  label of the source appears in an entry only for a HomeKey tap whose authorisation carries
  the very stamp of the change.\<close>

theorem lock_event_logbook:
  assumes "is_lock_event_for nid m" "nid \<noteq> []" "msg_household_id m = co_household_id c"
    "decode_json (msg_payload m) = Inr v" "lock_change_from_dict v (co_household_id c) nid = Inr l"
    "ensure_node nid c = (n, c1)" "ie_logbook env = None"
  shows "co_logbook (handle_message env m c) = co_logbook c @
      (if announces env n l then [event_entry env (co_household_id c) n l (co_next_context c)] else [])
    \<and> last (co_delivered (handle_message env m c)) =
      (if announces env n l then dict_set (co_pending c) (nd_node_id n) (co_next_context c) else co_pending c)
    \<and> (actor_for n (lc_source l) (lc_timestamp l) = source_label (lc_source l)
       \<or> (\<exists>a i t. lc_source l = lock_source_str SRC_HOMEKEY \<and> nd_last_auth n = Some a
            \<and> la_issuer a = Some i \<and> la_timestamp a = Some t \<and> lc_timestamp l = Some t
            \<and> actor_for n (lc_source l) (lc_timestamp l) = i))"
proof -
  obtain c2 where c2: "handle_message env m c = publish_update c2" "event_effect env n l nid c c2"
    using lock_event_message [OF assms(1-6)] by blast
  have "actor_for n (lc_source l) (lc_timestamp l) = source_label (lc_source l)
       \<or> (\<exists>a i t. lc_source l = lock_source_str SRC_HOMEKEY \<and> nd_last_auth n = Some a
            \<and> la_issuer a = Some i \<and> la_timestamp a = Some t \<and> lc_timestamp l = Some t
            \<and> actor_for n (lc_source l) (lc_timestamp l) = i)"
    by (auto simp: actor_for_def split: bool.splits option.splits)
  then show ?thesis using c2 assms(7) by (simp add: event_effect_def)
qed

theorem lock_event_logbook_witness:
  "co_logbook (handle_message quiet_env sample_message (new_coord (py ''HOME001'') None)) =
     [event_entry quiet_env (py ''HOME001'') (new_node (py ''GATE-001'') (py ''HOME001'')) sample_change 0]"
proof -
  define c where "c = new_coord (py ''HOME001'') None"
  define n where "n = new_node (py ''GATE-001'') (py ''HOME001'')"
  have e: "ensure_node (py ''GATE-001'') c = (n, snd (ensure_node (py ''GATE-001'') c))"
    by (simp add: c_def n_def ensure_node_def get_node_def new_coord_def restore_pooled_state_def Let_def)
  have "is_lock_event_for (py ''GATE-001'') sample_message" "py ''GATE-001'' \<noteq> []"
    "msg_household_id sample_message = co_household_id c"
    "decode_json (msg_payload sample_message) = Inr sample_event"
    by (simp_all add: is_lock_event_for_def sample_message_def sample_event_decodes c_def)
  note this' = this
  have ann: "announces quiet_env n sample_change"
    using sample_announces [of "py ''GATE-001''" "py ''HOME001''"] e unfolding c_def by (metis fst_conv)
  have "ie_logbook quiet_env = None" by (simp add: quiet_env_def)
  from lock_event_logbook [OF this' sample_event_parses e this]
  have "co_logbook (handle_message quiet_env sample_message c) =
      co_logbook c @ [event_entry quiet_env (co_household_id c) n sample_change (co_next_context c)]"
    using ann by simp
  moreover have "co_logbook c = []" "co_household_id c = py ''HOME001''" "co_next_context c = 0"
    by (simp_all add: c_def new_coord_def restore_pooled_state_def)
  ultimately show ?thesis unfolding c_def [symmetric] n_def [symmetric] by simp
qed

text \<open>A \<open>health\<close> or \<open>lock/last\<close> payload that decodes but does not validate still registers
  its node, unknown before, with default values, although the message is rejected; the other
  documents register nothing when they are rejected.\<close>

theorem rejected_health_registers_node:
  assumes "msg_node_id m = Some nid" "nid \<noteq> []" "get_node c nid = None"
    "decode_json (msg_payload m) = Inr v" "msg_household_id m = co_household_id c"
    "msg_subtopic m = TOPIC_HEALTH \<and> node_health_from_dict v (co_household_id c) nid = Inl e
     \<or> msg_subtopic m = TOPIC_LOCK_LAST \<and> lock_change_from_dict v (co_household_id c) nid = Inl e"
  shows "fst (dispatch env m c) = Inl e
    \<and> get_node (handle_message env m c) nid = Some (new_node nid (co_household_id c))"
proof -
  have e: "ensure_node nid c = (new_node nid (co_household_id c), registered nid c)"
    using assms(3) by (simp add: ensure_node_def registered_def Let_def)
  have g: "get_node (registered nid c) nid = Some (new_node nid (co_household_id c))"
    "co_household_id (registered nid c) = co_household_id c"
    by (simp_all add: registered_def)
  from assms(6) show ?thesis
  proof
    assume a: "msg_subtopic m = TOPIC_HEALTH \<and> node_health_from_dict v (co_household_id c) nid = Inl e"
    then show ?thesis
      using g dispatch_health [of m nid env c] assms
      by (simp add: handle_message_def handle_health_def e)
  next
    assume a: "msg_subtopic m = TOPIC_LOCK_LAST \<and> lock_change_from_dict v (co_household_id c) nid = Inl e"
    then show ?thesis
      using g dispatch_lock_last [of m nid env c] assms
      by (simp add: handle_message_def handle_lock_last_def e)
  qed
qed

theorem rejected_health_registers_node_witness:
  "\<forall>env. get_node (handle_message env
      \<lparr>msg_household_id = py ''HOME001'', msg_subtopic = TOPIC_HEALTH, msg_payload = py ''{}'',
       msg_node_id = Some (py ''GHOST''), msg_qos = 0, msg_retain = False, msg_legacy = False\<rparr>
      (new_coord (py ''HOME001'') None)) (py ''GHOST'') = Some (new_node (py ''GHOST'') (py ''HOME001''))"
proof
  fix env
  have "decode_json (py ''{}'') = Inr (JObj [])"
    by (simp add: decode_json_def json_loads_def parse_value.simps skip_ws_def is_jws_def py_def)
  moreover have "node_health_from_dict (JObj []) h n = invalid (Expected KEY_MQTT KString)" for h n
    by (simp add: node_health_from_dict_def require_dict_def validate_identity_def health_security_def
        optional_str_def require_str_def)
  ultimately show "get_node (handle_message env
      \<lparr>msg_household_id = py ''HOME001'', msg_subtopic = TOPIC_HEALTH, msg_payload = py ''{}'',
       msg_node_id = Some (py ''GHOST''), msg_qos = 0, msg_retain = False, msg_legacy = False\<rparr>
      (new_coord (py ''HOME001'') None)) (py ''GHOST'') = Some (new_node (py ''GHOST'') (py ''HOME001''))"
    using rejected_health_registers_node [of "\<lparr>msg_household_id = py ''HOME001'', msg_subtopic = TOPIC_HEALTH,
       msg_payload = py ''{}'', msg_node_id = Some (py ''GHOST''), msg_qos = 0, msg_retain = False,
       msg_legacy = False\<rparr>" "py ''GHOST''" "new_coord (py ''HOME001'') None" "JObj []"
       "ValidationError (Expected KEY_MQTT KString)" env]
    by (simp add: get_node_def)
qed

text \<open>C13: a node's field is written by the messages of one topic only: any other message, and any
  message for another node, leaves availability, the LWT flag, security, the backup outcome, the
  backup record, the last authorisation, the guest document, the health document, the lock
  event and the identity of a registered node as they were.\<close>

theorem fields_written_by_their_topic:
  assumes "get_node c nid = Some n"
  shows "\<exists>n'. get_node (handle_message env m c) nid = Some n'
    \<and> (msg_subtopic m = TOPIC_STATUS \<and> msg_node_id m = Some nid \<or> nd_online n' = nd_online n)
    \<and> (msg_subtopic m = KIND_LEGACY_STATUS \<and> msg_node_id m = Some nid \<or> nd_lwt_online n' = nd_lwt_online n)
    \<and> (msg_subtopic m = TOPIC_SECURITY \<and> msg_node_id m = Some nid \<or> nd_security n' = nd_security n)
    \<and> (msg_subtopic m = TOPIC_BACKUP_STATUS \<and> msg_node_id m = Some nid \<or> nd_backup_status n' = nd_backup_status n)
    \<and> (msg_subtopic m = TOPIC_BACKUP_LAST \<and> msg_node_id m = Some nid \<or> nd_backup n' = nd_backup n)
    \<and> (msg_subtopic m = TOPIC_LAST_AUTH \<and> msg_node_id m = Some nid \<or> nd_last_auth n' = nd_last_auth n)
    \<and> (msg_subtopic m = TOPIC_GUEST_STATUS \<and> msg_node_id m = Some nid \<or> nd_guest n' = nd_guest n)
    \<and> (msg_subtopic m = TOPIC_HEALTH \<and> msg_node_id m = Some nid \<or> nd_health n' = nd_health n)
    \<and> (msg_subtopic m = TOPIC_LOCK_LAST \<and> msg_node_id m = Some nid
        \<or> nd_lock_change n' = nd_lock_change n \<and> nd_attributed_lock_change n' = nd_attributed_lock_change n)
    \<and> (msg_subtopic m = TOPIC_STATE \<and> msg_node_id m = Some nid
        \<or> nd_node_name n' = nd_node_name n \<and> nd_generation n' = nd_generation n \<and> nd_firmware n' = nd_firmware n)"
proof -
  obtain n' where n': "get_node (handle_message env m c) nid = Some n'"
    using handle_message_keeps_nodes [of c nid env m] assms by auto
  note keeps = online_field.keeps_message [of m nid c env] lwt_field.keeps_message [of m nid c env]
    security_field.keeps_message [of m nid c env] backup_status_field.keeps_message [of m nid c env]
    backup_field.keeps_message [of m nid c env] auth_field.keeps_message [of m nid c env]
    guest_field.keeps_message [of m nid c env] health_field.keeps_message [of m nid c env]
    event_field.keeps_message [of m nid c env] identity_field.keeps_message [of m nid c env]
  show ?thesis
    using keeps [unfolded keeps_field_def assms n'] n' by auto
qed

theorem fields_written_by_their_topic_witness:
  "\<exists>n'. get_node (handle_message quiet_env sample_message
      (put_node (py ''GATE-001'') (new_node (py ''GATE-001'') (py ''HOME001'')) (new_coord (py ''HOME001'') None)))
      (py ''GATE-001'') = Some n' \<and> nd_online n' = False"
proof -
  have "(TOPIC_LOCK_LAST = TOPIC_STATUS) = False" by (simp add: const_defs)
  then have "(msg_subtopic sample_message = TOPIC_STATUS) = False" by (simp add: sample_message_def)
  moreover have "nd_online (new_node (py ''GATE-001'') (py ''HOME001'')) = False" by (simp add: new_node_def)
  moreover have "get_node (put_node (py ''GATE-001'') (new_node (py ''GATE-001'') (py ''HOME001''))
      (new_coord (py ''HOME001'') None)) (py ''GATE-001'') = Some (new_node (py ''GATE-001'') (py ''HOME001''))"
    by simp
  ultimately show ?thesis using fields_written_by_their_topic by blast
qed

section \<open>The direct transport\<close>

text \<open>C14: whatever the connection procedure ends with, every request it has sent is pinned to a
  certificate whose SHA-256 fingerprint is the expected one: a node showing another certificate
  gets no request, so no credential either, and the mismatch is reported with both
  fingerprints.\<close>

theorem connect_sends_only_to_the_pinned_node:
  assumes "connect_node rp net hs host port expected username password log = (r, log')"
  shows "\<exists>rs. log' = log @ rs
    \<and> (\<forall>q \<in> set rs. fingerprints_match expected (certificate_fingerprint (rq_pin q)) \<and> hs = Presented (Some (rq_pin q)))
    \<and> (\<forall>der. hs = Presented (Some der) \<longrightarrow> der \<noteq> [] \<longrightarrow>
         fingerprints_match expected (certificate_fingerprint der) = False \<longrightarrow>
         rs = [] \<and> r = Inl (DirectFingerprintMismatch expected (certificate_fingerprint der)))"
proof (cases "\<exists>der. fetch_peer_certificate hs = Inr der \<and> fingerprints_match expected (certificate_fingerprint der)")
  case True
  then obtain der where der: "fetch_peer_certificate hs = Inr der" "fingerprints_match expected (certificate_fingerprint der)"
    by blast
  have hs: "hs = Presented (Some der)"
    using der(1) by (auto simp: fetch_peer_certificate_def split: handshake.splits option.splits if_splits)
  define c where "c = \<lparr>dc_host = host, dc_port = port, dc_pin = der, dc_username = username, dc_password = password\<rparr>"
  have "log' = log \<or> identify_node rp net c (certificate_fingerprint der) log = (r, log')"
    using assms der by (auto simp: connect_node_def new_client_def Let_def c_def split: if_splits)
  then obtain rs where "log' = log @ rs" "list_all (made_by c) rs"
    using only_pinned [OF keeps_identify, of rp net c "certificate_fingerprint der" log r log'] by (auto simp: extends_def)
  then show ?thesis using der(2) hs by (auto simp: list_all_iff made_by_def c_def)
next
  case False
  then have "log' = log" using assms
    by (auto simp: connect_node_def Let_def split: sum.splits if_splits)
  then show ?thesis using assms False
    by (auto simp: connect_node_def fetch_peer_certificate_def Let_def)
qed

definition sample_net :: network where
  "sample_net log r = (if rq_url r = py ''https://10.0.0.9:443/api/ha/info''
     then Response 200 (Inr []) (Inr (JObj [(py ''protocol'', JInt 1), (py ''device'', JObj [(py ''node_id'', JStr (py ''GATE-001''))])]))
     else if rq_url r = py ''https://10.0.0.9:443/api/ha/state''
     then Response 200 (Inr []) (Inr (JObj [(py ''household_id'', JStr (py ''HOME001''))]))
     else Response 404 (Inr []) (Inl (Raises ValueError)))"

theorem connect_sends_only_to_the_pinned_node_witness:
  "case connect_node (\<lambda>v. []) sample_net (Presented (Some [1])) (py ''10.0.0.9'') 443
      (certificate_fingerprint [1]) (py ''admin'') (py ''pw'') [] of
    (r, log') \<Rightarrow> \<forall>q \<in> set log'. [1] = rq_pin q"
proof -
  obtain r log' where e: "connect_node (\<lambda>v. []) sample_net (Presented (Some [1])) (py ''10.0.0.9'') 443
      (certificate_fingerprint [1]) (py ''admin'') (py ''pw'') [] = (r, log')"
    by (rule prod.exhaust)
  from connect_sends_only_to_the_pinned_node [OF e] obtain rs where rs: "log' = [] @ rs"
    "\<forall>q \<in> set rs. Presented (Some [1]) = Presented (Some (rq_pin q))" by blast
  then show ?thesis unfolding e prod.case by simp
qed

text \<open>C15: a successful connection asked the node for \<open>/api/ha/info\<close> and then \<open>/api/ha/state\<close> and
  nothing else; the node speaks the supported protocol, and the probe carries the identity the
  node reports and the certificate that was pinned.\<close>

theorem connect_establishes:
  assumes "connect_node rp net hs host port expected username password log = (Inr p, log')"
  shows "\<exists>info state. pr_info p = JObj info \<and> pr_state p = JObj state
    \<and> json_eq_int (obj_get info (py ''protocol'')) HA_API_PROTOCOL
    \<and> resolve_identity rp state info = Inr (pr_household_id p, pr_node_id p)
    \<and> log' = log @ [make_request (pr_client p) GET (py ''/api/ha/info'') None,
                    make_request (pr_client p) GET (py ''/api/ha/state'') None]
    \<and> hs = Presented (Some (pr_der p)) \<and> dc_pin (pr_client p) = pr_der p
    \<and> pr_fingerprint p = certificate_fingerprint (pr_der p)
    \<and> fingerprints_match expected (pr_fingerprint p)"
  using assms
proof (rule connect_node_Inr)
  fix der
  define c where "c = \<lparr>dc_host = host, dc_port = port, dc_pin = der, dc_username = username, dc_password = password\<rparr>"
  assume der: "hs = Presented (Some der)" "fingerprints_match expected (certificate_fingerprint der)"
  assume "identify_node rp net \<lparr>dc_host = host, dc_port = port, dc_pin = der, dc_username = username,
      dc_password = password\<rparr> (certificate_fingerprint der) log = (Inr p, log')"
  then have "identify_node rp net c (certificate_fingerprint der) log = (Inr p, log')" unfolding c_def .
  then show ?thesis
  proof (rule identify_node_Inr)
    fix info state
    assume p: "p = make_probe rp c (certificate_fingerprint der) info state (pr_household_id p, pr_node_id p)"
    have f: "pr_info p = JObj info" "pr_state p = JObj state" "pr_client p = c" "pr_der p = der"
      "pr_fingerprint p = certificate_fingerprint der"
      by (subst p, simp add: make_probe_def Let_def c_def)+
    assume "json_eq_int (obj_get info (py ''protocol'')) HA_API_PROTOCOL"
      "resolve_identity rp state info = Inr (pr_household_id p, pr_node_id p)"
      "log' = log @ [make_request c GET (py ''/api/ha/info'') None, make_request c GET (py ''/api/ha/state'') None]"
    then show ?thesis using der f by (auto simp: c_def)
  qed
qed

lemma sample_connects:
  "\<exists>p log'. connect_node (\<lambda>v. []) sample_net (Presented (Some [1])) (py ''10.0.0.9'') 443
      (certificate_fingerprint [1]) (py ''admin'') (py ''pw'') [] = (Inr p, log')"
proof -
  define c where "c = \<lparr>dc_host = py ''10.0.0.9'', dc_port = 443, dc_pin = [1 :: byte], dc_username = py ''admin'',
      dc_password = py ''pw''\<rparr>"
  have b: "base_url c = py ''https://10.0.0.9:443''"
    by (simp add: base_url_def c_def dec_int_def dec_nat.simps) (simp add: py_def)
  have "is_ok (fst (identify_node (\<lambda>v. []) sample_net c (certificate_fingerprint [1]) []))"
    unfolding identify_node_def check_protocol_def get_info_def get_state_def do_request_def Let_def
      sample_net_def make_request_def
    by (simp add: bindS_def b py_def response_result_def read_exc_def attr_get_def as_mapping_def
        HA_API_PROTOCOL_def resolve_identity_def device_of_def json_or_def obj_or_empty_def Let_def)
  then have "is_ok (fst (connect_node (\<lambda>v. []) sample_net (Presented (Some [1])) (py ''10.0.0.9'') 443
      (certificate_fingerprint [1]) (py ''admin'') (py ''pw'') []))"
    by (simp add: connect_node_def fetch_peer_certificate_def fingerprints_match_def new_client_def
        basic_auth_accepts_def Let_def c_def) (simp add: py_def)
  then show ?thesis
    by (cases "connect_node (\<lambda>v. []) sample_net (Presented (Some [1])) (py ''10.0.0.9'') 443
      (certificate_fingerprint [1]) (py ''admin'') (py ''pw'') []") (auto simp: is_ok_def split: sum.splits)
qed

theorem connect_establishes_witness:
  "\<exists>p log'. connect_node (\<lambda>v. []) sample_net (Presented (Some [1])) (py ''10.0.0.9'') 443
      (certificate_fingerprint [1]) (py ''admin'') (py ''pw'') [] = (Inr p, log')
    \<and> length log' = 2 \<and> pr_der p = [1]"
  using sample_connects connect_establishes by fastforce

text \<open>Over a network that fails only in the ways \<open>_request\<close> handles and answers JSON objects, and with a user
  name without a colon, connecting raises nothing but transport errors, as \<open>async_connect_node\<close> promises.\<close>

theorem connect_raises_transport_errors:
  assumes "tame_network net" "58 \<notin> set username"
    "connect_node rp net hs host port expected username password log = (Inl e, log')"
  shows "is_transport_error e"
  using yieldsD [OF yields_connect [OF assms(1)] assms(3)] assms(2) by (simp add: basic_auth_accepts_def)

theorem connect_raises_transport_errors_witness:
  "is_transport_error (case fst (connect_node (\<lambda>v. []) (\<lambda>log r. NoResponse TimedOut) (Presented (Some [1]))
     (py ''10.0.0.9'') 443 (certificate_fingerprint [1]) (py ''admin'') (py ''pw'') []) of Inl e \<Rightarrow> e | Inr p \<Rightarrow> TypeError)"
proof -
  have t: "tame_network (\<lambda>log r. NoResponse TimedOut)"
    by (simp add: tame_network_def tame_outcome_def tame_failure_def)
  obtain e log' where "connect_node (\<lambda>v. []) (\<lambda>log r. NoResponse TimedOut) (Presented (Some [1]))
     (py ''10.0.0.9'') 443 (certificate_fingerprint [1]) (py ''admin'') (py ''pw'') [] = (Inl e, log')"
    by (auto simp: connect_node_def fetch_peer_certificate_def fingerprints_match_def Let_def identify_node_def
        new_client_def basic_auth_accepts_def
        check_protocol_def get_info_def do_request_def response_result_def failure_exc_def bindS_def py_def)
  from connect_raises_transport_errors [OF t _ this] this show ?thesis by (simp add: py_def)
qed

text \<open>A lock command over the direct API is one authenticated POST naming the action, and an
  unsupported action sends nothing.\<close>

theorem direct_lock_sends_one_request:
  "direct_lock net c action log =
    (if action \<in> {py ''lock'', py ''unlock''}
     then (response_result (net log (make_request c POST (py ''/api/ha/lock'') (Some (JObj [(py ''action'', JStr action)])))),
           log @ [make_request c POST (py ''/api/ha/lock'') (Some (JObj [(py ''action'', JStr action)]))])
     else (Inl DirectProtocolError, log))"
  by (simp add: direct_lock_def do_request_def Let_def ACTION_LOCK_def ACTION_UNLOCK_def)

text \<open>The poller's counter is the number of failed polls since the node answered last.\<close>

theorem failures_since_last_answer:
  "po_failures (run_polls ingest rp ps (new_poller c h coordinator))
    = trailing_failures (poll_results ingest rp ps (new_poller c h coordinator))"
  by (simp add: run_failures count_failures_trailing new_poller_def)

text \<open>C16: fewer than three failed polls in a row leave the coordinator as it is; the third one, and
  no other, delivers \<open>offline\<close>, after which the node is offline.\<close>

theorem offline_at_third_failure:
  assumes "po_node_id p = Some n" "n \<noteq> []" "po_failures p = 0"
    "co_household_id (po_coordinator p) = po_household_id p"
    "list_all (\<lambda>r. r = Failed) (poll_results sink rp ps p)"
  shows "po_coordinator (run_polls sink rp ps p) =
      (if length ps < 3 then po_coordinator p
       else sink (fst (ps ! 2)) (offline_message (po_household_id p) n) (po_coordinator p))
    \<and> (length ps < 3 \<or> (\<exists>node. get_node (po_coordinator (run_polls sink rp ps p)) n = Some node
         \<and> nd_online node = False))"
proof -
  have r: "po_coordinator (run_polls sink rp ps p) =
      (if length ps < 3 then po_coordinator p
       else sink (fst (ps ! 2)) (offline_message (po_household_id p) n) (po_coordinator p))"
    using run_failing [OF assms(1,2,5)] assms(3)
    by (auto simp: offline_poll_def DIRECT_OFFLINE_AFTER_FAILURES_def)
  have "py ''offline'' = py ''online'' \<longleftrightarrow> False" by (simp add: py_def)
  then show ?thesis
    using sink_status [OF assms(4,2), of "py ''offline''" "fst (ps ! 2)" True]
    by (simp add: r offline_message_def)
qed

definition silent_net :: network where
  "silent_net log r = NoResponse TimedOut"

definition sample_poller :: "coord poller" where
  "sample_poller = (new_poller \<lparr>dc_host = py ''10.0.0.9'', dc_port = 443, dc_pin = [1], dc_username = py ''admin'',
     dc_password = py ''pw''\<rparr> (py ''HOME001'') (new_coord (py ''HOME001'') None))
     \<lparr>po_node_id := Some (py ''GATE-001'')\<rparr>"

lemma sample_poller_fields:
  "po_node_id sample_poller = Some (py ''GATE-001'')" "py ''GATE-001'' \<noteq> []" "po_failures sample_poller = 0"
  "co_household_id (po_coordinator sample_poller) = po_household_id sample_poller"
  by (simp_all add: sample_poller_def new_poller_def)

lemma silent_failed: "poll_result ingest rp silent_net p = Failed"
  by (simp add: poll_result_def poll_once_def read_node_def get_info_def do_request_def silent_net_def
      response_result_def failure_exc_def bindS_def caught_def Let_def)

theorem offline_at_third_failure_witness:
  "\<exists>node. get_node (po_coordinator (run_polls sink (\<lambda>v. [])
      (replicate 3 (\<lambda>s. quiet_env, silent_net)) sample_poller)) (py ''GATE-001'') = Some node \<and> nd_online node = False"
proof -
  have "list_all (\<lambda>r. r = Failed) (poll_results sink (\<lambda>v. []) (replicate 3 (\<lambda>s. quiet_env, silent_net)) sample_poller)"
    by (simp add: numeral_3_eq_3 silent_failed)
  from offline_at_third_failure [OF sample_poller_fields this, THEN conjunct2] show ?thesis by simp
qed

text \<open>C17: an answered poll is what MQTT would have brought. The node has answered the two requests with its
  \<open>info\<close> and its \<open>state\<close>, and with them the household and node it belongs to. When that is another
  household than the entry's, nothing is told to the coordinator. Otherwise the coordinator is left as
  if the node had published, topic by topic, its status, its last lock event, its identity, its health
  document, its security and backup states and its last authentication, as the table \<open>direct_report\<close> says, and
  what its guest endpoint answered, and the node is online.\<close>

theorem answered_poll_is_mqtt:
  assumes "poll_once (sink envs) rp net p = (Inr u, p1)"
  shows "\<exists>info state h n asked. asked = [make_request (po_client p) GET (py ''/api/ha/info'') None,
        make_request (po_client p) GET (py ''/api/ha/state'') None]
    \<and> response_result (net (po_log p) (asked ! 0)) = Inr (JObj info)
    \<and> response_result (net (po_log p @ [asked ! 0]) (asked ! 1)) = Inr (JObj state)
    \<and> resolve_identity rp state info = Inr (h, n)
    \<and> (if h \<noteq> po_household_id p then p1 = p\<lparr>po_log := po_log p @ asked, po_mismatch_logged := True\<rparr>
       else po_node_id p1 = Some n \<and> po_failures p1 = 0
         \<and> (\<exists>health entries. health_document state health
            \<and> entries = direct_report state info health h n @ guest_report (response_result
                (net (po_log p @ asked) (make_request (po_client p) GET (py ''/api/ha/guest'') None)))
            \<and> po_coordinator p1 = fold (sink envs) (report_messages h n entries) (po_coordinator p)
            \<and> (is_valid_id h \<longrightarrow> is_valid_id n \<longrightarrow> po_coordinator p1 = fold (broker_receive envs client)
                (map (as_publication qos) (report_messages h n entries)) (po_coordinator p)))
         \<and> (co_household_id (po_coordinator p) = h \<longrightarrow> n \<noteq> [] \<longrightarrow>
             (\<exists>node. get_node (po_coordinator p1) n = Some node \<and> nd_online node)))"
  using assms
proof (cases rule: poll_once_answered)
  case (moved info state h n log)
  then show ?thesis using read_node_Inr [OF moved(1)] by (intro exI [of _ info] exI [of _ state] exI [of _ h] exI [of _ n]) simp
next
  case (told info state n log ms guest)
  note read = read_node_Inr [OF told(1)]
  obtain health where health: "health_document state health"
    "ms = report_messages (po_household_id p) n (direct_report state info health (po_household_id p) n)"
    using state_to_messages_report [OF told(2)] by blast
  define entries where "entries = direct_report state info health (po_household_id p) n
    @ guest_report (response_result (net log (make_request (po_client p) GET (py ''/api/ha/guest'') None)))"
  have all: "ms @ guest_messages guest (po_household_id p) n = report_messages (po_household_id p) n entries"
    by (simp add: told(3) health(2) guest_messages_report entries_def report_messages_append)
  have t: "list_all (translated (po_household_id p) n) (report_messages (po_household_id p) n entries)"
    unfolding all [symmetric] using translated_messages [OF told(2)] translated_parts(4) by simp
  note same = told(9) [unfolded all]
  show ?thesis
    using told(4,5) read health(1) same receive_translated [OF _ _ t, of envs client qos "po_coordinator p"]
      told_online [OF told(2), of "po_coordinator p" envs guest]
    by (intro exI [of _ info] exI [of _ state] exI [of _ "po_household_id p"] exI [of _ n])
      (auto simp: all entries_def)
qed

theorem answered_poll_is_mqtt_witness:
  "\<exists>p1 health. poll_once (sink (\<lambda>s. quiet_env)) (\<lambda>v. []) sample_net sample_poller = (Inr (), p1)
    \<and> po_coordinator p1 = fold (sink (\<lambda>s. quiet_env)) (report_messages (py ''HOME001'') (py ''GATE-001'')
        (direct_report [(py ''household_id'', JStr (py ''HOME001''))]
           [(py ''protocol'', JInt 1), (py ''device'', JObj [(py ''node_id'', JStr (py ''GATE-001''))])] health
           (py ''HOME001'') (py ''GATE-001''))) (po_coordinator sample_poller)"
proof -
  have b: "base_url (po_client sample_poller) = py ''https://10.0.0.9:443''"
    by (simp add: base_url_def sample_poller_def new_poller_def dec_int_def dec_nat.simps) (simp add: py_def)
  have "is_ok (fst (poll_once (sink (\<lambda>s. quiet_env)) (\<lambda>v. []) sample_net sample_poller))"
    unfolding poll_once_def read_node_def get_info_def get_state_def do_request_def Let_def
      sample_net_def make_request_def b
    by (simp add: bindS_def py_def response_result_def read_exc_def as_mapping_def resolve_identity_def
        device_of_def json_or_def obj_or_empty_def Let_def py_str_def state_to_messages_def health_from_state_def
        health_payload_from_state_def attr_get_def last_auth_messages_def)
  then obtain p1 where e: "poll_once (sink (\<lambda>s. quiet_env)) (\<lambda>v. []) sample_net sample_poller = (Inr (), p1)"
    by (cases "poll_once (sink (\<lambda>s. quiet_env)) (\<lambda>v. []) sample_net sample_poller") (auto simp: is_ok_def split: sum.splits)
  have answers: "response_result (sample_net l (make_request (po_client sample_poller) GET (py ''/api/ha/info'') None))
      = Inr (JObj [(py ''protocol'', JInt 1), (py ''device'', JObj [(py ''node_id'', JStr (py ''GATE-001''))])])"
    "response_result (sample_net l (make_request (po_client sample_poller) GET (py ''/api/ha/state'') None))
      = Inr (JObj [(py ''household_id'', JStr (py ''HOME001''))])"
    "response_result (sample_net l (make_request (po_client sample_poller) GET (py ''/api/ha/guest'') None))
      = Inl DirectProtocolError" for l
    by (simp_all add: sample_net_def make_request_def b response_result_def read_exc_def) (simp_all add: py_def)
  have id: "resolve_identity (\<lambda>v. []) [(py ''household_id'', JStr (py ''HOME001''))]
      [(py ''protocol'', JInt 1), (py ''device'', JObj [(py ''node_id'', JStr (py ''GATE-001''))])]
      = Inr (py ''HOME001'', py ''GATE-001'')" "po_household_id sample_poller = py ''HOME001''"
    by (simp_all add: resolve_identity_def device_of_def json_or_def obj_or_empty_def Let_def py_str_def
        sample_poller_def new_poller_def)
  from answered_poll_is_mqtt [OF e] e show ?thesis
    by (auto simp: answers id guest_report_def report_messages_append split: if_splits)
qed

lemma make_request_url: "rq_url (make_request c method path body) = base_url c @ path"
  by (simp add: make_request_def)

text \<open>A guest endpoint that fails, in whatever way, does not count as a failed poll and leaves
  every other request's outcome as it is.\<close>

theorem guest_never_gates_availability:
  assumes "\<forall>log r. rq_url r = base_url (po_client p) @ py ''/api/ha/guest'' \<or> net' log r = net log r"
  shows "poll_result ingest rp net' p = poll_result ingest rp net p
    \<and> po_failures (snd (poll_safely ingest rp net' p)) = po_failures (snd (poll_safely ingest rp net p))"
proof -
  have "net' log (make_request (po_client p) GET path None) = net log (make_request (po_client p) GET path None)"
    if "path \<noteq> py ''/api/ha/guest''" for log path
    using assms [rule_format, of "make_request (po_client p) GET path None" log] that
    by (simp add: make_request_url)
  then have "read_node rp net' (po_client p) = read_node rp net (po_client p)"
    unfolding read_node_def get_info_def get_state_def do_request_def by (simp add: py_def)
  then have "poll_result ingest rp net' p = poll_result ingest rp net p"
    by (auto simp: poll_result_def poll_once_def Let_def split: prod.splits sum.splits)
  then show ?thesis by (simp add: poll_failures)
qed

theorem guest_never_gates_availability_witness:
  "poll_result (sink (\<lambda>s. quiet_env)) (\<lambda>v. []) (\<lambda>log r. if rq_url r = base_url (po_client sample_poller) @ py ''/api/ha/guest''
       then NoResponse TimedOut else sample_net log r) sample_poller
    = poll_result (sink (\<lambda>s. quiet_env)) (\<lambda>v. []) sample_net sample_poller"
  using guest_never_gates_availability [where ingest = "sink (\<lambda>s. quiet_env)" and rp = "\<lambda>v. []" and p = sample_poller and net = sample_net and
    net' = "\<lambda>log r. if rq_url r = base_url (po_client sample_poller) @ py ''/api/ha/guest''
       then NoResponse TimedOut else sample_net log r"] by auto

text \<open>Polling keeps the coordinator among the reachable ones, whose invariant it therefore
  satisfies, whatever the node answers.\<close>

theorem polling_keeps_the_coordinator_well_formed:
  assumes "reachable hid (po_coordinator p)"
  shows "reachable hid (po_coordinator (run_polls sink rp ps p)) \<and> coord_inv (po_coordinator (run_polls sink rp ps p))"
  using reachable_sink.run_inv [OF assms] reachable_inv by blast

theorem polling_keeps_the_coordinator_well_formed_witness:
  "coord_inv (po_coordinator (run_polls sink (\<lambda>v. []) [(\<lambda>s. quiet_env, sample_net)] sample_poller))"
proof -
  have "reachable (py ''HOME001'') (po_coordinator sample_poller)"
    by (simp add: sample_poller_def new_poller_def reachable.start)
  from polling_keeps_the_coordinator_well_formed [OF this] show ?thesis by blast
qed


section \<open>The store of command keys\<close>

text \<open>C18: the key store is a map that survives restarts: after any history of keys stored and removed,
  with restarts anywhere in it, every household has the key it was given last, with its salt and the
  fingerprint of the key, or none if that was removed; a key that is empty is never stored, and no
  restart fails to load.\<close>

theorem stored_keys_survive_restart:
  "get_key (run_store perform_key restart_keys es (new_key_store JNull)) h
     = fold key_spec (operations es) (\<lambda>k. None) h
   \<and> fst (load_keys (new_key_store (ks_disk (run_store perform_key restart_keys es (new_key_store JNull))))) = Inr ()"
proof -
  let ?s = "run_store perform_key restart_keys es (new_key_store JNull)"
  have all: "list_all (\<lambda>x. True) (operations es)" by (simp add: list_all_iff)
  have "get_key ?s h = get_key (fold perform_key (operations es) (new_key_store JNull)) h"
    using key_persistence.restarts_invisible [OF new_store_saved all] by (simp add: get_key_def)
  moreover have "get_key (new_key_store JNull) = (\<lambda>k. None)" by (simp add: fun_eq_iff get_key_def new_key_store_def)
  ultimately show ?thesis
    using restart_saved [OF key_persistence.saved_run [OF new_store_saved all]] by (simp add: perform_keys_refine)
qed

section \<open>Backups\<close>

text \<open>C19: the store refines the list of everything it was given: of each node it holds the newest
  \<open>keep\<close> backups, oldest first, whatever was stored for other nodes.\<close>

theorem backups_rolling_window:
  "for_node (fold add_backup bs (new_backup_store disk keep)) n
     = last_n (nat keep) (filter (\<lambda>b. sb_node_id b = n) bs)
   \<and> latest_backup (fold add_backup bs (new_backup_store disk keep)) (Some n)
     = (if keep \<le> 0 \<or> filter (\<lambda>b. sb_node_id b = n) bs = [] then None
        else Some (last (filter (\<lambda>b. sb_node_id b = n) bs)))"
proof -
  have f: "for_node (fold add_backup bs (new_backup_store disk keep)) n
     = last_n (nat keep) (filter (\<lambda>b. sb_node_id b = n) bs)"
    using store_refines_adds [OF store_refines_new [of disk keep], of bs]
    by (simp add: store_refines_def newest_def new_backup_store_def)
  have "last_n (nat keep) xs = [] \<longleftrightarrow> keep \<le> 0 \<or> xs = []" "0 < keep \<Longrightarrow> xs \<noteq> [] \<Longrightarrow> last (last_n (nat keep) xs) = last xs"
    for xs :: "stored_backup list"
    by (cases xs; cases "keep \<le> 0"; simp add: last_n_def; linarith)
      (cases xs; simp add: last_n_def)
  then show ?thesis by (simp add: latest_backup_def f)
qed

text \<open>C20: what restarts do to the backups. After any history of backups, with restarts anywhere in it, the
  store holds of each node what its rolling window holds when a restart takes out the records that name
  no node or have no content, and nothing else; the node's stamp being an integer or none, as its type
  says. So a history in which every backup names its node and has content loses none to its restarts: of
  each node the newest ones are there. A record that names no node is lost by the first restart.\<close>

theorem backups_survive_restart:
  assumes "list_all stamp_typed (operations es)"
  shows "for_node (run_store add_backup (restart_backups rp) es (new_backup_store JNull keep)) n
      = fold (window_event keep n) es []
    \<and> (list_all readable (operations es) \<longrightarrow>
        bs_backups (run_store add_backup (restart_backups rp) es (new_backup_store JNull keep))
          = bs_backups (fold add_backup (operations es) (new_backup_store JNull keep))
        \<and> fold (window_event keep n) es [] = newest keep n (operations es))
    \<and> for_node (run_store add_backup (restart_backups rp) (es @ [Restart]) (new_backup_store JNull keep)) [] = []"
proof -
  let ?new = "new_backup_store JNull keep"
  have start: "disk_follows rp ?new" "for_node ?new n = []" "bs_keep ?new = keep" for n
    by (simp_all add: disk_follows_def new_backup_store_def stored_entries_def for_node_def)
  have window: "for_node (run_store add_backup (restart_backups rp) es ?new) n = fold (window_event keep n) es []"
    using run_windows [OF start(1) assms, of n] start by simp
  have "for_node (run_store add_backup (restart_backups rp) (es @ [Restart]) ?new) [] = fold (window_event keep []) (es @ [Restart]) []"
    using run_windows [OF start(1), of "es @ [Restart]" "[]"] assms start by (simp add: operations_append)
  also have "\<dots> = filter readable (for_node (run_store add_backup (restart_backups rp) es ?new) [])"
    using run_windows [OF start(1) assms, of "[]"] start by (simp add: window_event_def)
  also have "\<dots> = []" by (auto simp: for_node_def readable_def filter_empty_conv)
  finally have nameless: "for_node (run_store add_backup (restart_backups rp) (es @ [Restart]) ?new) [] = []" .
  have "bs_backups (run_store add_backup (restart_backups rp) es ?new) = bs_backups (fold add_backup (operations es) ?new)
      \<and> fold (window_event keep n) es [] = newest keep n (operations es)" if "list_all readable (operations es)"
  proof -
    have "list_all backup_ok (operations es)" using assms that by (auto simp: list_all_iff backup_ok_iff)
    note ok = this
    have same: "bs_backups (run_store add_backup (restart_backups rp) es ?new) = bs_backups (fold add_backup (operations es) ?new)"
      using backup_persistence.restarts_invisible [OF new_backups_saved ok, of rp keep] by simp
    have "for_node (fold add_backup (operations es) ?new) n = newest keep n (operations es)"
      using store_refines_adds [OF store_refines_new [of JNull keep], of "operations es"] start(3) by (simp add: store_refines_def)
    then show ?thesis using same window by (simp add: for_node_def)
  qed
  then show ?thesis using window nameless by blast
qed

definition sample_backup :: "pystr \<Rightarrow> pystr \<Rightarrow> stored_backup" where
  "sample_backup node blob = \<lparr>sb_node_id = node, sb_household_id = py ''HOME001'', sb_created = py ''t'',
     sb_node_time = JInt 5, sb_blob = blob, sb_includes_credentials = True\<rparr>"

theorem backups_survive_restart_witness:
  "for_node (run_store add_backup (restart_backups (\<lambda>v. []))
      [Operation (sample_backup (py ''GATE-001'') (py ''a'')), Restart, Operation (sample_backup (py ''GATE-001'') (py ''b'')),
       Operation (sample_backup [] (py ''c'')), Restart]
      (new_backup_store JNull 1)) (py ''GATE-001'') = [sample_backup (py ''GATE-001'') (py ''b'')]
   \<and> for_node (run_store add_backup (restart_backups (\<lambda>v. [])) ([Operation (sample_backup [] (py ''c''))] @ [Restart])
      (new_backup_store JNull 1)) [] = []
   \<and> for_node (run_store add_backup (restart_backups (\<lambda>v. []))
      [Operation (sample_backup (py ''GATE-001'') (py ''a'')), Restart, Operation (sample_backup (py ''GATE-001'') (py ''b''))]
      (new_backup_store JNull 1)) (py ''GATE-001'')
     = newest 1 (py ''GATE-001'') [sample_backup (py ''GATE-001'') (py ''a''), sample_backup (py ''GATE-001'') (py ''b'')]"
proof -
  define good where "good = [Operation (sample_backup (py ''GATE-001'') (py ''a'')), Restart,
      Operation (sample_backup (py ''GATE-001'') (py ''b''))]"
  have good: "list_all stamp_typed (operations good)" "list_all readable (operations good)"
    by (simp_all add: good_def stamp_typed_def readable_def sample_backup_def is_python_int_def) (simp_all add: py_def)?
  from backups_survive_restart [OF good(1), of "\<lambda>v. []" 1 "py ''GATE-001''"] good(2)
  have third: "for_node (run_store add_backup (restart_backups (\<lambda>v. [])) good (new_backup_store JNull 1)) (py ''GATE-001'')
      = newest 1 (py ''GATE-001'') (operations good)" by simp
  define es where "es = [Operation (sample_backup (py ''GATE-001'') (py ''a'')), Restart,
      Operation (sample_backup (py ''GATE-001'') (py ''b'')), Operation (sample_backup [] (py ''c'')), Restart]"
  have "list_all stamp_typed (operations es)" "list_all stamp_typed (operations [Operation (sample_backup [] (py ''c''))])"
    by (simp_all add: es_def stamp_typed_def sample_backup_def is_python_int_def)
  from backups_survive_restart [OF this(1), of "\<lambda>v. []" 1 "py ''GATE-001''"]
    backups_survive_restart [OF this(2), of "\<lambda>v. []" 1 "[]"] show ?thesis
    using third unfolding es_def good_def by (simp add: window_event_def last_n_def sample_backup_def readable_def py_def)
qed

text \<open>C21: a backup somebody asked for is stored or reported: when \<open>async_back_up_entry\<close> returns, the
  node has answered with a backup, and exactly that one is added, marked with what the node
  says it contains rather than with what was asked for.\<close>

theorem requested_backup_is_stored:
  assumes "back_up_entry rp net hs now runtimes entry_id True inc w = (Inr u, w')"
  shows "\<exists>c log b d. bw_store w' = add_backup b (bw_store w)
    \<and> response_result (net log (make_request c POST (py ''/backup/create'')
        (if wants_credentials (entry_backup_settings (the (dict_get runtimes entry_id))) inc
         then Some (JObj [(py ''include_credentials'', JBool True)]) else None))) = Inr (JObj d)
    \<and> obj_get d (py ''backup'') = JStr (sb_blob b)
    \<and> sb_includes_credentials b = (obj_get d (py ''includes_credentials'') = JBool True)"
proof -
  from explicit_stores [OF assms] obtain r c log log' b where r: "dict_get runtimes entry_id = Some r"
    and c: "create_backup net c (wants_credentials (entry_backup_settings r) inc) log
        = (Inr (sb_blob b, sb_includes_credentials b), log')"
    and w: "bw_store w' = add_backup b (bw_store w)" by blast
  from r have "the (dict_get runtimes entry_id) = r" by simp
  with create_backup_Inr [OF c] w show ?thesis by metis
qed

definition backup_net :: network where
  "backup_net log r = Response 200 (Inr [])
     (Inr (JObj [(py ''backup'', JStr (py ''0107'')), (py ''includes_credentials'', JBool False),
        (py ''last_backup_time'', JInt 9)]))"

definition sample_client :: client where
  "sample_client = \<lparr>dc_host = py ''10.0.0.9'', dc_port = 443, dc_pin = [1], dc_username = py ''admin'',
     dc_password = py ''pw''\<rparr>"

definition sample_runtime :: runtime where
  "sample_runtime = \<lparr>rt_entry = Some ([(CONF_HOST, JStr (py ''10.0.0.9'')), (CONF_FINGERPRINT, JStr (py ''AA'')),
       (CONF_USERNAME, JStr (py ''admin'')), (CONF_PASSWORD, JStr (py ''pw''))], []),
     rt_household_id = py ''HOME001'', rt_transport = DirectTransport sample_client (Some (py ''GATE-001''))\<rparr>"

definition sample_world :: backup_world where
  "sample_world = \<lparr>bw_store = new_backup_store JNull 7, bw_log = [], bw_reloaded = []\<rparr>"

lemma sample_settings: "backup_client_for (entry_backup_settings sample_runtime)"
  by (simp add: backup_client_for_def entry_backup_settings_def sample_runtime_def obj_get_def
      dict_get_set const_defs py_def dict_set_def)

lemma sample_fetch:
  "\<exists>b log. fetch_backup (\<lambda>v. []) backup_net hs now (entry_backup_settings sample_runtime)
     (transport_node_id sample_runtime) (running_client sample_runtime) inc log0 = (Inr b, log)"
  by (simp add: fetch_backup_def running_client_def transport_node_id_def sample_runtime_def bindS_def
      create_backup_def do_request_def backup_net_def response_result_def read_exc_def attr_get_def Let_def
      node_backup_time_def get_backup_info_def)

theorem requested_backup_is_stored_witness:
  "\<exists>b w'. back_up_entry (\<lambda>v. []) backup_net (\<lambda>h p. Unreachable) 0 [(py ''E1'', sample_runtime)] (py ''E1'') True
      (Some True) sample_world = (Inr (), w') \<and> bw_store w' = add_backup b (bw_store sample_world)"
proof -
  have e: "rt_entry sample_runtime \<noteq> None" by (simp add: sample_runtime_def)
  obtain b log where f: "fetch_backup (\<lambda>v. []) backup_net (\<lambda>h p. Unreachable) 0 (entry_backup_settings sample_runtime)
     (transport_node_id sample_runtime) (running_client sample_runtime) (wants_credentials (entry_backup_settings sample_runtime) (Some True))
     (bw_log sample_world) = (Inr b, log)"
    using sample_fetch by blast
  then have "\<exists>w'. back_up_entry (\<lambda>v. []) backup_net (\<lambda>h p. Unreachable) 0 [(py ''E1'', sample_runtime)] (py ''E1'') True
      (Some True) sample_world = (Inr (), w')"
    using sample_settings e by (simp add: back_up_entry_def Let_def)
  then obtain w' where w': "back_up_entry (\<lambda>v. []) backup_net (\<lambda>h p. Unreachable) 0 [(py ''E1'', sample_runtime)] (py ''E1'') True
      (Some True) sample_world = (Inr (), w')" by blast
  from requested_backup_is_stored [OF w'] w' show ?thesis by blast
qed


text \<open>An MQTT entry whose options give its node's address and the credentials of its web interface.\<close>

definition settings_runtime :: "pystr \<Rightarrow> runtime" where
  "settings_runtime user = \<lparr>rt_entry = Some ([], [(CONF_HOST, JStr (py ''10.0.0.9'')),
       (CONF_FINGERPRINT, JStr (certificate_fingerprint [1])), (CONF_USERNAME, JStr user), (CONF_PASSWORD, JStr (py ''pw''))]),
     rt_household_id = py ''HOME001'', rt_transport = MqttTransport\<rparr>"

lemma settings_runtime_fields:
  "dict_get (entry_backup_settings (settings_runtime u)) CONF_PORT = None"
  "obj_get (entry_backup_settings (settings_runtime u)) CONF_HOST = JStr (py ''10.0.0.9'')"
  "obj_get (entry_backup_settings (settings_runtime u)) CONF_FINGERPRINT = JStr (certificate_fingerprint [1])"
  "obj_get (entry_backup_settings (settings_runtime u)) CONF_USERNAME = JStr u"
  "obj_get (entry_backup_settings (settings_runtime u)) CONF_PASSWORD = JStr (py ''pw'')"
  by (simp_all add: entry_backup_settings_def settings_runtime_def obj_get_def dict_get_set
      CONF_HOST_def CONF_FINGERPRINT_def CONF_USERNAME_def CONF_PASSWORD_def CONF_PORT_def py_def)


lemma certificate_fingerprint_ne: "certificate_fingerprint der \<noteq> []"
proof -
  obtain a b r where "sha256 der = a # b # r"
    using length_sha256 [of der] by (cases "sha256 der"; cases "tl (sha256 der)") auto
  then show ?thesis by (simp add: certificate_fingerprint_def format_fingerprint_def py_def)
qed

text \<open>A user name with a colon stops the schedule. The options form stores the credentials of an MQTT
  entry without trying them, and \<open>BasicAuth\<close> refuses such a name with a \<open>ValueError\<close>, which is none of
  the transport errors that the run of an entry turns into a warning: the entries after it are not
  backed up, and nothing has been sent.\<close>

theorem colon_in_user_name_stops_the_schedule:
  assumes "rt_entry r \<noteq> None" "running_client r = None" "backup_client_for (entry_backup_settings r)"
    "dict_get (entry_backup_settings r) CONF_PORT = None"
    "58 \<in> set (py_str rp (obj_get (entry_backup_settings r) CONF_USERNAME))"
    "hs (py_str rp (obj_get (entry_backup_settings r) CONF_HOST)) DEFAULT_HTTPS_PORT = Presented (Some der)" "der \<noteq> []"
    "fingerprints_match (py_str rp (obj_get (entry_backup_settings r) CONF_FINGERPRINT)) (certificate_fingerprint der)"
  shows "scheduled_backups rp net hs now ((i, r) # rest) w = (Inl ValueError, w)"
proof -
  have "connect_entry rp net hs (entry_backup_settings r) log = (Inl ValueError, log)" for log
    using assms(4-8) connect_refused_name [OF assms(6,7,8)]
    by (simp add: connect_entry_def basic_auth_accepts_def)
  then have "back_up_entry rp net hs now ((i, r) # rest) i False None w = (Inl ValueError, w)"
    using assms(1-3) by (simp add: back_up_entry_def Let_def dict_get_def fetch_backup_def is_transport_error_def)
  then show ?thesis
    using assms(3) by (simp add: scheduled_backups_def target_entry_ids_def)
qed

theorem colon_in_user_name_stops_the_schedule_witness:
  "scheduled_backups (\<lambda>v. []) backup_net (\<lambda>h p. Presented (Some [1])) 0
     [(py ''E2'', settings_runtime (py ''a:b'')), (py ''E1'', sample_runtime)] sample_world = (Inl ValueError, sample_world)"
proof (rule colon_in_user_name_stops_the_schedule [where der = "[1]"])
  show "backup_client_for (entry_backup_settings (settings_runtime (py ''a:b'')))"
    by (simp add: backup_client_for_def settings_runtime_fields certificate_fingerprint_ne)
qed (simp_all add: settings_runtime_fields py_str_def, simp_all add: settings_runtime_def running_client_def
    fingerprints_match_refl py_def)

text \<open>Taking or restoring a backup talks to the entry's own node only: every request, the one
  with the recovery secret included, is the running client's or pinned to a certificate with
  the fingerprint of the entry.\<close>

theorem backup_requests_go_to_the_pinned_node:
  assumes "back_up_entry rp net hs now runtimes entry_id explicit inc w = (x, w')
    \<or> restore_entry rp net hs runtimes entry_id secret blob w = (x, w')"
  shows "bw_log w' = bw_log w
    \<or> (\<exists>r rs. dict_get runtimes entry_id = Some r \<and> bw_log w' = bw_log w @ rs \<and> list_all (trusted rp r) rs)"
  using assms back_up_entry_trusted restore_entry_trusted by (auto simp: extends_def) metis+

theorem backup_requests_go_to_the_pinned_node_witness:
  "\<exists>x w'. restore_entry (\<lambda>v. []) backup_net (\<lambda>h p. Unreachable) [(py ''E1'', sample_runtime)] (py ''E1'') (py ''s'')
      (Some (py ''0107'')) sample_world = (x, w')
    \<and> (bw_log w' = bw_log sample_world \<or> (\<exists>r rs. bw_log w' = bw_log sample_world @ rs \<and> list_all (trusted (\<lambda>v. []) r) rs))"
proof -
  obtain x w' where e: "restore_entry (\<lambda>v. []) backup_net (\<lambda>h p. Unreachable) [(py ''E1'', sample_runtime)] (py ''E1'')
      (py ''s'') (Some (py ''0107'')) sample_world = (x, w')" by (rule prod.exhaust)
  from backup_requests_go_to_the_pinned_node [OF disjI2 [OF e]] e show ?thesis by blast
qed

text \<open>A backup taken through the running client of an entry that no poll has answered yet is
  stored without a node id, and such a record is dropped when the store is loaded again.\<close>

theorem nameless_backup_is_lost:
  assumes "fetch_backup rp net hs now entry_data None (Some c) inc log = (Inr b, log')"
  shows "sb_node_id b = [] \<and> backup_from_dict rp (backup_as_dict b) = None"
proof -
  have "sb_node_id b = []"
    using assms by (auto simp: fetch_backup_def res_simps str_or_def split: prod.splits)
  then show ?thesis by (simp add: backup_from_dict_def backup_as_dict_def py_def)
qed

theorem nameless_backup_is_lost_witness:
  "\<exists>b log. fetch_backup (\<lambda>v. []) backup_net (\<lambda>h p. Unreachable) 0 [] None (Some sample_client) True [] = (Inr b, log)
    \<and> backup_from_dict (\<lambda>v. []) (backup_as_dict b) = None"
proof -
  have "\<exists>b log. fetch_backup (\<lambda>v. []) backup_net (\<lambda>h p. Unreachable) 0 [] None (Some sample_client) True [] = (Inr b, log)"
    by (simp add: fetch_backup_def bindS_def create_backup_def do_request_def backup_net_def response_result_def
        read_exc_def attr_get_def Let_def node_backup_time_def get_backup_info_def)
  then obtain b log where "fetch_backup (\<lambda>v. []) backup_net (\<lambda>h p. Unreachable) 0 [] None (Some sample_client) True [] = (Inr b, log)"
    by blast
  from nameless_backup_is_lost [OF this] this show ?thesis by blast
qed

section \<open>Entries, commands and entities\<close>

text \<open>C23: a lock command of an entry that uses MQTT fails closed and otherwise works. Without a command
  key it leaves everything as it was and fails for that reason. With one it publishes nothing and
  fails, or publishes exactly one message, for the command topic of that node, signed with the
  household's key under a nonce not used before; and it does publish and succeed when the clock can be
  read, one of the eight draws is a nonce the tracker does not hold and the broker takes the message.
  Whatever it does, the coordinator's state of the household is not touched.\<close>

theorem mqtt_commands_fail_closed:
  assumes "hb_transport h = OverMqtt (Some client) c ps"
    "send_lock_command w node_id action h = (r, h')"
  shows "hub_coord h' = c
    \<and> (command_key h = None \<longrightarrow> h' = h \<and> r = invalid KeyUnavailable)
    \<and> (\<forall>key. command_key h = Some key \<longrightarrow> (\<exists>client' new. hb_transport h' = OverMqtt (Some client') c (ps @ new)
       \<and> (new = [] \<and> is_ok r = False \<or>
          (\<exists>command. let a = (if action = ACTION_LOCK then ACTION_LOCK else ACTION_UNLOCK) in
             new = [command_publication (co_household_id c) node_id a command]
             \<and> signed_fresh (ou_draws w) key a (mc_nonces client) command))
       \<and> (\<forall>j t. j < 8 \<longrightarrow> bytes_hex (de_draws (ou_draws w) j) \<notin> set (nt_seen (mc_nonces client)) \<longrightarrow>
            sound_draws (ou_draws w) \<longrightarrow> current_epoch_seconds (de_now (ou_draws w)) = Inr t \<longrightarrow>
            ou_pub w = (\<lambda>p. None) \<longrightarrow> new \<noteq> [] \<and> (\<exists>command. r = Inr (Published command) \<and> ac_ts command = t))))"
  using assms
proof (cases rule: send_over_mqtt)
  case refused
  then show ?thesis using assms(1) by (simp add: hub_coord_def)
next
  case (sent key q client' new)
  let ?a = "if action = ACTION_LOCK then ACTION_LOCK else ACTION_UNLOCK"
  have ok: "is_ok (map_sum id Published q) = is_ok q" by (cases q) (simp_all add: is_ok_def)
  have "key \<noteq> []" using sent(1) by (auto simp: command_key_def split: option.splits if_splits)
  have works: "new \<noteq> [] \<and> (\<exists>command. r = Inr (Published command) \<and> ac_ts command = t)"
    if "j < 8" "bytes_hex (de_draws (ou_draws w) j) \<notin> set (nt_seen (mc_nonces client))" "sound_draws (ou_draws w)"
      "current_epoch_seconds (de_now (ou_draws w)) = Inr t" "ou_pub w = (\<lambda>p. None)" for j t
  proof -
    have "?a \<in> {ACTION_LOCK, ACTION_UNLOCK}" by simp
    from publish_total [OF \<open>key \<noteq> []\<close> this that(3,1,2), of "co_household_id c" node_id t]
    obtain command c2 where "publish_authenticated_command (\<lambda>p. None) (ou_draws w) client (co_household_id c) node_id key ?a
        (JInt t) = (Inr command, c2, [command_publication (co_household_id c) node_id ?a command])" "ac_ts command = t"
      by blast
    then show ?thesis using sent(2,3) unfolding that(5) publish_now [OF that(4)] by simp
  qed
  have transport: "hb_transport h' = OverMqtt (Some client') c (ps @ new)" using sent(4) by simp
  have outcome: "new = [] \<and> is_ok r = False \<or> (\<exists>command. new = [command_publication (co_household_id c) node_id ?a command]
      \<and> signed_fresh (ou_draws w) key ?a (mc_nonces client) command)"
    using sent(2)
  proof (cases rule: publish_spec)
    case silent
    then show ?thesis using sent(3) ok by simp
  qed auto
  show ?thesis unfolding Let_def using transport outcome works sent(1) by (auto simp: hub_coord_def)
qed

definition sample_outside :: "network \<Rightarrow> outside" where
  "sample_outside net = \<lparr>ou_envs = (\<lambda>s. quiet_env), ou_str = (\<lambda>v. []), ou_net = net, ou_pub = (\<lambda>p. None),
     ou_draws = sample_env 1\<rparr>"

definition sample_hub :: hub where
  "sample_hub = \<lparr>hb_transport = OverMqtt (Some (new_mqtt_client (py ''HOME001'') None)) (new_coord (py ''HOME001'') None) [],
     hb_key = Some (Some [1, 2, 3])\<rparr>"

theorem mqtt_commands_fail_closed_witness:
  "\<exists>command h'. send_lock_command (sample_outside sample_net) (py ''GATE-001'') (py ''lock'') sample_hub
      = (Inr (Published command), h')
    \<and> hub_coord h' = new_coord (py ''HOME001'') None \<and> ac_ts command = 1700000000
    \<and> fst (send_lock_command (sample_outside sample_net) (py ''GATE-001'') (py ''lock'') (sample_hub\<lparr>hb_key := None\<rparr>))
      = invalid KeyUnavailable"
proof -
  have t: "hb_transport sample_hub = OverMqtt (Some (new_mqtt_client (py ''HOME001'') None)) (new_coord (py ''HOME001'') None) []"
    "hb_transport (sample_hub\<lparr>hb_key := None\<rparr>) = OverMqtt (Some (new_mqtt_client (py ''HOME001'') None)) (new_coord (py ''HOME001'') None) []"
    by (simp_all add: sample_hub_def)
  have k: "command_key sample_hub = Some [1, 2, 3]" "command_key (sample_hub\<lparr>hb_key := None\<rparr>) = None"
    by (simp_all add: command_key_def sample_hub_def)
  have w: "ou_draws (sample_outside sample_net) = sample_env 1" "ou_pub (sample_outside sample_net) = (\<lambda>p. None)"
    by (simp_all add: sample_outside_def)
  have env: "sound_draws (sample_env 1)" "current_epoch_seconds (de_now (sample_env 1)) = Inr 1700000000"
    "bytes_hex (de_draws (sample_env 1) 0) \<notin> set (nt_seen (mc_nonces (new_mqtt_client (py ''HOME001'') None)))"
    by (simp_all add: sample_env_def sound_draws_def current_epoch_seconds_def float_num_def float_den_def
        new_mqtt_client_def new_nonce_tracker_def)
  obtain r h' where e: "send_lock_command (sample_outside sample_net) (py ''GATE-001'') (py ''lock'') sample_hub = (r, h')"
    by (rule prod.exhaust)
  obtain r0 h0 where e0: "send_lock_command (sample_outside sample_net) (py ''GATE-001'') (py ''lock'') (sample_hub\<lparr>hb_key := None\<rparr>) = (r0, h0)"
    by (rule prod.exhaust)
  from mqtt_commands_fail_closed [OF t(1) e] k(1) env
  have "hub_coord h' = new_coord (py ''HOME001'') None" "\<exists>command. r = Inr (Published command) \<and> ac_ts command = 1700000000"
    unfolding w by (blast, metis zero_less_numeral)
  moreover from mqtt_commands_fail_closed [OF t(2) e0] k(2) have "r0 = invalid KeyUnavailable" by simp
  ultimately show ?thesis unfolding e e0 by auto
qed

text \<open>An entry over the direct transport that starts has verified its node: the poller's client is
  pinned to a certificate with the fingerprint the entry stores, every request made on the way was
  pinned to such a certificate, the household is the entry's, the recurring poll is scheduled, and
  lock commands are enabled without any command key being held.\<close>

theorem direct_entry_starts_trusted:
  assumes "setup_entry w hs subscribe arriving key_document pool e log = (Inr r, log')"
    "transport_kind e = TRANSPORT_DIRECT"
  shows "\<exists>p. hb_transport (hr_hub r) = OverDirect p \<and> po_scheduled p
    \<and> Some (po_household_id p) = ce_household_id e
    \<and> pinned_by e (make_request (po_client p) GET [] None)
    \<and> extends (pinned_by e) log log'
    \<and> command_key (hr_hub r) = None \<and> command_control_enabled (hr_hub r)"
proof -
  obtain hid s t where hid: "ce_household_id e = Some hid"
    and t: "start_transport w hs subscribe arriving e (new_coord hid pool) log = (Inr t, log')"
    and r: "r = \<lparr>hr_hub = \<lparr>hb_transport = schedule_transport t, hb_key = key_provider e s hid\<rparr>,
               hr_key_store = s, hr_transport_kind = transport_kind e\<rparr>"
    using assms(1)
    by (auto simp: setup_entry_def required_def res_simps split: option.splits prod.splits sum.splits)
  obtain p where p: "t = OverDirect p" "start_direct w hs e (new_coord hid pool) log = (Inr p, log')"
    using t assms(2) by (auto simp: start_transport_def res_simps)
  have "extends (pinned_by e) log log'" "\<forall>q. made_by (po_client p) q \<longrightarrow> pinned_by e q" "po_household_id p = hid"
    using runsD [OF runs_start_direct p(2)] by simp_all
  then show ?thesis
    using hid assms(2) p(1)
    by (simp add: r schedule_transport_def command_key_def key_provider_def command_control_enabled_def
        is_direct_def made_by_def make_request_def)
qed

text \<open>A node that answers while the entry connects, and not after.\<close>

definition failing_net :: network where
  "failing_net log r = (if length log < 2 then sample_net log r else NoResponse TimedOut)"

definition sample_entry :: config_entry where
  "sample_entry = \<lparr>ce_household_id = Some (py ''HOME001''), ce_household_name = None,
     ce_transport = Some TRANSPORT_DIRECT, ce_command_control = None, ce_host = Some (py ''10.0.0.9''),
     ce_port = None, ce_fingerprint = Some (certificate_fingerprint [1]), ce_username = Some (py ''admin''),
     ce_password = Some (py ''pw''), ce_opt_legacy_prefix = None, ce_opt_command_control = None, ce_raw = ([], [])\<rparr>"

lemma sample_entry_starts:
  "is_ok (fst (setup_entry (sample_outside failing_net) (\<lambda>h p. Presented (Some [1])) (\<lambda>t. None) [] JNull None
     sample_entry []))"
proof -
  define c where "c = \<lparr>dc_host = py ''10.0.0.9'', dc_port = 443, dc_pin = [1 :: byte], dc_username = py ''admin'',
      dc_password = py ''pw''\<rparr>"
  have b: "base_url c = py ''https://10.0.0.9:443''"
    by (simp add: base_url_def c_def dec_int_def dec_nat.simps) (simp add: py_def)
  let ?info = "[(py ''protocol'', JInt 1), (py ''device'', JObj [(py ''node_id'', JStr (py ''GATE-001''))])]"
  let ?state = "[(py ''household_id'', JStr (py ''HOME001''))]"
  let ?p = "make_probe (\<lambda>v. []) c (certificate_fingerprint [1]) ?info ?state (py ''HOME001'', py ''GATE-001'')"
  have "\<exists>log. identify_node (\<lambda>v. []) failing_net c (certificate_fingerprint [1]) [] = (Inr ?p, log) \<and> length log = 2"
    unfolding identify_node_def check_protocol_def get_info_def get_state_def do_request_def Let_def
      failing_net_def sample_net_def make_request_def
    by (simp add: bindS_def b py_def response_result_def read_exc_def attr_get_def as_mapping_def obj_get_def
        dict_get_def HA_API_PROTOCOL_def resolve_identity_def device_of_def json_or_def obj_or_empty_def Let_def py_str_def)
  then obtain log where i: "identify_node (\<lambda>v. []) failing_net c (certificate_fingerprint [1]) [] = (Inr ?p, log)"
    and l: "length log = 2" by blast
  have k: "transport_kind sample_entry = TRANSPORT_DIRECT" "ce_household_id sample_entry = Some (py ''HOME001'')"
    by (simp_all add: transport_kind_def sample_entry_def)
  have w: "ou_net (sample_outside failing_net) = failing_net" by (simp add: sample_outside_def)
  have name: "basic_auth_accepts (py ''admin'')" by (simp add: basic_auth_accepts_def py_def)
  have con: "connect_direct (sample_outside failing_net) (\<lambda>h p. Presented (Some [1])) sample_entry [] = (Inr ?p, log)"
    using i by (simp add: connect_direct_def sample_entry_def sample_outside_def required_def bindS_def or_empty_def
        connect_node_def new_client_def name fetch_peer_certificate_def fingerprints_match_def Let_def c_def DEFAULT_HTTPS_PORT_def)
  have h: "pr_household_id ?p = py ''HOME001''" by (simp add: make_probe_def Let_def)
  have poll: "\<exists>q. poll_safely g rp failing_net (p\<lparr>po_log := log\<rparr>) = (Inr (), q)" for g rp and p :: "coord poller"
    using l by (auto simp: poll_safely_def poll_once_def read_node_def get_info_def do_request_def Let_def
        failing_net_def response_result_def failure_exc_def bindS_def)
  have "\<exists>q. start_direct (sample_outside failing_net) (\<lambda>h p. Presented (Some [1])) sample_entry
      (new_coord (py ''HOME001'') None) [] = (Inr q, po_log q)"
    using poll [of "sink (ou_envs (sample_outside failing_net))" "ou_str (sample_outside failing_net)"
        "new_poller (pr_client ?p) (py ''HOME001'') (new_coord (py ''HOME001'') None)"]
    by (auto simp: start_direct_def bindS_def con h w)
  then show ?thesis
    by (auto simp: setup_entry_def start_transport_def k bindS_def required_def load_keys_def new_key_store_def
        stored_households_def is_ok_def)
qed

theorem direct_entry_starts_trusted_witness:
  "\<exists>r log'. setup_entry (sample_outside failing_net) (\<lambda>h p. Presented (Some [1])) (\<lambda>t. None) [] JNull None
     sample_entry [] = (Inr r, log') \<and> command_control_enabled (hr_hub r)"
proof -
  obtain r log' where e: "setup_entry (sample_outside failing_net) (\<lambda>h p. Presented (Some [1])) (\<lambda>t. None) [] JNull None
     sample_entry [] = (Inr r, log')"
    using sample_entry_starts
    by (cases "setup_entry (sample_outside failing_net) (\<lambda>h p. Presented (Some [1])) (\<lambda>t. None) [] JNull None sample_entry []")
      (auto simp: is_ok_def split: sum.splits)
  have "transport_kind sample_entry = TRANSPORT_DIRECT" by (simp add: transport_kind_def sample_entry_def)
  from direct_entry_starts_trusted [OF e this] e show ?thesis by blast
qed

text \<open>C24: waiting for the lock to obey ends after at most 21 looks at the node, if the clock advances by
  the time each pause takes: the call of the lock entity always returns, and it returns without an
  error exactly if the command was delivered and the node's report, as the coordinator then holds it,
  was the requested state at a look made before the deadline had passed.\<close>

theorem lock_command_confirmed:
  assumes "now \<le> clock 0" "\<And>i. clock i + COMMAND_CONFIRM_POLL_SECONDS_MS \<le> clock (Suc i)"
    "lock_send w arriving now clock node_id action h = (r, h')"
  shows "r \<noteq> None \<and> (r = Some (Inr ()) \<longleftrightarrow>
     is_ok (fst (send_lock_command w node_id action h))
     \<and> (\<exists>n \<le> 20. reports_state (look (hub_coord h') arriving n) node_id
              (if action = ACTION_LOCK then LS_LOCKED else LS_UNLOCKED)
          \<and> (\<forall>j < n. clock j < now + COMMAND_CONFIRM_TIMEOUT_SECONDS_MS)))"
proof -
  obtain d h1 where d: "send_lock_command w node_id action h = (d, h1)" by (rule prod.exhaust)
  show ?thesis
  proof (cases d)
    case (Inl e)
    then show ?thesis using assms(3) d by (auto simp: lock_send_def is_ok_def)
  next
    case (Inr x)
    let ?w = "wait_for_state (look (hub_coord h1) arriving) now clock node_id (if action = py ''lock'' then LS_LOCKED else LS_UNLOCKED)"
    obtain b where b: "?w = Some b" using wait_for_state_ends [OF assms(1,2)] by metis
    have "h' = h1" "r = Some (if b then Inr () else Inl ServiceValidationError)"
      using assms(3) d Inr b by (auto simp: lock_send_def)
    then show ?thesis
      using b wait_for_state_True [OF assms(1,2), of "look (hub_coord h1) arriving" node_id
        "if action = py ''lock'' then LS_LOCKED else LS_UNLOCKED"] d Inr
      by (cases b) (auto simp: is_ok_def lock_word)
  qed
qed

theorem lock_command_confirmed_witness:
  "fst (lock_send (sample_outside sample_net) (\<lambda>i. []) 0 (\<lambda>i. 600 * int i) (py ''GATE-001'') (py ''lock'') sample_hub) \<noteq> None"
proof -
  obtain r h' where e: "lock_send (sample_outside sample_net) (\<lambda>i. []) 0 (\<lambda>i. 600 * int i) (py ''GATE-001'')
      (py ''lock'') sample_hub = (r, h')"
    by (rule prod.exhaust)
  have "r \<noteq> None"
    using lock_command_confirmed [OF _ _ e, THEN conjunct1] by (simp add: COMMAND_CONFIRM_POLL_SECONDS_MS_def)
  then show ?thesis unfolding e by simp
qed

text \<open>A platform creates the entities of a node once: over any run of messages its factory is called
  at most once for a node id, only for nodes the coordinator holds, what it returns is added in that
  order, and whenever a message has led to an update every node the coordinator holds has its
  entities.\<close>

theorem entities_created_once:
  assumes "fold (listen factory) (ms @ [(env, m)]) (c0, add_entities_for_nodes factory c0) = (c, l)"
  shows "c = handle_messages (ms @ [(env, m)]) c0
    \<and> distinct (li_factory_calls l)
    \<and> concat (li_added l) = concat (map factory (li_factory_calls l))
    \<and> set (li_factory_calls l) \<subseteq> set (dict_keys (co_nodes c))
    \<and> (co_delivered c \<noteq> co_delivered (handle_messages ms c0) \<longrightarrow>
         set (li_factory_calls l) = set (dict_keys (co_nodes c)))"
proof -
  let ?s = "(c0, add_entities_for_nodes factory c0)"
  obtain c1 l1 where s1: "fold (listen factory) ms ?s = (c1, l1)" by (rule prod.exhaust)
  have s: "listen factory (env, m) (c1, l1) = (c, l)" using assms s1 by simp
  have start: "listening factory (fst ?s) (snd ?s)" by (simp add: add_entities_listening(1))
  have l1: "listening factory c1 l1" "c1 = handle_messages ms c0"
    using run_listening [OF start, of ms] s1 by auto
  have l: "listening factory c l" "c = handle_messages (ms @ [(env, m)]) c0"
    using run_listening [OF start, of "ms @ [(env, m)]"] assms by auto
  have c: "c = handle_message env m c1" using s by (simp add: listen_def Let_def)
  have "set (li_factory_calls l) = set (dict_keys (co_nodes c))" if "co_delivered c \<noteq> co_delivered c1"
    using listen_caught_up [OF l1(1), of env m] handle_message_delivered [of env m c1] that s c by auto
  then show ?thesis
    using l l1(2) by (auto simp: listening_def get_node_def dict_get_None_iff)
qed

theorem entities_created_once_witness:
  "distinct (li_factory_calls (snd (fold (listen (\<lambda>n. [n]))
     [(quiet_env, direct_message (py ''HOME001'') (py ''GATE-001'') TOPIC_STATUS (py ''online'') True)]
     (new_coord (py ''HOME001'') None, add_entities_for_nodes (\<lambda>n. [n]) (new_coord (py ''HOME001'') None)))))"
proof -
  let ?m = "(quiet_env, direct_message (py ''HOME001'') (py ''GATE-001'') TOPIC_STATUS (py ''online'') True)"
  obtain c l where e: "fold (listen (\<lambda>n. [n])) ([] @ [?m])
      (new_coord (py ''HOME001'') None, add_entities_for_nodes (\<lambda>n. [n]) (new_coord (py ''HOME001'') None)) = (c, l)"
    by (rule prod.exhaust)
  from entities_created_once [OF e, THEN conjunct2, THEN conjunct1] e show ?thesis by simp
qed

text \<open>Within a household, two entities with the same unique id are the same entity of the same node:
  the underscores that may occur in a node id make no two of them equal.\<close>

theorem unique_ids_distinct:
  assumes "unique_id h n e = unique_id h n' e'" "e \<in> set entity_types" "e' \<in> set entity_types"
  shows "n = n' \<and> e = e'"
  using assms by (rule unique_id_inj)

theorem unique_ids_distinct_witness:
  "py ''GATE_1'' = py ''GATE_1'' \<and> ENTITY_LOCK = py ''lock''"
  by (rule unique_ids_distinct [of "py ''HOME001''" "py ''GATE_1''" ENTITY_LOCK "py ''GATE_1''" "py ''lock''"])
    (simp_all add: entity_types_def ENTITY_LOCK_def)

text \<open>C25: a diagnostics report shows no secret. It is the same for any data of the entry (host,
  credentials, fingerprint) with which a backup is possible or not alike, for any command key with
  the same one-way fingerprint, and for any contents of the stored backups; and in the report every
  value under one of the redacted keys, at any depth, is the placeholder.\<close>

theorem diagnostics_hide_secrets:
  assumes "backup_client_for (entry_backup_settings r') = backup_client_for (entry_backup_settings r)"
    "map_option cr_fingerprint (get_key keys' (co_household_id (hub_coord h)))
       = map_option cr_fingerprint (get_key keys (co_household_id (hub_coord h)))"
    "hub_coord h' = hub_coord h" "command_control_enabled h' = command_control_enabled h"
    "list_all2 same_but_blob (bs_backups s) (bs_backups s')"
  shows "config_entry_diagnostics title data' options (Some (r', h', keys')) (Some s')
    = config_entry_diagnostics title data options (Some (r, h, keys)) (Some s)
    \<and> (\<forall>v. config_entry_diagnostics title data options (Some (r, h, keys)) (Some s) = Inr v \<longrightarrow> clean [] v)"
  using agree_redact [OF report_agrees [OF assms], symmetric] redact_clean
  by (auto simp: config_entry_diagnostics_def bindE_def assms(3) split: sum.splits)

definition sample_keys :: "bytes \<Rightarrow> key_store" where
  "sample_keys key = \<lparr>ks_disk = JNull, ks_cache = [(py ''HOME001'', \<lparr>cr_key = key, cr_salt = None,
     cr_fingerprint = Some (py ''0123abcd'')\<rparr>)], ks_loaded = True\<rparr>"

theorem diagnostics_hide_secrets_witness:
  "config_entry_diagnostics (py ''Home'') [(py ''password'', JStr (py ''one''))] []
     (Some (sample_runtime, sample_hub, sample_keys [1])) (Some (new_backup_store JNull 3))
   = config_entry_diagnostics (py ''Home'') [(py ''password'', JStr (py ''two''))] []
     (Some (sample_runtime, sample_hub\<lparr>hb_key := Some (Some [9])\<rparr>, sample_keys [2])) (Some (new_backup_store JNull 3))"
  by (rule diagnostics_hide_secrets [THEN conjunct1])
    (simp_all add: sample_keys_def sample_hub_def get_key_def dict_get_def hub_coord_def new_coord_hid
      command_control_enabled_def is_direct_def command_key_def new_backup_store_def)

text \<open>The security sensor passes the findings of the node through: one after the other they contain its
  text, white space aside, in its order, and each is a non-empty line without surrounding space.\<close>

theorem findings_keep_words:
  "filter (\<lambda>c. \<not> is_space c) (concat (finding_lines w)) = filter (\<lambda>c. \<not> is_space c) (str_or w [])
   \<and> list_all (\<lambda>l. l \<noteq> [] \<and> py_strip l = l \<and> list_all (\<lambda>c. \<not> is_line_break c) l) (finding_lines w)"
proof (cases "str_or w [] = []")
  case False
  have "\<not> is_line_break c" if "l \<in> set (splitlines t)" "c \<in> set (py_strip l)" for l c t
    using that splitlines_no_break [of t] set_py_strip [of l] by (auto simp: list_all_iff)
  then show ?thesis
    using False by (auto simp: finding_lines_def stripped_lines_words splitlines_words py_strip_twice list_all_iff)
qed (simp add: finding_lines_def)

section \<open>An entry from end to end\<close>

text \<open>C26: whatever happens in the life of an entry - set-ups that succeed or fail, messages, polls,
  commands, guest operations, backups, restores, unloads, in any order, with any network and broker -
  every HTTPS request is pinned to a certificate with the fingerprint the entry stores, an entry over
  MQTT makes none but for its backups and restores, whose requests are pinned to the fingerprint its
  settings name, a runtime over the direct transport holds no command key, and what a runtime over MQTT
  published are commands for nodes of its household, signed with the key its store holds for it, which
  it does only when the entry has command control enabled.\<close>

theorem entry_life_keeps_trust:
  assumes "(entry_step e)\<^sup>*\<^sup>* not_loaded s"
  shows "list_all (pinned_by e) (all_requests s) \<and> list_all (backup_pinned e) (es_backups s)
    \<and> (transport_kind e \<noteq> TRANSPORT_DIRECT \<longrightarrow> all_requests s = [])
    \<and> (\<forall>r \<in> entry_runtimes s. \<exists>hid. ce_household_id e = Some hid \<and>
         (case hb_transport (hr_hub r) of
            OverDirect p \<Rightarrow> transport_kind e = TRANSPORT_DIRECT \<and> command_key (hr_hub r) = None
          | OverMqtt m c ps \<Rightarrow> transport_kind e \<noteq> TRANSPORT_DIRECT
              \<and> (\<forall>p \<in> set ps. command_control_of e \<and> key_signed (stored_key (hr_key_store r) hid) hid p)))"
proof -
  have inv: "entry_inv e s" by (rule entry_reachable_inv [OF assms])
  have "\<exists>hid. ce_household_id e = Some hid \<and> (case hb_transport (hr_hub r) of
            OverDirect p \<Rightarrow> transport_kind e = TRANSPORT_DIRECT \<and> command_key (hr_hub r) = None
          | OverMqtt m c ps \<Rightarrow> transport_kind e \<noteq> TRANSPORT_DIRECT
              \<and> (\<forall>p \<in> set ps. command_control_of e \<and> key_signed (stored_key (hr_key_store r) hid) hid p))"
    if "r \<in> entry_runtimes s" for r
    using inv that runtime_trusted by (auto simp: entry_inv_def)
  moreover have "list_all (backup_pinned e) (es_backups s)" using inv by (simp add: entry_inv_def)
  ultimately show ?thesis using all_requests_pinned [OF inv] mqtt_requests [OF inv] by blast
qed

text \<open>A life: the entry starts, and is unloaded.\<close>

lemma sample_start:
  obtains r log where "entry_step sample_entry not_loaded (not_loaded\<lparr>es_runtime := Some r, es_requests := log\<rparr>)"
proof -
  let ?start = "setup_entry (sample_outside failing_net) (\<lambda>h p. Presented (Some [1])) (\<lambda>t. None) [] JNull None sample_entry []"
  obtain r log where started: "?start = (Inr r, log)"
    using sample_entry_starts by (cases ?start) (auto simp: is_ok_def split: sum.splits)
  show thesis
    by (rule that, rule entry_step.started) (use started in \<open>simp_all add: not_loaded_def pool_fits_def\<close>)
qed

lemma sample_life:
  obtains s where "(entry_step sample_entry)\<^sup>*\<^sup>* not_loaded s" "length (es_stopped s) = 1"
proof (rule sample_start)
  fix r log
  define s1 where "s1 = not_loaded\<lparr>es_runtime := Some r, es_requests := log\<rparr>"
  assume "entry_step sample_entry not_loaded (not_loaded\<lparr>es_runtime := Some r, es_requests := log\<rparr>)"
  then have "entry_step sample_entry not_loaded s1" by (simp add: s1_def)
  moreover have "entry_step sample_entry s1 (s1\<lparr>es_runtime := None,
      es_requests := requests_after (es_requests s1) (stop_runtime r), es_stopped := es_stopped s1 @ [stop_runtime r]\<rparr>)"
    by (rule entry_step.unloaded) (simp add: s1_def, rule unload_entry_one [of True "[]"])
  ultimately show thesis
    by (intro that, intro converse_rtranclp_into_rtranclp [OF _ r_into_rtranclp])
      (assumption, assumption, simp add: s1_def not_loaded_def)
qed

theorem entry_life_keeps_trust_witness:
  "\<exists>s. length (es_stopped s) = 1 \<and> list_all (pinned_by sample_entry) (all_requests s)"
proof (rule sample_life)
  fix s
  assume "(entry_step sample_entry)\<^sup>*\<^sup>* not_loaded s" "length (es_stopped s) = 1"
  then show ?thesis using entry_life_keeps_trust [THEN conjunct1] by blast
qed

text \<open>C27: at every point of the life of an entry, the coordinator of each of its runtimes is the one of
  the entry's household and satisfies its invariant; a runtime that is loaded has its poll scheduled
  or the household's topics subscribed, and one that was unloaded has no poll scheduled, no
  subscription and no pooled nodes left.\<close>

theorem entry_life_well_formed:
  assumes "(entry_step e)\<^sup>*\<^sup>* not_loaded s"
  shows "(\<forall>r \<in> entry_runtimes s. coord_inv (hub_coord (hr_hub r))
        \<and> ce_household_id e = Some (co_household_id (hub_coord (hr_hub r))))
    \<and> (\<forall>r. es_runtime s = Some r \<longrightarrow> listening_transport (hb_transport (hr_hub r)))
    \<and> (\<forall>r \<in> set (es_stopped s). quiet (hb_transport (hr_hub r)))"
proof -
  have inv: "entry_inv e s" by (rule entry_reachable_inv [OF assms])
  then have "coord_inv (hub_coord (hr_hub r)) \<and> ce_household_id e = Some (co_household_id (hub_coord (hr_hub r)))"
    if "r \<in> entry_runtimes s" for r
    using that runtime_coordinator by (auto simp: entry_inv_def)
  then show ?thesis using inv by (auto simp: entry_inv_def)
qed

theorem entry_life_well_formed_witness:
  "\<exists>s :: entry_state. length (es_stopped s) = 1 \<and> (\<forall>r \<in> set (es_stopped s). quiet (hb_transport (hr_hub r)))"
proof (rule sample_life)
  fix s
  assume "(entry_step sample_entry)\<^sup>*\<^sup>* not_loaded s" "length (es_stopped s) = 1"
  then show ?thesis using entry_life_well_formed [THEN conjunct2, THEN conjunct2] by blast
qed

text \<open>C28: a command an entry has published arrives once. At any point of the entry's life, each publication
  of a runtime over MQTT is a command for one node of the entry's household, and the node's verifier, if
  it holds the key the entry stores, its clock is within the window of the command's time stamp and the
  nonce is new to it, accepts the command and rejects a second delivery, which QoS 1 allows, as a replay;
  every other node of any household rejects it as none of its topics.\<close>

theorem published_commands_reach_their_node:
  assumes "(entry_step e)\<^sup>*\<^sup>* not_loaded s" "r \<in> entry_runtimes s"
    "hb_transport (hr_hub r) = OverMqtt m c ps" "p \<in> set ps"
  shows "\<exists>hid key node_id action command. ce_household_id e = Some hid
    \<and> stored_key (hr_key_store r) hid = Some key
    \<and> p = command_publication hid node_id action command \<and> action \<in> {ACTION_LOCK, ACTION_UNLOCK}
    \<and> (\<forall>v accepted. fv_key v = key \<longrightarrow> window_of v accepted \<longrightarrow> int_ok (ac_ts command) \<longrightarrow>
         \<not> outside_window (fv_now v) (ac_ts command) \<longrightarrow> ac_nonce command \<notin> set (fv_seen v) \<longrightarrow>
         verify_each (node_base hid node_id) [p, p] v
           = ([Inr action, Inl (FirmwareReject ReplayedNonce)], accept_nonce (ac_nonce command) v))
    \<and> (\<forall>v base. base \<noteq> node_base hid node_id \<longrightarrow>
         verify_each base [p] v = ([Inl (FirmwareReject (UnknownTopic (pub_topic p)))], v))"
proof -
  have "runtime_ok e r" using entry_reachable_inv [OF assms(1)] assms(2) by (simp add: entry_inv_def)
  from runtime_trusted [OF this] obtain hid where hid: "ce_household_id e = Some hid"
    and "key_signed (stored_key (hr_key_store r) hid) hid p"
    using assms(3,4) by auto
  then obtain key env t node_id action command where
    key: "stored_key (hr_key_store r) hid = Some key" and signed: "signed_fresh env key action t command"
    and p: "p = command_publication hid node_id action command"
    unfolding key_signed_def by blast
  have "action \<in> {ACTION_LOCK, ACTION_UNLOCK}" using signed by (simp add: signed_fresh_def)
  then show ?thesis unfolding p
    by (intro exI [of _ hid] exI [of _ key] exI [of _ node_id] exI [of _ action] exI [of _ command] conjI allI impI)
      (auto simp del: verify_each.simps simp: hid key signed_reaches_once [OF signed] signed_elsewhere [OF signed])
qed

text \<open>An MQTT entry with a stored key that locks a door.\<close>

definition sample_mqtt_entry :: config_entry where
  "sample_mqtt_entry = sample_entry\<lparr>ce_transport := None, ce_opt_command_control := Some True\<rparr>"

definition sample_stored :: key_store where
  "sample_stored = snd (set_key (py ''HOME001'') [1, 2, 3] None (new_key_store JNull))"

lemma sample_mqtt_starts:
  obtains r client where
    "setup_entry (sample_outside failing_net) (\<lambda>h p. Presented None) (\<lambda>t. None) [] (ks_disk sample_stored) None
       sample_mqtt_entry [] = (Inr r, [])"
    "hb_transport (hr_hub r) = OverMqtt (Some client) (new_coord (py ''HOME001'') None) []"
    "mc_nonces client = new_nonce_tracker COMMAND_REPLAY_WINDOW" "hb_key (hr_hub r) = Some (Some [1, 2, 3])"
    "stored_key (hr_key_store r) (py ''HOME001'') = Some [1, 2, 3]"
proof -
  obtain s where keys: "load_keys (new_key_store (ks_disk sample_stored)) = (Inr (), s)"
    "get_key s (py ''HOME001'') = Some \<lparr>cr_key = [1, 2, 3], cr_salt = None,
       cr_fingerprint = Some (key_fingerprint [1, 2, 3])\<rparr>"
    using load_after_save [of "\<lparr>ks_disk = JNull, ks_cache = [(py ''HOME001'', \<lparr>cr_key = [1, 2, 3], cr_salt = None,
       cr_fingerprint = Some (key_fingerprint [1, 2, 3])\<rparr>)], ks_loaded = False\<rparr>"]
    by (simp add: sample_stored_def set_key_def make_credential_def new_key_store_def dict_set_def save_keys_def
        cache_ok_def dict_ok_def credential_ok_def get_key_def dict_get_def)
  obtain a client where c: "client_start (\<lambda>t. None) (new_mqtt_client (py ''HOME001'')
      (legacy_prefix_of sample_mqtt_entry)) = (a, client)" by (rule prod.exhaust)
  then have client: "a = Inr ()" "mc_nonces client = new_nonce_tracker COMMAND_REPLAY_WINDOW"
    using subscribed_nonces [of "wanted_subscriptions (new_mqtt_client (py ''HOME001'') (legacy_prefix_of sample_mqtt_entry))"
        "new_mqtt_client (py ''HOME001'') (legacy_prefix_of sample_mqtt_entry)"]
    by (simp_all add: client_start_def) (simp add: new_mqtt_client_def)
  have e: "ce_household_id sample_mqtt_entry = Some (py ''HOME001'')" "transport_kind sample_mqtt_entry \<noteq> TRANSPORT_DIRECT"
    "command_control_of sample_mqtt_entry"
    by (simp_all add: sample_mqtt_entry_def sample_entry_def transport_kind_def command_control_of_def
        TRANSPORT_MQTT_def TRANSPORT_DIRECT_def py_def)
  have new: "co_household_id (new_coord h None) = h" "co_nodes (new_coord h None) = []" for h
    by (simp_all add: new_coord_def restore_pooled_state_def)
  have start: "start_transport (sample_outside failing_net) (\<lambda>h p. Presented None) (\<lambda>t. None) [] sample_mqtt_entry
      (new_coord (py ''HOME001'') None) [] = (Inr (OverMqtt (Some client) (new_coord (py ''HOME001'') None) []), [])"
    using c client by (simp add: start_transport_def e start_mqtt_def new async_wait_for_initial_nodes_def Let_def)
  show thesis
    by (rule that, simp add: setup_entry_def e required_def bindS_def start keys schedule_transport_def
        key_provider_def stored_key_def) (use client(2) in \<open>simp_all add: keys stored_key_def\<close>)
qed

lemma sample_mqtt_locks:
  obtains s r c ps where "(entry_step sample_mqtt_entry)\<^sup>*\<^sup>* not_loaded s" "r \<in> entry_runtimes s"
    "hb_transport (hr_hub r) = OverMqtt (Some c) (new_coord (py ''HOME001'') None) ps"
    "stored_key (hr_key_store r) (py ''HOME001'') = Some [1, 2, 3]"
    "\<exists>command. ac_ts command = 1700000000
       \<and> command_publication (py ''HOME001'') (py ''GATE-001'') ACTION_LOCK command \<in> set ps"
proof (rule sample_mqtt_starts)
  fix r client
  let ?w = "sample_outside failing_net"
  assume start: "setup_entry ?w (\<lambda>h p. Presented None) (\<lambda>t. None) [] (ks_disk sample_stored) None
       sample_mqtt_entry [] = (Inr r, [])"
    and t: "hb_transport (hr_hub r) = OverMqtt (Some client) (new_coord (py ''HOME001'') None) []"
    and n: "mc_nonces client = new_nonce_tracker COMMAND_REPLAY_WINDOW"
    and k: "hb_key (hr_hub r) = Some (Some [1, 2, 3])"
    and st: "stored_key (hr_key_store r) (py ''HOME001'') = Some [1, 2, 3]"
  have now: "current_epoch_seconds (de_now (sample_env 1)) = Inr 1700000000"
    by (simp add: sample_env_def current_epoch_seconds_def float_num_def float_den_def)
  obtain command client' where pub: "publish_authenticated_command (\<lambda>p. None) (sample_env 1) client (py ''HOME001'')
      (py ''GATE-001'') [1, 2, 3] ACTION_LOCK JNull
      = (Inr command, client', [command_publication (py ''HOME001'') (py ''GATE-001'') ACTION_LOCK command])"
    "ac_ts command = 1700000000"
    using publish_total [of "[1, 2, 3]" ACTION_LOCK "sample_env 1" 0 client "py ''HOME001''" "py ''GATE-001''" 1700000000]
    unfolding publish_now [OF now]
    by (auto simp: n new_nonce_tracker_def sample_env_def sound_draws_def)
  define h' where "h' = (hr_hub r)\<lparr>hb_transport := OverMqtt (Some client') (new_coord (py ''HOME001'') None)
      [command_publication (py ''HOME001'') (py ''GATE-001'') ACTION_LOCK command]\<rparr>"
  have "send_lock_command ?w (py ''GATE-001'') ACTION_LOCK (hr_hub r) = (Inr (Published command), h')"
    using pub by (simp add: send_lock_command_def t k command_key_def client_lock_def ACTION_LOCK_def
        sample_outside_def new_coord_def restore_pooled_state_def h'_def)
  then have "operated (hr_hub r) h'" by (rule operated.command)
  define s1 where "s1 = not_loaded\<lparr>es_runtime := Some r\<rparr>"
  have "entry_step sample_mqtt_entry not_loaded (not_loaded\<lparr>es_runtime := Some r, es_requests := []\<rparr>)"
    by (rule entry_step.started) (use start in \<open>simp_all add: not_loaded_def pool_fits_def\<close>)
  then have "entry_step sample_mqtt_entry not_loaded s1" by (simp add: s1_def not_loaded_def)
  moreover have "entry_step sample_mqtt_entry s1 (s1\<lparr>es_runtime := Some (r\<lparr>hr_hub := h'\<rparr>)\<rparr>)"
    by (rule entry_step.operation) (simp add: s1_def, fact)
  ultimately have "(entry_step sample_mqtt_entry)\<^sup>*\<^sup>* not_loaded (s1\<lparr>es_runtime := Some (r\<lparr>hr_hub := h'\<rparr>)\<rparr>)"
    by (rule converse_rtranclp_into_rtranclp [OF _ r_into_rtranclp])
  then show thesis
    by (rule that [of _ "r\<lparr>hr_hub := h'\<rparr>"]) (use st pub(2) in \<open>auto simp: entry_runtimes_def h'_def\<close>)
qed

theorem published_commands_reach_their_node_witness:
  "\<exists>p v'. verify_each (node_base (py ''HOME001'') (py ''GATE-001'')) [p, p]
      \<lparr>fv_key = [1, 2, 3], fv_now = Some 1700000000, fv_seen = []\<rparr>
    = ([Inr (py ''lock''), Inl (FirmwareReject ReplayedNonce)], v')"
proof (rule sample_mqtt_locks)
  let ?v = "\<lparr>fv_key = [1, 2, 3], fv_now = Some 1700000000, fv_seen = []\<rparr>"
  fix s r c ps
  assume s: "(entry_step sample_mqtt_entry)\<^sup>*\<^sup>* not_loaded s" "r \<in> entry_runtimes s"
    "hb_transport (hr_hub r) = OverMqtt (Some c) (new_coord (py ''HOME001'') None) ps"
    and key: "stored_key (hr_key_store r) (py ''HOME001'') = Some [1, 2, 3]"
    and "\<exists>command. ac_ts command = 1700000000
       \<and> command_publication (py ''HOME001'') (py ''GATE-001'') ACTION_LOCK command \<in> set ps"
  then obtain command where command: "ac_ts command = 1700000000"
    "command_publication (py ''HOME001'') (py ''GATE-001'') ACTION_LOCK command \<in> set ps" by blast
  let ?p = "command_publication (py ''HOME001'') (py ''GATE-001'') ACTION_LOCK command"
  from published_commands_reach_their_node [OF s command(2)] obtain hid key node_id action command' where
    r: "ce_household_id sample_mqtt_entry = Some hid" "stored_key (hr_key_store r) hid = Some key"
      "?p = command_publication hid node_id action command'"
    and once: "\<And>v accepted. fv_key v = key \<Longrightarrow> window_of v accepted \<Longrightarrow> int_ok (ac_ts command') \<Longrightarrow>
         \<not> outside_window (fv_now v) (ac_ts command') \<Longrightarrow> ac_nonce command' \<notin> set (fv_seen v) \<Longrightarrow>
         verify_each (node_base hid node_id) [?p, ?p] v
           = ([Inr action, Inl (FirmwareReject ReplayedNonce)], accept_nonce (ac_nonce command') v)"
    by blast
  have hid: "hid = py ''HOME001''" "key = [1, 2, 3]"
    using r(1,2) key by (auto simp: sample_mqtt_entry_def sample_entry_def)
  have ts: "ac_ts command' = 1700000000"
    using r(3) command(1) dumps_command_ts [of command command'] by (simp add: command_publication_def)
  have topic: "pub_topic ?p = node_topic hid node_id (Some (if action = ACTION_LOCK then TOPIC_CMD_LOCK else TOPIC_CMD_UNLOCK))"
    unfolding r(3) by (simp add: command_publication_def)
  have "action = ACTION_LOCK"
    using arg_cong [OF topic, of "\<lambda>t. take 5 (rev t)"]
    by (auto simp: command_publication_def node_topic_def node_base_def Let_def const_defs py_def split: if_splits)
  moreover from this have "node_id = py ''GATE-001''"
    using topic by (simp add: command_publication_def node_topic_def node_base_def hid const_defs py_def)
  moreover have "verify_each (node_base hid node_id) [?p, ?p] ?v
      = ([Inr action, Inl (FirmwareReject ReplayedNonce)], accept_nonce (ac_nonce command') ?v)"
    by (rule once [of _ "[]"]) (simp_all add: hid ts window_of_def last_n_def int_ok_def dec_nat.simps
        outside_window_def MAX_SKEW_SECONDS_def)
  ultimately show ?thesis by (auto simp del: verify_each.simps simp: hid ACTION_LOCK_def)
qed

text \<open>C29: over the life of an entry, the value of every sensor that declares options, the health sensor
  apart, is one of its options or none.\<close>

theorem sensor_values_declared:
  assumes "(entry_step e)\<^sup>*\<^sup>* not_loaded s" "es_runtime s = Some r"
    "x \<in> set (sensors_for_node (hub_coord (hr_hub r)) n)" "ey_class x \<noteq> HomeKeyHealthSensor"
  shows "case (ey_options x, text_value (hr_hub r) x) of
      (Some options, Some v) \<Rightarrow> ey_enum x \<and> v \<in> set options | _ \<Rightarrow> True"
proof -
  have "entry_inv e s" by (rule entry_reachable_inv [OF assms(1)])
  then have "coord_inv (hub_coord (hr_hub r))"
    using assms(2) runtime_coordinator by (auto simp: entry_inv_def entry_runtimes_def)
  moreover have "ey_options x \<noteq> None \<longrightarrow> ey_enum x" using assms(3) by (auto simp: factories)
  ultimately show ?thesis using text_value_declared [OF _ assms(3)] assms(4) by (auto split: option.splits)
qed

theorem sensor_values_declared_witness:
  "\<exists>r :: homekey_runtime. \<forall>x \<in> set (sensors_for_node (hub_coord (hr_hub r)) (py ''GATE-001'')). ey_class x \<noteq> HomeKeyHealthSensor \<longrightarrow>
     (case (ey_options x, text_value (hr_hub r) x) of
        (Some options, Some v) \<Rightarrow> ey_enum x \<and> v \<in> set options | _ \<Rightarrow> True)"
proof (rule sample_start)
  fix r log
  assume "entry_step sample_entry not_loaded (not_loaded\<lparr>es_runtime := Some r, es_requests := log\<rparr>)"
  then have "(entry_step sample_entry)\<^sup>*\<^sup>* not_loaded (not_loaded\<lparr>es_runtime := Some r, es_requests := log\<rparr>)"
    by (rule r_into_rtranclp)
  from sensor_values_declared [OF this, of r] show ?thesis by (intro exI [of _ r]) simp
qed

text \<open>C30: through any messages, the six platforms give each node they have heard of exactly its thirteen
  entities, one of each class in the platforms' order, and after an update every node the coordinator
  holds; they add entities of no other node, and no two of all these entities share a unique id.\<close>

theorem entities_of_nodes:
  assumes "fold platforms_listen ms (c0, setup_platforms c0) = (c, ls)"
  shows "c = handle_messages ms c0
    \<and> distinct (map ey_unique_id (added_entities ls))
    \<and> (\<forall>n. map ey_class (filter (\<lambda>e. ey_node_id e = n) (added_entities ls)) \<in> {[], entity_classes})
    \<and> (\<forall>e \<in> set (added_entities ls). get_node c (ey_node_id e) \<noteq> None)
    \<and> (ms = [] \<or> co_delivered c \<noteq> co_delivered (handle_messages (butlast ms) c0) \<longrightarrow>
        (\<forall>n. get_node c n \<noteq> None \<longrightarrow>
          map ey_class (filter (\<lambda>e. ey_node_id e = n) (added_entities ls)) = entity_classes))"
proof -
  obtain ks where c: "c = handle_messages ms c0" and ks: "in_step c ls ks"
    and all: "ms = [] \<or> co_delivered c \<noteq> co_delivered (handle_messages (butlast ms) c0)
        \<longrightarrow> set ks = set (dict_keys (co_nodes c))"
    using run_in_step [OF assms] by blast
  show ?thesis
    using entities_of_node [OF ks] unique_ids_of_entities [OF ks] added_nodes_known [OF ks] c all
    by (auto simp: get_node_def dict_get_None_iff)
qed

theorem entities_of_nodes_witness:
  "distinct (map ey_unique_id (added_entities (snd (fold platforms_listen
     [(quiet_env, direct_message (py ''HOME001'') (py ''GATE-001'') TOPIC_STATUS (py ''online'') True)]
     (new_coord (py ''HOME001'') None, setup_platforms (new_coord (py ''HOME001'') None))))))"
proof -
  obtain c ls where e: "fold platforms_listen
      [(quiet_env, direct_message (py ''HOME001'') (py ''GATE-001'') TOPIC_STATUS (py ''online'') True)]
      (new_coord (py ''HOME001'') None, setup_platforms (new_coord (py ''HOME001'') None)) = (c, ls)"
    by (rule prod.exhaust)
  from entities_of_nodes [OF e, THEN conjunct2, THEN conjunct1] show ?thesis by (simp only: e snd_conv)
qed

text \<open>C31: the bytes a broker delivers are read as the text they encode: a payload in bytes reaches the
  coordinator as the publication of that text would, and any bytes at all are read as Unicode scalar
  values, at most one for each byte.\<close>

theorem bytes_read_as_text:
  assumes "utf8 (pub_payload p) = Some bs" "list_all (\<lambda>c. c < 1114112) (pub_payload p)"
  shows "ha_receive envs client (received (BinaryPayload bs) p) c = broker_receive envs client p c
    \<and> str_ok (payload_text (BinaryPayload other)) \<and> length (payload_text (BinaryPayload other)) \<le> length other"
  using ha_receive_text [of "BinaryPayload bs" p] decode_encode [OF assms] decode_utf8_text [of other]
  by (simp add: payload_text_def)

theorem bytes_read_as_text_witness:
  "payload_text (BinaryPayload [79, 75, 195, 40, 240, 159]) = [79, 75, 65533, 40, 65533]
   \<and> (\<forall>envs client c. ha_receive envs client (received (BinaryPayload [206, 169, 240, 159, 148, 146])
        \<lparr>pub_topic = [], pub_payload = [937, 128274], pub_qos = 0, pub_retain = True\<rparr>) c
      = broker_receive envs client \<lparr>pub_topic = [], pub_payload = [937, 128274], pub_qos = 0, pub_retain = True\<rparr> c)"
proof
  show "payload_text (BinaryPayload [79, 75, 195, 40, 240, 159]) = [79, 75, 65533, 40, 65533]"
    by (simp add: payload_text_def utf8_step_def utf8_lead_def utf8_tail_numeral replacement_def)
  show "\<forall>envs client c. ha_receive envs client (received (BinaryPayload [206, 169, 240, 159, 148, 146])
        \<lparr>pub_topic = [], pub_payload = [937, 128274], pub_qos = 0, pub_retain = True\<rparr>) c
      = broker_receive envs client \<lparr>pub_topic = [], pub_payload = [937, 128274], pub_qos = 0, pub_retain = True\<rparr> c"
    using bytes_read_as_text [of "\<lparr>pub_topic = [], pub_payload = [937, 128274], pub_qos = 0, pub_retain = True\<rparr>"
        "[206, 169, 240, 159, 148, 146]"] by (simp add: utf8_cp_def)
qed

section \<open>The config flow\<close>

text \<open>C32: an entry that the direct flow creates is one that will start: connecting with the entry's own
  data, to a node that answers as it did in the flow, finds the same node. It stores the identity the
  node reported and the credentials that were tried on it, its fingerprint is the advertised one up
  to spelling, and no existing entry has the same household.\<close>

theorem created_entry_reconnects:
  assumes "step_direct env (Some i) f = (Inr (CreateEntry title data), f')"
    "ou_str w = fe_str env" "ou_net w = fe_net env"
  shows "\<exists>p d. fl_discovery f = Some d \<and> fingerprints_match (ds_fingerprint d) (pr_fingerprint p)
    \<and> connect_direct w (fe_handshake env) (entry_of data options) (fl_log f) = (Inr p, fl_log f')
    \<and> ce_household_id (entry_of data options) = Some (pr_household_id p)
    \<and> ce_username (entry_of data options) = Some (login_username i)
    \<and> ce_password (entry_of data options) = Some (login_password i)
    \<and> (\<forall>e \<in> set (fe_entries env). obj_get (snd e) CONF_HOUSEHOLD_ID \<noteq> JStr (pr_household_id p))"
proof -
  obtain d p where d: "fl_discovery f = Some d"
    and c: "connect_node (fe_str env) (fe_net env) (fe_handshake env (ds_host d) (ds_port d)) (ds_host d) (ds_port d)
       (ds_fingerprint d) (login_username i) (login_password i) (fl_log f) = (Inr p, fl_log f')"
    and e: "create_direct_entry env p (login_username i) (login_password i) (ds_host d) (ds_port d) = CreateEntry title data"
    using step_direct_creates [OF assms(1)] .
  note fields = direct_entry_fields [OF e]
  have "connect_direct w (fe_handshake env) (entry_of data options) (fl_log f) = (Inr p, fl_log f')"
    using connect_node_again(1) [OF c] by (simp add: connect_direct_def fields assms(2,3) required_def bindS_def or_empty_def py_int_def)
  then show ?thesis using d connect_node_again(2) [OF c] fields(4-6,8) by blast
qed

definition sample_flow_env :: flow_env where
  "sample_flow_env = \<lparr>fe_str = (\<lambda>v. []), fe_decode = (\<lambda>b. []), fe_net = sample_net,
     fe_handshake = (\<lambda>h p. Presented (Some [1])), fe_mqtt_ready = (\<lambda>n. True),
     fe_mqtt_flow = (\<lambda>cs c. Inl RuntimeFailure), fe_mqtt_entries = (\<lambda>cs. []), fe_conf_broker = py ''broker'',
     fe_hassio = False, fe_claim = (\<lambda>u d. None), fe_entries = []\<rparr>"

definition sample_flow :: flow where
  "sample_flow = \<lparr>fl_express_error = None, fl_addon_error = None, fl_household_defaults = [],
     fl_discovery = Some \<lparr>ds_host = py ''10.0.0.9'', ds_port = 443, ds_fingerprint = certificate_fingerprint [1],
       ds_node_id = [], ds_node_name = [], ds_model = [], ds_version = []\<rparr>,
     fl_title = None, fl_key_document = JNull, fl_log = [], fl_calls = [], fl_checks = 0\<rparr>"

theorem created_entry_reconnects_witness:
  "\<exists>title data f' p. step_direct sample_flow_env (Some \<lparr>lg_username = Some (py ''admin''), lg_password = Some (py ''pw'')\<rparr>)
      sample_flow = (Inr (CreateEntry title data), f')
    \<and> connect_direct (sample_outside sample_net) (fe_handshake sample_flow_env) (entry_of data []) [] = (Inr p, fl_log f')"
proof -
  obtain p log where c: "connect_node (\<lambda>v. []) sample_net (Presented (Some [1])) (py ''10.0.0.9'') 443
      (certificate_fingerprint [1]) (py ''admin'') (py ''pw'') [] = (Inr p, log)"
    using sample_connects by blast
  let ?i = "\<lparr>lg_username = Some (py ''admin''), lg_password = Some (py ''pw'')\<rparr>"
  have l: "login_username ?i = py ''admin''" "login_password ?i = py ''pw''" "py ''admin'' \<noteq> []" "py ''pw'' \<noteq> []"
    by (simp_all add: login_username_def login_password_def str_or_def py_def py_strip_def py_lstrip_def is_space_def)
  obtain title data where e: "create_direct_entry sample_flow_env p (py ''admin'') (py ''pw'') (py ''10.0.0.9'') 443 = CreateEntry title data"
    by (simp add: create_direct_entry_def sample_flow_env_def)
  obtain d where d: "fl_discovery sample_flow = Some d" "ds_host d = py ''10.0.0.9''" "ds_port d = 443"
    "ds_fingerprint d = certificate_fingerprint [1]" "fl_log sample_flow = []"
    by (simp add: sample_flow_def)
  have w: "ou_str (sample_outside sample_net) = fe_str sample_flow_env" "ou_net (sample_outside sample_net) = fe_net sample_flow_env"
    "fe_str sample_flow_env = (\<lambda>v. [])" "fe_net sample_flow_env = sample_net"
    "fe_handshake sample_flow_env h p = Presented (Some [1])" for h p
    by (simp_all add: sample_outside_def sample_flow_env_def)
  have "\<exists>f'. step_direct sample_flow_env (Some ?i) sample_flow = (Inr (CreateEntry title data), f')"
    by (simp add: step_direct_def probe_direct_def Let_def l d w(3-) c e)
  then obtain f' where s: "step_direct sample_flow_env (Some ?i) sample_flow = (Inr (CreateEntry title data), f')" by blast
  from created_entry_reconnects [OF s w(1,2), of "[]"] s d(5) show ?thesis by metis
qed

text \<open>C33: the recovery secret typed into the household form is not stored: the data of the entry are its
  household id, its name and whether commands are allowed. The key derived from it with the salt is
  stored instead, and is what an entry set up from that data, with the store as the flow left it,
  signs its commands with.\<close>

theorem secret_becomes_command_key:
  assumes "claims_abort env"
    "step_household env (Some i) f = (Inr (CreateEntry title data), f')"
    "str_or (hi_recovery_secret i) [] \<noteq> []"
    "setup_entry w hs subscribe arriving (fl_key_document f') pool (entry_of data []) log = (Inr r, log')"
  shows "\<exists>key hid control. data = entry_data_of hid title control
    \<and> derive_command_key (KStr (str_or (hi_recovery_secret i) [])) (KStr (str_or (hi_salt i) [])) = Inr key
    \<and> command_key (hr_hub r) = (if control then Some key else None)"
proof (rule step_household_creates [OF assms(1,2)])
  fix hid control g
  assume data: "data = entry_data_of hid title control"
    and "str_or (hi_recovery_secret i) [] \<noteq> [] \<Longrightarrow>
       store_secret hid (str_or (hi_recovery_secret i) []) (hi_salt i) g = (Inr [], f')"
  then obtain key s where key: "derive_command_key (KStr (str_or (hi_recovery_secret i) [])) (KStr (str_or (hi_salt i) [])) = Inr key"
    and s: "load_keys (new_key_store (fl_key_document f')) = (Inr (), s)" "stored_key s hid = Some key" "key \<noteq> []"
    using store_secret_stores assms(3) by blast
  have e: "ce_household_id (entry_of data []) = Some hid" "transport_kind (entry_of data []) \<noteq> TRANSPORT_DIRECT"
    "command_control_of (entry_of data []) = control"
    unfolding data entry_of_def entry_data_of_def data_str_def data_bool_def transport_kind_def command_control_of_def
    by (simp_all add: dict_get_def const_defs)
  then obtain t where "start_mqtt w subscribe arriving (legacy_prefix_of (entry_of data [])) (new_coord hid pool) = Inr t"
    and r: "r = \<lparr>hr_hub = \<lparr>hb_transport = schedule_transport t, hb_key = key_provider (entry_of data []) s hid\<rparr>,
           hr_key_store = s, hr_transport_kind = transport_kind (entry_of data [])\<rparr>"
    using assms(4) s by (auto simp: setup_entry_def start_transport_def required_def res_simps)
  have "command_key (hr_hub r) = (if control then Some key else None)"
    using e s(2,3) by (simp add: r command_key_def key_provider_def)
  then show ?thesis using data key by blast
qed

definition sample_household_input :: household_input where
  "sample_household_input = \<lparr>hi_household_id = py ''HOME001'', hi_name = None,
     hi_recovery_secret = Some (bytes_hex (replicate 32 171)), hi_salt = Some (bytes_hex (replicate 16 205)),
     hi_command_control = None\<rparr>"

lemma sample_household_created:
  "\<exists>title data f'. step_household sample_flow_env (Some sample_household_input) sample_flow = (Inr (CreateEntry title data), f')"
proof -
  let ?secret = "bytes_hex (replicate 32 171)" and ?salt = "bytes_hex (replicate 16 205)"
  have ne: "?secret \<noteq> []" "?salt \<noteq> []" by (simp_all add: bytes_hex_def hex_byte_def)
  obtain key where k: "derive_command_key (KStr ?secret) (KStr ?salt) = Inr key"
    using derive_hex [of "replicate 32 171" "replicate 16 205"] derive_bytes [of "replicate 32 171" "replicate 16 205"] by simp
  have "length key = 32" using derive_command_key_Inr [OF k] by (simp add: COMMAND_KEY_LENGTH_def)
  then have "key \<noteq> []" by auto
  then have st: "\<exists>f'. store_secret (py ''HOME001'') ?secret (Some ?salt) g = (Inr [], f')" if "fl_key_document g = JNull" for g
    using k ne that
    by (simp add: store_secret_def load_keys_def new_key_store_def stored_households_def set_key_from_secret_def
        set_key_def make_credential_def str_or_def)
  have v: "validate_id (py ''HOME001'') (py ''household_id'') 64 = Inr (py ''HOME001'')" "py_strip (py ''HOME001'') = py ''HOME001''"
    by (simp_all add: validate_id_def py_def ID_SAFE_CHARS_def py_strip_def py_lstrip_def is_space_def)
  let ?g = "sample_flow\<lparr>fl_household_defaults := dict_update (dict_update [] (mqtt_household_defaults sample_flow_env sample_flow))
      (fl_household_defaults sample_flow)\<rparr>"
  obtain f' where s: "store_secret (py ''HOME001'') ?secret (Some ?salt) ?g = (Inr [], f')"
    using st [of ?g] by (auto simp: sample_flow_def)
  have i: "hi_household_id sample_household_input = py ''HOME001''" "hi_recovery_secret sample_household_input = Some ?secret"
    "hi_salt sample_household_input = Some ?salt" "fe_claim sample_flow_env u d = None" for u d
    by (simp_all add: sample_household_input_def sample_flow_env_def)
  show ?thesis
    using s ne by (simp add: step_household_def submit_household_def Let_def i v str_or_def bindS_def ends_with_def)
qed

theorem secret_becomes_command_key_witness:
  "\<exists>title data f' r log'. step_household sample_flow_env (Some sample_household_input) sample_flow = (Inr (CreateEntry title data), f')
    \<and> setup_entry (sample_outside sample_net) (\<lambda>h p. Unreachable) (\<lambda>t. None) [] (fl_key_document f') None (entry_of data []) []
        = (Inr r, log')
    \<and> (\<exists>key control. command_key (hr_hub r) = (if control then Some key else None))"
proof -
  obtain title data f' where s: "step_household sample_flow_env (Some sample_household_input) sample_flow = (Inr (CreateEntry title data), f')"
    using sample_household_created by blast
  have c: "claims_abort sample_flow_env" by (simp add: claims_abort_def sample_flow_env_def)
  have ne: "str_or (hi_recovery_secret sample_household_input) [] \<noteq> []"
    by (simp add: sample_household_input_def str_or_def bytes_hex_def hex_byte_def)
  obtain hid control g where d: "data = entry_data_of hid title control"
    and st: "store_secret hid (str_or (hi_recovery_secret sample_household_input) []) (hi_salt sample_household_input) g = (Inr [], f')"
    using step_household_creates [OF c s] ne by metis
  obtain key k where k: "load_keys (new_key_store (fl_key_document f')) = (Inr (), k)"
    using store_secret_stores [OF st] by blast
  have e: "ce_household_id (entry_of data []) = Some hid" "transport_kind (entry_of data []) \<noteq> TRANSPORT_DIRECT"
    unfolding d entry_of_def entry_data_of_def data_str_def transport_kind_def by (simp_all add: dict_get_def const_defs)
  have "\<exists>c'. subscribe_each (\<lambda>t. None) ts c = (Inr (), c')" for ts c
    by (induction ts arbitrary: c) auto
  then obtain c' where "client_start (\<lambda>t. None) (new_mqtt_client (co_household_id (new_coord hid None))
      (legacy_prefix_of (entry_of data []))) = (Inr (), c')"
    unfolding client_start_def by blast
  then obtain t where t: "start_mqtt (sample_outside sample_net) (\<lambda>t. None) [] (legacy_prefix_of (entry_of data []))
      (new_coord hid None) = Inr t"
    by (simp add: start_mqtt_def)
  obtain r log' where r: "setup_entry (sample_outside sample_net) (\<lambda>h p. Unreachable) (\<lambda>t. None) [] (fl_key_document f') None
      (entry_of data []) [] = (Inr r, log')"
    using k e t by (simp add: setup_entry_def start_transport_def required_def bindS_def)
  from secret_becomes_command_key [OF c s ne r] s r show ?thesis by blast
qed

text \<open>C34: driving the set-up of the broker add-on ends after at most 22 calls of the MQTT integration's
  flow, however long that flow reports progress, and it reports success only if Home Assistant's MQTT
  client was found ready at the end.\<close>

theorem addon_setup_bounded:
  assumes "setup_mqtt_addon env f = (r, f')"
  shows "length (fl_calls f') \<le> length (fl_calls f) + 22
    \<and> (r = Inr True \<longrightarrow> 0 < fl_checks f' \<and> fe_mqtt_ready env (fl_checks f' - 1))"
proof -
  let ?f = "f\<lparr>fl_addon_error := None\<rparr>"
  show ?thesis
  proof (cases "\<exists>a j b g. fe_mqtt_flow env (fl_calls f) InitFlow = Inr a \<and> fa_type a = py ''menu''
      \<and> py ''addon'' \<in> set (fa_menu_options a) \<and> fa_flow_id a = Some j
      \<and> mqtt_call env (Configure j [(py ''next_step_id'', JStr (py ''addon''))])
          (?f\<lparr>fl_calls := fl_calls f @ [InitFlow]\<rparr>) = (Inr b, g)")
    case True
    then obtain a j b g where a: "fe_mqtt_flow env (fl_calls f) InitFlow = Inr a" "fa_type a = py ''menu''"
      "py ''addon'' \<in> set (fa_menu_options a)" "fa_flow_id a = Some j"
      and b: "mqtt_call env (Configure j [(py ''next_step_id'', JStr (py ''addon''))])
          (?f\<lparr>fl_calls := fl_calls f @ [InitFlow]\<rparr>) = (Inr b, g)" by blast
    have g: "length (fl_calls g) = length (fl_calls f) + 2" using b by (auto simp: mqtt_call_def)
    obtain q k where q: "addon_rounds env 20 [] b g = (q, k)" by (rule prod.exhaust)
    note calls = addon_rounds_calls [OF q]
    show ?thesis
      using assms a b q calls g
      by (cases q) (auto simp: setup_mqtt_addon_def mqtt_call_def [of env InitFlow] Let_def bindS_def split: option.splits prod.splits)
  next
    case False
    then show ?thesis using assms
      by (auto simp: setup_mqtt_addon_def mqtt_call_def [of env InitFlow] Let_def bindS_def mqtt_call_def
          split: sum.splits option.splits if_splits)
  qed
qed

theorem addon_setup_bounded_witness:
  "length (fl_calls (snd (setup_mqtt_addon sample_flow_env sample_flow))) \<le> length (fl_calls sample_flow) + 22"
proof -
  obtain r f' where e: "setup_mqtt_addon sample_flow_env sample_flow = (r, f')" by (rule prod.exhaust)
  from addon_setup_bounded [OF e, THEN conjunct1] show ?thesis unfolding e by simp
qed

section \<open>A node of the documented firmware\<close>

text \<open>C35: the integration understands the documented firmware. Whatever the coordinator held of the
  node and whichever prefix it listens to, after the node has connected and published its
  telemetry (any name and role that JSON can carry, any lock state and any documented values), the
  coordinator shows the node under its name and role, in the lock state and the availability the
  node reported, with its security state, its backup and its last authentication; nothing of the
  seven publications is lost on the way through topics, JSON and validation.\<close>

theorem documented_telemetry_understood:
  assumes "connect_emulated_node h n name role prefix = (will, hello, e)"
    "publish_all (\<lambda>p. None) a e = (r, sent, e')" "documented a"
    "is_valid_id h" "is_valid_id n" "co_household_id c = h" "str_ok name" "str_ok role"
  shows "\<exists>m. get_node (fold (broker_receive envs client) (hello @ sent) c) n = Some m
    \<and> r = Inr sent \<and> en_publish_log e' = sent
    \<and> nd_node_name m = str_or (Some name) n \<and> nd_node_role m = str_or (Some role) (py ''other'')
    \<and> nd_online m = (py_lower (py_strip (ta_status a)) = ONLINE)
    \<and> node_lock_state m = lock_state_of (ta_lock_current a)
    \<and> nd_security m = Some (ta_security a) \<and> nd_backup_status m = Some (ta_backup_status a)
    \<and> map_option br_status (nd_backup m) = Some (py ''completed'')
    \<and> map_option (\<lambda>l. (la_result l, la_timestamp l)) (nd_last_auth m)
        = Some (ta_last_auth_result a, Some (py ''2025-10-09T08:53:20+00:00''))"
proof -
  have e: "en_household_id e = h" "en_node_id e = n" "en_node_name e = name" "en_node_role e = role"
    "en_publish_log e = []"
    using assms(1) by (auto simp: connect_emulated_node_def Let_def split: option.splits if_splits)
  have sent: "sent = telemetry e a" "r = Inr sent" "en_publish_log e' = sent"
    using assms(2) e by (auto simp: publish_all_def)
  define c1 where "c1 = fold (broker_receive envs client) hello c"
  have "addressed (en_household_id e) (en_node_id e) c1"
    using assms(4-6) e by (simp add: addressed_def c1_def)
  from telemetry_held [OF this _ _ assms(3)] assms(7,8) e have
    "get_node (fold (broker_receive envs client) (hello @ sent) c) n
      = Some (reported (now_iso (envs TOPIC_STATUS)) a e (held c1 n))"
    by (simp add: sent c1_def)
  then show ?thesis
    using e sent by (simp add: reported_def emulated_health_def node_lock_state_def lock_current_state_def event_time)
qed

theorem documented_telemetry_understood_witness:
  "\<exists>m. get_node (fold (broker_receive (\<lambda>s. quiet_env) (new_mqtt_client (py ''HOME001'') None))
      (telemetry \<lparr>en_household_id = py ''HOME001'', en_node_id = py ''GATE-001'', en_node_name = py ''Gate'',
         en_node_role = py ''gate'', en_publish_log = []\<rparr> default_telemetry)
      (new_coord (py ''HOME001'') None)) (py ''GATE-001'') = Some m
    \<and> nd_node_name m = py ''Gate'' \<and> node_lock_state m = LS_LOCKED \<and> nd_security m = Some (py ''OK'')"
proof -
  define e where "e = \<lparr>en_household_id = py ''HOME001'', en_node_id = py ''GATE-001'',
    en_node_name = py ''Gate'', en_node_role = py ''gate'', en_publish_log = []\<rparr>"
  have c: "connect_emulated_node (py ''HOME001'') (py ''GATE-001'') (py ''Gate'') (py ''gate'') None = (None, [], e)"
    by (simp add: connect_emulated_node_def e_def)
  have p: "publish_all (\<lambda>p. None) default_telemetry e = (Inr (telemetry e default_telemetry),
      telemetry e default_telemetry, e\<lparr>en_publish_log := telemetry e default_telemetry\<rparr>)"
    by (simp add: publish_all_def) (simp add: e_def)
  have d: "documented default_telemetry"
    using status_words int_ok_payload by (simp add: documented_def default_telemetry_def
        is_security_state_def is_backup_outcome_def is_auth_result_def enum_security_state_def
        enum_backup_outcome_def enum_auth_result_def)
  have i: "is_valid_id (py ''HOME001'')" "is_valid_id (py ''GATE-001'')"
    by (simp_all add: is_valid_id_def py_def)
  from documented_telemetry_understood [OF c p d i, where c = "new_coord (py ''HOME001'') None"
      and envs = "\<lambda>s. quiet_env" and client = "new_mqtt_client (py ''HOME001'') None"]
  show ?thesis
    unfolding e_def [symmetric]
    by (auto simp: str_or_def default_telemetry_def lock_state_of_range)
qed

text \<open>The will the broker publishes for a node that is gone makes the node unavailable, whatever
  it reported last, and changes nothing else of it; when the node connects again its
  availability is what it reports itself.\<close>

theorem last_will_makes_unavailable:
  assumes "connect_emulated_node h n name role (Some p) = (Some will, hello, e)"
    "mc_legacy_prefix client = Some p" "47 \<notin> set p" "p @ n \<noteq> TOPIC_ROOT" "is_valid_id n"
    "mc_household_id client = co_household_id c" "get_node c n = Some m"
  shows "get_node (broker_receive envs client will c) n = Some (m\<lparr>nd_lwt_online := Some False\<rparr>)
    \<and> node_available (m\<lparr>nd_lwt_online := Some False\<rparr>) = False
    \<and> map_option node_available (get_node (fold (broker_receive envs client) (will # hello) c) n)
        = Some (nd_online m)"
proof -
  have p: "p \<noteq> []" and w: "will = \<lparr>pub_topic = p @ n @ py ''/status'', pub_payload = py ''offline'',
      pub_qos = 1, pub_retain = True\<rparr>"
    and hello: "hello = [\<lparr>pub_topic = p @ n @ py ''/status'', pub_payload = py ''online'',
      pub_qos = 1, pub_retain = True\<rparr>]"
    using assms(1) by (auto simp: connect_emulated_node_def Let_def split: if_splits)
  note legacy = legacy_received [OF assms(2) p assms(3,5,4)]
  have down: "get_node (broker_receive envs client will c) n = Some (m\<lparr>nd_lwt_online := Some False\<rparr>)"
    unfolding w using legacy [OF assms(6) _ assms(7), of "py ''offline''"] by simp
  have "get_node (fold (broker_receive envs client) (will # hello) c) n =
      Some (m\<lparr>nd_lwt_online := Some True, nd_last_seen := Some (now_iso (envs KIND_LEGACY_STATUS))\<rparr>)"
    unfolding hello using legacy [OF _ _ down, of "py ''online''"] assms(6) by simp
  then show ?thesis using down by (simp add: node_available_def)
qed

theorem last_will_makes_unavailable_witness:
  "map_option node_available (get_node (broker_receive (\<lambda>s. quiet_env)
      (new_mqtt_client (py ''HOME001'') (Some (py ''ESP_'')))
      \<lparr>pub_topic = py ''ESP_GATE-001/status'', pub_payload = py ''offline'', pub_qos = 1, pub_retain = True\<rparr>
      (put_node (py ''GATE-001'') ((new_node (py ''GATE-001'') (py ''HOME001''))\<lparr>nd_online := True\<rparr>)
        (new_coord (py ''HOME001'') None))) (py ''GATE-001'')) = Some False"
proof -
  define will where "will = \<lparr>pub_topic = py ''ESP_'' @ py ''GATE-001'' @ py ''/status'',
    pub_payload = py ''offline'', pub_qos = 1, pub_retain = True\<rparr>"
  define m where "m = (new_node (py ''GATE-001'') (py ''HOME001''))\<lparr>nd_online := True\<rparr>"
  obtain hello e where "connect_emulated_node (py ''HOME001'') (py ''GATE-001'') (py ''Gate'') (py ''gate'')
      (Some (py ''ESP_'')) = (Some will, hello, e)"
    by (simp add: connect_emulated_node_def will_def)
  from last_will_makes_unavailable [OF this, where client = "new_mqtt_client (py ''HOME001'') (Some (py ''ESP_''))"
      and c = "put_node (py ''GATE-001'') m (new_coord (py ''HOME001'') None)" and m = m
      and envs = "\<lambda>s. quiet_env"]
  show ?thesis
    by (simp add: new_mqtt_client_def is_valid_id_def TOPIC_ROOT_def will_def m_def py_def)
qed

text \<open>C36: a node that dies is shown as off. Over a broker that does what MQTT documents, the process that
  plays a node registers its will, reports online and parks once the broker has answered in time;
  a Home Assistant subscribed beside it shows the node online, shows it offline when the process is
  killed, and keeps showing it online had the process disconnected: then no will is published.\<close>

theorem killed_node_reads_off:
  assumes "py_int (JStr port) = Inr p" "done_at i" "\<forall>j < i. clock j < now + 10000"
    "sessions_known s" "find_session l s = Some ss" "TOPIC_SUBSCRIBE_ALL \<in> set (ss_filters ss)" "ss_inbox ss = []"
    "addressed h n c"
  shows "\<exists>k t. lwt_main mqtt_broker done_at clock now
        [script, host, port, client_id, suite_node_base h n @ py ''/status''] s
      = Some (\<lparr>lw_end = Parks k, lw_said = [say (py ''connected''), say (py ''online_sent'')]\<rparr>, t)
    \<and> sensor_after envs client (inbox_of l t) c n = Some True
    \<and> sensor_after envs client (inbox_of l (broker_drop k t)) c n = Some False
    \<and> sensor_after envs client (inbox_of l (end_session k t)) c n = Some True
    \<and> map_option decode_utf8 (dict_get (ms_retained (broker_drop k t)) (suite_node_base h n @ py ''/status''))
        = Some (py ''offline'')"
proof -
  let ?topic = "node_topic h n (Some TOPIC_STATUS)"
  have "topic_match TOPIC_SUBSCRIBE_ALL ?topic"
    using assms(8) by (intro subscribed_topic) (simp_all add: addressed_def const_defs)
  then have "list_ex (\<lambda>f. topic_match f ?topic) (ss_filters ss)"
    using assms(6) by (auto simp: list_ex_iff)
  note parked = parked_broker [OF assms(4,5) this]
  have "decode_utf8 [111, 102, 102, 108, 105, 110, 101] = py ''offline''"
    by (rule decode_encode) (simp_all add: py_def utf8_cp_def)
  then show ?thesis
    unfolding status_topic lwt_main_parks [where done_at = done_at and clock = clock, OF assms(1-3)]
    using parked sensor_after_status [OF assms(8), of envs client] assms(7)
    by (simp add: inbox_of_def del: find_session_publish)
qed

theorem killed_node_reads_off_witness:
  "\<exists>k t. lwt_main mqtt_broker (\<lambda>i. 2 \<le> i) (\<lambda>i. 50 * int i) 0 [[], [], py ''18830'', [],
        suite_node_base SUITE_HOUSEHOLD NODE_GATE @ py ''/status'']
      ((fresh_broker (\<lambda>i. []))\<lparr>ms_ids := 1, ms_sessions :=
        [\<lparr>ss_id = 0, ss_filters = [TOPIC_SUBSCRIBE_ALL], ss_inbox = [], ss_will = None\<rparr>]\<rparr>)
      = Some (\<lparr>lw_end = Parks k, lw_said = [say (py ''connected''), say (py ''online_sent'')]\<rparr>, t)
    \<and> sensor_after (\<lambda>s. quiet_env) (new_mqtt_client SUITE_HOUSEHOLD None) (inbox_of 0 (broker_drop k t))
        (new_coord SUITE_HOUSEHOLD None) NODE_GATE = Some False"
proof -
  have port: "py_int (JStr (py ''18830'')) = Inr 18830" by code_simp
  define s :: mqtt_state where "s = (fresh_broker (\<lambda>i. []))\<lparr>ms_ids := 1, ms_sessions :=
        [\<lparr>ss_id = 0, ss_filters = [TOPIC_SUBSCRIBE_ALL], ss_inbox = [], ss_will = None\<rparr>]\<rparr>"
  have "addressed SUITE_HOUSEHOLD NODE_GATE (new_coord SUITE_HOUSEHOLD None)"
    by (simp add: addressed_def SUITE_HOUSEHOLD_def NODE_GATE_def is_valid_id_def py_def)
  moreover have "sessions_known s" "find_session 0 s = Some \<lparr>ss_id = 0, ss_filters = [TOPIC_SUBSCRIBE_ALL],
      ss_inbox = [], ss_will = None\<rparr>"
    by (simp_all add: s_def sessions_known_def find_session_def)
  ultimately show ?thesis
    unfolding s_def [symmetric]
    using killed_node_reads_off [OF port, where done_at = "\<lambda>i. 2 \<le> i" and clock = "\<lambda>i. 50 * int i" and now = 0
      and i = 2 and l = 0 and s = s and h = SUITE_HOUSEHOLD and n = NODE_GATE and c = "new_coord SUITE_HOUSEHOLD None"
      and envs = "\<lambda>s. quiet_env" and client = "new_mqtt_client SUITE_HOUSEHOLD None" and script = "[]" and host = "[]"
      and client_id = "[]"] by simp blast
qed

section \<open>The tools that watch the system\<close>

text \<open>C37: the hardware harness and the node agree on the key and the MAC, and the harness can tell.
  With the key the harness derives from a secret and a salt, a command built by
  \<open>build_command_payload\<close> (the clock and the random bytes of the harness, any action) is accepted by a
  node that derives its key from the same texts, has not seen the nonce and whose clock is in the
  window; with the MAC overridden by any other text of ASCII characters it is rejected for the
  MAC, and the node remembers nothing.\<close>

theorem harness_probes_the_mac:
  assumes "hw_derive_command_key secret (Some salt) = Inr key" "secret \<noteq> []"
    "v_derive_command_key secret salt = Inr (fv_key node)"
    "build_command_payload env key action None None None mac = Inr v"
    "action = py ''lock'' \<or> action = py ''unlock''"
    "current_epoch_seconds (he_time env) = Inr t" "int_ok t" "outside_window (fv_now node) t = False"
    "bytes_hex (he_random env) \<notin> set (fv_seen node)" "list_all (\<lambda>c. c < 128) (str_or mac [])"
  shows "verify node base (base @ py ''/command/'' @ action) (dumps_default v) =
    (if mac = None \<or> build_command_payload env key action None None None None = Inr v
     then (Inr action, accept_nonce (bytes_hex (he_random env)) node)
     else (Inl (FirmwareReject MacMismatch), node))"
proof -
  have "utf8 (secret @ salt) \<noteq> None"
    using assms(3) by (auto simp: v_derive_command_key_def v_encode_def split: option.splits)
  from harness_key [OF assms(2) this] have "fv_key node = key"
    using assms(1,3) by simp
  moreover have "case mac of None \<Rightarrow> True | Some m \<Rightarrow> list_all (\<lambda>c. c < 128) m"
    using assms(10) by (auto simp: str_or_def split: option.splits)
  ultimately show ?thesis
    using assms by (intro harness_command_verified) simp_all
qed

definition sample_harness :: harness_env where
  "sample_harness = \<lparr>he_time = FFin False 0 0, he_random = [1, 2, 3, 4, 5, 6, 7, 8]\<rparr>"

definition harness_node :: "bytes \<Rightarrow> firmware_verifier" where
  "harness_node key = \<lparr>fv_key = key, fv_now = Some 0, fv_seen = []\<rparr>"

theorem harness_probes_the_mac_witness:
  "\<exists>key v. hw_derive_command_key (py ''s'') (Some []) = Inr key
    \<and> build_command_payload sample_harness key (py ''lock'') None None None None = Inr v
    \<and> verify (harness_node key) (py ''B'') (py ''B'' @ py ''/command/'' @ py ''lock'') (dumps_default v) =
      (Inr (py ''lock''), accept_nonce (bytes_hex [1, 2, 3, 4, 5, 6, 7, 8]) (harness_node key))"
proof -
  have u: "utf8 (py ''s'' @ []) \<noteq> None"
    using utf8_ascii [of "py ''s''"] by (simp add: py_def)
  obtain key where k: "hw_derive_command_key (py ''s'') (Some []) = Inr key"
    "v_derive_command_key (py ''s'') [] = Inr key"
  proof -
    have "utf8 KDF_PERSONALISATION = Some (map word_of_nat KDF_PERSONALISATION)"
      by (rule utf8_ascii) (simp add: KDF_PERSONALISATION_def py_def)
    then obtain x where x: "hw_derive_command_key (py ''s'') (Some []) = Inr x"
      using u by (auto simp: hw_derive_command_key_def encode_utf8_def)
    have "py ''s'' \<noteq> []" by simp
    from harness_key [OF this u] x show thesis using that by simp
  qed
  have t: "current_epoch_seconds (he_time sample_harness) = Inr 0"
    by (simp add: sample_harness_def current_epoch_seconds_def float_num_def float_den_def)
  have "hw_request_id (he_time sample_harness) = Inr (py ''hw-'' @ dec_int 0)"
    by (simp add: sample_harness_def hw_request_id_def float_times_def float_of_ratio_def float_num_def
        float_den_def current_epoch_seconds_def)
  moreover have "command_mac key 0 (bytes_hex [1, 2, 3, 4, 5, 6, 7, 8]) (py ''hw-'' @ dec_int 0) (py ''lock'')
      = make_command_mac key 0 (bytes_hex [1, 2, 3, 4, 5, 6, 7, 8]) (py ''hw-'' @ dec_int 0) (py ''lock'')"
    by (rule harness_mac) (simp add: ACTION_LOCK_def)
  moreover have "utf8 (py ''hw-'' @ dec_int 0) \<noteq> None"
    using utf8_ascii [of "py ''hw-'' @ dec_int 0"] dec_int_ascii [of 0] by (simp add: py_def)
  then have "utf8 (canonical_input 0 (bytes_hex [1, 2, 3, 4, 5, 6, 7, 8]) (py ''hw-'' @ dec_int 0) (py ''lock'')) \<noteq> None"
    by (intro utf8_canonical_ok bytes_hex_is_hex) (simp_all add: ACTION_LOCK_def)
  ultimately obtain v where v: "build_command_payload sample_harness key (py ''lock'') None None None None = Inr v"
    using t by (auto simp: build_command_payload_def make_command_mac_def encode_utf8_def ACTION_LOCK_def
        sample_harness_def str_or_def)
  have "fv_key (harness_node key) = key" by (simp add: harness_node_def)
  from harness_probes_the_mac [OF k(1) _ _ v _ t, where node = "harness_node key" and base = "py ''B''"]
  have "verify (harness_node key) (py ''B'') (py ''B'' @ py ''/command/'' @ py ''lock'') (dumps_default v) =
      (Inr (py ''lock''), accept_nonce (bytes_hex [1, 2, 3, 4, 5, 6, 7, 8]) (harness_node key))"
    using k(2) int_ok_payload(1)
    by (simp add: harness_node_def outside_window_def MAX_SKEW_SECONDS_def sample_harness_def str_or_def)
  then show ?thesis using k(1) v by blast
qed

text \<open>C38: whatever a hardware test records, and however often, the evidence it keeps shows no token of
  the shape of a key or a MAC (64 hexadecimal digits that stand alone) in any value, and what was
  recorded stays in order; the file that is written in the end is read back as exactly this evidence.\<close>

theorem evidence_is_redacted:
  fixes uni rs name
  defines "ev \<equiv> fold (\<lambda>(now, kind, payload). evidence_record uni now kind payload) rs (new_evidence name)"
  shows "list_all (\<lambda>e. list_all (\<lambda>s. find_secret_leaks uni s = []) (json_strings (ee_payload e))) (ev_entries ev)
   \<and> map ee_kind (ev_entries ev) = map (fst \<circ> snd) rs
   \<and> (str_ok name \<longrightarrow> str_ok result
       \<longrightarrow> list_all (\<lambda>(now, kind, payload). str_ok now \<and> str_ok kind \<and> json_ok payload) rs
       \<longrightarrow> json_loads (snd (evidence_write stamp result ev)) = Some (evidence_document result ev))"
proof -
  have step: "fold (\<lambda>(now, kind, payload). evidence_record uni now kind payload) rs e =
      e\<lparr>ev_entries := ev_entries e @ map (\<lambda>(now, kind, payload). \<lparr>ee_ts = now, ee_kind = kind,
        ee_payload = hw_redact uni payload\<rparr>) rs\<rparr>" for e
    by (induction rs arbitrary: e) (auto simp: evidence_record_def)
  have entries: "list_all (\<lambda>e. str_ok (ee_ts e) \<and> str_ok (ee_kind e) \<and> json_ok (ee_payload e)) (ev_entries ev)"
    if "list_all (\<lambda>(now, kind, payload). str_ok now \<and> str_ok kind \<and> json_ok payload) rs"
    using that hw_redact_ok by (fastforce simp: ev_def step new_evidence_def list_all_iff)
  have "json_loads (snd (evidence_write stamp result ev)) = Some (evidence_document result ev)"
    if "str_ok name" "str_ok result" "list_all (\<lambda>(now, kind, payload). str_ok now \<and> str_ok kind \<and> json_ok payload) rs"
    using evidence_document_ok [OF _ that(2) _ entries [OF that(3)]] that(1)
    by (simp add: evidence_write_def evidence_text_def loads_indented, simp add: ev_def step new_evidence_def loads_indented)
  then show ?thesis
    using hw_redact_clean by (fastforce simp: ev_def step new_evidence_def list_all_iff)
qed

theorem evidence_is_redacted_witness:
  "let ev = evidence_record (\<lambda>c. False) (py ''t'') (py ''mqtt'') (JObj [(py ''mac'', JStr (replicate 64 48))]) (new_evidence (py ''boot''))
   in json_loads (snd (evidence_write (py ''s'') (py ''PASS'') ev)) = Some (evidence_document (py ''PASS'') ev)"
proof -
  have "str_ok (replicate 64 48)" by (simp add: str_ok_def scalar_value_def)
  then show ?thesis
  using evidence_is_redacted [where uni = "\<lambda>c. False" and name = "py ''boot''" and result = "py ''PASS''" and stamp = "py ''s''"
    and rs = "[(py ''t'', py ''mqtt'', JObj [(py ''mac'', JStr (replicate 64 48))])]"]
    by (simp add: Let_def dict_ok_def)
qed

text \<open>C39: the log scan fails exactly when a line written by a logger of the integration shows the
  test's secret, its salt, the command key the integration derives from them, or a MAC. (Lines that
  name no logger count for nobody: the scan calls a log of such lines clean, whatever they show.)\<close>

theorem log_scan_verdict:
  "\<exists>key v. derive_command_key (KStr TEST_SECRET) (KStr TEST_SALT) = Inr key
    \<and> scan_main uni True log = Inr v
    \<and> (exit_code v = 1) = (\<exists>line\<in>set (splitlines log). leaking_line uni (bytes_hex key) line)
    \<and> (v = Clean \<or> (\<exists>line\<in>set (splitlines log). logger_of uni line \<noteq> CONTINUATION))"
proof -
  obtain key where key: "derive_command_key (KStr TEST_SECRET) (KStr TEST_SALT) = Inr key"
    "derive_expected_key_hex TEST_SECRET TEST_SALT = Inr (bytes_hex key)"
  proof -
    have plain: "list_all (\<lambda>c. c < 128 \<and> \<not> is_space c) TEST_SECRET" "list_all (\<lambda>c. c < 128 \<and> \<not> is_space c) TEST_SALT"
      by (simp_all add: TEST_SECRET_def TEST_SALT_def py_def is_space_def)
    have strip: "py_strip TEST_SECRET = TEST_SECRET" "py_strip TEST_SALT = TEST_SALT"
      using plain by (simp_all add: py_strip_id list_all_iff)
    have utf: "utf8 TEST_SECRET = Some (map word_of_nat TEST_SECRET)" "utf8 TEST_SALT = Some (map word_of_nat TEST_SALT)"
      using plain by (simp_all add: utf8_ascii list_all_iff)
    have "\<not> list_all (\<lambda>c. c \<in> set HEX_DIGITS) TEST_SECRET" "\<not> list_all (\<lambda>c. c \<in> set HEX_DIGITS) TEST_SALT"
      by (simp_all add: TEST_SECRET_def TEST_SALT_def HEX_DIGITS_def py_def)
    then have m: "key_material (KStr TEST_SECRET) = Inr (map word_of_nat TEST_SECRET)"
      "key_material (KStr TEST_SALT) = Inr (map word_of_nat TEST_SALT)"
      by (simp_all add: strip encode_utf8_def utf)
    have "TEST_SECRET \<noteq> []" by (simp add: TEST_SECRET_def)
    moreover have "KDF_LABEL = COMMAND_KEY_LABEL" by (simp add: KDF_LABEL_def COMMAND_KEY_LABEL_def)
    ultimately show thesis
      using that m label_utf8 by (simp add: derive_command_key_def derive_expected_key_hex_def utf8_append utf
          encode_utf8_def length_label MAX_BLAKE2B_DIGEST_def COMMAND_KEY_LENGTH_def)
  qed
  have code: "exit_code v = 1 \<longleftrightarrow> v = Leaked" for v
    by (cases v) simp_all
  show ?thesis
    using key scan_text_leaked [of uni "bytes_hex key" log] continuation_only_is_clean [of log uni "bytes_hex key"] code
    by (auto simp: scan_main_def)
qed

text \<open>C40: the broker checks accept every broker that behaves as MQTT documents it: started afresh, with
  mosquitto found and its port open before the wait ends, all eight results are good and the tool
  exits with 0; whenever the clock reaches the deadline the wait has ended.\<close>

theorem broker_checks_accept_mqtt:
  assumes "behaves_like R b mqtt_broker" "R s (fresh_broker uuids)" "\<forall>i. list_all is_hex (uuids i)"
    "mosquitto_binary which exists = Some path" "opens n" "\<forall>j \<le> n. clock j < now + 15000"
  shows "broker_main b (mosquitto_binary which exists) (wait_for_port opens clock now) s = Some (Inr 0)
    \<and> (now + 15000 \<le> clock k \<longrightarrow> wait_for_port other clock now \<noteq> None)"
proof
  have "wait_for_port opens clock now = Some True"
    using assms(5,6) by (rule port_opens)
  then show "broker_main b (mosquitto_binary which exists) (wait_for_port opens clock now) s = Some (Inr 0)"
    using documented_broker_passes [OF assms(1-3)] assms(4) by simp
  show "now + 15000 \<le> clock k \<longrightarrow> wait_for_port other clock now \<noteq> None"
    using port_wait_ends [of now clock k other] by blast
qed

theorem broker_checks_accept_mqtt_witness:
  "broker_main mqtt_broker (mosquitto_binary (\<lambda>c. Some (py ''/usr/bin/mosquitto'')) (\<lambda>p. False))
     (wait_for_port (\<lambda>i. i = 3) (\<lambda>i. 150 * int i) 0) (fresh_broker (\<lambda>i. replicate 32 97)) = Some (Inr 0)"
proof -
  have same: "behaves_like (=) mqtt_broker mqtt_broker" by (simp add: behaves_like_def same_runs_def)
  have found: "mosquitto_binary (\<lambda>c. Some (py ''/usr/bin/mosquitto'')) (\<lambda>p. False) = Some (py ''/usr/bin/mosquitto'')"
    by (rule find_binary_first) simp_all
  show ?thesis
    by (rule broker_checks_accept_mqtt [where n = 3 and uuids = "\<lambda>i. replicate 32 97", OF same refl _ found, THEN conjunct1])
      (simp_all add: is_hex_def hex_val_def)
qed

section \<open>Where the two halves differ\<close>

text \<open>For a secret and a salt in the exported hexadecimal form, the verifier derives the keyed
  BLAKE2b of the text and the client that of the bytes; the hashed inputs are different.\<close>

theorem verifier_hashes_hex_text:
  assumes "8 \<le> length secret" "8 \<le> length salt"
  shows "\<exists>text. v_derive_command_key (bytes_hex secret) (bytes_hex salt)
        = Inr (blake2b (map word_of_nat COMMAND_KEY_LABEL) 32 text)
    \<and> derive_command_key (KStr (bytes_hex secret)) (KStr (bytes_hex salt))
        = Inr (blake2b (map word_of_nat COMMAND_KEY_LABEL) 32 (secret @ salt))
    \<and> length text = 2 * length (secret @ salt)"
proof -
  have "secret \<noteq> []" using assms(1) by auto
  have c: "derive_command_key (KStr (bytes_hex secret)) (KStr (bytes_hex salt))
        = Inr (blake2b (map word_of_nat COMMAND_KEY_LABEL) 32 (secret @ salt))"
    by (rule derive_hex [OF assms])
  have ascii: "list_all (\<lambda>c. c < 128) (bytes_hex secret @ bytes_hex salt)"
    using bytes_hex_ascii by simp
  have label: "v_encode V_COMMAND_KEY_LABEL = Inr (map word_of_nat COMMAND_KEY_LABEL)"
    using label_utf8 by (simp add: v_encode_def encode_utf8_def V_COMMAND_KEY_LABEL_def
        COMMAND_KEY_LABEL_def split: option.splits)
  have "bytes_hex secret \<noteq> []" using \<open>secret \<noteq> []\<close> length_bytes_hex [of secret] by (metis length_0_conv mult_is_0 zero_neq_numeral)
  then have "v_derive_command_key (bytes_hex secret) (bytes_hex salt)
        = Inr (blake2b (map word_of_nat COMMAND_KEY_LABEL) 32 (map word_of_nat (bytes_hex secret @ bytes_hex salt)))"
    using label utf8_ascii [OF ascii] by (simp add: v_derive_command_key_def v_encode_def)
  then show ?thesis using c by (intro exI conjI) (assumption | simp)+
qed

theorem verifier_hashes_hex_text_witness:
  "\<exists>text. v_derive_command_key (bytes_hex (replicate 32 171)) (bytes_hex (replicate 16 205))
        = Inr (blake2b (map word_of_nat COMMAND_KEY_LABEL) 32 text) \<and> length text = 96"
  using verifier_hashes_hex_text [of "replicate 32 171" "replicate 16 205"] by auto

text \<open>A payload whose fields have the right types but whose \<open>mac\<close> is not ASCII makes the
  verifier raise \<open>TypeError\<close>, and one whose \<open>nonce\<close> is a lone surrogate \<open>UnicodeEncodeError\<close>,
  instead of \<open>FirmwareReject\<close>.\<close>

theorem verifier_lets_exceptions_escape:
  assumes "command_fields payload = Inr (ts, nonce, req_id, mac)" "action_for_topic base topic = Inr action"
  shows "(utf8 (dec_int ts @ nonce @ req_id @ action) = None \<longrightarrow>
      verify v base topic payload = (Inl (Escapes UnicodeEncodeError), v))
    \<and> (utf8 (dec_int ts @ nonce @ req_id @ action) \<noteq> None \<longrightarrow> list_ex (\<lambda>c. 128 \<le> c) mac \<longrightarrow>
      verify v base topic payload = (Inl (Escapes TypeError), v))"
  using assms bytes_hex_ascii
  by (auto simp: verify_def expected_mac_def v_encode_def compare_digest_def list_ex_iff list_all_iff
      split: option.splits)

theorem verifier_lets_exceptions_escape_witness:
  "verify \<lparr>fv_key = [1], fv_now = None, fv_seen = []\<rparr> (py ''B'') (py ''B/command/lock'')
     (json_dumps [44] [58] (JObj [(py ''ts'', JInt 1), (py ''nonce'', JStr (py ''a'')),
        (py ''req_id'', JStr (py ''b'')), (py ''mac'', JStr [233])]))
   = (Inl (Escapes TypeError), \<lparr>fv_key = [1], fv_now = None, fv_seen = []\<rparr>)"
proof -
  define p where "p = json_dumps [44] [58] (JObj [(py ''ts'', JInt 1), (py ''nonce'', JStr (py ''a'')),
        (py ''req_id'', JStr (py ''b'')), (py ''mac'', JStr [233])])"
  have "json_ok (JObj [(py ''ts'', JInt 1), (py ''nonce'', JStr (py ''a'')),
        (py ''req_id'', JStr (py ''b'')), (py ''mac'', JStr [233])])"
    by (simp add: dict_ok_def int_ok_def dec_nat.simps) (simp add: str_ok_def scalar_value_def)
  then have "json_loads p = Some (JObj [(py ''ts'', JInt 1), (py ''nonce'', JStr (py ''a'')),
        (py ''req_id'', JStr (py ''b'')), (py ''mac'', JStr [233])])"
    unfolding p_def by (rule json_loads_dumps [OF seps_ok(3,4)])
  then have "command_fields p = Inr (1, py ''a'', py ''b'', [233])"
    by (simp add: command_fields_def)
  moreover have "action_for_topic (py ''B'') (py ''B/command/lock'') = Inr (py ''lock'')"
    by (simp add: action_for_topic_def py_def)
  moreover have "utf8 (dec_int 1 @ py ''a'' @ py ''b'' @ py ''lock'') \<noteq> None"
    by (simp add: dec_int_def dec_nat.simps py_def utf8_cp_def)
  ultimately show ?thesis
    using verifier_lets_exceptions_escape [of p 1 "py ''a''" "py ''b''" "[233]" "py ''B''" "py ''B/command/lock''"]
    by (simp add: p_def)
qed

end
